(* ===== verification/Prelude.thy ===== *)
theory Prelude
  imports Complex_Main "HOL-Library.AList" "HOL-Library.Word" "HOL-Library.Multiset"
begin

text \<open>
  Shared vocabulary of the development: the outcome of a Rust computation (a value, an
  \<open>Err\<close>, or a panic), the loops that thread such outcomes, \<open>std::collections::HashMap\<close> as an
  association list whose order is the (arbitrary) iteration order, and big-endian byte strings.
\<close>

named_theorems outcome_simps \<open>rewriting of outcomes\<close>
named_theorems smul_simps \<open>laws of scalar multiplication\<close>

section \<open>Outcomes\<close>

text \<open>A call returns \<open>Ok\<close>, returns \<open>Err\<close>, or panics (a failed \<open>assert!\<close>, \<open>unwrap\<close>,
  index out of range).\<close>

datatype ('a, 'e) outcome = Ok 'a | Err 'e | Panic

type_synonym 'a total = "('a, unit) outcome"

fun obind :: "('a, 'e) outcome \<Rightarrow> ('a \<Rightarrow> ('b, 'e) outcome) \<Rightarrow> ('b, 'e) outcome" where
  "obind (Ok x) f = f x"
| "obind (Err e) f = Err e"
| "obind Panic f = Panic"

fun map_err :: "('e \<Rightarrow> 'd) \<Rightarrow> ('a, 'e) outcome \<Rightarrow> ('a, 'd) outcome" where
  "map_err f (Ok x) = Ok x"
| "map_err f (Err e) = Err (f e)"
| "map_err f Panic = Panic"

text \<open>\<open>unwrap\<close> or \<open>expect\<close> of a result, and of an option.\<close>

fun unwrap :: "('a, 'e) outcome \<Rightarrow> ('a, 'd) outcome" where
  "unwrap (Ok x) = Ok x"
| "unwrap _ = Panic"

fun unwrap_option :: "'a option \<Rightarrow> ('a, 'e) outcome" where
  "unwrap_option (Some x) = Ok x"
| "unwrap_option None = Panic"

fun ok_or :: "'e \<Rightarrow> 'a option \<Rightarrow> ('a, 'e) outcome" where
  "ok_or e (Some x) = Ok x"
| "ok_or e None = Err e"

definition assert_then :: "bool \<Rightarrow> ('a, 'e) outcome \<Rightarrow> ('a, 'e) outcome" where
  "assert_then b m = (if b then m else Panic)"

fun is_ok :: "('a, 'e) outcome \<Rightarrow> bool" where
  "is_ok (Ok _) = True"
| "is_ok _ = False"

fun the_ok :: "('a, 'e) outcome \<Rightarrow> 'a" where
  "the_ok (Ok x) = x"

text \<open>A \<open>for\<close> loop whose body may leave the function early.\<close>

fun ofold :: "('s \<Rightarrow> 'a \<Rightarrow> ('s, 'e) outcome) \<Rightarrow> 's \<Rightarrow> 'a list \<Rightarrow> ('s, 'e) outcome" where
  "ofold f s [] = Ok s"
| "ofold f s (x # xs) = obind (f s x) (\<lambda>s'. ofold f s' xs)"

text \<open>\<open>iter().map(f).collect()\<close> of a fallible \<open>f\<close>, evaluated left to right.\<close>

fun omap :: "('a \<Rightarrow> ('b, 'e) outcome) \<Rightarrow> 'a list \<Rightarrow> ('b list, 'e) outcome" where
  "omap f [] = Ok []"
| "omap f (x # xs) = obind (f x) (\<lambda>y. obind (omap f xs) (\<lambda>ys. Ok (y # ys)))"

text \<open>A handler passes its state along: what an early return leaves behind, with the error given to
  the caller or only logged.\<close>

fun carry :: "('a, 'd) outcome \<Rightarrow> ('d \<Rightarrow> 'e) \<Rightarrow> 's \<Rightarrow> ('a \<Rightarrow> (unit, 'e) outcome \<times> 's) \<Rightarrow> (unit, 'e) outcome \<times> 's" where
  "carry (Ok x) conv s k = k x"
| "carry (Err e) conv s k = (Err (conv e), s)"
| "carry Panic conv s k = (Panic, s)"

fun or_return :: "('a, 'd) outcome \<Rightarrow> 's \<Rightarrow> ('a \<Rightarrow> (unit, 'e) outcome \<times> 's) \<Rightarrow> (unit, 'e) outcome \<times> 's" where
  "or_return (Ok x) s k = k x"
| "or_return (Err _) s k = (Ok (), s)"
| "or_return Panic s k = (Panic, s)"

declare obind.simps [outcome_simps] assert_then_def [outcome_simps]

lemma obind_Ok_right [simp]: "obind m Ok = m"
  by (cases m) simp_all

lemma obind_assoc [simp]: "obind (obind m f) g = obind m (\<lambda>x. obind (f x) g)"
  by (cases m) simp_all

lemma obind_cong [fundef_cong]:
  assumes "m = n" and "\<And>x. n = Ok x \<Longrightarrow> f x = g x"
  shows "obind m f = obind n g"
  using assms by (cases n) simp_all

lemma obind_eq_Ok: "obind m f = Ok y \<longleftrightarrow> (\<exists>x. m = Ok x \<and> f x = Ok y)"
  by (cases m) simp_all

lemma obind_eq_Err: "obind m f = Err e \<longleftrightarrow> m = Err e \<or> (\<exists>x. m = Ok x \<and> f x = Err e)"
  by (cases m) simp_all

lemma unwrap_eq_Ok [simp]: "unwrap m = Ok x \<longleftrightarrow> m = Ok x"
  by (cases m) simp_all

lemma unwrap_option_eq_Ok [simp]: "unwrap_option v = Ok x \<longleftrightarrow> v = Some x"
  by (cases v) simp_all

lemma ok_or_eq_Ok [simp]: "ok_or e v = Ok x \<longleftrightarrow> v = Some x"
  by (cases v) simp_all

lemma map_err_eq_Ok [simp]: "map_err f m = Ok x \<longleftrightarrow> m = Ok x"
  by (cases m) simp_all

lemma assert_then_eq_Ok [simp]: "assert_then b m = Ok x \<longleftrightarrow> b \<and> m = Ok x"
  by (simp add: assert_then_def)

lemma is_ok_iff: "is_ok m \<longleftrightarrow> (\<exists>x. m = Ok x)"
  by (cases m) simp_all

lemma ofold_append [simp]:
  "ofold f s (xs @ ys) = obind (ofold f s xs) (\<lambda>s'. ofold f s' ys)"
  by (induction xs arbitrary: s) simp_all

lemma ofold_Ok_foldl: "ofold (\<lambda>s x. Ok (g s x)) s xs = Ok (foldl g s xs)"
  by (induction xs arbitrary: s) simp_all

lemma ofold_total:
  assumes "\<And>s x. x \<in> set xs \<Longrightarrow> f s x = Ok (g s x)"
  shows "ofold f s xs = Ok (foldl g s xs)"
  using assms by (induction xs arbitrary: s) simp_all

lemma foldl_plus: "foldl (\<lambda>acc x. acc + f x) s xs = (s :: 'a::ab_group_add) + sum_list (map f xs)"
  by (induction xs arbitrary: s) (simp_all add: add.assoc)

lemma sum_list_pick:
  fixes f :: "'a \<Rightarrow> 'b::ab_group_add"
  assumes "distinct (map key xs)" and "x \<in> set xs"
  shows "(\<Sum>y\<leftarrow>xs. f y) = f x + (\<Sum>y\<leftarrow>filter (\<lambda>y. key y \<noteq> key x) xs. f y)"
  using assms
proof (induction xs)
  case (Cons a xs)
  show ?case
  proof (cases "a = x")
    case True
    with Cons.prems have "filter (\<lambda>y. key y \<noteq> key x) xs = xs"
      by (auto simp: filter_id_conv) (metis imageI)
    with True show ?thesis by simp
  next
    case False
    with Cons have "x \<in> set xs" "key a \<noteq> key x" by auto
    with Cons show ?thesis by (simp add: algebra_simps)
  qed
qed simp

lemma concat_map_single: "(\<And>x. x \<in> set xs \<Longrightarrow> f x = [g x]) \<Longrightarrow> concat (map f xs) = map g xs"
  by (induction xs) simp_all

lemma ofold_Ok_step:
  "\<lbrakk>ofold f s xs = Ok s'; x \<in> set xs\<rbrakk> \<Longrightarrow> \<exists>a b. f a x = Ok b"
  by (induction xs arbitrary: s) (auto simp: obind_eq_Ok)

lemma omap_total:
  assumes "\<And>x. x \<in> set xs \<Longrightarrow> f x = Ok (g x)"
  shows "omap f xs = Ok (map g xs)"
  using assms by (induction xs) simp_all

lemma omap_eq_Ok: "omap f xs = Ok ys \<longleftrightarrow> list_all2 (\<lambda>x y. f x = Ok y) xs ys"
  by (induction xs arbitrary: ys) (auto simp: obind_eq_Ok list_all2_Cons1)

lemma omap_length: "omap f xs = Ok ys \<Longrightarrow> length ys = length xs"
  by (auto simp: omap_eq_Ok dest: list_all2_lengthD)

section \<open>Hash maps\<close>

text \<open>The list order stands for the iteration order, about which nothing is assumed: a lemma
  about all such lists holds for every iteration order.\<close>

type_synonym ('k, 'v) hashmap = "('k \<times> 'v) list"

definition hm_wf :: "('k, 'v) hashmap \<Rightarrow> bool" where
  "hm_wf m = distinct (map fst m)"

definition hm_get :: "'k \<Rightarrow> ('k, 'v) hashmap \<Rightarrow> 'v option" where
  "hm_get k m = map_of m k"

definition hm_insert :: "'k \<Rightarrow> 'v \<Rightarrow> ('k, 'v) hashmap \<Rightarrow> ('k, 'v) hashmap" where
  "hm_insert k v m = AList.update k v m"

definition hm_remove :: "'k \<Rightarrow> ('k, 'v) hashmap \<Rightarrow> ('k, 'v) hashmap" where
  "hm_remove k m = AList.delete k m"

definition hm_keys :: "('k, 'v) hashmap \<Rightarrow> 'k list" where
  "hm_keys m = map fst m"

definition hm_values :: "('k, 'v) hashmap \<Rightarrow> 'v list" where
  "hm_values m = map snd m"

definition hm_contains :: "'k \<Rightarrow> ('k, 'v) hashmap \<Rightarrow> bool" where
  "hm_contains k m = (k \<in> set (map fst m))"

text \<open>\<open>entry(k).or_insert(v)\<close> keeps an entry that is there.\<close>

definition hm_or_insert :: "'k \<Rightarrow> 'v \<Rightarrow> ('k, 'v) hashmap \<Rightarrow> ('k, 'v) hashmap" where
  "hm_or_insert k v m = (if hm_contains k m then m else hm_insert k v m)"

lemmas hm_defs = hm_wf_def hm_get_def hm_insert_def hm_remove_def hm_keys_def hm_values_def
  hm_contains_def hm_or_insert_def

lemma hm_contains_get: "hm_contains k m \<longleftrightarrow> hm_get k m \<noteq> None"
  by (auto simp: hm_defs map_of_eq_None_iff)

lemma hm_get_mem: "hm_wf m \<Longrightarrow> hm_get k m = Some v \<longleftrightarrow> (k, v) \<in> set m"
  by (simp add: hm_defs)

text \<open>What the code relies on of the standard library's map.\<close>

locale keyed_map =
  fixes wf :: "'m \<Rightarrow> bool"
    and get :: "'k \<Rightarrow> 'm \<Rightarrow> 'v option"
    and ins :: "'k \<Rightarrow> 'v \<Rightarrow> 'm \<Rightarrow> 'm"
    and rem :: "'k \<Rightarrow> 'm \<Rightarrow> 'm"
    and emp :: "'m"
  assumes wf_emp: "wf emp"
    and wf_ins: "wf m \<Longrightarrow> wf (ins k v m)"
    and wf_rem: "wf m \<Longrightarrow> wf (rem k m)"
    and get_emp: "get k emp = None"
    and get_ins: "get k' (ins k v m) = (if k' = k then Some v else get k' m)"
    and get_rem: "wf m \<Longrightarrow> get k' (rem k m) = (if k' = k then None else get k' m)"
begin

lemma wf_fold_ins: "wf m \<Longrightarrow> wf (foldl (\<lambda>m (k, v). ins k v m) m kvs)"
  by (induction kvs arbitrary: m) (auto simp: wf_ins)

lemma get_fold_ins:
  "get k (foldl (\<lambda>m (k, v). ins k v m) m kvs) =
    (case map_of (rev kvs) k of Some v \<Rightarrow> Some v | None \<Rightarrow> get k m)"
  by (induction kvs arbitrary: m) (auto simp: get_ins map_add_def split: option.splits)

lemma ins_overwrites: "get k (ins k v (ins k u m)) = Some v"
  by (simp add: get_ins)

lemma rem_after_ins: "wf m \<Longrightarrow> get k (rem k (ins k v m)) = None"
  by (simp add: get_rem wf_ins)

end

interpretation hashmap: keyed_map hm_wf hm_get hm_insert hm_remove "[]"
  by unfold_locales
    (auto simp: hm_defs distinct_update update_conv' delete_conv' distinct_delete)

lemma hm_keys_insert [simp]: "set (hm_keys (hm_insert k v m)) = insert k (set (hm_keys m))"
  by (simp add: hm_defs dom_update)

lemma hm_insert_new [simp]:
  "k \<notin> set (hm_keys m) \<Longrightarrow> hm_insert k v m = m @ [(k, v)]"
  unfolding hm_defs by (induction m) auto

lemma hm_insert_length:
  "length (hm_insert k v m) = (if hm_contains k m then length m else Suc (length m))"
  unfolding hm_defs by (induction m) auto

lemma hm_or_insert_new [simp]:
  "k \<notin> set (hm_keys m) \<Longrightarrow> hm_or_insert k v m = m @ [(k, v)]"
  by (simp add: hm_or_insert_def hm_contains_def flip: hm_keys_def)

lemma hm_get_map_keys:
  "hm_get k (map (\<lambda>(k, v). (k, f k)) m) = (if k \<in> set (hm_keys m) then Some (f k) else None)"
  by (induction m) (auto simp: hm_get_def hm_keys_def)

lemma hm_get_map_inj:
  assumes "inj_on key (set xs)" and "x \<in> set xs"
  shows "hm_get (key x) (map (\<lambda>x. (key x, val x)) xs) = Some (val x)"
  using assms by (induction xs) (auto simp: hm_get_def inj_on_def)

text \<open>A loop that inserts one fresh entry per element builds the list of entries.\<close>

lemma ofold_build:
  assumes "distinct (map key xs)"
    and "\<And>acc x. \<lbrakk>x \<in> set xs; key x \<notin> set (hm_keys acc)\<rbrakk> \<Longrightarrow> f acc x = Ok (acc @ [(key x, val x)])"
  shows "ofold f [] xs = Ok (map (\<lambda>x. (key x, val x)) xs)"
proof -
  have "ofold f acc ys = Ok (acc @ map (\<lambda>x. (key x, val x)) ys)"
    if "set ys \<subseteq> set xs" "distinct (hm_keys acc @ map key ys)" for acc ys
    using that
  proof (induction ys arbitrary: acc)
    case (Cons y ys)
    with assms(2) [of y acc] Cons.IH [of "acc @ [(key y, val y)]"] show ?case
      by (simp add: hm_keys_def)
  qed simp
  from this [of xs "[]"] assms(1) show ?thesis by (simp add: hm_keys_def)
qed

lemma ofold_build_keys:
  assumes "ofold f [] xs = Ok m" and "distinct (map key xs)"
    and "\<And>acc x acc'. \<lbrakk>f acc x = Ok acc'; key x \<notin> set (hm_keys acc)\<rbrakk> \<Longrightarrow> hm_keys acc' = hm_keys acc @ [key x]"
  shows "hm_keys m = map key xs"
proof -
  have "hm_keys m = hm_keys acc @ map key ys"
    if "ofold f acc ys = Ok m" "distinct (hm_keys acc @ map key ys)" for acc ys
    using that
  proof (induction ys arbitrary: acc)
    case (Cons y ys)
    then obtain acc' where acc': "f acc y = Ok acc'" "ofold f acc' ys = Ok m"
      by (auto simp: obind_eq_Ok)
    from assms(3) [OF acc'(1)] Cons.prems(2) have "hm_keys acc' = hm_keys acc @ [key y]" by simp
    with Cons.IH [OF acc'(2)] Cons.prems(2) show ?case by simp
  qed simp
  from this [of "[]" xs] assms(1,2) show ?thesis by (simp add: hm_keys_def)
qed

lemma sum_list_same_keys:
  fixes g :: "'k \<Rightarrow> 'b::ab_group_add"
  assumes "distinct ks" and "distinct js" and "set ks = set js"
  shows "(\<Sum>k\<leftarrow>ks. g k) = (\<Sum>j\<leftarrow>js. g j)"
  using assms by (simp add: sum_list_distinct_conv_sum_set)

section \<open>Machine integers\<close>

abbreviation u32_max :: nat where "u32_max \<equiv> 2 ^ 32 - 1"

text \<open>\<open>x as u32\<close>, \<open>x as u64\<close> and the wrapping arithmetic of the release profile.\<close>

definition as_u32 :: "nat \<Rightarrow> nat" where
  "as_u32 n = n mod 2 ^ 32"

definition as_u64 :: "nat \<Rightarrow> nat" where
  "as_u64 n = n mod 2 ^ 64"

definition as_u128 :: "nat \<Rightarrow> nat" where
  "as_u128 n = n mod 2 ^ 128"

definition sub_u64 :: "nat \<Rightarrow> nat \<Rightarrow> nat" where
  "sub_u64 a b = (a + 2 ^ 64 - b) mod 2 ^ 64"

lemma as_u32_id [simp]: "n < 2 ^ 32 \<Longrightarrow> as_u32 n = n"
  by (simp add: as_u32_def)

lemma as_u64_id [simp]: "n < 2 ^ 64 \<Longrightarrow> as_u64 n = n"
  by (simp add: as_u64_def)

lemma as_u128_id [simp]: "n < 2 ^ 128 \<Longrightarrow> as_u128 n = n"
  by (simp add: as_u128_def)

lemma sub_u64_le: "\<lbrakk>b \<le> a; a < 2 ^ 64\<rbrakk> \<Longrightarrow> sub_u64 a b = a - b"
  unfolding sub_u64_def by (metis Nat.add_diff_assoc2 mod_add_self2 less_imp_diff_less mod_less)

text \<open>The decimal digits of a number, as \<open>to_string\<close> and \<open>format!\<close> print it.\<close>

fun dec :: "nat \<Rightarrow> string" where
  "dec n = (if n < 10 then [''0123456789'' ! n] else dec (n div 10) @ [''0123456789'' ! (n mod 10)])"

declare dec.simps [simp del]

section \<open>Byte strings\<close>

type_synonym byte = "8 word"

type_synonym bytes = "byte list"

definition from_bytes_be :: "bytes \<Rightarrow> nat" where
  "from_bytes_be bs = foldl (\<lambda>n b. 256 * n + unat b) 0 bs"

text \<open>Exactly \<open>k\<close> big-endian bytes of a number, as \<open>to_be_bytes\<close> and \<open>to_repr\<close> give them.\<close>

fun be_bytes :: "nat \<Rightarrow> nat \<Rightarrow> bytes" where
  "be_bytes 0 n = []"
| "be_bytes (Suc k) n = be_bytes k (n div 256) @ [of_nat (n mod 256)]"

text \<open>\<open>BigUint::to_bytes_be\<close>: no leading zero byte, and one zero byte for zero.\<close>

fun digits_be :: "nat \<Rightarrow> bytes" where
  "digits_be n = (if n = 0 then [] else digits_be (n div 256) @ [of_nat (n mod 256)])"

declare digits_be.simps [simp del]

definition to_bytes_be :: "nat \<Rightarrow> bytes" where
  "to_bytes_be n = (if n = 0 then [0] else digits_be n)"

lemma from_bytes_be_Nil [simp]: "from_bytes_be [] = 0"
  by (simp add: from_bytes_be_def)

lemma from_bytes_be_snoc [simp]: "from_bytes_be (bs @ [b]) = 256 * from_bytes_be bs + unat b"
  by (simp add: from_bytes_be_def)

lemma from_bytes_be_single [simp]: "from_bytes_be [b] = unat b"
  by (simp add: from_bytes_be_def)

lemma from_bytes_be_append:
  "from_bytes_be (as @ bs) = 256 ^ length bs * from_bytes_be as + from_bytes_be bs"
proof (induction bs rule: rev_induct)
  case (snoc b bs)
  then show ?case
    by (simp only: append_assoc [symmetric] from_bytes_be_snoc) (simp add: algebra_simps)
qed simp

lemma from_bytes_be_zeros [simp]: "from_bytes_be (replicate k 0) = 0"
  by (induction k) (simp_all add: from_bytes_be_def)

lemma from_bytes_be_pad [simp]: "from_bytes_be (replicate k 0 @ bs) = from_bytes_be bs"
  by (simp add: from_bytes_be_append)

lemma unat_byte_lt: "unat (b :: byte) < 256"
  using unsigned_less [of b, where 'a = nat] by simp

lemma from_bytes_be_bound: "from_bytes_be bs < 256 ^ length bs"
proof (induction bs rule: rev_induct)
  case (snoc b bs)
  have "256 * from_bytes_be bs + unat b < 256 * (from_bytes_be bs + 1)"
    using unat_byte_lt [of b] by simp
  also have "\<dots> \<le> 256 * 256 ^ length bs"
    using snoc by (intro mult_left_mono) simp_all
  finally show ?case by simp
qed simp

lemma unat_of_nat_byte [simp]: "unat (of_nat (n mod 256) :: byte) = n mod 256"
  by (simp add: unat_of_nat)

lemma length_be_bytes [simp]: "length (be_bytes k n) = k"
  by (induction k arbitrary: n) simp_all

lemma from_be_bytes: "from_bytes_be (be_bytes k n) = n mod 256 ^ k"
proof (induction k arbitrary: n)
  case (Suc k)
  have "256 * (n div 256 mod 256 ^ k) + n mod 256 = n mod (256 * 256 ^ k)"
    by (simp add: mod_mult2_eq)
  then show ?case
    by (simp add: Suc.IH)
qed simp

lemma be_bytes_from: "be_bytes (length bs) (from_bytes_be bs) = bs"
proof (induction bs rule: rev_induct)
  case (snoc b bs)
  have "(256 * from_bytes_be bs + unat b) mod 256 = unat b"
    "(256 * from_bytes_be bs + unat b) div 256 = from_bytes_be bs"
    using unat_byte_lt [of b] by simp_all
  with snoc show ?case by simp
qed simp

lemma from_bytes_be_inject:
  "\<lbrakk>length as = length bs; from_bytes_be as = from_bytes_be bs\<rbrakk> \<Longrightarrow> as = bs"
  by (metis be_bytes_from)

lemma from_digits_be [simp]: "from_bytes_be (digits_be n) = n"
  by (induction n rule: digits_be.induct) (subst digits_be.simps, simp)

lemma from_to_bytes_be [simp]: "from_bytes_be (to_bytes_be n) = n"
  using from_bytes_be_zeros [of 1] by (simp add: to_bytes_be_def)

lemma length_digits_be: "n < 256 ^ k \<Longrightarrow> length (digits_be n) \<le> k"
proof (induction k arbitrary: n)
  case 0
  then show ?case by (simp add: digits_be.simps)
next
  case (Suc k)
  then have "n div 256 < 256 ^ k"
    by (simp add: less_mult_imp_div_less mult.commute)
  with Suc.IH show ?case
    by (subst digits_be.simps) simp
qed

lemma length_to_bytes_be: "\<lbrakk>n < 256 ^ k; 0 < k\<rbrakk> \<Longrightarrow> length (to_bytes_be n) \<le> k"
  by (simp add: to_bytes_be_def length_digits_be)

end
