(* ===== verification/Curves.thy ===== *)
theory Curves
  imports Prelude
begin

text \<open>
  The curve layer (\<open>cryptography/src/curve.rs\<close>, \<open>twisted_conversion.rs\<close> and the hashes and
  errors of \<open>lib.rs\<close>). The trait \<open>Curve\<close> is the record \<open>curve\<close>; its two implementations
  are functions of a record of the third-party operations they call (\<open>k256\<close>, \<open>ark_ed_on_bn254\<close>,
  \<open>bincode\<close>, the hash crates). Points are an arbitrary abelian group and scalars an arbitrary
  field (\<open>Scalar\<close> and \<open>FieldEl\<close> are the same field, see the conversions at the end); what the
  protocols rely on is \<open>curve_laws\<close>.
\<close>

section \<open>Errors and hashes\<close>

datatype Error =
    InvalidInput
  | InvalidSignature
  | ExtremelyRareErrorInputUnhashableToCurve
  | InvalidDLEQProof
  | UnknownError
  | Other string

text \<open>\<open>Display\<close> for the errors; \<open>{:?}\<close> puts the string in quotes.\<close>

fun show_Error :: "Error \<Rightarrow> string" where
  "show_Error InvalidInput = ''Invalid input''"
| "show_Error ExtremelyRareErrorInputUnhashableToCurve =
    ''Extremely rare error: input unhashable to curve''"
| "show_Error InvalidDLEQProof = ''Invalid DLEQ proof''"
| "show_Error InvalidSignature = ''Invalid signature''"
| "show_Error UnknownError = ''Unknown error''"
| "show_Error (Other data) = ''Error :'' @ [CHR 34] @ data @ [CHR 34]"

text \<open>The digests of the crates \<open>blake2\<close> and \<open>sha3\<close>.\<close>

record digests =
  Blake2b512 :: "bytes \<Rightarrow> bytes"
  Sha3_256 :: "bytes \<Rightarrow> bytes"

definition digests_ok :: "digests \<Rightarrow> bool" where
  "digests_ok H \<longleftrightarrow> (\<forall>m. length (Blake2b512 H m) = 64) \<and> (\<forall>m. length (Sha3_256 H m) = 32)"

definition hash512 :: "digests \<Rightarrow> bytes \<Rightarrow> (bytes, 'e) outcome" where
  "hash512 H preimage =
    (let d = Blake2b512 H preimage in if length d = 64 then Ok d else Panic)"

definition hash256 :: "digests \<Rightarrow> bytes \<Rightarrow> (bytes, 'e) outcome" where
  "hash256 H preimage =
    (let d = Sha3_256 H preimage in if length d = 32 then Ok d else Panic)"

lemma hash512_Ok: "digests_ok H \<Longrightarrow> hash512 H m = Ok (Blake2b512 H m)"
  by (simp add: hash512_def digests_ok_def Let_def)

lemma hash256_Ok: "digests_ok H \<Longrightarrow> hash256 H m = Ok (Sha3_256 H m)"
  by (simp add: hash256_def digests_ok_def Let_def)

section \<open>The traits\<close>

text \<open>The methods of \<open>ScalarTrait\<close>, \<open>PointTrait\<close> and \<open>Curve\<close> that are not group or field
  operations. \<open>mul_inv\<close> returns a \<open>CtOption\<close>.\<close>

record ('f, 'p) curve =
  NAME :: string
  FIELD_MODULUS_BE :: bytes
  base_point_or_generator :: 'p
  scalar_mul :: "'p \<Rightarrow> 'f \<Rightarrow> 'p"
  is_on_curve :: "'p \<Rightarrow> bool"
  is_in_subgroup_assuming_on_curve :: "'p \<Rightarrow> bool"
  encode :: "'p \<Rightarrow> (bytes, Error) outcome"
  from_encoded :: "bytes \<Rightarrow> ('p, Error) outcome"
  hash_to_curve :: "bytes \<Rightarrow> ('p, Error) outcome"
  hash_from_curve :: "'p \<Rightarrow> (nat, Error) outcome"
  mul_inv :: "'f \<Rightarrow> ('f option, Error) outcome"
  from_biguint_vartime :: "nat \<Rightarrow> ('f, Error) outcome"
  to_biguint_vartime :: "'f \<Rightarrow> nat"
  scalar_from_bytes :: "bytes \<Rightarrow> ('f, Error) outcome"
  scalar_to_bytes :: "'f \<Rightarrow> bytes"
  field_to_repr :: "'f \<Rightarrow> bytes"
  field_from_repr :: "bytes \<Rightarrow> 'f option"
  field_repr_len :: nat

definition ZERO :: "'p::ab_group_add" where
  "ZERO = 0"

definition add_self :: "'p::ab_group_add \<Rightarrow> 'p \<Rightarrow> 'p" where
  "add_self P Q = P + Q"

declare ZERO_def [simp] add_self_def [simp]

text \<open>Scalar multiplication makes the points a vector space over the scalars.\<close>

definition curve_laws :: "('f::field, 'p::ab_group_add) curve \<Rightarrow> bool" where
  "curve_laws C \<longleftrightarrow> vector_space (\<lambda>a P. scalar_mul C P a)"

text \<open>A point that is written out and read back.\<close>

definition point_codec :: "('f, 'p) curve \<Rightarrow> 'p \<Rightarrow> bool" where
  "point_codec C P \<longleftrightarrow> (\<exists>b. encode C P = Ok b \<and> from_encoded C b = Ok P)"

lemma curve_laws_intro:
  assumes "\<And>a P Q. scalar_mul C (P + Q) a = scalar_mul C P a + scalar_mul C Q a"
    and "\<And>a b P. scalar_mul C P (a + b) = scalar_mul C P a + scalar_mul C P b"
    and "\<And>a b P. scalar_mul C (scalar_mul C P b) a = scalar_mul C P (a * b)"
    and "\<And>P. scalar_mul C P 1 = P"
  shows "curve_laws C"
  unfolding curve_laws_def by unfold_locales (simp_all add: assms)

lemma scalar_mul_add_point [smul_simps]:
  "curve_laws C \<Longrightarrow> scalar_mul C (P + Q) a = scalar_mul C P a + scalar_mul C Q a"
  unfolding curve_laws_def by (rule vector_space.vector_space_assms(1))

lemma scalar_mul_add_scalar [smul_simps]:
  "curve_laws C \<Longrightarrow> scalar_mul C P (a + b) = scalar_mul C P a + scalar_mul C P b"
  unfolding curve_laws_def by (rule vector_space.vector_space_assms(2))

lemma scalar_mul_mul [smul_simps]:
  "curve_laws C \<Longrightarrow> scalar_mul C (scalar_mul C P a) b = scalar_mul C P (a * b)"
  unfolding curve_laws_def by (metis (no_types) mult.commute vector_space.vector_space_assms(3))

lemma scalar_mul_one [smul_simps]: "curve_laws C \<Longrightarrow> scalar_mul C P 1 = P"
  unfolding curve_laws_def by (rule vector_space.vector_space_assms(4))

lemma scalar_mul_zero [smul_simps]: "curve_laws C \<Longrightarrow> scalar_mul C P 0 = 0"
  using scalar_mul_add_scalar [of C P 0 0] by simp

lemma scalar_mul_zero_point [smul_simps]: "curve_laws C \<Longrightarrow> scalar_mul C 0 a = 0"
  using scalar_mul_add_point [of C 0 0 a] by simp

lemma scalar_mul_minus [smul_simps]: "curve_laws C \<Longrightarrow> scalar_mul C P (- a) = - scalar_mul C P a"
  by (metis add.right_inverse neg_eq_iff_add_eq_0 scalar_mul_add_scalar scalar_mul_zero)

lemma scalar_mul_diff [smul_simps]:
  "curve_laws C \<Longrightarrow> scalar_mul C P (a - b) = scalar_mul C P a - scalar_mul C P b"
  using scalar_mul_add_scalar [of C P a "- b"] by (simp add: scalar_mul_minus)

lemma scalar_mul_cancel:
  assumes "curve_laws C" and "P \<noteq> 0"
  shows "scalar_mul C P a = scalar_mul C P b \<longleftrightarrow> a = b"
  using assms vector_space.scale_cancel_right [of "\<lambda>a P. scalar_mul C P a" a P b]
  by (auto simp: curve_laws_def)

lemma scalar_mul_sum_list:
  "curve_laws C \<Longrightarrow> scalar_mul C P (\<Sum>x\<leftarrow>xs. f x) = (\<Sum>x\<leftarrow>xs. scalar_mul C P (f x))"
  by (induction xs) (simp_all add: scalar_mul_zero scalar_mul_add_scalar)

lemma scalar_mul_inverse:
  "\<lbrakk>curve_laws C; a \<noteq> 0\<rbrakk> \<Longrightarrow> scalar_mul C (scalar_mul C P a) (inverse a) = P"
  by (simp add: smul_simps)

text \<open>Writing a field element out and reading it back as a scalar gives it back.\<close>

definition repr_laws :: "('f, 'p) curve \<Rightarrow> bool" where
  "repr_laws C \<longleftrightarrow>
    (\<forall>x. from_biguint_vartime C (from_bytes_be (field_to_repr C x)) = Ok x \<and>
         length (field_to_repr C x) \<le> 40)"

text \<open>\<open>safe_scalar_mul_with_curve_and_subgroup_checks\<close>: a default method of \<open>PointTrait\<close>.\<close>

definition safe_scalar_mul_with_curve_and_subgroup_checks ::
    "('f, 'p) curve \<Rightarrow> 'p \<Rightarrow> 'f \<Rightarrow> ('p, Error) outcome" where
  "safe_scalar_mul_with_curve_and_subgroup_checks C P s =
    (if is_on_curve C P \<and> is_in_subgroup_assuming_on_curve C P
     then Ok (scalar_mul C P s) else Err InvalidInput)"

section \<open>Try and increment\<close>

text \<open>The loop of the hash-to-curve routines: \<open>step acc\<close> tries one counter; the first hit is
  returned, and the loop ends with the rare error at the bound.\<close>

function try_from :: "nat \<Rightarrow> 'e \<Rightarrow> (nat \<Rightarrow> ('p option, 'e) outcome) \<Rightarrow> nat \<Rightarrow> ('p, 'e) outcome" where
  "try_from acc_lt e step acc =
    (if acc < acc_lt then
       obind (step acc) (\<lambda>r. case r of Some pt \<Rightarrow> Ok pt | None \<Rightarrow> try_from acc_lt e step (acc + 1))
     else Err e)"
  by pat_completeness auto
termination by (relation "measure (\<lambda>(acc_lt, _, _, acc). acc_lt - acc)") auto

declare try_from.simps [simp del]

lemma try_from_Ok:
  assumes "try_from n e step k = Ok pt"
  shows "\<exists>a. k \<le> a \<and> a < n \<and> step a = Ok (Some pt) \<and> (\<forall>b. k \<le> b \<and> b < a \<longrightarrow> step b = Ok None)"
  using assms
proof (induction n e step k rule: try_from.induct)
  case (1 n e step k)
  from "1.prems" obtain r where k: "k < n" and r: "step k = Ok r"
    and rest: "(case r of Some pt \<Rightarrow> Ok pt | None \<Rightarrow> try_from n e step (Suc k)) = Ok pt"
    by (auto simp: try_from.simps [of n e step k] obind_eq_Ok split: if_splits)
  show ?case
  proof (cases r)
    case (Some q)
    with r rest k show ?thesis by auto
  next
    case None
    with rest have "try_from n e step (k + 1) = Ok pt" by simp
    with "1.IH" [OF k r None] obtain a where "k + 1 \<le> a" "a < n" "step a = Ok (Some pt)"
      "\<forall>b. k + 1 \<le> b \<and> b < a \<longrightarrow> step b = Ok None" by auto
    with r None show ?thesis
      by (intro exI [of _ a]) (metis Suc_eq_plus1 Suc_leD Suc_leI le_neq_implies_less)
  qed
qed

lemma try_from_hit:
  assumes "k \<le> a" "a < n" "step a = Ok (Some pt)" "\<And>b. \<lbrakk>k \<le> b; b < a\<rbrakk> \<Longrightarrow> step b = Ok None"
  shows "try_from n e step k = Ok pt"
  using assms
proof (induction "a - k" arbitrary: k)
  case 0
  then show ?case by (subst try_from.simps) simp
next
  case (Suc d)
  from Suc have "try_from n e step (k + 1) = Ok pt" by (intro Suc.hyps) auto
  with Suc show ?case by (subst try_from.simps) simp
qed

lemma try_from_exhausted:
  assumes "\<And>b. \<lbrakk>k \<le> b; b < n\<rbrakk> \<Longrightarrow> step b = Ok None"
  shows "try_from n e step k = Err e"
  using assms
proof (induction "n - k" arbitrary: k)
  case 0
  then show ?case by (subst try_from.simps) simp
next
  case (Suc d)
  then have "try_from n e step (k + 1) = Err e" by auto
  with Suc show ?case by (subst try_from.simps) simp
qed

text \<open>A loop whose steps neither fail nor panic is decided by the first candidate.\<close>

lemma try_from_decides:
  assumes "\<And>a. a < n \<Longrightarrow> step a = Ok (cand a)"
  shows "try_from n e step 0 = Ok P \<longleftrightarrow> (\<exists>a<n. cand a = Some P \<and> (\<forall>b<a. cand b = None))"
    and "try_from n e step 0 = Err e' \<longleftrightarrow> e' = e \<and> (\<forall>a<n. cand a = None)"
    and "try_from n e step 0 \<noteq> Panic"
proof -
  have hit: "try_from n e step 0 = Ok P" if "a < n" "cand a = Some P" "\<forall>b<a. cand b = None" for a P
    using that assms by (intro try_from_hit [of 0 a]) auto
  have miss: "try_from n e step 0 = Err e" if "\<forall>a<n. cand a = None"
    using that assms by (intro try_from_exhausted) auto
  show "try_from n e step 0 = Ok P \<longleftrightarrow> (\<exists>a<n. cand a = Some P \<and> (\<forall>b<a. cand b = None))"
  proof
    assume "try_from n e step 0 = Ok P"
    from try_from_Ok [OF this] obtain a where "a < n" "step a = Ok (Some P)" "\<forall>b<a. step b = Ok None"
      by auto
    with assms show "\<exists>a<n. cand a = Some P \<and> (\<forall>b<a. cand b = None)"
      by (intro exI [of _ a]) auto
  qed (use hit in blast)
  show "try_from n e step 0 = Err e' \<longleftrightarrow> e' = e \<and> (\<forall>a<n. cand a = None)"
    and "try_from n e step 0 \<noteq> Panic"
  proof -
    consider (hit) a P where "a < n" "cand a = Some P" "\<forall>b<a. cand b = None" | (miss) "\<forall>a<n. cand a = None"
      using exists_least_iff [of "\<lambda>a. a < n \<and> cand a \<noteq> None"] by (auto dest: less_trans)
    then have "(\<exists>P. try_from n e step 0 = Ok P) \<and> \<not> (\<forall>a<n. cand a = None) \<or>
        try_from n e step 0 = Err e \<and> (\<forall>a<n. cand a = None)"
      by cases (use hit miss in force)+
    then show "try_from n e step 0 = Err e' \<longleftrightarrow> e' = e \<and> (\<forall>a<n. cand a = None)"
      and "try_from n e step 0 \<noteq> Panic" by auto
  qed
qed

section \<open>secp256k1\<close>

text \<open>The operations of \<open>k256\<close>, and of the field derived by \<open>ff\<close>, that the implementation
  calls. An \<open>EncodedPoint\<close> is its byte string.\<close>

record ('f, 'p) k256 =
  GENERATOR :: 'p
  affine_mul :: "'p \<Rightarrow> 'f \<Rightarrow> 'p"
  to_encoded_point :: "'p \<Rightarrow> bool \<Rightarrow> bytes"
  EncodedPoint_from_bytes :: "bytes \<Rightarrow> bytes option"
  from_encoded_point :: "bytes \<Rightarrow> 'p option"
  from_str_vartime :: "nat \<Rightarrow> 'f option"
  to_repr :: "'f \<Rightarrow> bytes"
  from_repr :: "bytes \<Rightarrow> 'f option"
  F256k1_to_repr :: "'f \<Rightarrow> bytes"
  F256k1_from_repr :: "bytes \<Rightarrow> 'f option"

definition SECP256K1_P :: bytes where
  "SECP256K1_P =
    [0xFF, 0xFF, 0xFF, 0xFF, 0xFF, 0xFF, 0xFF, 0xFF, 0xFF, 0xFF, 0xFF, 0xFF, 0xFF, 0xFF, 0xFF, 0xFF,
     0xFF, 0xFF, 0xFF, 0xFF, 0xFF, 0xFF, 0xFF, 0xFF, 0xFF, 0xFF, 0xFF, 0xFE, 0xFF, 0xFF, 0xFC, 0x2F]"

definition secp_FIELD_MODULUS_BE :: bytes where
  "secp_FIELD_MODULUS_BE =
    [0xFF, 0xFF, 0xFF, 0xFF, 0xFF, 0xFF, 0xFF, 0xFF, 0xFF, 0xFF, 0xFF, 0xFF, 0xFF, 0xFF, 0xFF, 0xFE,
     0xBA, 0xAE, 0xDC, 0xE6, 0xAF, 0x48, 0xA0, 0x3B, 0xBF, 0xD2, 0x5E, 0x8C, 0xD0, 0x36, 0x41, 0x41]"

definition secp_is_on_curve :: "('f, 'p) k256 \<Rightarrow> 'p \<Rightarrow> bool" where
  "secp_is_on_curve K P =
    (case from_encoded_point K (to_encoded_point K P False) of None \<Rightarrow> False | Some Q \<Rightarrow> Q = P)"

definition secp_is_in_subgroup :: "'p \<Rightarrow> bool" where
  "secp_is_in_subgroup P = True"

definition secp_encode :: "('f, 'p) k256 \<Rightarrow> 'p \<Rightarrow> (bytes, Error) outcome" where
  "secp_encode K P = Ok (to_encoded_point K P True)"

definition secp_from_encoded :: "('f, 'p) k256 \<Rightarrow> bytes \<Rightarrow> ('p, Error) outcome" where
  "secp_from_encoded K encoded =
    obind (ok_or InvalidInput (EncodedPoint_from_bytes K encoded)) (\<lambda>ep.
      case from_encoded_point K ep of
        Some P \<Rightarrow> Ok P
      | None \<Rightarrow> Err (Other ''Failed to parse EncodedPoint as SEC1-encoded AffinePoint''))"

definition secp_mul_inv :: "'f::field \<Rightarrow> ('f option, Error) outcome" where
  "secp_mul_inv s = Ok (if s = 0 then None else Some (inverse s))"

definition secp_from_biguint_vartime :: "('f, 'p) k256 \<Rightarrow> nat \<Rightarrow> ('f, Error) outcome" where
  "secp_from_biguint_vartime K b = ok_or InvalidInput (from_str_vartime K b)"

definition secp_to_biguint_vartime :: "('f, 'p) k256 \<Rightarrow> 'f \<Rightarrow> nat" where
  "secp_to_biguint_vartime K s = from_bytes_be (to_repr K s)"

text \<open>\<open>FieldBytes::from_slice\<close> panics unless it is given 32 bytes.\<close>

definition secp_scalar_from_bytes :: "('f, 'p) k256 \<Rightarrow> bytes \<Rightarrow> ('f, Error) outcome" where
  "secp_scalar_from_bytes K bs =
    assert_then (length bs = 32) (ok_or InvalidInput (from_repr K bs))"

definition secp_scalar_to_bytes :: "('f, 'p) k256 \<Rightarrow> 'f \<Rightarrow> bytes" where
  "secp_scalar_to_bytes K s = to_repr K s"

text \<open>The compressed SEC1 candidate for an x-coordinate: tag byte, zero padding, the digits.\<close>

definition secp_candidate_encoding :: "nat \<Rightarrow> nat \<Rightarrow> bytes" where
  "secp_candidate_encoding deterministic_random_bit xcoord =
    (let xcoord_vec = to_bytes_be xcoord;
         bytes_under = 32 - length xcoord_vec
     in [of_nat (deterministic_random_bit + 2)] @ replicate bytes_under 0 @ xcoord_vec)"

definition secp_hash_to_curve_step ::
    "digests \<Rightarrow> ('f, 'p) k256 \<Rightarrow> bytes \<Rightarrow> nat \<Rightarrow> ('p option, Error) outcome" where
  "secp_hash_to_curve_step H K msg acc =
    (let concatted = be_bytes 2 acc @ msg in
     obind (hash512 H concatted) (\<lambda>digest.
     obind (hash256 H concatted) (\<lambda>digest2.
     obind (case digest2 of [] \<Rightarrow> Err InvalidInput | b # _ \<Rightarrow> Ok (unat b mod 2)) (\<lambda>bit.
     let xcoord = from_bytes_be digest mod from_bytes_be SECP256K1_P in
     obind (ok_or UnknownError (EncodedPoint_from_bytes K (secp_candidate_encoding bit xcoord)))
       (\<lambda>encoded.
         Ok (case from_encoded_point K encoded of
               None \<Rightarrow> None
             | Some P \<Rightarrow> if secp_is_on_curve K P \<and> secp_is_in_subgroup P then Some P else None))))))"

definition secp_hash_to_curve ::
    "digests \<Rightarrow> ('f, 'p) k256 \<Rightarrow> bytes \<Rightarrow> ('p, Error) outcome" where
  "secp_hash_to_curve H K msg =
    try_from 1024 ExtremelyRareErrorInputUnhashableToCurve (secp_hash_to_curve_step H K msg) 0"

definition secp_hash_from_curve ::
    "digests \<Rightarrow> ('f, 'p) k256 \<Rightarrow> 'p \<Rightarrow> (nat, Error) outcome" where
  "secp_hash_from_curve H K P =
    obind (hash512 H (to_encoded_point K P True)) (\<lambda>h.
      Ok (from_bytes_be h mod from_bytes_be secp_FIELD_MODULUS_BE))"

definition Secp256k1 :: "digests \<Rightarrow> ('f::field, 'p) k256 \<Rightarrow> ('f, 'p) curve" where
  "Secp256k1 H K =
    \<lparr> NAME = ''Secp256k1'',
      FIELD_MODULUS_BE = secp_FIELD_MODULUS_BE,
      base_point_or_generator = GENERATOR K,
      scalar_mul = affine_mul K,
      is_on_curve = secp_is_on_curve K,
      is_in_subgroup_assuming_on_curve = secp_is_in_subgroup,
      encode = secp_encode K,
      from_encoded = secp_from_encoded K,
      hash_to_curve = secp_hash_to_curve H K,
      hash_from_curve = secp_hash_from_curve H K,
      mul_inv = secp_mul_inv,
      from_biguint_vartime = secp_from_biguint_vartime K,
      to_biguint_vartime = secp_to_biguint_vartime K,
      scalar_from_bytes = secp_scalar_from_bytes K,
      scalar_to_bytes = secp_scalar_to_bytes K,
      field_to_repr = F256k1_to_repr K,
      field_from_repr = F256k1_from_repr K,
      field_repr_len = 40 \<rparr>"

section \<open>BabyJubJub\<close>

record EncodedBabyJubJubPoint =
  greatest :: bool
  enc_y :: bytes

text \<open>The operations of \<open>ark_ed_on_bn254\<close>, \<open>ark_serialize\<close> and \<open>bincode\<close> the implementation
  calls. An element of the base field is its value below \<open>BABYJUBJUB_P\<close>.\<close>

record ('f, 'p) ark =
  Affine :: "nat \<Rightarrow> nat \<Rightarrow> 'p"
  xy :: "'p \<Rightarrow> (nat \<times> nat) option"
  ark_mul :: "'p \<Rightarrow> 'f \<Rightarrow> 'p"
  ark_is_on_curve :: "'p \<Rightarrow> bool"
  is_in_correct_subgroup :: "'p \<Rightarrow> bool"
  get_xs_from_y_unchecked :: "nat \<Rightarrow> (nat \<times> nat) option"
  get_point_from_y_unchecked :: "nat \<Rightarrow> bool \<Rightarrow> 'p option"
  fq_serialize :: "nat \<Rightarrow> bytes"
  fq_deserialize :: "bytes \<Rightarrow> nat option"
  fr_from_biguint :: "nat \<Rightarrow> 'f"
  fr_into_bigint :: "'f \<Rightarrow> nat"
  fr_serialize :: "'f \<Rightarrow> bytes"
  fr_deserialize :: "bytes \<Rightarrow> 'f option"
  BABYJUBJUB_to_repr :: "'f \<Rightarrow> bytes"
  BABYJUBJUB_from_repr :: "bytes \<Rightarrow> 'f option"
  bincode_serialize :: "EncodedBabyJubJubPoint \<Rightarrow> bytes"
  bincode_deserialize :: "bytes \<Rightarrow> EncodedBabyJubJubPoint option"

definition BABYJUBJUB_P :: bytes where
  "BABYJUBJUB_P =
    [0x30, 0x64, 0x4E, 0x72, 0xE1, 0x31, 0xA0, 0x29, 0xB8, 0x50, 0x45, 0xB6, 0x81, 0x81, 0x58, 0x5D,
     0x28, 0x33, 0xE8, 0x48, 0x79, 0xB9, 0x70, 0x91, 0x43, 0xE1, 0xF5, 0x93, 0xF0, 0x00, 0x00, 0x01]"

definition bjj_FIELD_MODULUS_BE :: bytes where
  "bjj_FIELD_MODULUS_BE =
    [0xFF, 0xFF, 0xFF, 0xFF, 0xFF, 0xFF, 0xFF, 0xFF, 0xFF, 0xFF, 0xFF, 0xFF, 0xFF, 0xFF, 0xFF, 0xFE,
     0xBA, 0xAE, 0xDC, 0xE6, 0xAF, 0x48, 0xA0, 0x3B, 0xBF, 0xD2, 0x5E, 0x8C, 0xD0, 0x36, 0x41, 0x41]"

abbreviation bn254_p :: nat where
  "bn254_p \<equiv> 21888242871839275222246405745257275088548364400416034343698204186575808495617"

definition SQRT_A :: nat where
  "SQRT_A = 7214280148105020021932206872019688659210616427216992810330019057549499971851"

definition SQRT_A_INV :: nat where
  "SQRT_A_INV = 2957874849018779266517920829765869116077630550401372566248359756137677864698"

definition twisted_to_edwards :: "nat \<times> nat \<Rightarrow> nat \<times> nat" where
  "twisted_to_edwards p = (fst p * SQRT_A mod bn254_p, snd p)"

definition edwards_to_twisted :: "nat \<times> nat \<Rightarrow> nat \<times> nat" where
  "edwards_to_twisted p = (fst p * SQRT_A_INV mod bn254_p, snd p)"

definition BABYJUB_BASE_POINT :: "nat \<times> nat" where
  "BABYJUB_BASE_POINT =
    twisted_to_edwards
      (5299619240641551281634865583518297030282874472190772894086521144482721001553,
       16950150798460657717958625567821834550301663161624707787222815936182638968203)"

definition bjj_encode :: "('f, 'p) ark \<Rightarrow> 'p \<Rightarrow> (bytes, Error) outcome" where
  "bjj_encode A P =
    obind (unwrap_option (xy A P)) (\<lambda>(x, y).
    obind (unwrap_option (get_xs_from_y_unchecked A y)) (\<lambda>options.
    let ser = fq_serialize A y in
    if fst options = x then Ok (bincode_serialize A \<lparr> greatest = False, enc_y = ser \<rparr>)
    else if snd options = x then Ok (bincode_serialize A \<lparr> greatest = True, enc_y = ser \<rparr>)
    else Panic))"

definition bjj_from_encoded :: "('f, 'p) ark \<Rightarrow> bytes \<Rightarrow> ('p, Error) outcome" where
  "bjj_from_encoded A encoded =
    obind (unwrap_option (bincode_deserialize A encoded)) (\<lambda>enc.
    obind (ok_or InvalidInput (fq_deserialize A (enc_y enc))) (\<lambda>y.
    case get_point_from_y_unchecked A y (greatest enc) of
      Some P \<Rightarrow> if ark_is_on_curve A P then Ok P else Err InvalidInput
    | None \<Rightarrow> Err InvalidInput))"

text \<open>\<open>CtOption::new(self.inverse().unwrap(), ..)\<close>: the unwrap panics on zero.\<close>

definition bjj_mul_inv :: "'f::field \<Rightarrow> ('f option, Error) outcome" where
  "bjj_mul_inv s = (if s = 0 then Panic else Ok (Some (inverse s)))"

definition bjj_from_biguint_vartime :: "('f, 'p) ark \<Rightarrow> nat \<Rightarrow> ('f, Error) outcome" where
  "bjj_from_biguint_vartime A b = Ok (fr_from_biguint A b)"

definition bjj_scalar_from_bytes :: "('f, 'p) ark \<Rightarrow> bytes \<Rightarrow> ('f, Error) outcome" where
  "bjj_scalar_from_bytes A bs = ok_or InvalidInput (fr_deserialize A bs)"

definition bjj_candidate_encoding :: "nat \<Rightarrow> bytes" where
  "bjj_candidate_encoding xcoord =
    (let xcoord_vec = to_bytes_be xcoord;
         bytes_under = 32 - length xcoord_vec
     in replicate bytes_under 0 @ xcoord_vec)"

definition bjj_hash_to_curve_step ::
    "digests \<Rightarrow> ('f, 'p) ark \<Rightarrow> bytes \<Rightarrow> nat \<Rightarrow> ('p option, Error) outcome" where
  "bjj_hash_to_curve_step H A msg acc =
    (let concatted = be_bytes 2 acc @ msg in
     obind (hash512 H concatted) (\<lambda>digest.
     obind (hash256 H concatted) (\<lambda>digest2.
     obind (case digest2 of [] \<Rightarrow> Err InvalidInput | b # _ \<Rightarrow> Ok (unat b mod 2 = 0)) (\<lambda>bit.
     let xcoord = from_bytes_be digest mod from_bytes_be BABYJUBJUB_P;
         encoded = bincode_serialize A \<lparr> greatest = bit, enc_y = bjj_candidate_encoding xcoord \<rparr> in
     case bjj_from_encoded A encoded of
       Ok P \<Rightarrow> Ok (if ark_is_on_curve A P \<and> is_in_correct_subgroup A P then Some P else None)
     | Err _ \<Rightarrow> Ok None
     | Panic \<Rightarrow> Panic))))"

definition bjj_hash_to_curve ::
    "digests \<Rightarrow> ('f, 'p) ark \<Rightarrow> bytes \<Rightarrow> ('p, Error) outcome" where
  "bjj_hash_to_curve H A msg =
    try_from 1024 ExtremelyRareErrorInputUnhashableToCurve (bjj_hash_to_curve_step H A msg) 0"

definition bjj_hash_from_curve :: "digests \<Rightarrow> ('f, 'p) ark \<Rightarrow> 'p \<Rightarrow> (nat, Error) outcome" where
  "bjj_hash_from_curve H A P =
    obind (bjj_encode A P) (\<lambda>enc.
    obind (hash512 H enc) (\<lambda>h.
      Ok (from_bytes_be h mod from_bytes_be bjj_FIELD_MODULUS_BE)))"

definition BabyJubJub :: "digests \<Rightarrow> ('f::field, 'p) ark \<Rightarrow> ('f, 'p) curve" where
  "BabyJubJub H A =
    \<lparr> NAME = ''BabyJubJub'',
      FIELD_MODULUS_BE = bjj_FIELD_MODULUS_BE,
      base_point_or_generator = Affine A (fst BABYJUB_BASE_POINT) (snd BABYJUB_BASE_POINT),
      scalar_mul = ark_mul A,
      is_on_curve = ark_is_on_curve A,
      is_in_subgroup_assuming_on_curve = is_in_correct_subgroup A,
      encode = bjj_encode A,
      from_encoded = bjj_from_encoded A,
      hash_to_curve = bjj_hash_to_curve H A,
      hash_from_curve = bjj_hash_from_curve H A,
      mul_inv = bjj_mul_inv,
      from_biguint_vartime = bjj_from_biguint_vartime A,
      to_biguint_vartime = fr_into_bigint A,
      scalar_from_bytes = bjj_scalar_from_bytes A,
      scalar_to_bytes = fr_serialize A,
      field_to_repr = BABYJUBJUB_to_repr A,
      field_from_repr = BABYJUBJUB_from_repr A,
      field_repr_len = 32 \<rparr>"

section \<open>Scalar and field element\<close>

text \<open>The conversions between \<open>k256::Scalar\<close> and \<open>F256k1\<close> (a 40-byte representation), and
  between \<open>Fr\<close> and \<open>BABYJUBJUB\<close> (32 bytes), on canonical values.\<close>

definition F256k1_modulus :: nat where
  "F256k1_modulus =
    115792089237316195423570985008687907852837564279074904382605163141518161494337"

definition BABYJUBJUB_modulus :: nat where
  "BABYJUBJUB_modulus =
    2736030358979909402780800718157159386076813972158567259200215660948447373041"

definition prime_field_from_repr :: "nat \<Rightarrow> bytes \<Rightarrow> nat option" where
  "prime_field_from_repr q repr = (let n = from_bytes_be repr in if n < q then Some n else None)"

definition F256k1_from_Scalar :: "nat \<Rightarrow> (nat, 'e) outcome" where
  "F256k1_from_Scalar value =
    (let as_be_bytes = be_bytes 32 value;
         as_40_be_bytes = replicate (40 - length as_be_bytes) 0 @ as_be_bytes
     in assert_then (length as_40_be_bytes = 40)
          (unwrap_option (prime_field_from_repr F256k1_modulus as_40_be_bytes)))"

definition Scalar_from_F256k1 :: "nat \<Rightarrow> nat" where
  "Scalar_from_F256k1 value = from_bytes_be (be_bytes 40 value) mod F256k1_modulus"

definition BABYJUBJUB_from_Fr :: "nat \<Rightarrow> (nat, 'e) outcome" where
  "BABYJUBJUB_from_Fr value =
    (let as_be_bytes = be_bytes 32 value;
         as_40_be_bytes = replicate (40 - length as_be_bytes) 0 @ as_be_bytes;
         last_32_bytes = drop (length as_40_be_bytes - 32) as_40_be_bytes
     in assert_then (length last_32_bytes = 32)
          (unwrap_option (prime_field_from_repr BABYJUBJUB_modulus last_32_bytes)))"

definition Fr_from_BABYJUBJUB :: "nat \<Rightarrow> nat" where
  "Fr_from_BABYJUBJUB value = from_bytes_be (be_bytes 32 value) mod BABYJUBJUB_modulus"

section \<open>Lemmas\<close>

lemma modulus_values:
  "from_bytes_be SECP256K1_P = 2 ^ 256 - 2 ^ 32 - 977"
  "from_bytes_be secp_FIELD_MODULUS_BE = F256k1_modulus"
  "from_bytes_be BABYJUBJUB_P = bn254_p"
  by (simp_all add: from_bytes_be_def SECP256K1_P_def secp_FIELD_MODULUS_BE_def BABYJUBJUB_P_def
      F256k1_modulus_def)

lemma candidate_encoding_shape:
  assumes "x < 256 ^ 32" and "b < 2"
  shows "length (secp_candidate_encoding b x) = 33"
    and "from_bytes_be (tl (secp_candidate_encoding b x)) = x"
    and "hd (secp_candidate_encoding b x) = (if b = 0 then 2 else 3)"
proof -
  have "length (to_bytes_be x) \<le> 32"
    by (rule length_to_bytes_be [OF assms(1)]) simp
  then show "length (secp_candidate_encoding b x) = 33"
    by (simp add: secp_candidate_encoding_def Let_def)
  show "from_bytes_be (tl (secp_candidate_encoding b x)) = x"
    by (simp add: secp_candidate_encoding_def Let_def)
  show "hd (secp_candidate_encoding b x) = (if b = 0 then 2 else 3)"
    using assms(2) by (auto simp: secp_candidate_encoding_def Let_def less_2_cases_iff)
qed

lemma bjj_candidate_shape:
  assumes "x < 256 ^ 32"
  shows "length (bjj_candidate_encoding x) = 32" and "from_bytes_be (bjj_candidate_encoding x) = x"
proof -
  have "length (to_bytes_be x) \<le> 32"
    by (rule length_to_bytes_be [OF assms]) simp
  then show "length (bjj_candidate_encoding x) = 32" and "from_bytes_be (bjj_candidate_encoding x) = x"
    by (simp_all add: bjj_candidate_encoding_def Let_def)
qed

text \<open>What one counter of the two hash-to-curve loops yields when nothing fails: the decoded
  candidate, if it is a point the loop accepts.\<close>

definition secp_candidate :: "digests \<Rightarrow> ('f, 'p) k256 \<Rightarrow> bytes \<Rightarrow> nat \<Rightarrow> 'p option" where
  "secp_candidate H K msg a =
    (let m = be_bytes 2 a @ msg;
         x = from_bytes_be (Blake2b512 H m) mod from_bytes_be SECP256K1_P in
     case from_encoded_point K (secp_candidate_encoding (unat (hd (Sha3_256 H m)) mod 2) x) of
       None \<Rightarrow> None
     | Some P \<Rightarrow> if secp_is_on_curve K P then Some P else None)"

definition bjj_candidate :: "digests \<Rightarrow> ('f, 'p) ark \<Rightarrow> bytes \<Rightarrow> nat \<Rightarrow> 'p option" where
  "bjj_candidate H A msg a =
    (let m = be_bytes 2 a @ msg;
         y = bjj_candidate_encoding (from_bytes_be (Blake2b512 H m) mod from_bytes_be BABYJUBJUB_P) in
     case fq_deserialize A y of
       None \<Rightarrow> None
     | Some v \<Rightarrow> (case get_point_from_y_unchecked A v (even (unat (hd (Sha3_256 H m)))) of
         None \<Rightarrow> None
       | Some P \<Rightarrow> if ark_is_on_curve A P \<and> is_in_correct_subgroup A P then Some P else None))"

text \<open>The crate \<open>sec1\<close> reads back any 33 bytes with a compressed tag.\<close>

definition sec1_laws :: "('f, 'p) k256 \<Rightarrow> bool" where
  "sec1_laws K \<longleftrightarrow>
    (\<forall>bs. length bs = 33 \<and> hd bs \<in> {2, 3} \<longrightarrow> EncodedPoint_from_bytes K bs = Some bs)"

lemma secp_candidate_on_curve: "secp_candidate H K msg a = Some P \<Longrightarrow> secp_is_on_curve K P"
  by (simp add: secp_candidate_def Let_def split: option.splits if_splits)

lemma bjj_candidate_in_subgroup:
  "bjj_candidate H A msg a = Some P \<Longrightarrow> ark_is_on_curve A P \<and> is_in_correct_subgroup A P"
  by (simp add: bjj_candidate_def Let_def split: option.splits if_splits)

lemma digest_cases:
  assumes "digests_ok H"
  obtains b bs where "Sha3_256 H m = b # bs"
proof -
  from assms have "length (Sha3_256 H m) = 32" by (simp add: digests_ok_def)
  with that show ?thesis by (cases "Sha3_256 H m") simp_all
qed

lemma secp_step_candidate:
  assumes "digests_ok H" and "sec1_laws K"
  shows "secp_hash_to_curve_step H K msg a = Ok (secp_candidate H K msg a)"
proof -
  let ?m = "be_bytes 2 a @ msg"
  let ?x = "from_bytes_be (Blake2b512 H ?m) mod from_bytes_be SECP256K1_P"
  obtain b bs where b: "Sha3_256 H ?m = b # bs" by (rule digest_cases [OF assms(1)])
  have "?x < from_bytes_be SECP256K1_P" by (rule mod_less_divisor) (simp add: modulus_values)
  also have "\<dots> < 256 ^ 32" by (simp add: modulus_values)
  finally have x: "?x < 256 ^ 32" .
  have "length (secp_candidate_encoding (unat b mod 2) ?x) = 33"
    "hd (secp_candidate_encoding (unat b mod 2) ?x) \<in> {2, 3}"
    using candidate_encoding_shape(1,3) [OF x, of "unat b mod 2"] by simp_all
  with assms(2) have "EncodedPoint_from_bytes K (secp_candidate_encoding (unat b mod 2) ?x) =
      Some (secp_candidate_encoding (unat b mod 2) ?x)" unfolding sec1_laws_def by blast
  with b show ?thesis
    by (simp add: secp_hash_to_curve_step_def secp_candidate_def Let_def hash512_Ok [OF assms(1)]
        hash256_Ok [OF assms(1)] secp_is_in_subgroup_def split: option.split)
qed

lemma bjj_step_candidate:
  assumes "digests_ok H" and "\<And>e. bincode_deserialize A (bincode_serialize A e) = Some e"
  shows "bjj_hash_to_curve_step H A msg a = Ok (bjj_candidate H A msg a)"
proof -
  obtain b bs where "Sha3_256 H (be_bytes 2 a @ msg) = b # bs" by (rule digest_cases [OF assms(1)])
  then show ?thesis
    by (simp add: bjj_hash_to_curve_step_def bjj_candidate_def Let_def hash512_Ok [OF assms(1)]
        hash256_Ok [OF assms(1)] bjj_from_encoded_def assms(2) even_iff_mod_2_eq_zero
        split: option.split)
qed

text \<open>What the encoding of BabyJubJub points relies on: \<open>bincode\<close> and the base field round
  trip, and the x-coordinates and the point of a y-coordinate agree.\<close>

definition ark_laws :: "('f, 'p) ark \<Rightarrow> bool" where
  "ark_laws A \<longleftrightarrow>
    (\<forall>e. bincode_deserialize A (bincode_serialize A e) = Some e) \<and>
    (\<forall>y < bn254_p. fq_deserialize A (fq_serialize A y) = Some y) \<and>
    (\<forall>y g. get_point_from_y_unchecked A y g =
      map_option (\<lambda>(lo, hi). Affine A (if g then hi else lo) y) (get_xs_from_y_unchecked A y))"

lemma bjj_encode_round_trip:
  assumes "ark_laws A" and "xy A (Affine A x y) = Some (x, y)" and "y < bn254_p"
    and "get_xs_from_y_unchecked A y = Some (lo, hi)" and "x \<in> {lo, hi}"
    and "ark_is_on_curve A (Affine A x y)"
  shows "\<exists>e. bjj_encode A (Affine A x y) = Ok e \<and> bjj_from_encoded A e = Ok (Affine A x y)"
  using assms by (auto simp: ark_laws_def bjj_encode_def bjj_from_encoded_def Let_def)

lemma mult_mod_inverse:
  fixes x a i q :: nat
  assumes "a * i mod q = 1" and "x < q"
  shows "(x * a mod q) * i mod q = x"
proof -
  have "(x * a mod q) * i mod q = x * (a * i) mod q"
    by (simp add: mod_mult_left_eq mult.assoc)
  also have "\<dots> = x * (a * i mod q) mod q"
    by (simp add: mod_mult_right_eq)
  finally show ?thesis
    using assms by simp
qed

lemma SQRT_A_inverse: "SQRT_A * SQRT_A_INV mod bn254_p = 1" "SQRT_A_INV * SQRT_A mod bn254_p = 1"
  by (simp_all add: SQRT_A_def SQRT_A_INV_def)

lemma twisted_round_trips:
  assumes "x < bn254_p"
  shows "edwards_to_twisted (twisted_to_edwards (x, y)) = (x, y)"
    and "twisted_to_edwards (edwards_to_twisted (x, y)) = (x, y)"
  unfolding edwards_to_twisted_def twisted_to_edwards_def fst_conv snd_conv
  by (simp_all only: mult_mod_inverse [OF SQRT_A_inverse(1) assms]
      mult_mod_inverse [OF SQRT_A_inverse(2) assms])

lemma F256k1_round_trip:
  assumes "v < F256k1_modulus"
  shows "F256k1_from_Scalar v = Ok v" and "Scalar_from_F256k1 v = v"
proof -
  from assms have v: "v < 256 ^ 32" "v < 256 ^ 40" by (simp_all add: F256k1_modulus_def)
  with assms show "F256k1_from_Scalar v = Ok v"
    by (simp add: F256k1_from_Scalar_def Let_def prime_field_from_repr_def from_be_bytes)
  from assms v show "Scalar_from_F256k1 v = v"
    by (simp add: Scalar_from_F256k1_def from_be_bytes)
qed

lemma BABYJUBJUB_round_trip:
  assumes "v < BABYJUBJUB_modulus"
  shows "BABYJUBJUB_from_Fr v = Ok v" and "Fr_from_BABYJUBJUB v = v"
proof -
  from assms have v: "v < 256 ^ 32" by (simp add: BABYJUBJUB_modulus_def)
  with assms show "BABYJUBJUB_from_Fr v = Ok v"
    by (simp add: BABYJUBJUB_from_Fr_def Let_def prime_field_from_repr_def from_be_bytes)
  from assms v show "Fr_from_BABYJUBJUB v = v"
    by (simp add: Fr_from_BABYJUBJUB_def from_be_bytes)
qed

end
