(* ===== verification/Polynomials.thy ===== *)
theory Polynomials
  imports Curves
begin

text \<open>
  Polynomials over the scalar field, Lagrange coefficients at zero and Feldman's verifiable
  secret sharing (\<open>cryptography/src/polynomial.rs\<close>). Random draws are an argument (the \<open>k\<close>-th
  draw); \<open>from_u128\<close> and \<open>from_str_vartime\<close> of a decimal are \<open>of_nat\<close>.
\<close>

section \<open>Definitions\<close>

record 'f Polynomial =
  coefficients :: "'f list"

definition from_coeffs :: "'f list \<Rightarrow> 'f Polynomial" where
  "from_coeffs coeffs = \<lparr> coefficients = coeffs \<rparr>"

definition random_polynomial :: "(nat \<Rightarrow> 'f) \<Rightarrow> nat \<Rightarrow> 'f Polynomial" where
  "random_polynomial draw degree = \<lparr> coefficients = map draw [0..<degree + 1] \<rparr>"

definition random_polynomials_with_secret :: "(nat \<Rightarrow> 'f) \<Rightarrow> nat \<Rightarrow> 'f \<Rightarrow> 'f Polynomial" where
  "random_polynomials_with_secret draw degree secret =
    \<lparr> coefficients = (map draw [0..<degree + 1])[0 := secret] \<rparr>"

text \<open>\<open>from_seed\<close>: \<open>blake\<close> is the digest, \<open>draw seed\<close> the field element drawn from
  \<open>StdRng::from_seed(seed)\<close>; \<open>try_into\<close> a \<open>[u8; 32]\<close> fails on any other length.\<close>

datatype TryFromSliceError = TryFromSliceError

fun from_seed_loop ::
    "(bytes \<Rightarrow> bytes) \<Rightarrow> (bytes \<Rightarrow> 'f) \<Rightarrow> nat \<Rightarrow> bytes \<Rightarrow> 'f list \<Rightarrow> ('f list, TryFromSliceError) outcome"
  where
  "from_seed_loop blake draw 0 recent coeffs = Ok coeffs"
| "from_seed_loop blake draw (Suc n) recent coeffs =
    (let digest = blake recent in
     if length digest = 32 then from_seed_loop blake draw n digest (coeffs @ [draw digest])
     else Err TryFromSliceError)"

definition from_seed ::
    "(bytes \<Rightarrow> bytes) \<Rightarrow> (bytes \<Rightarrow> 'f) \<Rightarrow> bytes \<Rightarrow> nat \<Rightarrow> ('f Polynomial, TryFromSliceError) outcome" where
  "from_seed blake draw seed degree =
    assert_then (length seed = 32)
      (obind (from_seed_loop blake draw (degree + 1) seed []) (\<lambda>coeffs. Ok (from_coeffs coeffs)))"

definition eval :: "'f::field Polynomial \<Rightarrow> 'f \<Rightarrow> 'f" where
  "eval poly x = (\<Sum>(i, coeff)\<leftarrow>enumerate 0 (coefficients poly). x ^ i * coeff)"

text \<open>\<open>len() - 1\<close> wraps for an empty polynomial in a release build.\<close>

definition deg :: "'f Polynomial \<Rightarrow> nat" where
  "deg poly = sub_u64 (length (coefficients poly)) 1"

definition add_same_deg ::
    "'f::field Polynomial \<Rightarrow> 'f Polynomial \<Rightarrow> ('f Polynomial, 'e) outcome" where
  "add_same_deg poly other_polynomial =
    assert_then (deg poly = deg other_polynomial)
      (Ok \<lparr> coefficients =
        map (\<lambda>(a, b). b + a) (zip (coefficients poly) (coefficients other_polynomial)) \<rparr>)"

definition lagrange_basis_at_0 :: "nat \<Rightarrow> nat list \<Rightarrow> ('f::field, 'e) outcome" where
  "lagrange_basis_at_0 i indices =
    assert_then (i > 0)
      (ofold (\<lambda>acc j.
          if j \<noteq> i then
            (let denominator = of_nat j - of_nat i in
             if denominator = 0 then Panic else Ok (acc * of_nat j * inverse denominator))
          else Ok acc)
        1 indices)"

text \<open>Indexing a coefficient that is not there panics.\<close>

definition feldman_vss ::
    "('f::field, 'p::ab_group_add) curve \<Rightarrow> 'f Polynomial \<Rightarrow> (nat, 't) hashmap \<Rightarrow> nat \<Rightarrow>
      ((nat, 'f) hashmap \<times> 'p list, 'e) outcome" where
  "feldman_vss C poly nodes t =
    (let y = foldl (\<lambda>y (key, value). hm_or_insert key (eval poly (of_nat key)) y) [] nodes in
     obind (omap (\<lambda>j.
         if j < length (coefficients poly)
         then Ok (scalar_mul C (base_point_or_generator C) (coefficients poly ! j))
         else Panic) [0..<t]) (\<lambda>v. Ok (y, v)))"

text \<open>The exponent is a \<open>u128\<close> that wraps in a release build.\<close>

definition verify_vss_step ::
    "('f::field, 'p::ab_group_add) curve \<Rightarrow> nat \<Rightarrow> nat \<times> 'p \<Rightarrow> 'p \<Rightarrow> nat \<times> 'p" where
  "verify_vss_step C index s com =
    (let exp = as_u128 (fst s * index) in
     (exp, add_self (snd s) (scalar_mul C com (of_nat exp))))"

definition verify_vss ::
    "('f::field, 'p::ab_group_add) curve \<Rightarrow> nat \<Rightarrow> 'f \<Rightarrow> 'p list \<Rightarrow> (bool, 'e) outcome" where
  "verify_vss C index share checks =
    (case checks of
       [] \<Rightarrow> Panic
     | c0 # cop \<Rightarrow>
         let accum = snd (foldl (verify_vss_step C index) (1, c0) cop)
         in Ok (scalar_mul C (base_point_or_generator C) share = accum))"

section \<open>Evaluation\<close>

lemma eval_sum: "eval p x = (\<Sum>k<length (coefficients p). coefficients p ! k * x ^ k)"
proof -
  have "(\<Sum>(i, c)\<leftarrow>enumerate n cs. x ^ i * c) = (\<Sum>k<length cs. cs ! k * x ^ (n + k))"
    for n and cs :: "'a list"
    by (induction cs arbitrary: n)
      (simp_all add: sum.lessThan_Suc_shift mult.commute del: sum.lessThan_Suc)
  from this [of 0] show ?thesis
    by (simp add: eval_def)
qed

lemma eval_Nil [simp]: "eval \<lparr> coefficients = [] \<rparr> x = 0"
  by (simp add: eval_def)

lemma eval_Cons: "eval \<lparr> coefficients = c # cs \<rparr> x = c + x * eval \<lparr> coefficients = cs \<rparr> x"
  by (simp add: eval_sum sum.lessThan_Suc_shift sum_distrib_left ac_simps del: sum.lessThan_Suc)

lemma eval_at_0:
  "coefficients p \<noteq> [] \<Longrightarrow> eval p 0 = coefficients p ! 0"
  by (cases p; cases "coefficients p") (simp_all add: eval_Cons)

lemma add_same_deg_eval:
  assumes "length (coefficients p) = length (coefficients q)"
  shows "\<exists>r. add_same_deg p q = Ok r \<and> (\<forall>x. eval r x = eval p x + eval q x) \<and>
    length (coefficients r) = length (coefficients p)"
  using assms by (simp add: add_same_deg_def deg_def eval_sum sum.distrib [symmetric] algebra_simps)

lemma random_polynomials_with_secret_props:
  "length (coefficients (random_polynomials_with_secret draw d s)) = d + 1"
  "eval (random_polynomials_with_secret draw d s) 0 = s"
  by (simp_all add: random_polynomials_with_secret_def eval_at_0 nth_list_update del: upt_Suc)

text \<open>The sum of several polynomials of the same length.\<close>

definition sum_poly :: "nat \<Rightarrow> 'f::field Polynomial list \<Rightarrow> 'f Polynomial" where
  "sum_poly t ps = \<lparr> coefficients = map (\<lambda>k. \<Sum>p\<leftarrow>ps. coefficients p ! k) [0..<t] \<rparr>"

lemma sum_poly_eval:
  assumes "\<And>p. p \<in> set ps \<Longrightarrow> length (coefficients p) = t"
  shows "eval (sum_poly t ps) x = (\<Sum>p\<leftarrow>ps. eval p x)"
  using assms
proof (induction ps)
  case (Cons p ps)
  then have "eval (sum_poly t (p # ps)) x = eval p x + eval (sum_poly t ps) x"
    by (simp add: eval_sum sum_poly_def sum.distrib distrib_right)
  with Cons show ?case by simp
qed (simp add: sum_poly_def eval_sum)

section \<open>Polynomial functions\<close>

definition polyfun_lt :: "nat \<Rightarrow> ('f::field \<Rightarrow> 'f) \<Rightarrow> bool" where
  "polyfun_lt n f \<longleftrightarrow> (\<exists>c. \<forall>x. f x = (\<Sum>k<n. c k * x ^ k))"

lemma polyfun_lt_eval: "length (coefficients p) \<le> n \<Longrightarrow> polyfun_lt n (eval p)"
  unfolding polyfun_lt_def eval_sum
  by (intro exI [of _ "\<lambda>k. if k < length (coefficients p) then coefficients p ! k else 0"] allI,
      rule sum.mono_neutral_cong_left) auto

lemma polyfun_lt_const: "polyfun_lt 1 (\<lambda>x. a)"
  unfolding polyfun_lt_def by (intro exI [of _ "\<lambda>_. a"]) simp

lemma polyfun_lt_add:
  assumes "polyfun_lt n f" and "polyfun_lt n g"
  shows "polyfun_lt n (\<lambda>x. f x + g x)"
proof -
  from assms obtain c d where "\<forall>x. f x = (\<Sum>k<n. c k * x ^ k)" "\<forall>x. g x = (\<Sum>k<n. d k * x ^ k)"
    by (auto simp: polyfun_lt_def)
  then show ?thesis
    unfolding polyfun_lt_def
    by (intro exI [of _ "\<lambda>k. c k + d k"]) (simp add: sum.distrib algebra_simps)
qed

lemma polyfun_lt_scale: "polyfun_lt n f \<Longrightarrow> polyfun_lt n (\<lambda>x. a * f x)"
  unfolding polyfun_lt_def
  by (elim exE, rule_tac x = "\<lambda>k. a * c k" in exI) (simp add: sum_distrib_left ac_simps)

lemma polyfun_lt_linear:
  assumes "polyfun_lt n f"
  shows "polyfun_lt (Suc n) (\<lambda>x. (x - b) * f x)"
proof -
  from assms obtain c where c: "\<forall>x. f x = (\<Sum>k<n. c k * x ^ k)"
    by (auto simp: polyfun_lt_def)
  have up: "polyfun_lt (Suc n) (\<lambda>x. x * f x)"
    unfolding polyfun_lt_def
    by (intro exI [of _ "\<lambda>k. case k of 0 \<Rightarrow> 0 | Suc j \<Rightarrow> c j"])
      (simp add: c sum.lessThan_Suc_shift sum_distrib_left ac_simps del: sum.lessThan_Suc)
  have "polyfun_lt (Suc n) f"
    unfolding polyfun_lt_def by (intro exI [of _ "\<lambda>k. if k < n then c k else 0"]) (simp add: c)
  from polyfun_lt_add [OF up polyfun_lt_scale [OF this, of "- b"]] show ?thesis
    by (simp add: algebra_simps)
qed

lemma polyfun_lt_sum_list:
  "(\<And>i. i \<in> set is \<Longrightarrow> polyfun_lt n (f i)) \<Longrightarrow> polyfun_lt n (\<lambda>x. \<Sum>i\<leftarrow>is. f i x)"
  by (induction "is") (auto intro: polyfun_lt_add simp: polyfun_lt_def [of _ "\<lambda>x. 0"] exI [of _ "\<lambda>_. 0"])

lemma polyfun_lt_prod_list:
  "polyfun_lt (Suc (length js)) (\<lambda>x. \<Prod>j\<leftarrow>js. (x - b j) * a j)"
proof (induction js)
  case Nil
  then show ?case using polyfun_lt_const [of 1] by simp
next
  case (Cons j js)
  from polyfun_lt_scale [OF polyfun_lt_linear [OF Cons], of "a j" "b j"] show ?case
    by (simp add: ac_simps)
qed

lemma polyfun_lt_roots:
  assumes "polyfun_lt n f" and "finite S" "n \<le> card S" and "\<And>x. x \<in> S \<Longrightarrow> f x = 0"
  shows "f x = 0"
  using assms
proof (induction n arbitrary: f S x)
  case 0
  then show ?case by (auto simp: polyfun_lt_def)
next
  case (Suc m)
  from Suc.prems(3) obtain a where a: "a \<in> S" by fastforce
  from Suc.prems(1) obtain c where c: "\<And>x. f x = (\<Sum>k\<le>m. c k * x ^ k)"
    by (auto simp: polyfun_lt_def lessThan_Suc_atMost)
  from polyfun_linear_factor [of c m a]
  obtain b where b: "\<And>z. f z = (z - a) * (\<Sum>k<m. b k * z ^ k)"
    using c Suc.prems(4) [OF a] by auto
  have "(\<Sum>k<m. b k * z ^ k) = 0" for z
  proof (rule Suc.IH [of "\<lambda>z. \<Sum>k<m. b k * z ^ k" "S - {a}"])
    show "m \<le> card (S - {a})" using Suc.prems(2,3) a by simp
    show "(\<Sum>k<m. b k * y ^ k) = 0" if "y \<in> S - {a}" for y
      using Suc.prems(4) [of y] that b [of y] by simp
  qed (use Suc.prems in \<open>auto simp: polyfun_lt_def\<close>)
  with b show ?case by simp
qed

section \<open>Lagrange interpolation\<close>

text \<open>The closed form of the coefficient; a set of indices is usable when they are positive,
  distinct, and distinct as field elements.\<close>

definition lagrange_coeff :: "nat \<Rightarrow> nat list \<Rightarrow> 'f::field" where
  "lagrange_coeff i indices = (\<Prod>j\<leftarrow>filter (\<lambda>j. j \<noteq> i) indices. of_nat j * inverse (of_nat j - of_nat i))"

definition indices_ok :: "'f::field itself \<Rightarrow> nat list \<Rightarrow> bool" where
  "indices_ok F indices \<longleftrightarrow> distinct indices \<and> 0 \<notin> set indices \<and>
    inj_on (of_nat :: nat \<Rightarrow> 'f) (set indices)"

lemma lagrange_fold:
  fixes acc :: "'f::field"
  assumes "\<And>j. \<lbrakk>j \<in> set js; j \<noteq> i\<rbrakk> \<Longrightarrow> (of_nat j :: 'f) \<noteq> of_nat i"
  shows "ofold (\<lambda>acc j.
          if j \<noteq> i then
            (let denominator = of_nat j - of_nat i in
             if denominator = 0 then Panic else Ok (acc * of_nat j * inverse denominator))
          else Ok acc) acc js = Ok (acc * lagrange_coeff i js)"
  using assms
  by (induction js arbitrary: acc) (auto simp: lagrange_coeff_def Let_def mult.assoc)

lemma lagrange_basis_at_0_Ok:
  assumes "indices_ok TYPE('f::field) indices" and "i \<in> set indices"
  shows "lagrange_basis_at_0 i indices = Ok (lagrange_coeff i indices :: 'f)"
proof -
  from assms have "0 < i" by (auto simp: indices_ok_def intro: gr0I)
  moreover from assms have "(of_nat j :: 'f) \<noteq> of_nat i" if "j \<in> set indices" "j \<noteq> i" for j
    using that by (auto simp: indices_ok_def inj_on_def)
  ultimately show ?thesis
    using lagrange_fold [of indices i "1 :: 'f"] by (simp add: lagrange_basis_at_0_def assert_then_def)
qed

text \<open>The basis polynomial as a function; its value at zero is the coefficient above.\<close>

definition lagrange_fun :: "nat \<Rightarrow> nat list \<Rightarrow> 'f::field \<Rightarrow> 'f" where
  "lagrange_fun i idx x =
    (\<Prod>j\<leftarrow>filter (\<lambda>j. j \<noteq> i) idx. (x - of_nat j) * inverse (of_nat i - of_nat j))"

lemma lagrange_fun_0: "lagrange_fun i idx 0 = lagrange_coeff i idx"
  unfolding lagrange_fun_def lagrange_coeff_def
  by (rule arg_cong [where f = prod_list], rule map_cong [OF refl])
    (metis diff_0 inverse_minus_eq minus_diff_eq minus_mult_minus)

lemma lagrange_fun_at:
  fixes idx :: "nat list"
  assumes "inj_on (of_nat :: nat \<Rightarrow> 'f::field) (set idx)" and "i \<in> set idx" "k \<in> set idx"
  shows "lagrange_fun i idx (of_nat k :: 'f) = (if i = k then 1 else 0)"
proof (cases "i = k")
  case True
  have "(of_nat i - of_nat j) * inverse (of_nat i - of_nat j) = (1 :: 'f)"
    if "j \<in> set idx" "j \<noteq> i" for j
    using that assms by (simp add: inj_on_eq_iff)
  then have "lagrange_fun i idx (of_nat i :: 'f) = (\<Prod>j\<leftarrow>filter (\<lambda>j. j \<noteq> i) idx. 1)"
    unfolding lagrange_fun_def by (intro arg_cong [where f = prod_list] map_cong) auto
  with True show ?thesis by (simp add: map_replicate_const)
next
  case False
  with assms show ?thesis by (auto simp: lagrange_fun_def prod_list_zero_iff)
qed

lemma length_filter_neq:
  "\<lbrakk>distinct xs; i \<in> set xs\<rbrakk> \<Longrightarrow> Suc (length (filter (\<lambda>j. j \<noteq> i) xs)) = length xs"
  using length_remove1 [of i xs] distinct_remove1_removeAll [of xs i]
  by (cases xs) (auto simp: removeAll_filter_not_eq eq_commute)

lemma lagrange_fun_polyfun:
  assumes "distinct idx" and "i \<in> set idx"
  shows "polyfun_lt (length idx) (lagrange_fun i idx)"
  using polyfun_lt_prod_list [of "filter (\<lambda>j. j \<noteq> i) idx" of_nat "\<lambda>j. inverse (of_nat i - of_nat j)"]
  by (simp add: length_filter_neq [OF assms] lagrange_fun_def [abs_def])

lemma lagrange_interpolation:
  fixes p :: "'f::field Polynomial"
  assumes ok: "indices_ok TYPE('f) idx" and len: "length (coefficients p) \<le> length idx"
  shows "(\<Sum>i\<leftarrow>idx. lagrange_coeff i idx * eval p (of_nat i)) = eval p 0"
proof -
  define g where "g x = (\<Sum>i\<leftarrow>idx. eval p (of_nat i) * lagrange_fun i idx x)" for x :: 'f
  from ok have d: "distinct idx" and inj: "inj_on (of_nat :: nat \<Rightarrow> 'f) (set idx)"
    by (auto simp: indices_ok_def)
  from d have "polyfun_lt (length idx) g"
    unfolding g_def by (intro polyfun_lt_sum_list polyfun_lt_scale lagrange_fun_polyfun)
  from polyfun_lt_add [OF this polyfun_lt_scale [OF polyfun_lt_eval [OF len], of "- 1"]]
  have "polyfun_lt (length idx) (\<lambda>x. g x - eval p x)" by simp
  moreover have "g (of_nat k) = eval p (of_nat k)" if "k \<in> set idx" for k
  proof -
    have "g (of_nat k) = (\<Sum>i\<leftarrow>idx. if i = k then eval p (of_nat k) else 0)"
      unfolding g_def using that lagrange_fun_at [OF inj]
      by (intro arg_cong [where f = sum_list] map_cong) auto
    also have "\<dots> = eval p (of_nat k)"
      using d that by (simp add: sum_list_map_eq_sum_count2 sum_list_distinct_conv_sum_set)
    finally show ?thesis .
  qed
  ultimately have "g 0 - eval p 0 = 0"
    using polyfun_lt_roots [of "length idx" "\<lambda>x. g x - eval p x" "of_nat ` set idx" 0] d inj
    by (auto simp: card_image distinct_card)
  then show ?thesis by (simp add: g_def lagrange_fun_0 mult.commute)
qed

section \<open>The sharing interface\<close>

text \<open>What the protocols rely on: shares of a secret recombine linearly, with computable
  weights, over any usable set of at least \<open>size_of\<close> indices.\<close>

locale linear_sharing =
  fixes share_of :: "'s \<Rightarrow> nat \<Rightarrow> 'f::field"
    and secret_of :: "'s \<Rightarrow> 'f"
    and size_of :: "'s \<Rightarrow> nat"
    and weight :: "nat \<Rightarrow> nat list \<Rightarrow> ('f, 'e) outcome"
    and coeff :: "nat \<Rightarrow> nat list \<Rightarrow> 'f"
    and usable :: "nat list \<Rightarrow> bool"
  assumes weight_ok: "\<lbrakk>usable idx; i \<in> set idx\<rbrakk> \<Longrightarrow> weight i idx = Ok (coeff i idx)"
    and recombine: "\<lbrakk>usable idx; size_of s \<le> length idx\<rbrakk> \<Longrightarrow>
      (\<Sum>i\<leftarrow>idx. coeff i idx * share_of s i) = secret_of s"
begin

lemma recombine_points:
  fixes C :: "('f, 'p::ab_group_add) curve"
  assumes "curve_laws C" and "usable idx" "size_of s \<le> length idx"
  shows "(\<Sum>i\<leftarrow>idx. scalar_mul C (scalar_mul C P (share_of s i)) (coeff i idx)) =
    scalar_mul C P (secret_of s)"
proof -
  have "(\<Sum>i\<leftarrow>idx. scalar_mul C (scalar_mul C P (share_of s i)) (coeff i idx)) =
      scalar_mul C P (\<Sum>i\<leftarrow>idx. coeff i idx * share_of s i)"
    using assms(1) by (simp add: scalar_mul_sum_list scalar_mul_mul mult.commute)
  also have "\<dots> = scalar_mul C P (secret_of s)"
    using recombine [OF assms(2,3)] by simp
  finally show ?thesis .
qed

lemma weighted_loop:
  fixes C :: "('f, 'p::ab_group_add) curve"
  assumes "usable idx" and "set js \<subseteq> set idx" and "length pts = length js"
  shows "ofold (\<lambda>result (pt, i). obind (weight i idx) (\<lambda>w. Ok (add_self result (scalar_mul C pt w))))
      r (zip pts js) = Ok (r + (\<Sum>(pt, i)\<leftarrow>zip pts js. scalar_mul C pt (coeff i idx)))"
  using assms(3,2)
proof (induction pts js arbitrary: r rule: list_induct2)
  case (Cons pt pts j js)
  then show ?case using weight_ok [OF assms(1), of j] by (simp add: add.assoc)
qed simp

lemma recombine_loop:
  fixes C :: "('f, 'p::ab_group_add) curve"
  assumes "curve_laws C" and "usable idx" "size_of s \<le> length idx"
    and "pts = map (\<lambda>i. scalar_mul C P (share_of s i)) idx"
  shows "ofold (\<lambda>result (pt, i). obind (weight i idx) (\<lambda>w. Ok (add_self result (scalar_mul C pt w))))
      0 (zip pts idx) = Ok (scalar_mul C P (secret_of s))"
proof -
  have zip: "zip pts idx = map (\<lambda>i. (scalar_mul C P (share_of s i), i)) idx"
    by (simp add: assms(4) zip_map1 zip_same_conv_map)
  have "length pts = length idx" by (simp add: assms(4))
  from weighted_loop [OF assms(2) order_refl this, of C 0] recombine_points [OF assms(1-3), of P]
  show ?thesis by (simp only: zip) (simp add: o_def)
qed

end

interpretation shamir: linear_sharing
  "\<lambda>(p :: 'f::field Polynomial) i. eval p (of_nat i)" "\<lambda>p. eval p 0" "\<lambda>p. length (coefficients p)"
  lagrange_basis_at_0 lagrange_coeff "indices_ok TYPE('f::field)"
  by unfold_locales (simp_all add: lagrange_basis_at_0_Ok lagrange_interpolation)

section \<open>Feldman's scheme\<close>

lemma feldman_vss_Ok:
  fixes C :: "('f::field, 'p::ab_group_add) curve"
  assumes "t \<le> length (coefficients p)"
  shows "feldman_vss C p nodes t =
    (Ok (foldl (\<lambda>y (key, value). hm_or_insert key (eval p (of_nat key)) y) [] nodes,
      map (\<lambda>j. scalar_mul C (base_point_or_generator C) (coefficients p ! j)) [0..<t]) ::
      ((nat, 'f) hashmap \<times> 'p list, 'e) outcome)"
proof -
  from assms have "omap (\<lambda>j. if j < length (coefficients p)
      then Ok (scalar_mul C (base_point_or_generator C) (coefficients p ! j)) else Panic) [0..<t] =
    (Ok (map (\<lambda>j. scalar_mul C (base_point_or_generator C) (coefficients p ! j)) [0..<t]) ::
      ('p list, 'e) outcome)"
    by (intro omap_total) auto
  then show ?thesis by (simp add: feldman_vss_def Let_def)
qed

lemma feldman_vss_shares:
  fixes nodes :: "(nat, 't) hashmap" and p :: "'f::field Polynomial"
  assumes "hm_wf nodes" and "feldman_vss C p nodes t = Ok (y, v)"
  shows "y = map (\<lambda>(key, value). (key, eval p (of_nat key))) nodes"
proof -
  have "foldl (\<lambda>y (key, value). hm_or_insert key (eval p (of_nat key)) y) acc ns =
      acc @ map (\<lambda>(key, value). (key, eval p (of_nat key))) ns"
    if "distinct (map fst acc @ map fst ns)" for acc :: "(nat, 'f) hashmap" and ns :: "(nat, 't) hashmap"
    using that
  proof (induction ns arbitrary: acc)
    case (Cons n ns)
    obtain k v where "n = (k, v)" by fastforce
    with Cons.prems Cons.IH [of "acc @ [(k, eval p (of_nat k))]"] show ?case
      by (simp add: hm_or_insert_def hm_contains_def hm_keys_def)
  qed simp
  from this [of "[]" nodes] assms show ?thesis
    by (auto simp: feldman_vss_def Let_def obind_eq_Ok hm_wf_def)
qed

lemma feldman_vss_wf:
  assumes "hm_wf nodes" and "t \<le> length (coefficients p)"
  shows "feldman_vss C p nodes t =
    Ok (map (\<lambda>(key, value). (key, eval p (of_nat key))) nodes,
      map (\<lambda>j. scalar_mul C (base_point_or_generator C) (coefficients p ! j)) [0..<t])"
  using feldman_vss_Ok [OF assms(2), of C nodes]
    feldman_vss_shares [OF assms(1) feldman_vss_Ok [OF assms(2)]] by simp

lemma verify_vss_fold:
  "snd (foldl (verify_vss_step C index) (as_u128 e, acc) cop) =
    acc + (\<Sum>k<length cop. scalar_mul C (cop ! k) (of_nat (as_u128 (e * index ^ Suc k))))"
proof (induction cop arbitrary: e acc)
  case (Cons c cop)
  have "as_u128 (as_u128 e * index) = as_u128 (e * index)"
    by (simp add: as_u128_def mod_mult_left_eq)
  with Cons.IH [of "e * index"] show ?case
    by (simp add: verify_vss_step_def Let_def sum.lessThan_Suc_shift add.assoc mult.assoc
        del: sum.lessThan_Suc)
qed simp

text \<open>The exact check: powers of the index are taken modulo \<open>2 ^ 128\<close>.\<close>

lemma verify_vss_exact:
  assumes "curve_laws C" and "checks \<noteq> []"
  shows "verify_vss C index share checks =
    Ok (scalar_mul C (base_point_or_generator C) share =
        (\<Sum>k<length checks. scalar_mul C (checks ! k) (of_nat (as_u128 (index ^ k)))))"
proof -
  obtain c0 cop where c: "checks = c0 # cop" using assms(2) by (cases checks) auto
  have one: "as_u128 1 = 1" by simp
  from verify_vss_fold [of C index 1 c0 cop] c assms(1) show ?thesis
    by (simp add: verify_vss_def Let_def one sum.lessThan_Suc_shift smul_simps del: sum.lessThan_Suc)
qed

lemma power_bound:
  assumes "(index :: nat) ^ m < b" and "k \<le> m" and "1 < b"
  shows "index ^ k < b"
proof (cases "index = 0")
  case True
  with assms show ?thesis by (cases k) auto
next
  case False
  with assms(2) have "index ^ k \<le> index ^ m" by (intro power_increasing) auto
  with assms(1) show ?thesis by simp
qed

lemma verify_vss_eq:
  fixes C :: "('f::field, 'p::ab_group_add) curve"
  assumes "curve_laws C" and "checks \<noteq> []" and "index ^ (length checks - 1) < 2 ^ 128"
  shows "verify_vss C index share checks =
    Ok (scalar_mul C (base_point_or_generator C) share =
        (\<Sum>k<length checks. scalar_mul C (checks ! k) (of_nat index ^ k)))"
proof -
  have "as_u128 (index ^ k) = index ^ k" if "k < length checks" for k
    using power_bound [OF assms(3), of k] that by (simp add: as_u128_def)
  then have "(\<Sum>k<length checks. scalar_mul C (checks ! k) (of_nat (as_u128 (index ^ k)))) =
      (\<Sum>k<length checks. scalar_mul C (checks ! k) (of_nat index ^ k))"
    by (intro sum.cong) simp_all
  then show ?thesis
    by (simp add: verify_vss_exact [OF assms(1,2)])
qed

lemma verify_vss_commitment:
  fixes C :: "('f::field, 'p::ab_group_add) curve"
  assumes "curve_laws C" and "base_point_or_generator C \<noteq> 0" and "coefficients p \<noteq> []"
    and "checks = map (\<lambda>j. scalar_mul C (base_point_or_generator C) (coefficients p ! j))
      [0..<length (coefficients p)]"
    and "index ^ (length (coefficients p) - 1) < 2 ^ 128"
  shows "verify_vss C index share checks = Ok (share = eval p (of_nat index))"
proof -
  let ?G = "base_point_or_generator C"
  have "(\<Sum>k<length checks. scalar_mul C (checks ! k) (of_nat index ^ k)) =
      (\<Sum>k\<leftarrow>[0..<length (coefficients p)]. scalar_mul C ?G (coefficients p ! k * of_nat index ^ k))"
    using assms(1,4)
    by (simp add: smul_simps sum_list_distinct_conv_sum_set atLeast0LessThan)
  also have "\<dots> = scalar_mul C ?G (eval p (of_nat index))"
    using assms(1)
    by (simp add: scalar_mul_sum_list [symmetric] eval_sum sum_list_distinct_conv_sum_set
        atLeast0LessThan)
  finally have "(\<Sum>k<length checks. scalar_mul C (checks ! k) (of_nat index ^ k)) =
    scalar_mul C ?G (eval p (of_nat index))" .
  with verify_vss_eq [of C checks index share] assms show ?thesis
    by (simp add: scalar_mul_cancel)
qed

lemma from_seed_fails:
  assumes "\<And>m. length (blake m) \<noteq> 32" and "length seed = 32"
  shows "from_seed blake draw seed degree = Err TryFromSliceError"
  using assms by (simp add: from_seed_def assert_then_def Let_def)

end
