(* ===== verification/Dkg.thy ===== *)
theory Dkg
  imports Polynomials
begin

text \<open>
  Distributed key generation (\<open>cryptography/src/dkg.rs\<close>): the network and node records, the three
  rounds, and the run of the three rounds among honest nodes. RSA comes from the crate \<open>rsa\<close> and
  is the record \<open>rsa\<close>; random values are arguments; log lines are left out.
\<close>

section \<open>Data\<close>

datatype ResharingError =
    RS_RsaError string
  | RS_KeyGenerationFailed string
  | RS_PublicKeyVerificationFailed
  | RS_Other string

datatype DKGError =
    DKG_RsaError string
  | DKG_KeyGenerationFailed string
  | DKG_PublicKeyVerificationFailed
  | DKG_Other string
  | DKG_ResharingError ResharingError

text \<open>\<open>encrypt\<close> takes the randomness of the padding; errors carry the crate's message.\<close>

record ('pk, 'sk) rsa =
  encrypt :: "'pk \<Rightarrow> nat \<Rightarrow> bytes \<Rightarrow> (bytes, string) outcome"
  decrypt :: "'sk \<Rightarrow> bytes \<Rightarrow> (bytes, string) outcome"
  public_of :: "'sk \<Rightarrow> 'pk"
  generate :: "nat \<Rightarrow> nat \<Rightarrow> ('sk, string) outcome"

text \<open>Documented behaviour: a message of at most 40 bytes fits a 2048-bit modulus, and
  decryption inverts encryption.\<close>

definition rsa_laws :: "('pk, 'sk) rsa \<Rightarrow> bool" where
  "rsa_laws R \<longleftrightarrow>
    (\<forall>sk r m. length m \<le> 40 \<longrightarrow>
      (\<exists>ct. encrypt R (public_of R sk) r m = Ok ct \<and> decrypt R sk ct = Ok m))"

record ('f, 'p, 'pk, 'sk) Node =
  node_id :: nat
  rsa_pubkey :: 'pk
  rsa_seckey :: 'sk
  init_pub_share :: 'p
  private_share :: 'f
  network_pubkey :: 'p
  own_partial_share :: 'f

record 'pk Network =
  net_threshold :: nat
  total_nodes :: nat
  public_keys :: "(nat, 'pk) hashmap"

section \<open>Construction\<close>

definition Network_new :: "nat \<Rightarrow> nat \<Rightarrow> bool \<Rightarrow> ('pk Network, Error) outcome" where
  "Network_new t n is_tstar =
    (let invalid = (if is_tstar then t > n \<or> n < 2 \<or> t = 0 else t \<ge> n \<or> n \<le> 2 \<or> t = 0) in
     if invalid then
       Err (Other (''Invalid parameters for '' @ (if is_tstar then ''tstar'' else ''new'') @
         '' network. t='' @ dec t @ '', n='' @ dec n))
     else Ok \<lparr> net_threshold = t, total_nodes = n, public_keys = [] \<rparr>)"

definition add_node :: "'pk Network \<Rightarrow> ('f, 'p, 'pk, 'sk) Node \<Rightarrow> 'pk Network" where
  "add_node network no =
    network \<lparr> public_keys := hm_or_insert (node_id no) (rsa_pubkey no) (public_keys network) \<rparr>"

text \<open>The two random field elements of a fresh node are \<open>rnd 0\<close> and \<open>rnd 1\<close>.\<close>

definition with_rsa_key ::
    "('pk, 'sk) rsa \<Rightarrow> (nat \<Rightarrow> 'f) \<Rightarrow> nat \<Rightarrow> 'sk \<Rightarrow>
      (('f, 'p::ab_group_add, 'pk, 'sk) Node, DKGError) outcome" where
  "with_rsa_key R rnd i seckey =
    Ok \<lparr> node_id = i, rsa_pubkey = public_of R seckey, rsa_seckey = seckey, init_pub_share = ZERO,
         private_share = rnd 0, network_pubkey = ZERO, own_partial_share = rnd 1 \<rparr>"

definition Node_new ::
    "('pk, 'sk) rsa \<Rightarrow> nat \<Rightarrow> (nat \<Rightarrow> 'f) \<Rightarrow> nat \<Rightarrow>
      (('f, 'p::ab_group_add, 'pk, 'sk) Node, DKGError) outcome" where
  "Node_new R seed rnd i =
    obind (map_err (\<lambda>_. DKG_KeyGenerationFailed ''RSA secret key for  node'') (generate R seed 2048))
      (\<lambda>seckey.
        Ok \<lparr> node_id = i, rsa_pubkey = public_of R seckey, rsa_seckey = seckey, init_pub_share = ZERO,
             private_share = rnd 0, network_pubkey = ZERO, own_partial_share = rnd 1 \<rparr>)"

definition with_rsa_key_and_keyshare ::
    "('pk, 'sk) rsa \<Rightarrow> ('f, 'p::ab_group_add) curve \<Rightarrow> (nat \<Rightarrow> 'f) \<Rightarrow> nat \<Rightarrow> 'sk \<Rightarrow> bytes \<Rightarrow> bytes \<Rightarrow>
      (('f, 'p, 'pk, 'sk) Node, DKGError) outcome" where
  "with_rsa_key_and_keyshare R C rnd i seckey keyshare network_pk =
    obind (unwrap (scalar_from_bytes C keyshare)) (\<lambda>keyshare_data.
    obind (map_err (\<lambda>e. DKG_Other (''Failed to restore network_pub key '' @ show_Error e))
             (from_encoded C network_pk)) (\<lambda>npk.
    Ok \<lparr> node_id = i, rsa_pubkey = public_of R seckey, rsa_seckey = seckey, init_pub_share = ZERO,
         private_share = keyshare_data, network_pubkey = npk, own_partial_share = rnd 0 \<rparr>))"

section \<open>Steps the rounds share\<close>

text \<open>The rounds of resharing repeat these steps of the rounds of key generation with their own
  error type: \<open>rsaE\<close> and \<open>otherE\<close> are the error constructors.\<close>

definition encrypt_shares ::
    "(string \<Rightarrow> 'e) \<Rightarrow> (string \<Rightarrow> 'e) \<Rightarrow> ('pk, 'sk) rsa \<Rightarrow> ('f, 'p) curve \<Rightarrow> (nat \<Rightarrow> nat) \<Rightarrow>
      (nat, 'f) hashmap \<Rightarrow> (nat, 'pk) hashmap \<Rightarrow> ((nat, bytes) hashmap, 'e) outcome" where
  "encrypt_shares rsaE otherE R C nonce y keys =
    ofold (\<lambda>y_ct (key, pk).
        obind (ok_or (otherE (''Computed Polynomial not found for '' @ dec key)) (hm_get key y)) (\<lambda>s.
        obind (map_err (\<lambda>e. rsaE (''Failed to encrypt the y_i: '' @ e))
                 (encrypt R pk (nonce key) (field_to_repr C s))) (\<lambda>ct.
        Ok (hm_insert key ct y_ct))))
      [] keys"

definition decrypt_shares ::
    "(string \<Rightarrow> 'e) \<Rightarrow> (string \<Rightarrow> 'e) \<Rightarrow> ('pk, 'sk) rsa \<Rightarrow> ('f, 'p) curve \<Rightarrow> 'sk \<Rightarrow>
      (nat, bytes) hashmap \<Rightarrow> ((nat, 'f) hashmap, 'e) outcome" where
  "decrypt_shares rsaE otherE R C seckey input_y =
    ofold (\<lambda>y (key, value).
        obind (map_err (\<lambda>_. rsaE ''Failed to Decrypt the encrypted value'') (decrypt R seckey value)) (\<lambda>m.
        obind (map_err (\<lambda>_. otherE ''Failed to convert to Scalar'')
                 (from_biguint_vartime C (from_bytes_be m))) (\<lambda>c.
        Ok (hm_or_insert key c y))))
      [] input_y"

definition verify_shares ::
    "(string \<Rightarrow> 'e) \<Rightarrow> ('f::field, 'p::ab_group_add) curve \<Rightarrow> nat \<Rightarrow> (nat, 'f) hashmap \<Rightarrow>
      (nat, 'p list) hashmap \<Rightarrow> (unit, 'e) outcome" where
  "verify_shares otherE C self_id y input_v =
    ofold (\<lambda>u (key, value).
        obind (ok_or (otherE ''Eval not found'') (hm_get key y)) (\<lambda>share.
        case hm_get key input_v of
          Some checks \<Rightarrow>
            obind (verify_vss C self_id share checks) (\<lambda>valid.
            if valid then Ok () else Err (otherE ''VSS not verified - step 9''))
        | None \<Rightarrow> Err (otherE ''Input VSS value not found'')))
      () y"

text \<open>\<open>values().fold(start, |acc, x| acc.add_self(&x[0]))\<close>: the index panics on an empty list.\<close>

definition sum_first_commitments ::
    "'p::ab_group_add \<Rightarrow> (nat, 'p list) hashmap \<Rightarrow> ('p, 'e) outcome" where
  "sum_first_commitments start input_v =
    ofold (\<lambda>acc x. case x of [] \<Rightarrow> Panic | x0 # _ \<Rightarrow> Ok (add_self acc x0)) start (hm_values input_v)"

definition interpolate_keys ::
    "(string \<Rightarrow> 'e) \<Rightarrow> ('f::field, 'p::ab_group_add) curve \<Rightarrow> (nat, 'pk) hashmap \<Rightarrow>
      (nat, 'p) hashmap \<Rightarrow> ('p, 'e) outcome" where
  "interpolate_keys otherE C keys Kj =
    (let indices = map as_u32 (hm_keys keys) in
     obind (ofold (\<lambda>acc key.
         obind (lagrange_basis_at_0 (as_u32 key) indices) (\<lambda>l. Ok (hm_or_insert key l acc)))
       [] (hm_keys keys)) (\<lambda>lambda.
     ofold (\<lambda>acc (key, value).
         obind (ok_or (otherE ''Key not found'') (hm_get key Kj)) (\<lambda>K_j.
         Ok (add_self acc (scalar_mul C K_j value))))
       ZERO lambda))"

section \<open>The rounds\<close>

text \<open>With a threshold of 0 the degree wraps to \<open>usize::MAX\<close> and the assignment to
  \<open>coeffs[0]\<close> of the empty vector panics.\<close>

definition dkg_round_1 ::
    "('pk, 'sk) rsa \<Rightarrow> ('f::field, 'p::ab_group_add) curve \<Rightarrow> 'f \<Rightarrow> (nat \<Rightarrow> 'f) \<Rightarrow> (nat \<Rightarrow> nat) \<Rightarrow>
      ('f, 'p, 'pk, 'sk) Node \<Rightarrow> 'pk Network \<Rightarrow>
      ((nat, bytes) hashmap \<times> 'p list \<times> 'f, DKGError) outcome" where
  "dkg_round_1 R C ai0 draw nonce self network =
    (if net_threshold network = 0 then Panic else
     let fi = random_polynomials_with_secret draw (net_threshold network - 1) ai0 in
     obind (feldman_vss C fi (public_keys network) (net_threshold network)) (\<lambda>(y, v).
     obind (encrypt_shares DKG_RsaError DKG_Other R C nonce y
              (filter (\<lambda>(key, _). key \<noteq> node_id self) (public_keys network))) (\<lambda>y_ct.
     obind (ok_or (DKG_Other (''Computed Polynomial not found for '' @ dec (node_id self)))
              (hm_get (node_id self) y)) (\<lambda>yii.
     Ok (y_ct, v, yii)))))"

definition dkg_round_2 ::
    "('pk, 'sk) rsa \<Rightarrow> ('f::field, 'p::ab_group_add) curve \<Rightarrow> ('f, 'p, 'pk, 'sk) Node \<Rightarrow> 'pk Network \<Rightarrow>
      (nat, bytes) hashmap \<Rightarrow> (nat, 'p list) hashmap \<Rightarrow> ('f \<times> 'p \<times> 'p, DKGError) outcome" where
  "dkg_round_2 R C self network input_y input_v =
    assert_then (length input_v = sub_u64 (total_nodes network) 1 \<and>
                 length input_y = sub_u64 (total_nodes network) 1)
    (assert_then (\<forall>j \<in> set (hm_values input_v). length j = net_threshold network)
    (obind (decrypt_shares DKG_RsaError DKG_Other R C (rsa_seckey self) input_y) (\<lambda>y.
     obind (verify_shares DKG_Other C (node_id self) y input_v) (\<lambda>_.
     obind (sum_first_commitments (init_pub_share self) input_v) (\<lambda>K.
     let ki = foldl (\<lambda>acc x. acc + x) (own_partial_share self) (hm_values y);
         Ki = scalar_mul C (base_point_or_generator C) ki
     in Ok (ki, Ki, K))))))"

definition dkg_round_3 ::
    "('f::field, 'p::ab_group_add) curve \<Rightarrow> ('f, 'p, 'pk, 'sk) Node \<Rightarrow> 'pk Network \<Rightarrow>
      (nat, 'p) hashmap \<Rightarrow> ('p, DKGError) outcome" where
  "dkg_round_3 C self network Kj =
    assert_then (length Kj = total_nodes network)
    (obind (interpolate_keys DKG_Other C (public_keys network) Kj) (\<lambda>res.
     assert_then (res = network_pubkey self) (Ok res)))"

section \<open>The shared steps on honest data\<close>

lemma encrypt_shares_Ok:
  assumes "distinct (map fst keys)"
    and "\<And>k pk. (k, pk) \<in> set keys \<Longrightarrow>
      hm_get k y = Some (s k) \<and> is_ok (encrypt R pk (nonce k) (field_to_repr C (s k)))"
  shows "encrypt_shares rsaE otherE R C nonce y keys =
    Ok (map (\<lambda>x. (fst x, the_ok (encrypt R (snd x) (nonce (fst x)) (field_to_repr C (s (fst x)))))) keys)"
  unfolding encrypt_shares_def
  using assms by (intro ofold_build) (force simp: is_ok_iff split: prod.split)+

lemma decrypt_shares_Ok:
  assumes "distinct (map fst input_y)"
    and "\<And>k ct. (k, ct) \<in> set input_y \<Longrightarrow>
      \<exists>m. decrypt R sk ct = Ok m \<and> from_biguint_vartime C (from_bytes_be m) = Ok (s k)"
  shows "decrypt_shares rsaE otherE R C sk input_y = Ok (map (\<lambda>x. (fst x, s (fst x))) input_y)"
  unfolding decrypt_shares_def using assms by (intro ofold_build) (force split: prod.split)+

lemma verify_shares_Ok:
  assumes "distinct (map fst y)"
    and "\<And>k s. (k, s) \<in> set y \<Longrightarrow>
      \<exists>chk. hm_get k input_v = Some chk \<and> verify_vss C i s chk = (Ok True :: (bool, 'e) outcome)"
  shows "verify_shares (otherE :: string \<Rightarrow> 'e) C i y input_v = Ok ()"
proof -
  have "ofold (\<lambda>u (key, value).
        obind (ok_or (otherE ''Eval not found'') (hm_get key y)) (\<lambda>share.
        case hm_get key input_v of
          Some checks \<Rightarrow>
            obind (verify_vss C i share checks) (\<lambda>valid.
            if valid then Ok () else Err (otherE ''VSS not verified - step 9''))
        | None \<Rightarrow> Err (otherE ''Input VSS value not found''))) u ys = Ok ()"
    if "set ys \<subseteq> set y" for u ys
    using that
  proof (induction ys arbitrary: u)
    case (Cons x ys)
    obtain k v where x: "x = (k, v)" by fastforce
    with Cons.prems assms(1) have "hm_get k y = Some v" by (simp add: hm_get_def)
    with x Cons assms(2) [of k v] show ?case by auto
  qed simp
  then show ?thesis by (simp add: verify_shares_def)
qed

lemma verify_shares_fails:
  assumes "(k, s) \<in> set y" and "distinct (map fst y)"
    and "hm_get k input_v = Some chk" and "verify_vss C i s chk = (Ok False :: (bool, 'e) outcome)"
  shows "verify_shares (otherE :: string \<Rightarrow> 'e) C i y input_v \<noteq> Ok u"
proof
  assume "verify_shares otherE C i y input_v = Ok u"
  from ofold_Ok_step [OF this [unfolded verify_shares_def] assms(1)] assms
  show False by (auto simp: hm_get_def obind_eq_Ok map_of_eq_Some_iff)
qed

lemma sum_first_commitments_Ok:
  assumes "\<And>k c. (k, c) \<in> set input_v \<Longrightarrow> c \<noteq> []"
  shows "sum_first_commitments start input_v = Ok (start + (\<Sum>c\<leftarrow>hm_values input_v. hd c))"
proof -
  have "sum_first_commitments start input_v = Ok (foldl (\<lambda>acc c. acc + hd c) start (hm_values input_v))"
    unfolding sum_first_commitments_def
    using assms by (intro ofold_total) (auto simp: hm_values_def split: list.split)
  then show ?thesis by (simp add: foldl_plus)
qed

lemma interpolate_lambda:
  fixes idx :: "nat list"
  assumes "indices_ok TYPE('f::field) idx" and "\<And>k. k \<in> set idx \<Longrightarrow> k < 2 ^ 32"
  shows "ofold (\<lambda>acc key.
         obind (lagrange_basis_at_0 (as_u32 key) idx) (\<lambda>l. Ok (hm_or_insert key l acc)))
       [] idx = Ok (map (\<lambda>k. (k, lagrange_coeff k idx :: 'f)) idx)"
  using assms
  by (intro ofold_build [where key = "\<lambda>k. k"]) (simp_all add: lagrange_basis_at_0_Ok indices_ok_def)

lemma interpolate_keys_Ok:
  fixes C :: "('f::field, 'p::ab_group_add) curve"
  assumes laws: "curve_laws C" and ok: "indices_ok TYPE('f) (hm_keys keys)"
    and small: "\<And>k. k \<in> set (hm_keys keys) \<Longrightarrow> k < 2 ^ 32"
    and Kj: "\<And>k. k \<in> set (hm_keys keys) \<Longrightarrow> hm_get k Kj = Some (scalar_mul C P (eval F (of_nat k)))"
    and len: "length (coefficients F) \<le> length keys"
  shows "interpolate_keys otherE C keys Kj = Ok (scalar_mul C P (eval F 0))"
proof -
  let ?idx = "hm_keys keys"
  have idx: "map as_u32 ?idx = ?idx" using small by (simp add: map_idI)
  have "ofold (\<lambda>acc (key, value).
         obind (ok_or (otherE ''Key not found'') (hm_get key Kj)) (\<lambda>K_j.
         Ok (add_self acc (scalar_mul C K_j value)))) acc
         (map (\<lambda>k. (k, lagrange_coeff k ?idx)) ks) =
      Ok (acc + (\<Sum>k\<leftarrow>ks. scalar_mul C (scalar_mul C P (eval F (of_nat k))) (lagrange_coeff k ?idx)))"
    if "set ks \<subseteq> set ?idx" for acc ks
    using that Kj by (induction ks arbitrary: acc) (simp_all add: add.assoc)
  from this [of ?idx 0] shamir.recombine_points [OF laws ok, of F P] len
  show ?thesis
    by (simp add: interpolate_keys_def Let_def idx interpolate_lambda [OF ok small])
      (simp add: hm_keys_def)
qed

section \<open>Honest senders and receivers\<close>

definition commitments :: "('f::field, 'p::ab_group_add) curve \<Rightarrow> 'f Polynomial \<Rightarrow> 'p list" where
  "commitments C p =
    map (\<lambda>j. scalar_mul C (base_point_or_generator C) (coefficients p ! j))
      [0..<length (coefficients p)]"

lemma length_commitments [simp]: "length (commitments C p) = length (coefficients p)"
  by (simp add: commitments_def)

lemma commitments_hd:
  "coefficients p \<noteq> [] \<Longrightarrow> hd (commitments C p) = scalar_mul C (base_point_or_generator C) (eval p 0)"
  by (simp add: commitments_def hd_map eval_at_0)

text \<open>The ciphertexts a node sends out.\<close>

definition sent_shares ::
    "('pk, 'sk) rsa \<Rightarrow> ('f::field, 'p) curve \<Rightarrow> (nat \<Rightarrow> nat) \<Rightarrow> 'f Polynomial \<Rightarrow> (nat, 'pk) hashmap \<Rightarrow>
      (nat, bytes) hashmap" where
  "sent_shares R C nonce p keys =
    map (\<lambda>x. (fst x, the_ok (encrypt R (snd x) (nonce (fst x))
      (field_to_repr C (eval p (of_nat (fst x))))))) keys"

lemma rsa_encrypts:
  assumes "rsa_laws R" and "repr_laws C"
  shows "\<exists>c. encrypt R (public_of R sk) r (field_to_repr C x) = Ok c \<and>
    decrypt R sk c = Ok (field_to_repr C x)"
  using assms by (auto simp: rsa_laws_def repr_laws_def)

lemma encrypt_shares_honest:
  assumes rsa: "rsa_laws R" and repr: "repr_laws C" and wf: "hm_wf keys"
    and pk: "\<And>k pk. (k, pk) \<in> set keys \<Longrightarrow> \<exists>sk. pk = public_of R sk"
    and sel: "set sel \<subseteq> set keys" "distinct (map fst sel)"
  shows "encrypt_shares rsaE otherE R C nonce
      (map (\<lambda>(key, value). (key, eval p (of_nat key))) keys) sel = Ok (sent_shares R C nonce p sel)"
  unfolding sent_shares_def
proof (rule encrypt_shares_Ok [OF sel(2)])
  fix k pk assume mem: "(k, pk) \<in> set sel"
  with sel have key: "(k, pk) \<in> set keys" by auto
  with pk obtain sk where "pk = public_of R sk" by blast
  with rsa_encrypts [OF rsa repr, of sk "nonce k" "eval p (of_nat k)"]
  have "is_ok (encrypt R pk (nonce k) (field_to_repr C (eval p (of_nat k))))"
    by (auto simp: is_ok_iff)
  moreover from key have "k \<in> set (hm_keys keys)" by (force simp: hm_keys_def)
  ultimately show "hm_get k (map (\<lambda>(key, value). (key, eval p (of_nat key))) keys) =
      Some (eval p (of_nat k)) \<and> is_ok (encrypt R pk (nonce k) (field_to_repr C (eval p (of_nat k))))"
    by (simp add: hm_get_map_keys)
qed

text \<open>Shares of honest senders decrypt, verify, and commit to their secrets.\<close>

lemma received_shares_honest:
  fixes C :: "('f::field, 'p::ab_group_add) curve" and otherE :: "string \<Rightarrow> 'e"
  assumes laws: "curve_laws C" "base_point_or_generator C \<noteq> 0" and repr: "repr_laws C"
    and js: "distinct js" and t: "0 < t" "i ^ (t - 1) < 2 ^ 128"
    and p: "\<And>j. j \<in> set js \<Longrightarrow> length (coefficients (p j)) = t"
    and ct: "\<And>j. j \<in> set js \<Longrightarrow> decrypt R sk (ct j) = Ok (field_to_repr C (eval (p j) (of_nat i)))"
  defines "y \<equiv> map (\<lambda>j. (j, eval (p j) (of_nat i))) js"
    and "v \<equiv> map (\<lambda>j. (j, commitments C (p j))) js"
  shows "decrypt_shares rsaE otherE R C sk (map (\<lambda>j. (j, ct j)) js) = Ok y"
    and "verify_shares otherE C i y v = Ok ()"
    and "sum_first_commitments start v =
      (Ok (start + (\<Sum>j\<leftarrow>js. scalar_mul C (base_point_or_generator C) (eval (p j) 0))) ::
        ('p, 'e) outcome)"
proof -
  have ne: "coefficients (p j) \<noteq> []" if "j \<in> set js" for j
    using p [OF that] t by auto
  show "decrypt_shares rsaE otherE R C sk (map (\<lambda>j. (j, ct j)) js) = Ok y"
    using decrypt_shares_Ok [of "map (\<lambda>j. (j, ct j)) js" R sk C "\<lambda>j. eval (p j) (of_nat i)"] js ct repr
    by (force simp: repr_laws_def o_def y_def)
  show "verify_shares otherE C i y v = Ok ()"
  proof (rule verify_shares_Ok)
    show "\<exists>chk. hm_get k v = Some chk \<and> verify_vss C i s chk = (Ok True :: (bool, 'e) outcome)"
      if "(k, s) \<in> set y" for k s
      using that laws ne p t verify_vss_commitment [OF laws ne, of k "commitments C (p k)" i s]
        hm_get_map_inj [of "\<lambda>j. j" js k "\<lambda>j. commitments C (p j)"]
      by (auto simp: commitments_def y_def v_def)
  qed (use js in \<open>simp add: o_def y_def\<close>)
  have "commitments C (p j) \<noteq> []" if "j \<in> set js" for j
    using ne [OF that] by (simp add: commitments_def)
  then show "sum_first_commitments start v =
      (Ok (start + (\<Sum>j\<leftarrow>js. scalar_mul C (base_point_or_generator C) (eval (p j) 0))) ::
        ('p, 'e) outcome)"
    using ne by (subst sum_first_commitments_Ok)
      (auto simp: hm_values_def o_def commitments_hd v_def cong: map_cong)
qed

section \<open>Arbitrary senders\<close>

lemma decrypt_shares_keys:
  assumes "decrypt_shares rsaE otherE R C sk input_y = Ok y" and "hm_wf input_y"
  shows "hm_keys y = hm_keys input_y"
  using assms(1) unfolding decrypt_shares_def hm_keys_def [of input_y]
  by (rule ofold_build_keys)
    (use assms(2) in \<open>auto simp: hm_wf_def obind_eq_Ok hm_keys_def [of "_ @ _"] split: prod.splits
      simp flip: hm_keys_def\<close>)

lemma verify_shares_sound:
  fixes otherE :: "string \<Rightarrow> 'e"
  assumes "verify_shares otherE C i y input_v = Ok u" and "hm_wf y" and "(k, s) \<in> set y"
  shows "\<exists>chk. hm_get k input_v = Some chk \<and> verify_vss C i s chk = (Ok True :: (bool, 'e) outcome)"
  using ofold_Ok_step [OF assms(1) [unfolded verify_shares_def] assms(3)] assms(2,3)
  by (auto simp: hm_wf_def hm_get_def obind_eq_Ok split: option.splits if_splits)

text \<open>The value at an index of the polynomial committed to, with powers as the code takes them.\<close>

definition committed_at :: "('f::field, 'p::ab_group_add) curve \<Rightarrow> nat \<Rightarrow> 'p list \<Rightarrow> 'p" where
  "committed_at C i chk = (\<Sum>k<length chk. scalar_mul C (chk ! k) (of_nat (as_u128 (i ^ k))))"

text \<open>Whatever the senders sent: accepted shares add up to the shares of the committed
  polynomials.\<close>

lemma accepted_shares_sum:
  fixes C :: "('f::field, 'p::ab_group_add) curve" and otherE :: "string \<Rightarrow> 'e"
  assumes laws: "curve_laws C" and wf: "hm_wf input_y" "hm_wf input_v" "length input_y = length input_v"
    and y: "decrypt_shares rsaE otherE R C sk input_y = Ok y"
    and ver: "verify_shares otherE C i y input_v = Ok u"
  shows "scalar_mul C (base_point_or_generator C) (\<Sum>s\<leftarrow>hm_values y. s) =
    (\<Sum>(j, chk)\<leftarrow>input_v. committed_at C i chk)"
proof -
  let ?G = "base_point_or_generator C"
  let ?g = "\<lambda>k. committed_at C i (the (hm_get k input_v))"
  have keys: "hm_keys y = hm_keys input_y" using decrypt_shares_keys [OF y wf(1)] .
  with wf(1) have wf_y: "hm_wf y" by (simp add: hm_wf_def hm_keys_def)
  have each: "hm_contains k input_v \<and> scalar_mul C ?G s = ?g k" if "(k, s) \<in> set y" for k s
  proof -
    from verify_shares_sound [OF ver wf_y that]
    obtain chk where chk: "hm_get k input_v = Some chk" "verify_vss C i s chk = (Ok True :: (bool, 'e) outcome)"
      by blast
    then have "chk \<noteq> []" by (auto simp: verify_vss_def)
    with chk show ?thesis
      by (simp add: committed_at_def hm_contains_get verify_vss_exact [OF laws])
  qed
  have "set (hm_keys y) \<subseteq> set (hm_keys input_v)"
    using each by (force simp: hm_keys_def hm_contains_def)
  moreover have "card (set (hm_keys y)) = card (set (hm_keys input_v))"
    using wf keys by (metis distinct_card hm_keys_def hm_wf_def length_map)
  ultimately have same: "set (hm_keys y) = set (hm_keys input_v)"
    by (intro card_subset_eq) simp_all
  have "scalar_mul C ?G (\<Sum>s\<leftarrow>hm_values y. s) = (\<Sum>s\<leftarrow>hm_values y. scalar_mul C ?G s)"
    using laws scalar_mul_sum_list [of C ?G "\<lambda>s. s" "hm_values y"] by simp
  also have "\<dots> = (\<Sum>k\<leftarrow>hm_keys y. ?g k)"
    using each by (simp add: hm_values_def hm_keys_def o_def)
      (intro arg_cong [where f = sum_list] map_cong refl, force)
  also have "\<dots> = (\<Sum>k\<leftarrow>hm_keys input_v. ?g k)"
    using wf_y wf(2) same by (intro sum_list_same_keys) (simp_all add: hm_wf_def hm_keys_def)
  also have "\<dots> = (\<Sum>(j, chk)\<leftarrow>input_v. committed_at C i chk)"
    using wf(2) by (simp add: hm_keys_def o_def hm_wf_def hm_get_def)
      (intro arg_cong [where f = sum_list] map_cong refl, auto)
  finally show ?thesis .
qed

end
