(* ===== verification/Dkg_Run.thy ===== *)
theory Dkg_Run
  imports Dkg
begin

text \<open>
  A run of the three rounds of key generation among honest nodes: every node ends with its
  share of the sum of all polynomials, the matching public share, and the same group key.
\<close>

section \<open>An honest run\<close>

text \<open>The rounds of all nodes with the messages routed between them, as the engine of every node
  does it: round 1 stores the own share and the own first commitment, round 2 stores the key share
  and the group key. \<open>rnd i\<close> gives the randomness of node \<open>i\<close>: the secret, the coefficients
  and the paddings.\<close>

type_synonym 'f randomness = "nat \<Rightarrow> 'f \<times> (nat \<Rightarrow> 'f) \<times> (nat \<Rightarrow> nat)"

definition run_round_1 ::
    "('pk, 'sk) rsa \<Rightarrow> ('f::field, 'p::ab_group_add) curve \<Rightarrow> 'f randomness \<Rightarrow> 'pk Network \<Rightarrow>
      ('f, 'p, 'pk, 'sk) Node list \<Rightarrow>
      ((nat \<times> (nat, bytes) hashmap \<times> 'p list \<times> 'f) list, DKGError) outcome" where
  "run_round_1 R C rnd network nodes =
    omap (\<lambda>n. case rnd (node_id n) of (ai0, draw, nonce) \<Rightarrow>
      obind (dkg_round_1 R C ai0 draw nonce n network) (\<lambda>r. Ok (node_id n, r))) nodes"

definition messages_for ::
    "nat \<Rightarrow> (nat \<times> (nat, bytes) hashmap \<times> 'p list \<times> 'f) list \<Rightarrow>
      (nat, bytes) hashmap \<times> (nat, 'p list) hashmap" where
  "messages_for i outs =
    (let others = filter (\<lambda>m. fst m \<noteq> i) outs in
     (concat (map (\<lambda>(j, y_ct, v, yii). case hm_get i y_ct of Some ct \<Rightarrow> [(j, ct)] | None \<Rightarrow> []) others),
      map (\<lambda>(j, y_ct, v, yii). (j, v)) others))"

definition run_round_2 ::
    "('pk, 'sk) rsa \<Rightarrow> ('f::field, 'p::ab_group_add) curve \<Rightarrow> 'pk Network \<Rightarrow>
      ('f, 'p, 'pk, 'sk) Node list \<Rightarrow> (nat \<times> (nat, bytes) hashmap \<times> 'p list \<times> 'f) list \<Rightarrow>
      ((nat \<times> 'f \<times> 'p \<times> 'p) list, DKGError) outcome" where
  "run_round_2 R C network nodes outs =
    omap (\<lambda>n. obind (unwrap_option (hm_get (node_id n) outs)) (\<lambda>(y_ct, v, yii).
      case messages_for (node_id n) outs of (input_y, input_v) \<Rightarrow>
      obind (dkg_round_2 R C (n \<lparr> own_partial_share := yii, init_pub_share := hd v \<rparr>)
               network input_y input_v) (\<lambda>r. Ok (node_id n, r)))) nodes"

definition run_round_3 ::
    "('f::field, 'p::ab_group_add) curve \<Rightarrow> 'pk Network \<Rightarrow> ('f, 'p, 'pk, 'sk) Node list \<Rightarrow>
      (nat \<times> 'f \<times> 'p \<times> 'p) list \<Rightarrow> ('p list, DKGError) outcome" where
  "run_round_3 C network nodes results =
    omap (\<lambda>n. obind (unwrap_option (hm_get (node_id n) results)) (\<lambda>(ki, Ki, K).
      dkg_round_3 C (n \<lparr> private_share := ki, network_pubkey := K \<rparr>) network
        (map (\<lambda>(j, kj, Kj, K). (j, Kj)) results))) nodes"

definition run_dkg ::
    "('pk, 'sk) rsa \<Rightarrow> ('f::field, 'p::ab_group_add) curve \<Rightarrow> 'f randomness \<Rightarrow> 'pk Network \<Rightarrow>
      ('f, 'p, 'pk, 'sk) Node list \<Rightarrow> ((nat \<times> 'f \<times> 'p \<times> 'p) list \<times> 'p list, DKGError) outcome" where
  "run_dkg R C rnd network nodes =
    obind (run_round_1 R C rnd network nodes) (\<lambda>outs.
    obind (run_round_2 R C network nodes outs) (\<lambda>results.
    obind (run_round_3 C network nodes results) (\<lambda>keys. Ok (results, keys))))"

text \<open>A set-up in which every node of the list is registered under its own key.\<close>

definition setup_ok ::
    "('pk, 'sk) rsa \<Rightarrow> ('f::field, 'p::ab_group_add) curve \<Rightarrow> 'pk Network \<Rightarrow>
      ('f, 'p, 'pk, 'sk) Node list \<Rightarrow> bool" where
  "setup_ok R C network nodes \<longleftrightarrow>
    curve_laws C \<and> base_point_or_generator C \<noteq> 0 \<and> repr_laws C \<and> rsa_laws R \<and>
    public_keys network = map (\<lambda>n. (node_id n, public_of R (rsa_seckey n))) nodes \<and>
    total_nodes network = length nodes \<and> length nodes < 2 ^ 64 \<and>
    0 < net_threshold network \<and> net_threshold network \<le> length nodes \<and>
    indices_ok TYPE('f) (map node_id nodes) \<and>
    (\<forall>n\<in>set nodes. node_id n < 2 ^ 32 \<and> node_id n ^ (net_threshold network - 1) < 2 ^ 128)"

text \<open>The polynomial of a node.\<close>

definition node_poly :: "'f randomness \<Rightarrow> nat \<Rightarrow> nat \<Rightarrow> 'f Polynomial" where
  "node_poly rnd t i =
    (case rnd i of (ai0, draw, nonce) \<Rightarrow> random_polynomials_with_secret draw (t - 1) ai0)"

lemma node_poly_props:
  "0 < t \<Longrightarrow> length (coefficients (node_poly rnd t i)) = t"
  "eval (node_poly rnd t i) 0 = fst (rnd i)"
  by (simp_all add: node_poly_def random_polynomials_with_secret_props split: prod.split)

lemma round_1_honest:
  assumes ok: "setup_ok R C network nodes" and n: "n \<in> set nodes"
    and rnd: "rnd (node_id n) = (ai0, draw, nonce)"
  defines "p \<equiv> node_poly rnd (net_threshold network) (node_id n)"
  shows "dkg_round_1 R C ai0 draw nonce n network =
    Ok (sent_shares R C nonce p (filter (\<lambda>(key, _). key \<noteq> node_id n) (public_keys network)),
        commitments C p, eval p (of_nat (node_id n)))"
proof -
  let ?t = "net_threshold network" and ?keys = "public_keys network"
  let ?y = "map (\<lambda>(key, value). (key, eval p (of_nat key))) ?keys"
  let ?others = "filter (\<lambda>(key, _). key \<noteq> node_id n) ?keys"
  from ok have t: "0 < ?t" and wf: "hm_wf ?keys" and rsa: "rsa_laws R" and repr: "repr_laws C"
    and keys: "?keys = map (\<lambda>n. (node_id n, public_of R (rsa_seckey n))) nodes"
    by (auto simp: setup_ok_def hm_wf_def indices_ok_def o_def)
  have p: "random_polynomials_with_secret draw (?t - 1) ai0 = p" and len: "length (coefficients p) = ?t"
    using t rnd node_poly_props(1) [OF t, of rnd "node_id n"] by (simp_all add: p_def node_poly_def)
  have "node_id n \<in> set (hm_keys ?keys)" using n by (simp add: hm_keys_def keys image_image)
  then have own: "hm_get (node_id n) ?y = Some (eval p (of_nat (node_id n)))"
    by (simp add: hm_get_map_keys)
  have feldman: "feldman_vss C p ?keys ?t = Ok (?y, commitments C p)"
    using feldman_vss_wf [OF wf, of ?t p C] by (simp add: len commitments_def)
  have "encrypt_shares DKG_RsaError DKG_Other R C nonce ?y ?others =
      Ok (sent_shares R C nonce p ?others)"
    using wf by (intro encrypt_shares_honest [OF rsa repr wf])
      (auto simp: hm_wf_def distinct_map_filter keys)
  then show ?thesis
    using t by (simp add: dkg_round_1_def Let_def p [simplified] feldman own)
qed

lemma round_2_honest:
  fixes C :: "('f::field, 'p::ab_group_add) curve"
  assumes laws: "curve_laws C" "base_point_or_generator C \<noteq> 0" "repr_laws C"
    and js: "distinct js" "length js = sub_u64 (total_nodes network) 1"
    and p: "\<And>j. j \<in> set js \<Longrightarrow> length (coefficients (p j)) = net_threshold network"
    and t: "0 < net_threshold network" "node_id n ^ (net_threshold network - 1) < 2 ^ 128"
    and ct: "\<And>j. j \<in> set js \<Longrightarrow>
      decrypt R (rsa_seckey n) (ct j) = Ok (field_to_repr C (eval (p j) (of_nat (node_id n))))"
  shows "dkg_round_2 R C n network (map (\<lambda>j. (j, ct j)) js) (map (\<lambda>j. (j, commitments C (p j))) js) =
    (let ki = own_partial_share n + (\<Sum>j\<leftarrow>js. eval (p j) (of_nat (node_id n))) in
     Ok (ki, scalar_mul C (base_point_or_generator C) ki,
       init_pub_share n + (\<Sum>j\<leftarrow>js. scalar_mul C (base_point_or_generator C) (eval (p j) 0))))"
proof -
  note recv = received_shares_honest [OF laws js(1) t p ct]
  from js p show ?thesis
    by (simp add: dkg_round_2_def Let_def assert_then_def recv hm_values_def o_def foldl_plus)
qed

text \<open>What a node sends to node \<open>i\<close>, by the identifiers of the two nodes.\<close>

definition share_ct ::
    "('pk, 'sk) rsa \<Rightarrow> ('f::field, 'p) curve \<Rightarrow> 'f randomness \<Rightarrow> nat \<Rightarrow> ('f, 'p, 'pk, 'sk) Node \<Rightarrow>
      nat \<Rightarrow> bytes" where
  "share_ct R C rnd t n j =
    the_ok (encrypt R (public_of R (rsa_seckey n)) (snd (snd (rnd j)) (node_id n))
      (field_to_repr C (eval (node_poly rnd t j) (of_nat (node_id n)))))"

definition round_1_outs ::
    "('pk, 'sk) rsa \<Rightarrow> ('f::field, 'p::ab_group_add) curve \<Rightarrow> 'f randomness \<Rightarrow> 'pk Network \<Rightarrow>
      ('f, 'p, 'pk, 'sk) Node list \<Rightarrow> (nat \<times> (nat, bytes) hashmap \<times> 'p list \<times> 'f) list" where
  "round_1_outs R C rnd network nodes =
    map (\<lambda>m. (node_id m,
        map (\<lambda>n. (node_id n, share_ct R C rnd (net_threshold network) n (node_id m)))
          (filter (\<lambda>n. node_id n \<noteq> node_id m) nodes),
        commitments C (node_poly rnd (net_threshold network) (node_id m)),
        eval (node_poly rnd (net_threshold network) (node_id m)) (of_nat (node_id m)))) nodes"

lemma run_round_1_honest:
  assumes ok: "setup_ok R C network nodes"
  shows "run_round_1 R C rnd network nodes = Ok (round_1_outs R C rnd network nodes)"
  unfolding run_round_1_def round_1_outs_def
proof (rule omap_total)
  fix n assume n: "n \<in> set nodes"
  obtain ai0 draw nonce where rnd: "rnd (node_id n) = (ai0, draw, nonce)" by (cases "rnd (node_id n)")
  have "public_keys network = map (\<lambda>n. (node_id n, public_of R (rsa_seckey n))) nodes"
    using ok by (simp add: setup_ok_def)
  with round_1_honest [where rnd = rnd, OF ok n rnd] rnd
  show "(case rnd (node_id n) of (ai0, draw, nonce) \<Rightarrow>
      obind (dkg_round_1 R C ai0 draw nonce n network) (\<lambda>r. Ok (node_id n, r))) =
    Ok (node_id n,
        map (\<lambda>m. (node_id m, share_ct R C rnd (net_threshold network) m (node_id n)))
          (filter (\<lambda>m. node_id m \<noteq> node_id n) nodes),
        commitments C (node_poly rnd (net_threshold network) (node_id n)),
        eval (node_poly rnd (net_threshold network) (node_id n)) (of_nat (node_id n)))"
    by (simp add: sent_shares_def share_ct_def filter_map o_def)
qed

lemma messages_for_honest:
  assumes ok: "setup_ok R C network nodes" and n: "n \<in> set nodes"
  defines "js \<equiv> map node_id (filter (\<lambda>m. node_id m \<noteq> node_id n) nodes)"
  shows "messages_for (node_id n) (round_1_outs R C rnd network nodes) =
    (map (\<lambda>j. (j, share_ct R C rnd (net_threshold network) n j)) js,
     map (\<lambda>j. (j, commitments C (node_poly rnd (net_threshold network) j))) js)"
proof -
  have "hm_get (node_id n)
      (map (\<lambda>k. (node_id k, share_ct R C rnd (net_threshold network) k (node_id m)))
        (filter (\<lambda>k. node_id k \<noteq> node_id m) nodes)) =
      Some (share_ct R C rnd (net_threshold network) n (node_id m))"
    if "m \<in> set nodes" "node_id m \<noteq> node_id n" for m
  proof (rule hm_get_map_inj)
    show "inj_on node_id (set (filter (\<lambda>k. node_id k \<noteq> node_id m) nodes))"
      using ok by (auto simp: setup_ok_def indices_ok_def distinct_map intro: inj_on_subset)
  qed (use that n in auto)
  then show ?thesis
    unfolding messages_for_def round_1_outs_def js_def Let_def
    by (auto simp: filter_map o_def intro!: concat_map_single)
qed

text \<open>The polynomial the group shares: the sum of the polynomials of its nodes.\<close>

definition group_poly ::
    "'f::field randomness \<Rightarrow> 'pk Network \<Rightarrow> ('f, 'p, 'pk, 'sk) Node list \<Rightarrow> 'f Polynomial" where
  "group_poly rnd network nodes =
    sum_poly (net_threshold network)
      (map (\<lambda>n. node_poly rnd (net_threshold network) (node_id n)) nodes)"

lemma group_poly_eval:
  assumes "0 < net_threshold network"
  shows "eval (group_poly rnd network nodes) x =
    (\<Sum>n\<leftarrow>nodes. eval (node_poly rnd (net_threshold network) (node_id n)) x)"
  unfolding group_poly_def using assms
  by (subst sum_poly_eval) (auto simp: node_poly_props o_def)

lemma share_ct_decrypts:
  assumes "rsa_laws R" and "repr_laws C"
  shows "decrypt R (rsa_seckey n) (share_ct R C rnd t n j) =
    Ok (field_to_repr C (eval (node_poly rnd t j) (of_nat (node_id n))))"
  using rsa_encrypts [OF assms, of "rsa_seckey n" "snd (snd (rnd j)) (node_id n)"
      "eval (node_poly rnd t j) (of_nat (node_id n))"]
  by (auto simp: share_ct_def)

lemma round_2_of_run:
  fixes rnd :: "'f::field randomness" and C :: "('f, 'p::ab_group_add) curve"
  assumes ok: "setup_ok R C network nodes" and n: "n \<in> set nodes"
  defines "p \<equiv> node_poly rnd (net_threshold network)" and "F \<equiv> group_poly rnd network nodes"
    and "G \<equiv> base_point_or_generator C" and "i \<equiv> node_id n"
    and "js \<equiv> map node_id (filter (\<lambda>m. node_id m \<noteq> node_id n) nodes)"
  shows "dkg_round_2 R C
      (n \<lparr> own_partial_share := eval (p i) (of_nat i), init_pub_share := hd (commitments C (p i)) \<rparr>)
      network (map (\<lambda>j. (j, share_ct R C rnd (net_threshold network) n j)) js)
      (map (\<lambda>j. (j, commitments C (p j))) js) =
    Ok (eval F (of_nat i), scalar_mul C G (eval F (of_nat i)), scalar_mul C G (eval F 0))"
proof -
  let ?t = "net_threshold network"
  let ?n' = "n \<lparr> own_partial_share := eval (p i) (of_nat i), init_pub_share := hd (commitments C (p i)) \<rparr>"
  from ok have laws: "curve_laws C" "base_point_or_generator C \<noteq> 0" "repr_laws C" "rsa_laws R"
    and t: "0 < ?t" and d: "distinct (map node_id nodes)"
    and small: "i ^ (?t - 1) < 2 ^ 128" and tn: "total_nodes network = length nodes" "length nodes < 2 ^ 64"
    using n by (auto simp: setup_ok_def indices_ok_def i_def)
  have F: "eval F x = eval (p i) x + (\<Sum>j\<leftarrow>js. eval (p j) x)" for x
    using t sum_list_pick [OF d n, of "\<lambda>m. eval (p (node_id m)) x"]
    by (simp add: F_def group_poly_eval p_def i_def js_def o_def)
  have len: "length js = sub_u64 (total_nodes network) 1"
    using length_filter_neq [OF d, of i] n tn by (simp add: filter_map o_def sub_u64_le js_def i_def)
  have d_js: "distinct js" using d by (simp add: js_def distinct_map_filter)
  have p: "length (coefficients (p j)) = ?t" for j by (simp add: p_def node_poly_props t)
  have ne: "coefficients (p i) \<noteq> []" using p [of i] t by auto
  have "dkg_round_2 R C ?n' network (map (\<lambda>j. (j, share_ct R C rnd ?t n j)) js)
      (map (\<lambda>j. (j, commitments C (p j))) js) =
      (let ki = own_partial_share ?n' + (\<Sum>j\<leftarrow>js. eval (p j) (of_nat (node_id ?n'))) in
       Ok (ki, scalar_mul C G ki, init_pub_share ?n' + (\<Sum>j\<leftarrow>js. scalar_mul C G (eval (p j) 0))))"
    unfolding G_def
    by (rule round_2_honest)
      (use laws len d_js p t small share_ct_decrypts [OF laws(4,3)] in \<open>simp_all add: i_def p_def\<close>)
  then show ?thesis
    using laws(1) by (simp add: Let_def F commitments_hd [OF ne [unfolded i_def]] G_def smul_simps
        scalar_mul_sum_list [of C _ _ js] i_def)
qed

lemma run_round_2_honest:
  assumes ok: "setup_ok R C network nodes"
  shows "run_round_2 R C network nodes (round_1_outs R C rnd network nodes) =
    (let F = group_poly rnd network nodes; G = base_point_or_generator C in
     Ok (map (\<lambda>n. (node_id n, eval F (of_nat (node_id n)),
       scalar_mul C G (eval F (of_nat (node_id n))), scalar_mul C G (eval F 0))) nodes))"
  unfolding run_round_2_def Let_def
proof (rule omap_total)
  fix n assume n: "n \<in> set nodes"
  let ?t = "net_threshold network" and ?i = "node_id n" and ?F = "group_poly rnd network nodes"
  have "hm_get ?i (round_1_outs R C rnd network nodes) =
      Some (map (\<lambda>m. (node_id m, share_ct R C rnd ?t m ?i)) (filter (\<lambda>m. node_id m \<noteq> ?i) nodes),
        commitments C (node_poly rnd ?t ?i), eval (node_poly rnd ?t ?i) (of_nat ?i))"
    unfolding round_1_outs_def using ok n
    by (intro hm_get_map_inj) (auto simp: distinct_map setup_ok_def indices_ok_def)
  then show "obind (unwrap_option (hm_get (node_id n) (round_1_outs R C rnd network nodes)))
      (\<lambda>(y_ct, v, yii). case messages_for (node_id n) (round_1_outs R C rnd network nodes) of
        (input_y, input_v) \<Rightarrow> obind (dkg_round_2 R C (n \<lparr> own_partial_share := yii, init_pub_share := hd v \<rparr>)
               network input_y input_v) (\<lambda>r. Ok (node_id n, r))) =
    Ok (node_id n, eval ?F (of_nat (node_id n)),
      scalar_mul C (base_point_or_generator C) (eval ?F (of_nat (node_id n))),
      scalar_mul C (base_point_or_generator C) (eval ?F 0))"
    by (simp add: messages_for_honest [OF ok n] round_2_of_run [OF ok n] del: map_map)
qed

lemma run_round_3_honest:
  fixes C :: "('f::field, 'p::ab_group_add) curve"
  assumes ok: "setup_ok R C network nodes" and F: "length (coefficients F) \<le> net_threshold network"
  defines "G \<equiv> base_point_or_generator C"
  shows "run_round_3 C network nodes
      (map (\<lambda>n. (node_id n, eval F (of_nat (node_id n)),
         scalar_mul C G (eval F (of_nat (node_id n))), scalar_mul C G (eval F 0))) nodes) =
    Ok (map (\<lambda>_. scalar_mul C G (eval F 0)) nodes)"
  unfolding run_round_3_def
proof (rule omap_total)
  fix n assume n: "n \<in> set nodes"
  let ?res = "map (\<lambda>n. (node_id n, eval F (of_nat (node_id n)),
         scalar_mul C G (eval F (of_nat (node_id n))), scalar_mul C G (eval F 0))) nodes"
  let ?Kj = "map (\<lambda>(j, kj, Kj, K). (j, Kj)) ?res"
  from ok have laws: "curve_laws C" and keys: "hm_keys (public_keys network) = map node_id nodes"
    and idx: "indices_ok TYPE('f) (map node_id nodes)" and inj: "inj_on node_id (set nodes)"
    and len: "length (public_keys network) = length nodes" "net_threshold network \<le> length nodes"
    by (auto simp: setup_ok_def hm_keys_def o_def indices_ok_def distinct_map)
  have "interpolate_keys DKG_Other C (public_keys network) ?Kj = Ok (scalar_mul C G (eval F 0))"
  proof (rule interpolate_keys_Ok [OF laws])
    show "hm_get k ?Kj = Some (scalar_mul C G (eval F (of_nat k)))"
      if "k \<in> set (hm_keys (public_keys network))" for k
      using that keys hm_get_map_inj [OF inj, of _ "\<lambda>n. scalar_mul C G (eval F (of_nat (node_id n)))"]
      by (auto simp: o_def)
  qed (use ok F len keys idx in \<open>auto simp: setup_ok_def\<close>)
  moreover have "hm_get (node_id n) ?res = Some (eval F (of_nat (node_id n)),
      scalar_mul C G (eval F (of_nat (node_id n))), scalar_mul C G (eval F 0))"
    using inj n by (rule hm_get_map_inj)
  ultimately show "obind (unwrap_option (hm_get (node_id n) ?res)) (\<lambda>(ki, Ki, K).
      dkg_round_3 C (n \<lparr> private_share := ki, network_pubkey := K \<rparr>) network ?Kj) =
    Ok (scalar_mul C G (eval F 0))"
    using ok by (simp add: dkg_round_3_def assert_then_def setup_ok_def)
qed

end
