(* ===== verification/Resharing.thy ===== *)
theory Resharing
  imports Dkg
begin

text \<open>
  Resharing of the key from a subset \<open>t_star\<close> of the old quorum to a new quorum
  (\<open>cryptography/src/resharing.rs\<close>): the three rounds, and their run among honest nodes, which
  keeps the group's secret and public key.
\<close>

section \<open>The rounds\<close>

definition resharing_round_1 ::
    "('pk, 'sk) rsa \<Rightarrow> ('f::field, 'p::ab_group_add) curve \<Rightarrow> (nat \<Rightarrow> 'f) \<Rightarrow> (nat \<Rightarrow> nat) \<Rightarrow>
      ('f, 'p, 'pk, 'sk) Node \<Rightarrow> 'pk Network \<Rightarrow> 'pk Network \<Rightarrow>
      ((nat, bytes) hashmap \<times> 'p list, ResharingError) outcome" where
  "resharing_round_1 R C draw nonce self t_star new_quorum =
    (let indices = map as_u32 (hm_keys (public_keys t_star)) in
     obind (lagrange_basis_at_0 (as_u32 (node_id self)) indices) (\<lambda>lambda_i.
     let ai0 = private_share self * lambda_i in
     if net_threshold new_quorum = 0 then Panic else
     let fi = random_polynomials_with_secret draw (net_threshold new_quorum - 1) ai0 in
     obind (feldman_vss C fi (public_keys new_quorum) (net_threshold new_quorum)) (\<lambda>(y, v).
     obind (encrypt_shares RS_RsaError RS_Other R C nonce y (public_keys new_quorum)) (\<lambda>y_ct.
     Ok (y_ct, v)))))"

definition resharing_round_2 ::
    "('pk, 'sk) rsa \<Rightarrow> ('f::field, 'p::ab_group_add) curve \<Rightarrow> ('f, 'p, 'pk, 'sk) Node \<Rightarrow> 'pk Network \<Rightarrow>
      'pk Network \<Rightarrow> (nat, bytes) hashmap \<Rightarrow> (nat, 'p list) hashmap \<Rightarrow> 'p \<Rightarrow>
      ('f \<times> 'p \<times> 'p, ResharingError) outcome" where
  "resharing_round_2 R C self t_star new_quorum input_y input_v K_dkg =
    assert_then (length input_v = total_nodes t_star \<and> length input_y = total_nodes t_star)
    (assert_then (\<forall>j \<in> set (hm_values input_v). length j = net_threshold new_quorum)
    (obind (decrypt_shares RS_RsaError RS_Other R C (rsa_seckey self) input_y) (\<lambda>y.
     obind (verify_shares RS_Other C (node_id self) y input_v) (\<lambda>_.
     obind (sum_first_commitments ZERO input_v) (\<lambda>K.
     if K \<noteq> K_dkg then Err (RS_Other ''Group public key not verified - step 10'') else
     let ki = foldl (\<lambda>acc x. acc + x) 0 (hm_values y);
         Ki = scalar_mul C (base_point_or_generator C) ki
     in Ok (ki, Ki, K))))))"

definition resharing_round_3 ::
    "('f::field, 'p::ab_group_add) curve \<Rightarrow> ('f, 'p, 'pk, 'sk) Node \<Rightarrow> 'pk Network \<Rightarrow>
      (nat, 'p) hashmap \<Rightarrow> ('p, ResharingError) outcome" where
  "resharing_round_3 C self network Kj =
    assert_then (length Kj = total_nodes network)
    (obind (interpolate_keys RS_Other C (public_keys network) Kj) (\<lambda>res.
     assert_then (res = network_pubkey self) (Ok res)))"

section \<open>Soundness\<close>

text \<open>Against arbitrary dealers: if round 2 succeeds, the announced public share is the value of
  the summed committed polynomials, whose constant term is the group key.\<close>

lemma resharing_round_2_sound:
  fixes C :: "('f::field, 'p::ab_group_add) curve"
  assumes laws: "curve_laws C" and wf: "hm_wf input_y" "hm_wf input_v"
    and res: "resharing_round_2 R C self t_star nq input_y input_v K_dkg = Ok (ki, Ki, K)"
  shows "Ki = scalar_mul C (base_point_or_generator C) ki"
    and "Ki = (\<Sum>(j, chk)\<leftarrow>input_v. committed_at C (node_id self) chk)"
    and "K = K_dkg" and "K = (\<Sum>(j, chk)\<leftarrow>input_v. hd chk)"
proof -
  from res obtain y u K' where len: "length input_v = total_nodes t_star \<and> length input_y = total_nodes t_star"
    and y: "decrypt_shares RS_RsaError RS_Other R C (rsa_seckey self) input_y = Ok y"
    and ver: "verify_shares RS_Other C (node_id self) y input_v = Ok u"
    and K': "sum_first_commitments ZERO input_v = (Ok K' :: ('p, ResharingError) outcome)"
    and rest: "(if K' \<noteq> K_dkg then Err (RS_Other ''Group public key not verified - step 10'') else
      Ok (foldl (\<lambda>acc x. acc + x) 0 (hm_values y),
        scalar_mul C (base_point_or_generator C) (foldl (\<lambda>acc x. acc + x) 0 (hm_values y)), K')) =
      Ok (ki, Ki, K)"
    unfolding resharing_round_2_def assert_then_eq_Ok obind_eq_Ok Let_def by blast
  from rest K' have K: "sum_first_commitments 0 input_v = (Ok K :: ('p, ResharingError) outcome)" "K = K_dkg"
    and ki: "ki = foldl (\<lambda>acc x. acc + x) 0 (hm_values y)"
      "Ki = scalar_mul C (base_point_or_generator C) ki"
    by (auto split: if_splits)
  from K(2) ki(2) show "K = K_dkg" and "Ki = scalar_mul C (base_point_or_generator C) ki" .
  from len have "length input_y = length input_v" by simp
  from accepted_shares_sum [OF laws wf this y ver] ki
  show "Ki = (\<Sum>(j, chk)\<leftarrow>input_v. committed_at C (node_id self) chk)"
    using foldl_plus [of "\<lambda>x. x" 0 "hm_values y"] by simp
  have ne: "c \<noteq> []" if "(k, c) \<in> set input_v" for k c
  proof -
    from that have "c \<in> set (hm_values input_v)" by (force simp: hm_values_def)
    from ofold_Ok_step [OF K(1) [unfolded sum_first_commitments_def] this] show ?thesis by auto
  qed
  from K(1) show "K = (\<Sum>(j, chk)\<leftarrow>input_v. hd chk)"
    by (simp add: sum_first_commitments_Ok [OF ne] hm_values_def o_def case_prod_unfold)
qed

section \<open>An honest run\<close>

text \<open>\<open>rnd j\<close> gives the coefficients and paddings of the old node \<open>j\<close>.\<close>

type_synonym 'f dealing = "nat \<Rightarrow> (nat \<Rightarrow> 'f) \<times> (nat \<Rightarrow> nat)"

definition deal_all ::
    "('pk, 'sk) rsa \<Rightarrow> ('f::field, 'p::ab_group_add) curve \<Rightarrow> 'f dealing \<Rightarrow> 'pk Network \<Rightarrow> 'pk Network \<Rightarrow>
      ('f, 'p, 'pk, 'sk) Node list \<Rightarrow> ((nat \<times> (nat, bytes) hashmap \<times> 'p list) list, ResharingError) outcome" where
  "deal_all R C rnd t_star new_quorum olds =
    omap (\<lambda>d. obind (resharing_round_1 R C (fst (rnd (node_id d))) (snd (rnd (node_id d)))
                       d t_star new_quorum) (\<lambda>r. Ok (node_id d, r))) olds"

definition receive_all ::
    "('pk, 'sk) rsa \<Rightarrow> ('f::field, 'p::ab_group_add) curve \<Rightarrow> 'pk Network \<Rightarrow> 'pk Network \<Rightarrow>
      ('f, 'p, 'pk, 'sk) Node list \<Rightarrow> 'p \<Rightarrow> (nat \<times> (nat, bytes) hashmap \<times> 'p list) list \<Rightarrow>
      ((nat \<times> 'f \<times> 'p \<times> 'p) list, ResharingError) outcome" where
  "receive_all R C t_star new_quorum news K_dkg outs =
    omap (\<lambda>n.
      obind (omap (\<lambda>(j, y_ct, v). obind (unwrap_option (hm_get (node_id n) y_ct)) (\<lambda>ct. Ok (j, ct))) outs)
        (\<lambda>input_y.
      obind (resharing_round_2 R C n t_star new_quorum input_y (map (\<lambda>(j, y_ct, v). (j, v)) outs) K_dkg)
        (\<lambda>r. Ok (node_id n, r)))) news"

definition confirm_all ::
    "('f::field, 'p::ab_group_add) curve \<Rightarrow> 'pk Network \<Rightarrow> ('f, 'p, 'pk, 'sk) Node list \<Rightarrow>
      (nat \<times> 'f \<times> 'p \<times> 'p) list \<Rightarrow> ('p list, ResharingError) outcome" where
  "confirm_all C new_quorum news results =
    omap (\<lambda>n. obind (unwrap_option (hm_get (node_id n) results)) (\<lambda>(ki, Ki, K).
      resharing_round_3 C (n \<lparr> private_share := ki, network_pubkey := K \<rparr>) new_quorum
        (map (\<lambda>(j, kj, Kj, K). (j, Kj)) results))) news"

definition run_resharing ::
    "('pk, 'sk) rsa \<Rightarrow> ('f::field, 'p::ab_group_add) curve \<Rightarrow> 'f dealing \<Rightarrow> 'pk Network \<Rightarrow> 'pk Network \<Rightarrow>
      ('f, 'p, 'pk, 'sk) Node list \<Rightarrow> ('f, 'p, 'pk, 'sk) Node list \<Rightarrow> 'p \<Rightarrow>
      ((nat \<times> 'f \<times> 'p \<times> 'p) list \<times> 'p list, ResharingError) outcome" where
  "run_resharing R C rnd t_star new_quorum olds news K_dkg =
    obind (deal_all R C rnd t_star new_quorum olds) (\<lambda>outs.
    obind (receive_all R C t_star new_quorum news K_dkg outs) (\<lambda>results.
    obind (confirm_all C new_quorum news results) (\<lambda>keys. Ok (results, keys))))"

text \<open>The old nodes hold shares of \<open>F\<close> and are enough to recombine it; the new nodes are
  registered under their own keys.\<close>

definition reshare_ok ::
    "('pk, 'sk) rsa \<Rightarrow> ('f::field, 'p::ab_group_add) curve \<Rightarrow> 'f Polynomial \<Rightarrow> 'pk Network \<Rightarrow> 'pk Network \<Rightarrow>
      ('f, 'p, 'pk, 'sk) Node list \<Rightarrow> ('f, 'p, 'pk, 'sk) Node list \<Rightarrow> bool" where
  "reshare_ok R C F t_star new_quorum olds news \<longleftrightarrow>
    curve_laws C \<and> base_point_or_generator C \<noteq> 0 \<and> repr_laws C \<and> rsa_laws R \<and>
    hm_keys (public_keys t_star) = map node_id olds \<and> total_nodes t_star = length olds \<and>
    indices_ok TYPE('f) (map node_id olds) \<and> (\<forall>d\<in>set olds. node_id d < 2 ^ 32) \<and>
    (\<forall>d\<in>set olds. private_share d = eval F (of_nat (node_id d))) \<and>
    length (coefficients F) \<le> length olds \<and>
    public_keys new_quorum = map (\<lambda>n. (node_id n, public_of R (rsa_seckey n))) news \<and>
    total_nodes new_quorum = length news \<and>
    0 < net_threshold new_quorum \<and> net_threshold new_quorum \<le> length news \<and>
    indices_ok TYPE('f) (map node_id news) \<and>
    (\<forall>n\<in>set news. node_id n < 2 ^ 32 \<and> node_id n ^ (net_threshold new_quorum - 1) < 2 ^ 128)"

text \<open>The polynomial an old node deals with, and the new group polynomial.\<close>

definition dealer_poly ::
    "'f dealing \<Rightarrow> 'f::field Polynomial \<Rightarrow> nat \<Rightarrow> nat list \<Rightarrow> nat \<Rightarrow> 'f Polynomial" where
  "dealer_poly rnd F t idx j =
    random_polynomials_with_secret (fst (rnd j)) (t - 1) (eval F (of_nat j) * lagrange_coeff j idx)"

definition reshared_poly ::
    "'f dealing \<Rightarrow> 'f::field Polynomial \<Rightarrow> nat \<Rightarrow> nat list \<Rightarrow> 'f Polynomial" where
  "reshared_poly rnd F t idx = sum_poly t (map (dealer_poly rnd F t idx) idx)"

lemma dealer_poly_props:
  "0 < t \<Longrightarrow> length (coefficients (dealer_poly rnd F t idx j)) = t"
  "eval (dealer_poly rnd F t idx j) 0 = eval F (of_nat j) * lagrange_coeff j idx"
  by (simp_all add: dealer_poly_def random_polynomials_with_secret_props)

lemma reshared_poly_eval:
  "0 < t \<Longrightarrow> eval (reshared_poly rnd F t idx) x = (\<Sum>j\<leftarrow>idx. eval (dealer_poly rnd F t idx j) x)"
  unfolding reshared_poly_def by (subst sum_poly_eval) (auto simp: dealer_poly_props o_def)

text \<open>The dealt secrets are additive shares: the new polynomial has the old secret.\<close>

lemma reshared_secret:
  fixes F :: "'f::field Polynomial"
  assumes "indices_ok TYPE('f) idx" and "length (coefficients F) \<le> length idx" and "0 < t"
  shows "eval (reshared_poly rnd F t idx) 0 = eval F 0"
  using shamir.recombine [OF assms(1,2)] assms(3)
  by (simp add: reshared_poly_eval dealer_poly_props mult.commute)

definition dealt_ct ::
    "('pk, 'sk) rsa \<Rightarrow> ('f::field, 'p) curve \<Rightarrow> 'f dealing \<Rightarrow> 'f Polynomial \<Rightarrow> nat \<Rightarrow> nat list \<Rightarrow>
      ('f, 'p, 'pk, 'sk) Node \<Rightarrow> nat \<Rightarrow> bytes" where
  "dealt_ct R C rnd F t idx n j =
    the_ok (encrypt R (public_of R (rsa_seckey n)) (snd (rnd j) (node_id n))
      (field_to_repr C (eval (dealer_poly rnd F t idx j) (of_nat (node_id n)))))"

lemma deal_all_honest:
  fixes C :: "('f::field, 'p::ab_group_add) curve"
  assumes ok: "reshare_ok R C F t_star nq olds news"
  defines "t \<equiv> net_threshold nq" and "idx \<equiv> map node_id olds"
  shows "deal_all R C rnd t_star nq olds =
    Ok (map (\<lambda>d. (node_id d, map (\<lambda>n. (node_id n, dealt_ct R C rnd F t idx n (node_id d))) news,
      commitments C (dealer_poly rnd F t idx (node_id d)))) olds)"
  unfolding deal_all_def
proof (rule omap_total)
  fix d assume d: "d \<in> set olds"
  let ?p = "dealer_poly rnd F t idx (node_id d)" and ?keys = "public_keys nq"
  from ok have t: "0 < t" and rsa: "rsa_laws R" and repr: "repr_laws C" and wf: "hm_wf ?keys"
    and keys: "?keys = map (\<lambda>n. (node_id n, public_of R (rsa_seckey n))) news"
    and old: "hm_keys (public_keys t_star) = idx" "private_share d = eval F (of_nat (node_id d))"
      "node_id d < 2 ^ 32" and idx: "indices_ok TYPE('f) idx"
    using d by (auto simp: reshare_ok_def hm_wf_def indices_ok_def o_def t_def idx_def)
  have ids: "map as_u32 idx = idx" using ok by (simp add: reshare_ok_def idx_def map_idI)
  have feldman: "feldman_vss C ?p ?keys t =
      Ok (map (\<lambda>(key, value). (key, eval ?p (of_nat key))) ?keys, commitments C ?p)"
    using feldman_vss_wf [OF wf, of t ?p C] by (simp add: dealer_poly_props t commitments_def)
  have enc: "encrypt_shares RS_RsaError RS_Other R C (snd (rnd (node_id d)))
      (map (\<lambda>(key, value). (key, eval ?p (of_nat key))) ?keys) ?keys =
      Ok (sent_shares R C (snd (rnd (node_id d))) ?p ?keys)"
    using wf by (intro encrypt_shares_honest [OF rsa repr wf]) (auto simp: keys hm_wf_def)
  have poly: "random_polynomials_with_secret (fst (rnd (node_id d))) (t - Suc 0)
      (eval F (of_nat (node_id d)) * lagrange_coeff (node_id d) idx) = ?p"
    by (simp add: dealer_poly_def)
  have "node_id d \<in> set idx" using d by (simp add: idx_def)
  then have "resharing_round_1 R C (fst (rnd (node_id d))) (snd (rnd (node_id d))) d t_star nq =
      Ok (sent_shares R C (snd (rnd (node_id d))) ?p ?keys, commitments C ?p)"
    using old ids t
    by (simp add: resharing_round_1_def t_def [symmetric] lagrange_basis_at_0_Ok [OF idx] poly
        feldman enc)
  then show "obind (resharing_round_1 R C (fst (rnd (node_id d))) (snd (rnd (node_id d))) d t_star nq)
      (\<lambda>r. Ok (node_id d, r)) =
    Ok (node_id d, map (\<lambda>n. (node_id n, dealt_ct R C rnd F t idx n (node_id d))) news,
      commitments C ?p)"
    by (simp add: sent_shares_def dealt_ct_def keys o_def)
qed

lemma dealt_ct_decrypts:
  assumes "rsa_laws R" and "repr_laws C"
  shows "decrypt R (rsa_seckey n) (dealt_ct R C rnd F t idx n j) =
    Ok (field_to_repr C (eval (dealer_poly rnd F t idx j) (of_nat (node_id n))))"
  using rsa_encrypts [OF assms, of "rsa_seckey n" "snd (rnd j) (node_id n)"
      "eval (dealer_poly rnd F t idx j) (of_nat (node_id n))"]
  by (auto simp: dealt_ct_def)

lemma resharing_round_2_honest:
  fixes C :: "('f::field, 'p::ab_group_add) curve"
  assumes ok: "reshare_ok R C F t_star nq olds news" and n: "n \<in> set news"
  defines "t \<equiv> net_threshold nq" and "idx \<equiv> map node_id olds"
    and "G \<equiv> base_point_or_generator C"
  shows "resharing_round_2 R C n t_star nq (map (\<lambda>j. (j, dealt_ct R C rnd F t idx n j)) idx)
      (map (\<lambda>j. (j, commitments C (dealer_poly rnd F t idx j))) idx) (scalar_mul C G (eval F 0)) =
    (let ki = eval (reshared_poly rnd F t idx) (of_nat (node_id n)) in
     Ok (ki, scalar_mul C G ki, scalar_mul C G (eval F 0)))"
proof -
  from ok n have laws: "curve_laws C" "base_point_or_generator C \<noteq> 0" "repr_laws C" "rsa_laws R"
    and d: "distinct idx" and t: "0 < t" "node_id n ^ (t - 1) < 2 ^ 128"
    and idx: "indices_ok TYPE('f) idx" "length (coefficients F) \<le> length idx"
    and tot: "total_nodes t_star = length idx"
    by (auto simp: reshare_ok_def t_def idx_def indices_ok_def)
  note recv = received_shares_honest [OF laws(1-3) d t dealer_poly_props(1) [OF t(1)]
      dealt_ct_decrypts [OF laws(4,3)]]
  have "(\<Sum>j\<leftarrow>idx. scalar_mul C G (eval (dealer_poly rnd F t idx j) 0)) = scalar_mul C G (eval F 0)"
    using reshared_secret [OF idx t(1), of rnd] laws(1) t(1)
    by (simp add: reshared_poly_eval flip: scalar_mul_sum_list)
  then show ?thesis
    using laws(1) t(1)
    by (simp add: resharing_round_2_def assert_then_def tot recv hm_values_def o_def foldl_plus
        dealer_poly_props t_def [symmetric] Let_def reshared_poly_eval G_def)
qed

lemma receive_all_honest:
  fixes C :: "('f::field, 'p::ab_group_add) curve"
  assumes ok: "reshare_ok R C F t_star nq olds news"
  defines "t \<equiv> net_threshold nq" and "idx \<equiv> map node_id olds" and "G \<equiv> base_point_or_generator C"
  shows "receive_all R C t_star nq news (scalar_mul C G (eval F 0))
      (map (\<lambda>d. (node_id d, map (\<lambda>n. (node_id n, dealt_ct R C rnd F t idx n (node_id d))) news,
        commitments C (dealer_poly rnd F t idx (node_id d)))) olds) =
    Ok (map (\<lambda>n. let ki = eval (reshared_poly rnd F t idx) (of_nat (node_id n)) in
      (node_id n, ki, scalar_mul C G ki, scalar_mul C G (eval F 0))) news)"
  unfolding receive_all_def
proof (rule omap_total)
  fix n assume n: "n \<in> set news"
  let ?outs = "map (\<lambda>d. (node_id d, map (\<lambda>n. (node_id n, dealt_ct R C rnd F t idx n (node_id d))) news,
        commitments C (dealer_poly rnd F t idx (node_id d)))) olds"
  have inj: "inj_on node_id (set news)"
    using ok by (simp add: reshare_ok_def indices_ok_def distinct_map)
  have "omap (\<lambda>(j, y_ct, v). obind (unwrap_option (hm_get (node_id n) y_ct)) (\<lambda>ct. Ok (j, ct))) ?outs =
      (Ok (map (\<lambda>m. (fst m, dealt_ct R C rnd F t idx n (fst m))) ?outs) :: (_, ResharingError) outcome)"
    by (rule omap_total) (auto simp: hm_get_map_inj [OF inj n])
  then show "obind (omap (\<lambda>(j, y_ct, v). obind (unwrap_option (hm_get (node_id n) y_ct)) (\<lambda>ct. Ok (j, ct))) ?outs)
        (\<lambda>input_y. obind (resharing_round_2 R C n t_star nq input_y (map (\<lambda>(j, y_ct, v). (j, v)) ?outs)
          (scalar_mul C G (eval F 0))) (\<lambda>r. Ok (node_id n, r))) =
    Ok (let ki = eval (reshared_poly rnd F t idx) (of_nat (node_id n)) in
      (node_id n, ki, scalar_mul C G ki, scalar_mul C G (eval F 0)))"
    using resharing_round_2_honest [OF ok n, of rnd]
    by (simp add: o_def t_def idx_def G_def Let_def)
qed

lemma confirm_all_honest:
  fixes C :: "('f::field, 'p::ab_group_add) curve"
  assumes ok: "reshare_ok R C F t_star nq olds news"
    and Q: "length (coefficients Q) \<le> net_threshold nq" "eval Q 0 = eval F 0"
  defines "G \<equiv> base_point_or_generator C"
  shows "confirm_all C nq news
      (map (\<lambda>n. let ki = eval Q (of_nat (node_id n)) in
        (node_id n, ki, scalar_mul C G ki, scalar_mul C G (eval F 0))) news) =
    Ok (map (\<lambda>_. scalar_mul C G (eval F 0)) news)"
  unfolding confirm_all_def
proof (rule omap_total)
  fix n assume n: "n \<in> set news"
  let ?res = "map (\<lambda>n. let ki = eval Q (of_nat (node_id n)) in
        (node_id n, ki, scalar_mul C G ki, scalar_mul C G (eval F 0))) news"
  let ?Kj = "map (\<lambda>(j, kj, Kj, K). (j, Kj)) ?res"
  from ok have laws: "curve_laws C" and keys: "hm_keys (public_keys nq) = map node_id news"
    and idx: "indices_ok TYPE('f) (map node_id news)" and inj: "inj_on node_id (set news)"
    and len: "length (public_keys nq) = length news" "net_threshold nq \<le> length news"
    by (auto simp: reshare_ok_def hm_keys_def o_def indices_ok_def distinct_map)
  have "interpolate_keys RS_Other C (public_keys nq) ?Kj = Ok (scalar_mul C G (eval Q 0))"
  proof (rule interpolate_keys_Ok [OF laws])
    show "hm_get k ?Kj = Some (scalar_mul C G (eval Q (of_nat k)))"
      if "k \<in> set (hm_keys (public_keys nq))" for k
      using that keys hm_get_map_inj [OF inj, of _ "\<lambda>n. scalar_mul C G (eval Q (of_nat (node_id n)))"]
      by (auto simp: o_def Let_def)
  qed (use ok Q len keys idx in \<open>auto simp: reshare_ok_def\<close>)
  moreover have "hm_get (node_id n) ?res = Some (eval Q (of_nat (node_id n)),
      scalar_mul C G (eval Q (of_nat (node_id n))), scalar_mul C G (eval F 0))"
    using hm_get_map_inj [OF inj n, of "\<lambda>n. (eval Q (of_nat (node_id n)),
      scalar_mul C G (eval Q (of_nat (node_id n))), scalar_mul C G (eval F 0))"] by (simp add: Let_def)
  ultimately show "obind (unwrap_option (hm_get (node_id n) ?res)) (\<lambda>(ki, Ki, K).
      resharing_round_3 C (n \<lparr> private_share := ki, network_pubkey := K \<rparr>) nq ?Kj) =
    Ok (scalar_mul C G (eval F 0))"
    using ok Q by (simp add: resharing_round_3_def assert_then_def reshare_ok_def)
qed

end
