(* ===== verification/Dleq_Oprf.thy ===== *)
theory Dleq_Oprf
  imports Curves
begin

text \<open>
  The oblivious pseudorandom function and its proofs of equal discrete logarithms
  (\<open>cryptography/src/lib.rs\<close>): \<open>local_kdf\<close>, the two client steps, the server step, and
  \<open>DLEQProof\<close> with its Fiat-Shamir challenge. Nonces and masks drawn at random are arguments.
\<close>

section \<open>Definitions\<close>

text \<open>Argon2 from the crate \<open>argon2\<close>: the salt string of 16 bytes, and the password hash.\<close>

record argon2 =
  encode_b64 :: "bytes \<Rightarrow> string option"
  hash_password :: "bytes \<Rightarrow> string \<Rightarrow> string option"

definition local_kdf :: "digests \<Rightarrow> argon2 \<Rightarrow> bytes \<Rightarrow> bytes \<Rightarrow> (string, Error) outcome" where
  "local_kdf H A2 username password =
    obind (hash256 H username) (\<lambda>salt_hash.
    let salt = take 16 salt_hash in
    obind (ok_or InvalidInput (encode_b64 A2 salt)) (\<lambda>salt_string.
    ok_or InvalidInput (hash_password A2 password salt_string)))"

definition string_bytes :: "string \<Rightarrow> bytes" where
  "string_bytes s = map of_char s"

definition oprf_client_1 ::
    "digests \<Rightarrow> argon2 \<Rightarrow> ('f, 'p) curve \<Rightarrow> 'f \<Rightarrow> bytes \<Rightarrow> bytes \<Rightarrow> (bytes \<times> 'f, Error) outcome" where
  "oprf_client_1 H A2 C secret_mask username password =
    obind (local_kdf H A2 username password) (\<lambda>local_kdf_result.
    obind (hash_to_curve C (string_bytes local_kdf_result)) (\<lambda>hashed2curve.
    let masked = scalar_mul C hashed2curve secret_mask in
    obind (encode C masked) (\<lambda>enc. Ok (enc, secret_mask))))"

record ('f, 'p) DLEQProof =
  input_point :: 'p
  pubkey :: 'p
  output_point :: 'p
  r_pub :: 'p
  r_in :: 'p
  challenge :: 'f
  response :: 'f

definition challenge_hash ::
    "digests \<Rightarrow> ('f, 'p) curve \<Rightarrow> 'p \<Rightarrow> 'p \<Rightarrow> 'p \<Rightarrow> 'p \<Rightarrow> 'p \<Rightarrow> ('f, Error) outcome" where
  "challenge_hash H C inp pk outp rp ri =
    obind (omap (encode C) [base_point_or_generator C, inp, pk, outp, rp, ri]) (\<lambda>encs.
    obind (hash512 H (concat encs)) (\<lambda>digest.
    let digest_modn = from_bytes_be digest mod from_bytes_be (FIELD_MODULUS_BE C) in
    from_biguint_vartime C digest_modn))"

definition DLEQProof_new ::
    "digests \<Rightarrow> ('f::field, 'p) curve \<Rightarrow> 'f \<Rightarrow> 'p \<Rightarrow> 'f \<Rightarrow> (('f, 'p) DLEQProof, Error) outcome" where
  "DLEQProof_new H C r inp secret_key =
    (let pk = scalar_mul C (base_point_or_generator C) secret_key;
         outp = scalar_mul C inp secret_key;
         rp = scalar_mul C (base_point_or_generator C) r;
         ri = scalar_mul C inp r
     in obind (challenge_hash H C inp pk outp rp ri) (\<lambda>ch.
        Ok \<lparr> input_point = inp, pubkey = pk, output_point = outp, r_pub = rp, r_in = ri,
             challenge = ch, response = r - ch * secret_key \<rparr>))"

definition verify_and_get_output ::
    "digests \<Rightarrow> ('f::field, 'p::ab_group_add) curve \<Rightarrow> ('f, 'p) DLEQProof \<Rightarrow> 'p \<Rightarrow> 'p \<Rightarrow>
      ('p, Error) outcome" where
  "verify_and_get_output H C self pk point_to_multiply =
    (let should_be_rA = add_self (scalar_mul C (base_point_or_generator C) (response self))
                                 (scalar_mul C (pubkey self) (challenge self));
         should_be_rB = add_self (scalar_mul C (input_point self) (response self))
                                 (scalar_mul C (output_point self) (challenge self))
     in obind (challenge_hash H C point_to_multiply (pubkey self) (output_point self)
                 should_be_rA should_be_rB) (\<lambda>should_be_challenge.
        if should_be_challenge = challenge self \<and> input_point self = point_to_multiply \<and>
           pubkey self = pk
        then Ok (output_point self) else Err InvalidDLEQProof))"

definition server ::
    "digests \<Rightarrow> ('f::field, 'p) curve \<Rightarrow> 'f \<Rightarrow> 'f \<Rightarrow> bytes \<Rightarrow> (('f, 'p) DLEQProof, Error) outcome" where
  "server H C r server_secret oprf_client_masked =
    obind (from_encoded C oprf_client_masked) (\<lambda>as_pt. DLEQProof_new H C r as_pt server_secret)"

text \<open>\<open>BigUint::to_str_radix(16)\<close>.\<close>

definition hex_digit :: "nat \<Rightarrow> char" where
  "hex_digit d = ''0123456789abcdef'' ! (d mod 16)"

fun hex_digits :: "nat \<Rightarrow> string" where
  "hex_digits n = (if n < 16 then [hex_digit n] else hex_digits (n div 16) @ [hex_digit n])"

declare hex_digits.simps [simp del]

definition oprf_client_2 ::
    "digests \<Rightarrow> ('f::field, 'p::ab_group_add) curve \<Rightarrow> 'p \<Rightarrow> 'f \<Rightarrow> 'p \<Rightarrow> ('f, 'p) DLEQProof \<Rightarrow>
      (string, Error) outcome" where
  "oprf_client_2 H C my_masked_point my_mask server_pubkey server_response =
    obind (verify_and_get_output H C server_response server_pubkey my_masked_point) (\<lambda>server_output.
    obind (mul_inv C my_mask) (\<lambda>inverted.
    case inverted of
      None \<Rightarrow> Err InvalidInput
    | Some mi \<Rightarrow> obind (hash_from_curve C (scalar_mul C server_output mi)) (\<lambda>h. Ok (hex_digits h))))"

section \<open>Completeness\<close>

lemma dleq_completeness:
  assumes laws: "curve_laws C" and made: "DLEQProof_new H C r inp sk = Ok prf"
  shows "verify_and_get_output H C prf (scalar_mul C (base_point_or_generator C) sk) inp =
    Ok (scalar_mul C inp sk)"
proof -
  from made obtain ch where ch: "challenge_hash H C inp (scalar_mul C (base_point_or_generator C) sk)
        (scalar_mul C inp sk) (scalar_mul C (base_point_or_generator C) r) (scalar_mul C inp r) = Ok ch"
    and pf: "prf = \<lparr> input_point = inp, pubkey = scalar_mul C (base_point_or_generator C) sk,
        output_point = scalar_mul C inp sk, r_pub = scalar_mul C (base_point_or_generator C) r,
        r_in = scalar_mul C inp r, challenge = ch, response = r - ch * sk \<rparr>"
    by (auto simp: DLEQProof_new_def Let_def obind_eq_Ok)
  have "scalar_mul C P (r - ch * sk) + scalar_mul C (scalar_mul C P sk) ch = scalar_mul C P r" for P
    using laws by (simp add: smul_simps mult.commute)
  with ch pf show ?thesis
    by (simp add: verify_and_get_output_def Let_def)
qed

lemma DLEQProof_new_fields:
  assumes "DLEQProof_new H C r inp sk = Ok prf"
  shows "input_point prf = inp" "pubkey prf = scalar_mul C (base_point_or_generator C) sk"
    "output_point prf = scalar_mul C inp sk"
  using assms by (auto simp: DLEQProof_new_def Let_def obind_eq_Ok)

section \<open>Soundness\<close>

text \<open>The commitments the verifier recomputes from a response and its challenge.\<close>

definition recomputed_r_pub :: "('f, 'p::ab_group_add) curve \<Rightarrow> ('f, 'p) DLEQProof \<Rightarrow> 'p" where
  "recomputed_r_pub C prf =
    scalar_mul C (base_point_or_generator C) (response prf) + scalar_mul C (pubkey prf) (challenge prf)"

definition recomputed_r_in :: "('f, 'p::ab_group_add) curve \<Rightarrow> ('f, 'p) DLEQProof \<Rightarrow> 'p" where
  "recomputed_r_in C prf =
    scalar_mul C (input_point prf) (response prf) + scalar_mul C (output_point prf) (challenge prf)"

lemma verify_Ok_iff:
  "verify_and_get_output H C prf pk P = Ok Q \<longleftrightarrow>
    Q = output_point prf \<and> input_point prf = P \<and> pubkey prf = pk \<and>
    challenge_hash H C P pk Q
      (scalar_mul C (base_point_or_generator C) (response prf) + scalar_mul C pk (challenge prf))
      (scalar_mul C P (response prf) + scalar_mul C Q (challenge prf)) = Ok (challenge prf)"
  by (auto simp: verify_and_get_output_def Let_def obind_eq_Ok)

lemma verify_other_key:
  assumes "verify_and_get_output H C prf pk P = Ok Q" and "pk' \<noteq> pk"
  shows "verify_and_get_output H C prf pk' P = Err InvalidDLEQProof"
  using assms by (auto simp: verify_and_get_output_def Let_def obind_eq_Ok split: if_splits)

text \<open>Special soundness of the underlying protocol: two responses to different challenges on
  the same commitments force the output to be the secret multiple.\<close>

lemma dleq_extract:
  fixes C :: "('f::field, 'p::ab_group_add) curve"
  assumes laws: "curve_laws C" and G: "G \<noteq> 0" and pk: "pk = scalar_mul C G sk"
    and A: "scalar_mul C G s1 + scalar_mul C pk c1 = scalar_mul C G s2 + scalar_mul C pk c2"
    and B: "scalar_mul C P s1 + scalar_mul C Q c1 = scalar_mul C P s2 + scalar_mul C Q c2"
    and c: "c1 \<noteq> c2"
  shows "Q = scalar_mul C P sk"
proof -
  have "scalar_mul C G (s1 - s2) = scalar_mul C G (sk * (c2 - c1))"
    using A laws by (simp add: pk smul_simps algebra_simps)
  then have s: "s1 - s2 = sk * (c2 - c1)"
    using scalar_mul_cancel [OF laws G] by simp
  have "scalar_mul C Q (c2 - c1) = scalar_mul C P (s1 - s2)"
    using B laws by (simp add: smul_simps algebra_simps)
  also have "\<dots> = scalar_mul C (scalar_mul C P sk) (c2 - c1)"
    by (simp add: s scalar_mul_mul [OF laws])
  finally have "scalar_mul C (scalar_mul C Q (c2 - c1)) (inverse (c2 - c1)) =
      scalar_mul C (scalar_mul C (scalar_mul C P sk) (c2 - c1)) (inverse (c2 - c1))" by simp
  then show ?thesis
    using scalar_mul_inverse [OF laws, of "c2 - c1"] c by simp
qed

section \<open>The OPRF\<close>

lemma oprf_unmask:
  assumes laws: "curve_laws C" and m: "b \<noteq> 0"
  shows "scalar_mul C (scalar_mul C (scalar_mul C P b) k) (inverse b) = scalar_mul C P k"
proof -
  have "b * k * inverse b = k" using m by (simp add: field_simps)
  then show ?thesis by (simp only: scalar_mul_mul [OF laws])
qed

end
