(* ===== verification/Reconstruct.thy ===== *)
theory Reconstruct
  imports Dleq_Oprf Polynomials
begin

text \<open>
  Reconstruction of a multiplied point from the nodes' responses (\<open>cryptography/src/reconstruct.rs\<close>):
  additive, threshold with checked proofs, and threshold without proofs.
\<close>

section \<open>Definitions\<close>

definition additive ::
    "digests \<Rightarrow> ('f::field, 'p::ab_group_add) curve \<Rightarrow> 'p \<Rightarrow> ('f, 'p) DLEQProof list \<Rightarrow> 'p list \<Rightarrow>
      ('p, Error) outcome" where
  "additive H C point_to_multiply responses pubkeys =
    ofold (\<lambda>result (proof, pk).
        obind (verify_and_get_output H C proof pk point_to_multiply) (\<lambda>output.
        Ok (add_self result output)))
      ZERO (zip responses pubkeys)"

definition threshold ::
    "digests \<Rightarrow> ('f::field, 'p::ab_group_add) curve \<Rightarrow> 'p \<Rightarrow> ('f, 'p) DLEQProof list \<Rightarrow> 'p list \<Rightarrow>
      nat list \<Rightarrow> ('p, Error) outcome" where
  "threshold H C point_to_multiply responses pubkeys indices =
    ofold (\<lambda>result (proof, pk, i).
        obind (verify_and_get_output H C proof pk point_to_multiply) (\<lambda>output.
        obind (lagrange_basis_at_0 i indices) (\<lambda>at_zero.
        Ok (add_self result (scalar_mul C output at_zero)))))
      ZERO (zip responses (zip pubkeys indices))"

definition threshold_unchecked ::
    "('f::field, 'p::ab_group_add) curve \<Rightarrow> 'p list \<Rightarrow> nat list \<Rightarrow> ('p, 'e) outcome" where
  "threshold_unchecked C responses indices =
    ofold (\<lambda>result (point, i).
        obind (lagrange_basis_at_0 i indices) (\<lambda>at_zero.
        Ok (add_self result (scalar_mul C point at_zero))))
      ZERO (zip responses indices)"

section \<open>Lemmas\<close>

lemma threshold_unchecked_honest:
  fixes C :: "('f::field, 'p::ab_group_add) curve"
  assumes "curve_laws C" and "indices_ok TYPE('f) idx" and "length (coefficients p) \<le> length idx"
  shows "threshold_unchecked C (map (\<lambda>i. scalar_mul C P (eval p (of_nat i))) idx) idx =
    Ok (scalar_mul C P (eval p 0))"
  unfolding threshold_unchecked_def ZERO_def
  by (rule shamir.recombine_loop [OF assms refl])

text \<open>Checked reconstruction is unchecked reconstruction once every proof verifies.\<close>

lemma threshold_checked:
  assumes "length responses = length indices" and "length pubkeys = length indices"
    and "\<And>k. k < length indices \<Longrightarrow>
      verify_and_get_output H C (responses ! k) (pubkeys ! k) P = Ok (outs ! k)"
    and "length outs = length indices"
  shows "threshold H C P responses pubkeys indices = threshold_unchecked C outs indices"
proof -
  have "ofold (\<lambda>result (proof, pk, i).
        obind (verify_and_get_output H C proof pk P) (\<lambda>output.
        obind (lagrange_basis_at_0 i idx) (\<lambda>at_zero.
        Ok (add_self result (scalar_mul C output at_zero))))) r (zip rs (zip pks js)) =
      ofold (\<lambda>result (point, i). obind (lagrange_basis_at_0 i idx) (\<lambda>at_zero.
        Ok (add_self result (scalar_mul C point at_zero)))) r (zip os js)"
    if "length rs = length js" "length pks = length js" "length os = length js"
      "\<forall>k<length js. verify_and_get_output H C (rs ! k) (pks ! k) P = Ok (os ! k)"
    for rs pks js os r idx
    using that
  proof (induction js arbitrary: rs pks os r)
    case (Cons j js)
    from Cons.prems obtain a as b bs d ds where eqs: "rs = a # as" "pks = b # bs" "os = d # ds"
      by (metis length_Suc_conv)
    with Cons.prems(4) have "verify_and_get_output H C a b P = Ok d"
      "\<forall>k<length js. verify_and_get_output H C (as ! k) (bs ! k) P = Ok (ds ! k)" by force+
    with Cons.prems eqs Cons.IH [of as bs ds] show ?case
      by (cases "lagrange_basis_at_0 j idx :: ('a, Error) outcome") simp_all
  qed simp
  with assms show ?thesis by (simp add: threshold_def threshold_unchecked_def)
qed

text \<open>The loop consumes a proof only if it verifies against its key and the requested point.\<close>

lemma threshold_Ok_verified:
  assumes "threshold H C P responses pubkeys indices = Ok R"
    and "k < length responses" "k < length pubkeys" "k < length indices"
  shows "verify_and_get_output H C (responses ! k) (pubkeys ! k) P = Ok (output_point (responses ! k))"
proof -
  have "(responses ! k, pubkeys ! k, indices ! k) \<in> set (zip responses (zip pubkeys indices))"
    using assms by (auto simp: set_zip)
  from ofold_Ok_step [OF assms(1) [unfolded threshold_def] this]
  obtain Q where "verify_and_get_output H C (responses ! k) (pubkeys ! k) P = Ok Q"
    by (auto simp: obind_eq_Ok)
  moreover from this have "Q = output_point (responses ! k)" by (simp add: verify_Ok_iff)
  ultimately show ?thesis by simp
qed

lemma additive_honest:
  assumes "length responses = length pubkeys"
    and "\<And>k. k < length pubkeys \<Longrightarrow>
      verify_and_get_output H C (responses ! k) (pubkeys ! k) P = Ok (outs ! k)"
    and "length outs = length pubkeys"
  shows "additive H C P responses pubkeys = Ok (sum_list outs)"
proof -
  have "ofold (\<lambda>result (proof, pk). obind (verify_and_get_output H C proof pk P) (\<lambda>output.
        Ok (add_self result output))) r (zip rs pks) = Ok (r + sum_list os)"
    if "length rs = length pks" "length os = length pks"
      "\<forall>k<length pks. verify_and_get_output H C (rs ! k) (pks ! k) P = Ok (os ! k)"
    for rs pks os r
    using that
  proof (induction pks arbitrary: rs os r)
    case (Cons b bs)
    from Cons.prems obtain a as d ds where eqs: "rs = a # as" "os = d # ds"
      by (metis length_Suc_conv)
    with Cons.prems(3) have "verify_and_get_output H C a b P = Ok d"
      "\<forall>k<length bs. verify_and_get_output H C (as ! k) (bs ! k) P = Ok (ds ! k)" by force+
    with Cons.prems eqs Cons.IH [of as ds] show ?case by (simp add: add.assoc)
  qed simp
  from this [of responses pubkeys outs 0] assms show ?thesis by (simp add: additive_def)
qed

text \<open>Two responses under one index: every coefficient is 1, so the shares are added.\<close>

lemma threshold_unchecked_duplicate:
  assumes "curve_laws C" and "0 < i"
  shows "threshold_unchecked C [S, T] [i, i] = Ok (S + T)"
  using assms
  by (simp add: threshold_unchecked_def lagrange_basis_at_0_def assert_then_def smul_simps)

end
