(* ===== verification/Small_Field.thy ===== *)
theory Small_Field
  imports Dkg Dleq_Oprf
begin

text \<open>
  A concrete instance of every parameter of the cryptographic part: the field of seven elements,
  its additive group as the points, constant digests, and an RSA stand-in that pairs a message
  with its padding. It satisfies the laws the theorems assume, so their hypotheses can hold.
\<close>

section \<open>The field of seven elements\<close>

typedef gf7 = "{0..<7::nat}"
  by (rule exI [of _ 0]) simp

setup_lifting type_definition_gf7

lift_definition gf :: "nat \<Rightarrow> gf7" is "\<lambda>n. n mod 7"
  by simp

lift_definition val7 :: "gf7 \<Rightarrow> nat" is "\<lambda>n. n" .

lemma gf_val7 [simp]: "gf (val7 x) = x"
  by transfer simp

lemma val7_gf [simp]: "val7 (gf n) = n mod 7"
  by transfer simp

lemma val7_lt: "val7 x < 7"
  by transfer simp

lemma gf_eq_iff: "gf m = gf n \<longleftrightarrow> m mod 7 = n mod 7"
  by transfer simp

lemma gf7_cases: obtains n where "n < 7" and "x = gf n"
  by (rule that [of "val7 x"]) (simp_all add: val7_lt)

instantiation gf7 :: field
begin

definition zero_gf7 :: gf7 where "zero_gf7 = gf 0"
definition one_gf7 :: gf7 where "one_gf7 = gf 1"
definition plus_gf7 :: "gf7 \<Rightarrow> gf7 \<Rightarrow> gf7" where "plus_gf7 x y = gf (val7 x + val7 y)"
definition times_gf7 :: "gf7 \<Rightarrow> gf7 \<Rightarrow> gf7" where "times_gf7 x y = gf (val7 x * val7 y)"
definition uminus_gf7 :: "gf7 \<Rightarrow> gf7" where "uminus_gf7 x = gf (6 * val7 x)"
definition minus_gf7 :: "gf7 \<Rightarrow> gf7 \<Rightarrow> gf7" where "minus_gf7 x y = gf (val7 x + 6 * val7 y)"
definition inverse_gf7 :: "gf7 \<Rightarrow> gf7" where "inverse_gf7 x = gf (val7 x ^ 5)"
definition divide_gf7 :: "gf7 \<Rightarrow> gf7 \<Rightarrow> gf7" where "divide_gf7 x y = gf (val7 x * val7 y ^ 5)"

lemma gf7_eval:
  "0 = gf 0" "1 = gf 1" "gf m + gf n = gf (m + n)" "gf m * gf n = gf (m * n)"
  "gf m - gf n = gf (m + 6 * n)" "- gf n = gf (6 * n)" "inverse (gf n) = gf (n ^ 5)"
  "gf m div gf n = gf (m * n ^ 5)"
proof -
  have six: "6 * (n mod 7) mod 7 = 6 * n mod 7" by (simp only: mod_mult_right_eq)
  have "(m mod 7 + 6 * (n mod 7)) mod 7 = (m mod 7 + 6 * (n mod 7) mod 7) mod 7"
    by (simp only: mod_add_right_eq)
  also have "\<dots> = (m + 6 * n) mod 7"
    by (simp only: six mod_add_eq)
  finally show "gf m - gf n = gf (m + 6 * n)" by (simp add: minus_gf7_def gf_eq_iff)
  have "(m mod 7) * (n mod 7) ^ 5 mod 7 = (m mod 7) * ((n mod 7) ^ 5 mod 7) mod 7"
    by (simp only: mod_mult_right_eq)
  also have "\<dots> = m * n ^ 5 mod 7"
    by (simp only: power_mod mod_mult_eq)
  finally show "gf m div gf n = gf (m * n ^ 5)" by (simp add: divide_gf7_def gf_eq_iff)
  from six show "- gf n = gf (6 * n)" by (simp add: uminus_gf7_def gf_eq_iff)
qed (simp_all only: zero_gf7_def one_gf7_def plus_gf7_def times_gf7_def inverse_gf7_def gf_eq_iff
    val7_gf mod_add_eq mod_mult_eq power_mod)

instance
proof
  fix a b c :: gf7
  obtain x where x: "x < 7" "a = gf x" by (rule gf7_cases)
  obtain y where y: "b = gf y" by (rule gf7_cases)
  obtain z where z: "c = gf z" by (rule gf7_cases)
  note abc = x(2) y z
  show "a + b + c = a + (b + c)" by (simp only: abc gf7_eval add.assoc)
  show "a + b = b + a" by (simp only: abc gf7_eval add.commute)
  show "0 + a = a" by (simp only: abc gf7_eval add_0)
  have "(6 * x + x) mod 7 = 0 mod 7" by simp
  then show "- a + a = 0" by (simp only: abc gf7_eval gf_eq_iff)
  show "a - b = a + - b" by (simp only: abc gf7_eval)
  show "a * b * c = a * (b * c)" by (simp only: abc gf7_eval mult.assoc)
  show "a * b = b * a" by (simp only: abc gf7_eval mult.commute)
  show "1 * a = a" by (simp only: abc gf7_eval mult_1)
  show "(a + b) * c = a * c + b * c" by (simp only: abc gf7_eval distrib_right)
  show "(0::gf7) \<noteq> 1" by (simp add: zero_gf7_def one_gf7_def gf_eq_iff)
  show "a \<noteq> 0 \<Longrightarrow> inverse a * a = 1"
  proof -
    assume "a \<noteq> 0"
    with x(2) have "x \<noteq> 0" by (metis zero_gf7_def)
    with x(1) have "x = 1 \<or> x = 2 \<or> x = 3 \<or> x = 4 \<or> x = 5 \<or> x = 6" by arith
    then show "inverse a * a = 1" by (elim disjE) (simp_all add: x(2) gf7_eval gf_eq_iff)
  qed
  show "a div b = a * inverse b" by (simp only: abc gf7_eval)
  show "inverse (0::gf7) = 0" by (simp add: gf7_eval)
qed

end

lemma of_nat_gf7: "of_nat n = gf n"
  by (induction n) (simp_all add: gf7_eval)

lemma power_gf7: "gf m ^ n = gf (m ^ n)"
  by (induction n) (simp_all add: gf7_eval)

lemma gf7_reduce: "(7::nat) \<le> numeral n \<Longrightarrow> gf (numeral n) = gf (numeral n mod 7)"
  by (simp only: gf_eq_iff mod_mod_trivial)

lemmas gf7_simps = gf7_eval of_nat_gf7 power_gf7 gf_eq_iff

section \<open>The instance\<close>

definition small_digests :: digests where
  "small_digests = \<lparr> Blake2b512 = (\<lambda>_. replicate 63 0 @ [5]), Sha3_256 = (\<lambda>_. replicate 32 1) \<rparr>"

definition small_curve :: "(gf7, gf7) curve" where
  "small_curve =
    \<lparr> NAME = ''small'', FIELD_MODULUS_BE = [7], base_point_or_generator = 1,
      scalar_mul = (\<lambda>P a. P * a), is_on_curve = (\<lambda>_. True),
      is_in_subgroup_assuming_on_curve = (\<lambda>_. True),
      encode = (\<lambda>P. Ok [of_nat (val7 P)]),
      from_encoded = (\<lambda>bs. Ok (gf (from_bytes_be bs))),
      hash_to_curve = (\<lambda>_. Ok (gf 3)), hash_from_curve = (\<lambda>P. Ok (val7 P)),
      mul_inv = secp_mul_inv, from_biguint_vartime = (\<lambda>n. Ok (gf n)), to_biguint_vartime = val7,
      scalar_from_bytes = (\<lambda>bs. Ok (gf (from_bytes_be bs))),
      scalar_to_bytes = (\<lambda>a. [of_nat (val7 a)]),
      field_to_repr = (\<lambda>a. [of_nat (val7 a)]),
      field_from_repr = (\<lambda>bs. Some (gf (from_bytes_be bs))), field_repr_len = 1 \<rparr>"

definition small_rsa :: "(nat, nat) rsa" where
  "small_rsa =
    \<lparr> encrypt = (\<lambda>pk r m. Ok (of_nat r # m)),
      decrypt = (\<lambda>sk ct. case ct of [] \<Rightarrow> Err ''empty'' | _ # m \<Rightarrow> Ok m),
      public_of = (\<lambda>sk. sk), generate = (\<lambda>seed bits. Ok seed) \<rparr>"

definition small_argon2 :: argon2 where
  "small_argon2 = \<lparr> encode_b64 = (\<lambda>_. Some ''salt''), hash_password = (\<lambda>p s. Some ''hash'') \<rparr>"

lemma small_digests_ok: "digests_ok small_digests"
  by (simp add: digests_ok_def small_digests_def)

lemma small_sha3: "Sha3_256 small_digests m = 1 # replicate 31 1"
  using replicate_Suc [of 31 "1 :: byte"] by (simp add: small_digests_def)

lemma small_curve_laws: "curve_laws small_curve"
  by (rule curve_laws_intro) (simp_all add: small_curve_def algebra_simps)

lemma small_curve_sel [simp]:
  "base_point_or_generator small_curve = gf 1" "scalar_mul small_curve P a = P * a"
  "encode small_curve P = Ok [of_nat (val7 P)]" "FIELD_MODULUS_BE small_curve = [7]"
  "from_biguint_vartime small_curve n = Ok (gf n)" "mul_inv small_curve = secp_mul_inv"
  "hash_to_curve small_curve m = Ok (gf 3)" "hash_from_curve small_curve P = Ok (val7 P)"
  "from_encoded small_curve bs = Ok (gf (from_bytes_be bs))"
  by (simp_all add: small_curve_def one_gf7_def)

lemma small_generator: "base_point_or_generator small_curve \<noteq> 0"
  by (simp add: gf7_simps)

lemma small_repr_laws: "repr_laws small_curve"
proof -
  have "unat (of_nat (val7 x) :: byte) = val7 x" for x
    using val7_lt [of x] by (simp add: unat_of_nat)
  then show ?thesis
    by (simp add: repr_laws_def small_curve_def from_bytes_be_def)
qed

lemma small_rsa_laws: "rsa_laws small_rsa"
  by (simp add: rsa_laws_def small_rsa_def)

lemma small_inj: "inj_on (of_nat :: nat \<Rightarrow> gf7) {0..<7}"
  by (simp add: inj_on_def of_nat_gf7 gf_eq_iff)

lemma small_indices_ok:
  "\<lbrakk>distinct idx; 0 \<notin> set idx; \<forall>i\<in>set idx. i < 7\<rbrakk> \<Longrightarrow> indices_ok TYPE(gf7) idx"
  unfolding indices_ok_def by (intro conjI inj_on_subset [OF small_inj]) auto

section \<open>The curve libraries\<close>

definition small_k256 :: "(gf7, gf7) k256" where
  "small_k256 =
    \<lparr> GENERATOR = gf 1, affine_mul = (\<lambda>P a. P * a), to_encoded_point = (\<lambda>P c. be_bytes 33 (val7 P)),
      EncodedPoint_from_bytes = Some, from_encoded_point = (\<lambda>bs. Some (gf (from_bytes_be bs))),
      from_str_vartime = (\<lambda>n. Some (gf n)), to_repr = (\<lambda>a. be_bytes 32 (val7 a)),
      from_repr = (\<lambda>bs. Some (gf (from_bytes_be bs))), F256k1_to_repr = (\<lambda>a. be_bytes 40 (val7 a)),
      F256k1_from_repr = (\<lambda>bs. Some (gf (from_bytes_be bs))) \<rparr>"

definition small_ark :: "(gf7, gf7) ark" where
  "small_ark =
    \<lparr> Affine = (\<lambda>x y. gf y), xy = (\<lambda>P. Some (0, val7 P)), ark_mul = (\<lambda>P a. P * a),
      ark_is_on_curve = (\<lambda>_. True), is_in_correct_subgroup = (\<lambda>_. True),
      get_xs_from_y_unchecked = (\<lambda>y. if y < 7 then Some (0, 0) else None),
      get_point_from_y_unchecked = (\<lambda>y g. if y < 7 then Some (gf y) else None),
      fq_serialize = digits_be, fq_deserialize = (\<lambda>bs. Some (from_bytes_be bs)),
      fr_from_biguint = gf, fr_into_bigint = val7, fr_serialize = (\<lambda>a. be_bytes 32 (val7 a)),
      fr_deserialize = (\<lambda>bs. Some (gf (from_bytes_be bs))),
      BABYJUBJUB_to_repr = (\<lambda>a. be_bytes 32 (val7 a)),
      BABYJUBJUB_from_repr = (\<lambda>bs. Some (gf (from_bytes_be bs))),
      bincode_serialize = (\<lambda>e. (if greatest e then 1 else 0) # enc_y e),
      bincode_deserialize = (\<lambda>bs. case bs of [] \<Rightarrow> None | b # ys \<Rightarrow> Some \<lparr> greatest = b \<noteq> 0, enc_y = ys \<rparr>) \<rparr>"

lemma small_sec1_laws: "sec1_laws small_k256"
  by (simp add: sec1_laws_def small_k256_def)

lemma small_k256_on_curve: "secp_is_on_curve small_k256 P"
  using val7_lt [of P] by (simp add: secp_is_on_curve_def small_k256_def from_be_bytes)

lemma small_from_encoded_point:
  "from_encoded_point small_k256 bs = Some (gf (from_bytes_be bs))"
  by (simp add: small_k256_def)

lemma small_ark_laws: "ark_laws small_ark"
  by (simp add: ark_laws_def small_ark_def)

lemma small_bjj_laws: "curve_laws (BabyJubJub small_digests small_ark)"
  by (rule curve_laws_intro) (simp_all add: BabyJubJub_def small_ark_def algebra_simps)

lemma small_secp_laws: "curve_laws (Secp256k1 small_digests small_k256)"
  by (rule curve_laws_intro) (simp_all add: Secp256k1_def small_k256_def algebra_simps)

end
