(* ===== verification/Threshold_Properties.thy ===== *)
theory Threshold_Properties
  imports Dkg_Run Resharing Reconstruct Small_Field
begin

text \<open>
  The properties of the threshold cryptography: key generation, resharing, reconstruction,
  verifiable sharing, and the proofs of equal discrete logarithms. Each property with hypotheses
  is applied once to the small instance.
\<close>

section \<open>Key generation and resharing\<close>

text \<open>C1. An honest run of key generation returns at every node: node \<open>i\<close> gets the value at
  \<open>i\<close> of one polynomial (the sum of the nodes' polynomials), the matching public share, and the
  group key, which is the generator times the sum of the nodes' secrets; round 3 accepts it.\<close>

theorem dkg_correct:
  assumes "setup_ok R C network nodes"
  shows "run_dkg R C rnd network nodes =
    (let F = group_poly rnd network nodes; G = base_point_or_generator C;
         K = scalar_mul C G (\<Sum>n\<leftarrow>nodes. fst (rnd (node_id n))) in
     Ok (map (\<lambda>n. (node_id n, eval F (of_nat (node_id n)),
           scalar_mul C G (eval F (of_nat (node_id n))), K)) nodes,
         map (\<lambda>_. K) nodes))"
proof -
  let ?F = "group_poly rnd network nodes"
  have "eval ?F 0 = (\<Sum>n\<leftarrow>nodes. fst (rnd (node_id n)))"
    using assms by (simp add: group_poly_eval setup_ok_def node_poly_props)
  moreover have "length (coefficients ?F) \<le> net_threshold network"
    by (simp add: group_poly_def sum_poly_def)
  ultimately show ?thesis
    using run_round_3_honest [OF assms, of ?F]
    by (simp add: run_dkg_def run_round_1_honest [OF assms] run_round_2_honest [OF assms] Let_def)
qed

definition small_node :: "nat \<Rightarrow> (gf7, gf7, nat, nat) Node" where
  "small_node i =
    \<lparr> node_id = i, rsa_pubkey = i, rsa_seckey = i, init_pub_share = 0, private_share = 0,
      network_pubkey = 0, own_partial_share = 0 \<rparr>"

definition small_network :: "nat Network" where
  "small_network =
    \<lparr> net_threshold = 2, total_nodes = 3, public_keys = [(1, 1), (2, 2), (3, 3)] \<rparr>"

definition small_randomness :: "gf7 randomness" where
  "small_randomness i = (gf i, (\<lambda>k. gf (i + k)), (\<lambda>k. k))"

lemma small_sel [simp]:
  "node_id (small_node i) = i" "rsa_seckey (small_node i) = i" "net_threshold small_network = 2"
  "total_nodes small_network = 3" "public_keys small_network = [(1, 1), (2, 2), (3, 3)]"
  "public_of small_rsa sk = sk"
  by (simp_all add: small_node_def small_network_def small_rsa_def)

lemma small_setup_ok: "setup_ok small_rsa small_curve small_network (map small_node [1, 2, 3])"
  unfolding setup_ok_def
  by (intro conjI small_curve_laws small_generator small_repr_laws small_rsa_laws)
    (auto intro!: small_indices_ok)

lemma small_group_poly:
  "group_poly small_randomness small_network (map small_node [1, 2, 3]) = \<lparr> coefficients = [gf 6, gf 9] \<rparr>"
  by (simp add: group_poly_def sum_poly_def node_poly_def random_polynomials_with_secret_def
      small_randomness_def upt_rec gf7_simps)

theorem dkg_correct_witness:
  "setup_ok small_rsa small_curve small_network (map small_node [1, 2, 3]) \<and>
   run_dkg small_rsa small_curve small_randomness small_network (map small_node [1, 2, 3]) =
    Ok ([(1, gf 1, gf 1, gf 6), (2, gf 3, gf 3, gf 6), (3, gf 5, gf 5, gf 6)], [gf 6, gf 6, gf 6])"
  using dkg_correct [OF small_setup_ok, of small_randomness] small_setup_ok
  unfolding small_group_poly by (simp add: eval_Cons small_randomness_def gf7_simps Let_def)

text \<open>C2. An honest run of resharing returns at every new node: the nodes of the new quorum get
  shares of a polynomial of the new threshold whose secret is the old secret, and every node of
  the new quorum confirms the old group key.\<close>

theorem resharing_correct:
  assumes "reshare_ok R C F t_star new_quorum olds news"
  shows "let Q = reshared_poly rnd F (net_threshold new_quorum) (map node_id olds);
             G = base_point_or_generator C; K = scalar_mul C G (eval F 0) in
    run_resharing R C rnd t_star new_quorum olds news K =
      Ok (map (\<lambda>n. (node_id n, eval Q (of_nat (node_id n)),
            scalar_mul C G (eval Q (of_nat (node_id n))), K)) news,
          map (\<lambda>_. K) news) \<and>
    eval Q 0 = eval F 0 \<and> length (coefficients Q) = net_threshold new_quorum"
proof -
  let ?Q = "reshared_poly rnd F (net_threshold new_quorum) (map node_id olds)"
  have secret: "eval ?Q 0 = eval F 0"
    using assms by (intro reshared_secret) (simp_all add: reshare_ok_def)
  have len: "length (coefficients ?Q) = net_threshold new_quorum"
    by (simp add: reshared_poly_def sum_poly_def)
  then show ?thesis
    using confirm_all_honest [OF assms _ secret] secret
    by (simp add: run_resharing_def deal_all_honest [OF assms] receive_all_honest [OF assms] Let_def)
qed

definition small_dealing :: "gf7 dealing" where
  "small_dealing j = ((\<lambda>k. gf (j + k)), (\<lambda>k. k))"

definition small_old_node :: "nat \<Rightarrow> (gf7, gf7, nat, nat) Node" where
  "small_old_node i = (small_node i) \<lparr> private_share := gf (6 + 9 * i) \<rparr>"

definition small_t_star :: "nat Network" where
  "small_t_star = \<lparr> net_threshold = 2, total_nodes = 2, public_keys = [(1, 1), (3, 3)] \<rparr>"

lemma small_reshare_ok:
  "reshare_ok small_rsa small_curve \<lparr> coefficients = [gf 6, gf 9] \<rparr> small_t_star small_network
    (map small_old_node [1, 3]) (map small_node [1, 2, 3])"
  unfolding reshare_ok_def
  by (intro conjI small_curve_laws small_generator small_repr_laws small_rsa_laws)
    (auto intro!: small_indices_ok simp: small_t_star_def small_old_node_def hm_keys_def eval_Cons
      gf7_simps)

theorem resharing_correct_witness:
  "reshare_ok small_rsa small_curve \<lparr> coefficients = [gf 6, gf 9] \<rparr> small_t_star small_network
    (map small_old_node [1, 3]) (map small_node [1, 2, 3]) \<and>
   run_resharing small_rsa small_curve small_dealing small_t_star small_network
    (map small_old_node [1, 3]) (map small_node [1, 2, 3]) (gf 6) =
    Ok ([(1, gf 5, gf 5, gf 6), (2, gf 4, gf 4, gf 6), (3, gf 3, gf 3, gf 6)], [gf 6, gf 6, gf 6])"
  using resharing_correct [OF small_reshare_ok, of small_dealing] small_reshare_ok
  by (simp add: eval_Cons small_dealing_def small_old_node_def gf7_simps Let_def reshared_poly_def
      sum_poly_def dealer_poly_def random_polynomials_with_secret_def upt_rec lagrange_coeff_def)


definition small_single :: "nat Network" where
  "small_single = \<lparr> net_threshold = 1, total_nodes = 1, public_keys = [(1, 1)] \<rparr>"

lemma small_round_2:
  "resharing_round_2 small_rsa small_curve (small_node 1) small_single small_single
    [(1, [0, 6])] [(1, [gf 6])] (gf 6) = Ok (gf 6, gf 6, gf 6)"
  by (simp add: resharing_round_2_def assert_then_def small_single_def hm_values_def hm_get_def
      decrypt_shares_def small_rsa_def from_bytes_be_def hm_keys_def verify_shares_def verify_vss_def
      sum_first_commitments_def gf7_simps Let_def)


section \<open>Verifiable sharing\<close>

text \<open>C31. Feldman's check decides exactly: for commitments dealt by \<open>feldman_vss\<close>, a share is
  accepted at an index if and only if it is the value of the polynomial there, as long as the
  powers of the index fit 128 bits.\<close>

theorem vss_accepts_exactly_the_share:
  fixes C :: "('f::field, 'p::ab_group_add) curve"
  assumes "curve_laws C" and "base_point_or_generator C \<noteq> 0" and "coefficients p \<noteq> []"
    and "index ^ (length (coefficients p) - 1) < 2 ^ 128"
  shows "\<exists>y v. feldman_vss C p nodes (length (coefficients p)) = (Ok (y, v) :: (_, unit) outcome) \<and>
    verify_vss C index share v = (Ok (share = eval p (of_nat index)) :: (_, unit) outcome)"
  using feldman_vss_Ok [of "length (coefficients p)" p C nodes]
    verify_vss_commitment [OF assms(1-3) refl assms(4)] by blast

theorem vss_accepts_exactly_the_share_witness:
  "\<exists>y v. feldman_vss small_curve \<lparr> coefficients = [gf 3, gf 2] \<rparr> [(1::nat, ()), (2, ())] 2 =
      (Ok (y, v) :: (_, unit) outcome) \<and>
    verify_vss small_curve 2 (gf 0) v = (Ok True :: (_, unit) outcome)"
  using vss_accepts_exactly_the_share [OF small_curve_laws small_generator,
      of "\<lparr> coefficients = [gf 3, gf 2] \<rparr>" 2 "[(1::nat, ()), (2, ())]" "gf 0"]
  by (simp add: eval_Cons gf7_simps flip: numeral_2_eq_2)

lemma monomial_sum:
  "(\<Sum>k<Suc d. (replicate d 0 @ [c]) ! k * f k) = (c * f d :: 'f::field)"
proof -
  have "(\<Sum>k<d. (replicate d 0 @ [c]) ! k * f k) = 0"
    by (rule sum.neutral) (simp add: nth_append)
  then show ?thesis by (simp add: nth_append)
qed

text \<open>The running power in \<open>verify_vss\<close> is a \<open>u128\<close> that wraps. With 41 nodes the configured
  threshold of 60 percent is 25, the power \<open>41 ^ 24\<close> does not fit, and the check rejects an
  honestly dealt share.\<close>

theorem vss_rejects_honest_share:
  "let p = \<lparr> coefficients = replicate 24 (gf 0) @ [gf 1] \<rparr>;
       v = map (\<lambda>j. scalar_mul small_curve (base_point_or_generator small_curve) (coefficients p ! j)) [0..<25] in
   feldman_vss small_curve p [(41::nat, ())] 25 =
     (Ok ([(41, eval p (of_nat 41))], v) :: (_, unit) outcome) \<and>
   verify_vss small_curve 41 (eval p (of_nat 41)) v = (Ok False :: (_, unit) outcome)"
proof -
  let ?cs = "replicate 24 (0::gf7) @ [gf 1]"
  let ?p = "\<lparr> coefficients = ?cs \<rparr>"
  let ?v = "map (\<lambda>j. scalar_mul small_curve (base_point_or_generator small_curve) (?cs ! j)) [0..<25]"
  have len: "length ?cs = Suc 24" by simp
  have share: "eval ?p (of_nat 41) = gf 1"
    by (simp only: eval_sum Polynomial.simps len monomial_sum) (simp add: gf7_simps)
  have "(\<Sum>k<length ?v. scalar_mul small_curve (?v ! k) (of_nat (as_u128 (41 ^ k)))) =
      (\<Sum>k<Suc 24. ?cs ! k * of_nat (as_u128 (41 ^ k)))"
    by (rule sum.cong) (simp_all add: one_gf7_def)
  also have "\<dots> = gf 4"
    by (simp only: monomial_sum) (simp add: as_u128_def gf7_simps)
  finally have "verify_vss small_curve 41 (gf 1) ?v = (Ok False :: (_, unit) outcome)"
    using verify_vss_exact [OF small_curve_laws, of ?v 41 "gf 1"]
    by (simp add: gf7_simps)
  moreover have "feldman_vss small_curve ?p [(41::nat, ())] 25 = (Ok ([(41, gf 1)], ?v) :: (_, unit) outcome)"
    using feldman_vss_wf [of "[(41::nat, ())]" 25 ?p small_curve] share by (simp add: hm_wf_def)
  ultimately show ?thesis
    using share by (simp add: zero_gf7_def)
qed

end
