(* ===== verification/Oprf_Properties.thy ===== *)
theory Oprf_Properties
  imports Reconstruct Small_Field
begin

text \<open>
  The properties of the oblivious pseudorandom function: proofs of equal discrete logarithms,
  the client and server steps, and reconstruction from the nodes' responses.
\<close>

section \<open>Proofs of equal discrete logarithms\<close>

text \<open>An honest proof verifies for its key and its input point and yields the input times
  the secret key; against any other key it is \<open>InvalidDLEQProof\<close>; and it is accepted for no
  other key, point or output.\<close>

theorem dleq_complete:
  assumes "curve_laws C" and "DLEQProof_new H C r inp sk = Ok prf"
  shows "verify_and_get_output H C prf (scalar_mul C (base_point_or_generator C) sk) inp =
      Ok (scalar_mul C inp sk) \<and>
    (\<forall>pk. pk \<noteq> scalar_mul C (base_point_or_generator C) sk \<longrightarrow>
      verify_and_get_output H C prf pk inp = Err InvalidDLEQProof) \<and>
    (\<forall>pk P Q. verify_and_get_output H C prf pk P = Ok Q \<longrightarrow>
      pk = scalar_mul C (base_point_or_generator C) sk \<and> P = inp \<and> Q = scalar_mul C inp sk)"
  using verify_other_key [OF dleq_completeness [OF assms]] dleq_completeness [OF assms]
    DLEQProof_new_fields [OF assms(2)]
  by (simp add: verify_Ok_iff)

lemma small_challenge: "challenge_hash small_digests small_curve a b c d e = Ok (gf 5)"
  by (simp add: challenge_hash_def hash512_def small_digests_def Let_def)

definition small_proof :: "gf7 \<Rightarrow> gf7 \<Rightarrow> gf7 \<Rightarrow> (gf7, gf7) DLEQProof" where
  "small_proof r P k =
    \<lparr> input_point = P, pubkey = gf 1 * k, output_point = P * k, r_pub = gf 1 * r, r_in = P * r,
      challenge = gf 5, response = r - gf 5 * k \<rparr>"

lemma small_new: "DLEQProof_new small_digests small_curve r P k = Ok (small_proof r P k)"
  by (simp add: DLEQProof_new_def small_challenge small_proof_def Let_def)

theorem dleq_complete_witness:
  "verify_and_get_output small_digests small_curve (small_proof (gf 4) (gf 3) (gf 2)) (gf 2) (gf 3) = Ok (gf 6) \<and>
   verify_and_get_output small_digests small_curve (small_proof (gf 4) (gf 3) (gf 2)) (gf 1) (gf 3) =
     Err InvalidDLEQProof"
  using dleq_complete [OF small_curve_laws small_new [of "gf 4" "gf 3" "gf 2"]]
  by (simp add: gf7_simps)


definition other_digests :: digests where
  "other_digests = \<lparr> Blake2b512 = (\<lambda>_. replicate 63 0 @ [1]), Sha3_256 = (\<lambda>_. replicate 32 1) \<rparr>"

lemma other_verifies:
  "verify_and_get_output other_digests small_curve
    \<lparr> input_point = gf 3, pubkey = gf 2, output_point = gf 6, r_pub = 0, r_in = 0,
      challenge = gf 1, response = gf 2 \<rparr>
    (scalar_mul small_curve (base_point_or_generator small_curve) (gf 2)) (gf 3) = Ok (gf 6)"
  by (simp add: verify_and_get_output_def challenge_hash_def hash512_def other_digests_def Let_def
      gf7_simps)


section \<open>Reconstruction\<close>

text \<open>C8. Reconstruction from honest responses: when every index answers with the server step
  under its share of a polynomial with at most as many coefficients as there are responses, the
  checked threshold reconstruction returns the requested point times the shared secret.\<close>

theorem threshold_reconstructs:
  fixes C :: "('f::field, 'p::ab_group_add) curve"
  assumes "curve_laws C" and "indices_ok TYPE('f) idx" and "length (coefficients p) \<le> length idx"
    and "from_encoded C enc = Ok P"
    and "omap (\<lambda>i. server H C (nonce i) (eval p (of_nat i)) enc) idx = Ok proofs"
  shows "threshold H C P proofs
      (map (\<lambda>i. scalar_mul C (base_point_or_generator C) (eval p (of_nat i))) idx) idx =
    Ok (scalar_mul C P (eval p 0))"
proof -
  have len: "length proofs = length idx" using omap_length [OF assms(5)] .
  have "verify_and_get_output H C (proofs ! k)
      (scalar_mul C (base_point_or_generator C) (eval p (of_nat (idx ! k)))) P =
      Ok (scalar_mul C P (eval p (of_nat (idx ! k))))" if "k < length idx" for k
  proof (rule dleq_completeness [OF assms(1)])
    show "DLEQProof_new H C (nonce (idx ! k)) P (eval p (of_nat (idx ! k))) = Ok (proofs ! k)"
      using assms(4,5) that by (auto simp: omap_eq_Ok server_def list_all2_conv_all_nth)
  qed
  then have "threshold H C P proofs
      (map (\<lambda>i. scalar_mul C (base_point_or_generator C) (eval p (of_nat i))) idx) idx =
      threshold_unchecked C (map (\<lambda>i. scalar_mul C P (eval p (of_nat i))) idx) idx"
    using len by (intro threshold_checked) simp_all
  then show ?thesis by (simp add: threshold_unchecked_honest [OF assms(1-3)])
qed

theorem threshold_reconstructs_witness:
  "threshold small_digests small_curve (gf 3) [small_proof (gf 0) (gf 3) (gf 1), small_proof (gf 0) (gf 3) (gf 5)]
    [gf 1, gf 5] [1, 3] = Ok (gf 4)"
proof -
  have "omap (\<lambda>i. server small_digests small_curve (gf 0) (eval \<lparr> coefficients = [gf 6, gf 2] \<rparr> (of_nat i)) [3]) [1, 3] =
      Ok [small_proof (gf 0) (gf 3) (gf 1), small_proof (gf 0) (gf 3) (gf 5)]"
    by (simp add: server_def small_new eval_Cons gf7_simps small_proof_def)
  then show ?thesis
    using threshold_reconstructs [OF small_curve_laws small_indices_ok, of "[1, 3]"
        "\<lparr> coefficients = [gf 6, gf 2] \<rparr>" "[3]" "gf 3" small_digests "\<lambda>_. gf 0"]
    by (simp add: eval_Cons gf7_simps gf7_reduce)
qed

text \<open>C33. Checked reconstruction accepts nothing unverified: if it returns, every response it
  combined verifies against the key of its index and the requested point.\<close>

theorem threshold_only_verified:
  assumes "threshold H C P responses pubkeys indices = Ok R"
    and "k < length responses" "k < length pubkeys" "k < length indices"
  shows "verify_and_get_output H C (responses ! k) (pubkeys ! k) P = Ok (output_point (responses ! k))"
  by (rule threshold_Ok_verified [OF assms])

theorem threshold_only_verified_witness:
  "verify_and_get_output small_digests small_curve (small_proof (gf 0) (gf 3) (gf 5)) (gf 5) (gf 3) = Ok (gf 1)"
proof -
  have "threshold small_digests small_curve (gf 3) [small_proof (gf 0) (gf 3) (gf 5)] [gf 5] [1] = Ok (gf 1)"
    by (simp add: threshold_def verify_and_get_output_def small_challenge small_proof_def
        lagrange_basis_at_0_def assert_then_def gf7_simps Let_def)
  from threshold_only_verified [OF this, of 0] show ?thesis
    by (simp add: small_proof_def gf7_simps)
qed

section \<open>The client\<close>

text \<open>C9. The OPRF end to end: client step 1, the server step under key \<open>k\<close>, and client step
  2 give the hexadecimal digits of the hash of \<open>k\<close> times the hashed password point, whatever
  the nonzero mask \<open>b\<close> and the server's nonce.\<close>

theorem oprf_correct:
  assumes "curve_laws C" and "b \<noteq> 0" and "mul_inv C b = Ok (Some (inverse b))"
    and "local_kdf H A2 username password = Ok s" and "hash_to_curve C (string_bytes s) = Ok X"
    and "encode C (scalar_mul C X b) = Ok enc" and "from_encoded C enc = Ok (scalar_mul C X b)"
    and "server H C r k enc = Ok prf" and "hash_from_curve C (scalar_mul C X k) = Ok h"
  shows "oprf_client_1 H A2 C b username password = Ok (enc, b) \<and>
    oprf_client_2 H C (scalar_mul C X b) b (scalar_mul C (base_point_or_generator C) k) prf =
      Ok (hex_digits h)"
proof
  show "oprf_client_1 H A2 C b username password = Ok (enc, b)"
    using assms(4-6) by (simp add: oprf_client_1_def Let_def)
  have "DLEQProof_new H C r (scalar_mul C X b) k = Ok prf"
    using assms(7,8) by (simp add: server_def)
  from dleq_completeness [OF assms(1) this] show
    "oprf_client_2 H C (scalar_mul C X b) b (scalar_mul C (base_point_or_generator C) k) prf = Ok (hex_digits h)"
    using oprf_unmask [OF assms(1,2)] assms(3,9) by (simp add: oprf_client_2_def)
qed

theorem oprf_correct_witness:
  "oprf_client_1 small_digests small_argon2 small_curve (gf 2) [1] [2] = Ok ([6], gf 2) \<and>
   oprf_client_2 small_digests small_curve (gf 6) (gf 2) (gf 5) (small_proof (gf 4) (gf 6) (gf 5)) = Ok ''1''"
proof -
  have "local_kdf small_digests small_argon2 [1] [2] = Ok ''hash''"
    by (simp add: local_kdf_def hash256_Ok [OF small_digests_ok] small_argon2_def Let_def)
  moreover have "server small_digests small_curve (gf 4) (gf 5) [6] = Ok (small_proof (gf 4) (gf 6) (gf 5))"
    by (simp add: server_def small_new)
  ultimately show ?thesis
    using oprf_correct [OF small_curve_laws, of "gf 2" small_digests small_argon2 "[1]" "[2]" "''hash''"
        "gf 3" "[6]" "gf 4" "gf 5" "small_proof (gf 4) (gf 6) (gf 5)" 1]
    by (simp add: gf7_simps secp_mul_inv_def hex_digits.simps hex_digit_def)
qed

text \<open>A client never unmasks an unverified response: \<open>oprf_client_2\<close> succeeds only if the
  response verifies against the server's key and the client's own masked point and the mask is
  invertible.\<close>

theorem oprf_client_2_checks:
  assumes "oprf_client_2 H C masked b server_pubkey prf = Ok out"
  shows "verify_and_get_output H C prf server_pubkey masked = Ok (output_point prf) \<and>
    (\<exists>mi h. mul_inv C b = Ok (Some mi) \<and>
      hash_from_curve C (scalar_mul C (output_point prf) mi) = Ok h \<and> out = hex_digits h)"
proof -
  from assms obtain Q mi h where Q: "verify_and_get_output H C prf server_pubkey masked = Ok Q"
    and rest: "mul_inv C b = Ok (Some mi)" "hash_from_curve C (scalar_mul C Q mi) = Ok h" "out = hex_digits h"
    by (auto simp: oprf_client_2_def obind_eq_Ok split: option.splits)
  from Q have "Q = output_point prf" by (simp add: verify_Ok_iff)
  with Q rest show ?thesis by auto
qed

theorem oprf_client_2_checks_witness:
  "verify_and_get_output small_digests small_curve (small_proof (gf 4) (gf 6) (gf 5)) (gf 5) (gf 6) =
    Ok (output_point (small_proof (gf 4) (gf 6) (gf 5)))"
proof -
  have "verify_and_get_output small_digests small_curve (small_proof (gf 4) (gf 6) (gf 5)) (gf 5) (gf 6) = Ok (gf 2)"
    by (simp add: verify_and_get_output_def small_challenge small_proof_def gf7_simps Let_def)
  then have "oprf_client_2 small_digests small_curve (gf 6) (gf 2) (gf 5) (small_proof (gf 4) (gf 6) (gf 5)) = Ok ''1''"
    by (simp add: oprf_client_2_def secp_mul_inv_def gf7_simps hex_digits.simps hex_digit_def)
  from oprf_client_2_checks [OF this] show ?thesis by blast
qed

section \<open>Hashing to the curves\<close>

text \<open>Hashing to secp256k1 decides by the first usable counter: it returns the candidate
  of the first of the 1024 counters that decodes to a curve point, the rare error if none does,
  and does not panic; whatever it returns is on the curve.\<close>

theorem secp_hash_to_curve_decides:
  assumes "digests_ok H" and "sec1_laws K"
  shows "(secp_hash_to_curve H K msg = Ok P \<longleftrightarrow>
      (\<exists>a<1024. secp_candidate H K msg a = Some P \<and> (\<forall>b<a. secp_candidate H K msg b = None))) \<and>
    (secp_hash_to_curve H K msg = Err e \<longleftrightarrow>
      e = ExtremelyRareErrorInputUnhashableToCurve \<and> (\<forall>a<1024. secp_candidate H K msg a = None)) \<and>
    secp_hash_to_curve H K msg \<noteq> Panic \<and>
    (secp_hash_to_curve H K msg = Ok P \<longrightarrow> secp_is_on_curve K P)"
proof -
  note decides = try_from_decides [of 1024, OF secp_step_candidate [OF assms]]
  have "secp_is_on_curve K P" if "secp_hash_to_curve H K msg = Ok P"
    using that unfolding secp_hash_to_curve_def decides(1) by (auto simp: secp_candidate_on_curve)
  then show ?thesis
    unfolding secp_hash_to_curve_def by (simp only: decides) simp
qed

theorem secp_hash_to_curve_decides_witness:
  "\<exists>P. secp_hash_to_curve small_digests small_k256 [9] = Ok P"
proof -
  have "\<exists>P. secp_candidate small_digests small_k256 [9] 0 = Some P"
    by (simp add: secp_candidate_def Let_def small_k256_on_curve small_from_encoded_point)
  then obtain P where "secp_candidate small_digests small_k256 [9] 0 = Some P" ..
  then have "secp_hash_to_curve small_digests small_k256 [9] = Ok P"
    by (subst secp_hash_to_curve_decides [OF small_digests_ok small_sec1_laws, THEN conjunct1])
      (rule exI [of _ 0], simp)
  then show ?thesis ..
qed

text \<open>BabyJubJub points survive their encoding, and hashing to BabyJubJub decides by the
  first usable counter: a point on the curve and in the subgroup, the rare error, and no panic.\<close>

theorem bjj_points:
  assumes "digests_ok H" and "ark_laws A"
  shows "(xy A (Affine A x y) = Some (x, y) \<and> y < bn254_p \<and> ark_is_on_curve A (Affine A x y) \<and>
      (\<exists>lo hi. get_xs_from_y_unchecked A y = Some (lo, hi) \<and> x \<in> {lo, hi}) \<longrightarrow>
      obind (bjj_encode A (Affine A x y)) (bjj_from_encoded A) = Ok (Affine A x y)) \<and>
    (bjj_hash_to_curve H A msg = Ok P \<longleftrightarrow>
      (\<exists>a<1024. bjj_candidate H A msg a = Some P \<and> (\<forall>b<a. bjj_candidate H A msg b = None))) \<and>
    (bjj_hash_to_curve H A msg = Ok P \<longrightarrow> ark_is_on_curve A P \<and> is_in_correct_subgroup A P) \<and>
    bjj_hash_to_curve H A msg \<noteq> Panic"
proof -
  have bin: "bincode_deserialize A (bincode_serialize A e) = Some e" for e
    using assms(2) by (simp add: ark_laws_def)
  note decides = try_from_decides [of 1024, OF bjj_step_candidate [OF assms(1) bin]]
  have "ark_is_on_curve A P \<and> is_in_correct_subgroup A P" if "bjj_hash_to_curve H A msg = Ok P"
    using that unfolding bjj_hash_to_curve_def decides(1) by (auto dest: bjj_candidate_in_subgroup)
  moreover have "obind (bjj_encode A (Affine A x y)) (bjj_from_encoded A) = Ok (Affine A x y)"
    if "xy A (Affine A x y) = Some (x, y) \<and> y < bn254_p \<and> ark_is_on_curve A (Affine A x y) \<and>
      (\<exists>lo hi. get_xs_from_y_unchecked A y = Some (lo, hi) \<and> x \<in> {lo, hi})"
    using that bjj_encode_round_trip [OF assms(2), of x y] by (auto simp: obind_eq_Ok)
  ultimately show ?thesis
    unfolding bjj_hash_to_curve_def by (simp only: decides) simp
qed

theorem bjj_points_witness:
  "obind (bjj_encode small_ark (Affine small_ark 0 5)) (bjj_from_encoded small_ark) = Ok (Affine small_ark 0 5)"
  using bjj_points [OF small_digests_ok small_ark_laws, of 0 5 "[]" 0, THEN conjunct1]
  by (simp add: small_ark_def)

section \<open>Two faults\<close>

text \<open>Repeated responses are combined silently: two responses under one index are simply
  added, so an honest response counted twice for a secret held by one share gives twice the
  multiple instead of an error.\<close>

theorem threshold_unchecked_adds_duplicates:
  assumes "curve_laws C" and "0 < i"
  shows "threshold_unchecked C [S, T] [i, i] = (Ok (S + T) :: (_, Error) outcome) \<and>
    threshold_unchecked C [S] [i] = (Ok S :: (_, Error) outcome)"
  using threshold_unchecked_duplicate [OF assms] assms
  by (simp add: threshold_unchecked_def lagrange_basis_at_0_def assert_then_def smul_simps)

theorem threshold_unchecked_adds_duplicates_witness:
  "threshold_unchecked small_curve [gf 3, gf 3] [1, 1] = (Ok (gf 6) :: (_, Error) outcome)"
  using threshold_unchecked_adds_duplicates [OF small_curve_laws, of 1 "gf 3" "gf 3"]
  by (simp add: gf7_simps)

text \<open>\<open>Polynomial::from_seed\<close> never returns a polynomial: a Blake2b-512 digest has 64 bytes
  and the conversion to 32 bytes fails on the first coefficient.\<close>

theorem from_seed_always_errs:
  assumes "digests_ok H" and "length seed = 32"
  shows "from_seed (Blake2b512 H) draw seed degree = Err TryFromSliceError"
  using assms by (intro from_seed_fails) (simp_all add: digests_ok_def)

theorem from_seed_always_errs_witness:
  "from_seed (Blake2b512 small_digests) (\<lambda>_. gf 1) (replicate 32 0) 3 = Err TryFromSliceError"
  by (rule from_seed_always_errs [OF small_digests_ok]) simp

end
