(* ===== verification/Encryption.thy ===== *)
theory Encryption
  imports Dleq_Oprf
begin

text \<open>
  ElGamal encryption with the Koblitz map of messages to BabyJubJub points
  (\<open>cryptography/src/encryption.rs\<close>) and Schnorr signatures (\<open>cryptography/src/schnorrsig.rs\<close>).
  Ephemeral secrets and nonces drawn at random are arguments; an Ethereum address is its 20 bytes.
\<close>

section \<open>Schnorr signatures\<close>

record ('f, 'p) SchnorrSig =
  sig_R :: 'p
  sig_s :: 'f

text \<open>The challenge both \<open>sign\<close> and \<open>verify\<close> compute; \<open>from_biguint_vartime\<close> is unwrapped.\<close>

definition schnorr_hash ::
    "digests \<Rightarrow> ('f, 'p) curve \<Rightarrow> bytes \<Rightarrow> 'p \<Rightarrow> 'p \<Rightarrow> ('f, Error) outcome" where
  "schnorr_hash H C msg pubnonce pk =
    (let modulus = from_bytes_be (FIELD_MODULUS_BE C) in
     obind (encode C pubnonce) (\<lambda>enc_nonce.
     obind (encode C pk) (\<lambda>enc_pubkey.
     let preimg = enc_nonce @ enc_pubkey @ msg in
     obind (hash512 H preimg) (\<lambda>digest.
     let h = from_bytes_be digest mod modulus in
     unwrap (from_biguint_vartime C h)))))"

definition sign ::
    "digests \<Rightarrow> ('f::field, 'p) curve \<Rightarrow> 'f \<Rightarrow> 'f \<Rightarrow> bytes \<Rightarrow> (('f, 'p) SchnorrSig, Error) outcome" where
  "sign H C nonce self msg =
    (let pubnonce = scalar_mul C (base_point_or_generator C) nonce;
         pk = scalar_mul C (base_point_or_generator C) self in
     obind (schnorr_hash H C msg pubnonce pk) (\<lambda>h.
     let s = nonce + self * h in
     Ok \<lparr> sig_R = pubnonce, sig_s = s \<rparr>))"

definition verify ::
    "digests \<Rightarrow> ('f, 'p::ab_group_add) curve \<Rightarrow> bytes \<Rightarrow> 'p \<Rightarrow> ('f, 'p) SchnorrSig \<Rightarrow>
      (unit, Error) outcome" where
  "verify H C msg pk sg =
    (let pubnonce = sig_R sg; s = sig_s sg in
     obind (schnorr_hash H C msg pubnonce pk) (\<lambda>h.
     let lhs = scalar_mul C (base_point_or_generator C) s;
         rhs = add_self (scalar_mul C pk h) pubnonce in
     if lhs = rhs then Ok () else Err InvalidSignature))"

record ('f, 'p) EphemeralPrivateKeyWithSig =
  private_key :: 'f
  signature :: "('f, 'p) SchnorrSig"

section \<open>The Koblitz map\<close>

record 'p MapCurve =
  NUM_BYTES_PADDING :: nat
  koblitz_map :: "bytes \<Rightarrow> ('p, Error) outcome"
  reverse_koblitz :: "'p \<Rightarrow> (bytes, Error) outcome"

text \<open>The y-coordinate of a counter: the counter's eight bytes before the message, reduced into
  the base field.\<close>

definition koblitz_y :: "nat \<Rightarrow> bytes \<Rightarrow> nat" where
  "koblitz_y acc msg = from_bytes_be (be_bytes 8 acc @ msg) mod bn254_p"

definition koblitz_step :: "digests \<Rightarrow> ('f, 'p) ark \<Rightarrow> bytes \<Rightarrow> nat \<Rightarrow> ('p option, Error) outcome" where
  "koblitz_step H A msg acc =
    obind (hash256 H msg) (\<lambda>digest.
    obind (unwrap_option (case digest of [] \<Rightarrow> None | b # _ \<Rightarrow> Some b)) (\<lambda>b.
    let deterministic_random_bit = unat b mod 2 = 0 in
    Ok (case get_point_from_y_unchecked A (koblitz_y acc msg) deterministic_random_bit of
          Some p \<Rightarrow> if ark_is_on_curve A p \<and> is_in_correct_subgroup A p then Some p else None
        | None \<Rightarrow> None)))"

definition bjj_koblitz_map :: "digests \<Rightarrow> ('f, 'p) ark \<Rightarrow> bytes \<Rightarrow> ('p, Error) outcome" where
  "bjj_koblitz_map H A msg = try_from (2 ^ 63) InvalidInput (koblitz_step H A msg) 0"

text \<open>\<open>32 - bigbytes.len()\<close> underflows, and the slice panics, if the coordinate has over 32 bytes.\<close>

definition bjj_reverse_koblitz :: "('f, 'p) ark \<Rightarrow> 'p \<Rightarrow> (bytes, Error) outcome" where
  "bjj_reverse_koblitz A point =
    (if \<not> (ark_is_on_curve A point \<and> is_in_correct_subgroup A point) then Err InvalidInput
     else obind (ok_or InvalidInput (xy A point)) (\<lambda>(_, y).
       let bigbytes = to_bytes_be y in
       assert_then (length bigbytes \<le> 32)
       (let padding = 32 - length bigbytes;
            bs = replicate padding 0 @ bigbytes
        in Ok (take 24 (drop 8 bs)))))"

definition BabyJubJub_MapCurve :: "digests \<Rightarrow> ('f, 'p) ark \<Rightarrow> 'p MapCurve" where
  "BabyJubJub_MapCurve H A =
    \<lparr> NUM_BYTES_PADDING = 8, koblitz_map = bjj_koblitz_map H A, reverse_koblitz = bjj_reverse_koblitz A \<rparr>"

section \<open>ElGamal\<close>

record 'p ElGamalCiphertext =
  encrypted_msg :: 'p
  ephemeral_dh_pubkey :: 'p

type_synonym address = bytes

record ('f, 'p) DecryptionContractSignature =
  contract :: address
  contract_sig :: "('f, 'p) SchnorrSig"

record ('f, 'p) ElGamalCiphertextWithSignedConditions =
  ciphertext :: "'p ElGamalCiphertext"
  signed_conditions :: "('f, 'p) DecryptionContractSignature"

definition get_contract_and_pubkey_if_valid ::
    "digests \<Rightarrow> ('f, 'p::ab_group_add) curve \<Rightarrow> ('f, 'p) ElGamalCiphertextWithSignedConditions \<Rightarrow>
      (address \<times> 'p, Error) outcome" where
  "get_contract_and_pubkey_if_valid H C self =
    obind (verify H C (contract (signed_conditions self)) (ephemeral_dh_pubkey (ciphertext self))
            (contract_sig (signed_conditions self))) (\<lambda>_.
    Ok (contract (signed_conditions self), ephemeral_dh_pubkey (ciphertext self)))"

text \<open>\<open>drawn\<close> is the secret drawn by default.\<close>

definition encrypt_elgamal ::
    "('f, 'p::ab_group_add) curve \<Rightarrow> 'p MapCurve \<Rightarrow> 'f \<Rightarrow> bytes \<Rightarrow> 'p \<Rightarrow> 'f option \<Rightarrow>
      ('p ElGamalCiphertext, Error) outcome" where
  "encrypt_elgamal C M drawn msg recipient_pubkey custom_secret =
    obind (koblitz_map M msg) (\<lambda>msg_as_point.
    let ephem_secret = (case custom_secret of Some s \<Rightarrow> s | None \<Rightarrow> drawn);
        ephem_pubkey = scalar_mul C (base_point_or_generator C) ephem_secret;
        shared_secret_dh = scalar_mul C recipient_pubkey ephem_secret
    in Ok \<lparr> encrypted_msg = add_self shared_secret_dh msg_as_point, ephemeral_dh_pubkey = ephem_pubkey \<rparr>)"

definition decrypt_elgamal_from_shared_secret ::
    "'p MapCurve \<Rightarrow> 'p ElGamalCiphertext \<Rightarrow> 'p::ab_group_add \<Rightarrow> (bytes, Error) outcome" where
  "decrypt_elgamal_from_shared_secret M ct shared_secret =
    reverse_koblitz M (add_self (encrypted_msg ct) (- shared_secret))"

definition testfn ::
    "digests \<Rightarrow> ('f::field, 'p::ab_group_add) curve \<Rightarrow> 'p MapCurve \<Rightarrow> 'f \<Rightarrow> bytes \<Rightarrow> 'p \<Rightarrow> address \<Rightarrow> 'f \<Rightarrow>
      (('f, 'p) ElGamalCiphertextWithSignedConditions, Error) outcome" where
  "testfn H C M nonce msg recipient_pubkey conditions_contract secret =
    obind (encrypt_elgamal C M secret msg recipient_pubkey (Some secret)) (\<lambda>ct.
    obind (sign H C nonce secret conditions_contract) (\<lambda>signed.
    Ok \<lparr> ciphertext = ct,
         signed_conditions = \<lparr> contract = conditions_contract, contract_sig = signed \<rparr> \<rparr>))"

text \<open>\<open>encrypt_with_conditions\<close> draws the secret and then does the same.\<close>

definition encrypt_with_conditions ::
    "digests \<Rightarrow> ('f::field, 'p::ab_group_add) curve \<Rightarrow> 'p MapCurve \<Rightarrow> 'f \<Rightarrow> 'f \<Rightarrow> bytes \<Rightarrow> 'p \<Rightarrow> address \<Rightarrow>
      (('f, 'p) ElGamalCiphertextWithSignedConditions, Error) outcome" where
  "encrypt_with_conditions H C M nonce secret msg recipient_pubkey conditions_contract =
    obind (encrypt_elgamal C M secret msg recipient_pubkey (Some secret)) (\<lambda>ct.
    obind (sign H C nonce secret conditions_contract) (\<lambda>signed.
    Ok \<lparr> ciphertext = ct,
         signed_conditions = \<lparr> contract = conditions_contract, contract_sig = signed \<rparr> \<rparr>))"

section \<open>Lemmas\<close>

lemma verify_Ok_iff_equation:
  "verify H C msg pk sg = Ok () \<longleftrightarrow>
    (\<exists>h. schnorr_hash H C msg (sig_R sg) pk = Ok h \<and>
      scalar_mul C (base_point_or_generator C) (sig_s sg) = scalar_mul C pk h + sig_R sg)"
  by (auto simp: verify_def Let_def obind_eq_Ok)

lemma sign_verifies:
  assumes "curve_laws C" and "sign H C nonce sk msg = Ok sg"
  shows "verify H C msg (scalar_mul C (base_point_or_generator C) sk) sg = Ok ()"
  using assms by (auto simp: sign_def verify_Ok_iff_equation Let_def obind_eq_Ok smul_simps mult.commute add.commute)

text \<open>Two accepted signatures on one nonce with different challenges give away the key.\<close>

lemma schnorr_extract:
  fixes C :: "('f::field, 'p::ab_group_add) curve"
  assumes laws: "curve_laws C" and "G \<noteq> 0" and pk: "pk = scalar_mul C G sk"
    and "scalar_mul C G s\<^sub>1 = scalar_mul C pk h\<^sub>1 + R" and "scalar_mul C G s\<^sub>2 = scalar_mul C pk h\<^sub>2 + R"
    and h: "h\<^sub>1 \<noteq> h\<^sub>2"
  shows "sk = (s\<^sub>1 - s\<^sub>2) / (h\<^sub>1 - h\<^sub>2)"
proof -
  have "scalar_mul C G (s\<^sub>1 - s\<^sub>2) = scalar_mul C G (sk * (h\<^sub>1 - h\<^sub>2))"
    using assms(4,5) laws by (simp add: pk smul_simps algebra_simps)
  then have "s\<^sub>1 - s\<^sub>2 = sk * (h\<^sub>1 - h\<^sub>2)"
    using scalar_mul_cancel [OF laws assms(2)] by simp
  with h show ?thesis by (simp add: field_simps)
qed

text \<open>The counter is kept by the reduction as long as its top eight bytes are below those of the
  modulus.\<close>

lemma koblitz_y_exact:
  assumes "acc < 0x30644e72e131a029" and "length msg = 24"
  shows "koblitz_y acc msg = acc * 2 ^ 192 + from_bytes_be msg"
proof -
  have "from_bytes_be msg < 256 ^ 24" using from_bytes_be_bound [of msg] assms(2) by simp
  then have m: "from_bytes_be msg < 2 ^ 192" by simp
  have "(acc + 1) * 2 ^ 192 \<le> 0x30644e72e131a029 * 2 ^ 192"
    using assms(1) by (intro mult_right_mono) simp_all
  also have "\<dots> < (bn254_p :: nat)" by simp
  finally have "acc * 2 ^ 192 + from_bytes_be msg < bn254_p" using m by simp
  moreover have "acc < 256 ^ 8" using assms(1) by simp
  ultimately show ?thesis
    using assms(2) by (simp add: koblitz_y_def from_bytes_be_append from_be_bytes)
qed

text \<open>At the first counter past that bound the reduction drops the counter and changes the
  message bytes.\<close>

lemma from_bytes_be_ones: "Suc (from_bytes_be (replicate k 255)) = 256 ^ k"
proof (induction k)
  case (Suc k)
  have "from_bytes_be (replicate (Suc k) 255) = 256 * from_bytes_be (replicate k 255) + 255"
    using from_bytes_be_snoc [of "replicate k 255" 255] by (simp add: replicate_append_same)
  with Suc show ?case by simp
qed simp

lemma koblitz_y_wraps:
  "koblitz_y 0x30644e72e131a029 (replicate 24 255) mod 2 ^ 192 \<noteq> from_bytes_be (replicate 24 255)"
proof -
  have "from_bytes_be (replicate 24 255) = 2 ^ 192 - 1"
    using from_bytes_be_ones [of 24] by simp
  then show ?thesis
    by (simp add: koblitz_y_def from_bytes_be_append from_be_bytes)
qed

text \<open>What the Koblitz map relies on: the point built for a y-coordinate has it, and only the
  identity, at y-coordinate 1, has no affine coordinates.\<close>

definition koblitz_laws :: "('f, 'p::ab_group_add) ark \<Rightarrow> bool" where
  "koblitz_laws A \<longleftrightarrow>
    (\<forall>y g P. get_point_from_y_unchecked A y g = Some P \<longrightarrow>
      (if P = 0 then y = 1 else \<exists>x. xy A P = Some (x, y)))"

lemma koblitz_step_Some:
  assumes "koblitz_step H A msg acc = Ok (Some P)"
  shows "\<exists>g. get_point_from_y_unchecked A (koblitz_y acc msg) g = Some P"
    and "ark_is_on_curve A P" and "is_in_correct_subgroup A P"
  using assms by (auto simp: koblitz_step_def obind_eq_Ok Let_def split: option.splits if_splits)

lemma koblitz_step_total:
  assumes "digests_ok H"
  shows "\<exists>c. koblitz_step H A msg acc = Ok c"
proof -
  obtain b bs where "Sha3_256 H msg = b # bs" by (rule digest_cases [OF assms])
  then show ?thesis by (simp add: koblitz_step_def hash256_Ok [OF assms] Let_def)
qed

lemma reverse_koblitz_of_step:
  assumes laws: "koblitz_laws A" and len: "length msg = 24" and m: "from_bytes_be msg \<noteq> 1"
    and acc: "acc < 0x30644e72e131a029" and step: "koblitz_step H A msg acc = Ok (Some P)"
  shows "bjj_reverse_koblitz A P = Ok msg"
proof -
  let ?y = "koblitz_y acc msg"
  have y: "?y = from_bytes_be (be_bytes 8 acc @ msg)"
    using koblitz_y_exact [OF acc len] acc len by (simp add: from_bytes_be_append from_be_bytes)
  have "?y \<noteq> 1" using koblitz_y_exact [OF acc len] m by (cases acc) simp_all
  with laws koblitz_step_Some(1) [OF step] obtain x where x: "xy A P = Some (x, ?y)"
    unfolding koblitz_laws_def by metis
  have "?y < 256 ^ 32" by (rule less_trans [of _ bn254_p]) (simp_all add: koblitz_y_def)
  then have l: "length (to_bytes_be ?y) \<le> 32" by (rule length_to_bytes_be) simp
  then have "replicate (32 - length (to_bytes_be ?y)) 0 @ to_bytes_be ?y = be_bytes 8 acc @ msg"
    using len y by (intro from_bytes_be_inject) simp_all
  then have "take 24 (drop 8 (replicate (32 - length (to_bytes_be ?y)) 0 @ to_bytes_be ?y)) = msg"
    by (simp only:) (simp add: len)
  with l x len koblitz_step_Some(2,3) [OF step] show ?thesis
    by (simp add: bjj_reverse_koblitz_def Let_def assert_then_def del: take_append drop_append)
qed

text \<open>The first counter that hits is the one the loop returns.\<close>

lemma koblitz_round_trip:
  assumes "digests_ok H" and "koblitz_laws A" and "length msg = 24" and "from_bytes_be msg \<noteq> 1"
    and "acc < 0x30644e72e131a029" and "koblitz_step H A msg acc = Ok (Some Q)"
  shows "\<exists>P. bjj_koblitz_map H A msg = Ok P \<and> bjj_reverse_koblitz A P = Ok msg"
proof -
  define cand where "cand a = the_ok (koblitz_step H A msg a)" for a
  have cand: "koblitz_step H A msg a = Ok (cand a)" for a
    using koblitz_step_total [OF assms(1), of A msg a] by (auto simp: cand_def)
  with assms(6) obtain a where a: "a \<le> acc" "cand a \<noteq> None" "\<And>b. b < a \<Longrightarrow> cand b = None"
    using exists_least_iff [of "\<lambda>a. cand a \<noteq> None"]
    by (metis linorder_not_le option.distinct(1) outcome.inject(1))
  then obtain P where P: "cand a = Some P" by auto
  have "bjj_koblitz_map H A msg = Ok P"
    unfolding bjj_koblitz_map_def using a P cand assms(5)
    by (intro try_from_hit [of 0 a]) simp_all
  moreover have "bjj_reverse_koblitz A P = Ok msg"
    using a(1) assms(5) cand P by (intro reverse_koblitz_of_step [OF assms(2-4), of a H]) simp_all
  ultimately show ?thesis by blast
qed

end
