(* ===== verification/Serialization.thy ===== *)
theory Serialization
  imports Dleq_Oprf
begin

text \<open>
  The serde modules for points, scalars, field elements and maps of points
  (\<open>cryptography/src/serialization.rs\<close>). The crate \<open>hex\<close> is a parameter; a serializer's
  value is the string (or the map of strings) it is given, and a deserializer's input is the
  result of reading that string. \<open>custom m\<close> is serde's error with message \<open>m\<close>.
\<close>

section \<open>Definitions\<close>

record hexcrate =
  hex_encode :: "bytes \<Rightarrow> string"
  hex_decode :: "string \<Rightarrow> bytes option"
  hex_error :: "string \<Rightarrow> string"

definition hex_laws :: "hexcrate \<Rightarrow> bool" where
  "hex_laws X \<longleftrightarrow> (\<forall>bs. hex_decode X (hex_encode X bs) = Some bs)"

datatype SerdeError = custom string

definition point_hex_serialize :: "hexcrate \<Rightarrow> ('f, 'p) curve \<Rightarrow> 'p \<Rightarrow> (string, Error) outcome" where
  "point_hex_serialize X C point = obind (encode C point) (\<lambda>bs. Ok (hex_encode X bs))"

definition point_hex_deserialize ::
    "hexcrate \<Rightarrow> ('f, 'p) curve \<Rightarrow> (string, SerdeError) outcome \<Rightarrow> ('p, SerdeError) outcome" where
  "point_hex_deserialize X C deserializer =
    obind deserializer (\<lambda>s.
    obind (ok_or (custom '''') (hex_decode X s)) (\<lambda>bs.
    map_err (\<lambda>_. custom ''error deserializing point'') (from_encoded C bs)))"

definition scalar_hex_serialize :: "hexcrate \<Rightarrow> ('f, 'p) curve \<Rightarrow> 'f \<Rightarrow> (string, Error) outcome" where
  "scalar_hex_serialize X C scalar = Ok (hex_encode X (scalar_to_bytes C scalar))"

definition scalar_hex_deserialize ::
    "hexcrate \<Rightarrow> ('f, 'p) curve \<Rightarrow> (string, SerdeError) outcome \<Rightarrow> ('f, SerdeError) outcome" where
  "scalar_hex_deserialize X C deserializer =
    obind deserializer (\<lambda>s.
    obind (ok_or (custom '''') (hex_decode X s)) (\<lambda>bs.
    map_err (\<lambda>_. custom ''error deserializing point'') (scalar_from_bytes C bs)))"

text \<open>The two map modules unwrap a bad string or point instead of returning an error.\<close>

definition hex_point_unwrapped :: "hexcrate \<Rightarrow> ('f, 'p) curve \<Rightarrow> string \<Rightarrow> ('p, SerdeError) outcome" where
  "hex_point_unwrapped X C hex_str =
    obind (unwrap_option (hex_decode X hex_str)) (\<lambda>bs. unwrap (from_encoded C bs))"

definition map_point_hex_serialize ::
    "hexcrate \<Rightarrow> ('f, 'p) curve \<Rightarrow> (nat, 'p list) hashmap \<Rightarrow> ((nat, string list) hashmap, Error) outcome" where
  "map_point_hex_serialize X C m =
    omap (\<lambda>(key, points).
      obind (omap (\<lambda>p. obind (encode C p) (\<lambda>bs. Ok (hex_encode X bs))) points) (\<lambda>strs. Ok (key, strs))) m"

definition map_point_hex_deserialize ::
    "hexcrate \<Rightarrow> ('f, 'p) curve \<Rightarrow> ((nat, string list) hashmap, SerdeError) outcome \<Rightarrow>
      ((nat, 'p list) hashmap, SerdeError) outcome" where
  "map_point_hex_deserialize X C deserializer =
    obind deserializer (\<lambda>encoded_map.
    omap (\<lambda>(key, points).
      obind (omap (hex_point_unwrapped X C) points) (\<lambda>decoded_points. Ok (key, decoded_points))) encoded_map)"

definition hashmap_point_hex_serialize ::
    "hexcrate \<Rightarrow> ('f, 'p) curve \<Rightarrow> (nat, 'p) hashmap \<Rightarrow> ((nat, string) hashmap, Error) outcome" where
  "hashmap_point_hex_serialize X C m =
    omap (\<lambda>(key, point). obind (encode C point) (\<lambda>bs. Ok (key, hex_encode X bs))) m"

definition hashmap_point_hex_deserialize ::
    "hexcrate \<Rightarrow> ('f, 'p) curve \<Rightarrow> ((nat, string) hashmap, SerdeError) outcome \<Rightarrow>
      ((nat, 'p) hashmap, SerdeError) outcome" where
  "hashmap_point_hex_deserialize X C deserializer =
    obind deserializer (\<lambda>encoded_map.
    omap (\<lambda>(key, hex_str).
      obind (hex_point_unwrapped X C hex_str) (\<lambda>decoded_point. Ok (key, decoded_point))) encoded_map)"

definition field_hex_serialize :: "hexcrate \<Rightarrow> ('f, 'p) curve \<Rightarrow> 'f \<Rightarrow> (string, Error) outcome" where
  "field_hex_serialize X C field = Ok (hex_encode X (field_to_repr C field))"

text \<open>\<open>hex_error\<close> is the message of a failed decoding; \<open>from_repr\<close> is unwrapped.\<close>

definition field_hex_deserialize ::
    "hexcrate \<Rightarrow> ('f, 'p) curve \<Rightarrow> (string, SerdeError) outcome \<Rightarrow> ('f, SerdeError) outcome" where
  "field_hex_deserialize X C deserializer =
    obind deserializer (\<lambda>s.
    obind (ok_or (custom (hex_error X s)) (hex_decode X s)) (\<lambda>bs.
    if length bs \<noteq> field_repr_len C then
      Err (custom (''Invalid hex length: expected '' @ dec (field_repr_len C) @ '', got '' @ dec (length bs)))
    else unwrap_option (field_from_repr C bs)))"

section \<open>Round trips\<close>

text \<open>What the modules rely on of a curve.\<close>

definition codec_laws :: "hexcrate \<Rightarrow> ('f, 'p) curve \<Rightarrow> bool" where
  "codec_laws X C \<longleftrightarrow> hex_laws X \<and>
    (\<forall>P bs. encode C P = Ok bs \<longrightarrow> from_encoded C bs = Ok P) \<and>
    (\<forall>a. scalar_from_bytes C (scalar_to_bytes C a) = Ok a) \<and>
    (\<forall>a. field_from_repr C (field_to_repr C a) = Some a \<and>
         length (field_to_repr C a) = field_repr_len C)"

text \<open>The contract of a serde module: what it writes it reads back. A module for the values of a
  map lifts to the map, entry by entry.\<close>

locale serde_module =
  fixes ok :: "'c \<Rightarrow> bool"
    and ser :: "'c \<Rightarrow> 'a \<Rightarrow> ('s, Error) outcome"
    and de :: "'c \<Rightarrow> 's \<Rightarrow> ('a, SerdeError) outcome"
  assumes round_trip: "\<lbrakk>ok c; ser c x = Ok s\<rbrakk> \<Longrightarrow> de c s = Ok x"
begin

lemma ser_inject: "\<lbrakk>ok c; ser c x = Ok s; ser c y = Ok s\<rbrakk> \<Longrightarrow> x = y"
  by (metis round_trip outcome.inject(1))

lemma list_round_trip:
  "\<lbrakk>ok c; omap (ser c) xs = Ok ss\<rbrakk> \<Longrightarrow> omap (de c) ss = Ok xs"
  by (auto simp: omap_eq_Ok list_all2_conv_all_nth round_trip)

lemma keyed_round_trip:
  assumes "ok c" and "omap (\<lambda>(k, x). obind (ser c x) (\<lambda>s. Ok (k, s))) m = Ok m'"
  shows "omap (\<lambda>(k, s). obind (de c s) (\<lambda>x. Ok (k, x))) m' = Ok m"
proof -
  have "(\<lambda>(k, s). obind (de c s) (\<lambda>x. Ok (k, x))) b = Ok a"
    if "(\<lambda>(k, x). obind (ser c x) (\<lambda>s. Ok (k, s))) a = Ok b" for a b
    using that by (cases a) (auto simp: obind_eq_Ok round_trip [OF assms(1)])
  then show ?thesis
    using assms(2) unfolding omap_eq_Ok list_all2_conv_all_nth by metis
qed

end

lemma codec_point: "\<lbrakk>codec_laws X C; encode C P = Ok bs\<rbrakk> \<Longrightarrow> from_encoded C bs = Ok P"
  by (simp add: codec_laws_def)

lemma codec_hex [simp]: "codec_laws X C \<Longrightarrow> hex_decode X (hex_encode X bs) = Some bs"
  by (simp add: codec_laws_def hex_laws_def)

interpretation point_hex: serde_module "\<lambda>(X, C). codec_laws X C"
    "\<lambda>(X, C). point_hex_serialize X C" "\<lambda>(X, C) s. point_hex_deserialize X C (Ok s)"
  by unfold_locales
    (auto simp: point_hex_serialize_def point_hex_deserialize_def obind_eq_Ok codec_point)

interpretation scalar_hex: serde_module "\<lambda>(X, C). codec_laws X C"
    "\<lambda>(X, C). scalar_hex_serialize X C" "\<lambda>(X, C) s. scalar_hex_deserialize X C (Ok s)"
  by unfold_locales
    (auto simp: scalar_hex_serialize_def scalar_hex_deserialize_def codec_laws_def hex_laws_def)

interpretation field_hex: serde_module "\<lambda>(X, C). codec_laws X C"
    "\<lambda>(X, C). field_hex_serialize X C" "\<lambda>(X, C) s. field_hex_deserialize X C (Ok s)"
  by unfold_locales
    (auto simp: field_hex_serialize_def field_hex_deserialize_def codec_laws_def hex_laws_def)

interpretation unwrapped_point: serde_module "\<lambda>(X, C). codec_laws X C"
    "\<lambda>(X, C). point_hex_serialize X C" "\<lambda>(X, C). hex_point_unwrapped X C"
  by unfold_locales
    (auto simp: point_hex_serialize_def hex_point_unwrapped_def obind_eq_Ok codec_point)

interpretation hashmap_point_hex: serde_module "\<lambda>(X, C). codec_laws X C"
    "\<lambda>(X, C). hashmap_point_hex_serialize X C" "\<lambda>(X, C) s. hashmap_point_hex_deserialize X C (Ok s)"
proof (unfold_locales, clarify)
  fix X :: hexcrate and C :: "('f, 'p) curve" and m s
  assume "codec_laws X C" and "hashmap_point_hex_serialize X C m = Ok s"
  with unwrapped_point.keyed_round_trip [of "(X, C)" m s]
  show "hashmap_point_hex_deserialize X C (Ok s) = Ok m"
    by (simp add: hashmap_point_hex_serialize_def hashmap_point_hex_deserialize_def point_hex_serialize_def)
qed

text \<open>The values of \<open>map_point_hex\<close> are lists, written and read element by element.\<close>

interpretation unwrapped_points: serde_module "\<lambda>(X, C). codec_laws X C"
    "\<lambda>(X, C). omap (point_hex_serialize X C)" "\<lambda>(X, C). omap (hex_point_unwrapped X C)"
  using unwrapped_point.list_round_trip by unfold_locales auto

interpretation map_point_hex: serde_module "\<lambda>(X, C). codec_laws X C"
    "\<lambda>(X, C). map_point_hex_serialize X C" "\<lambda>(X, C) s. map_point_hex_deserialize X C (Ok s)"
proof (unfold_locales, clarify)
  fix X :: hexcrate and C :: "('f, 'p) curve" and m s
  assume "codec_laws X C" and "map_point_hex_serialize X C m = Ok s"
  with unwrapped_points.keyed_round_trip [of "(X, C)" m s]
  show "map_point_hex_deserialize X C (Ok s) = Ok m"
    by (simp add: map_point_hex_serialize_def map_point_hex_deserialize_def
        point_hex_serialize_def [abs_def])
qed

end
