(* ===== verification/Zkinjmask.thy ===== *)
theory Zkinjmask
  imports Dleq_Oprf Serialization
begin

text \<open>
  Masks injected into JSON web tokens (\<open>cryptography/src/zkinjmask.rs\<close>): the mask and its proof,
  unmasking the network's output, and the claims of a token with their unique string. Base64 and
  JSON are parameters; \<open>anyhow\<close> errors are their messages.
\<close>

section \<open>Masks\<close>

record ('f, 'p) Mask =
  public_mask :: 'p
  secret_mask :: 'f

definition Mask_new :: "('f, 'p) curve \<Rightarrow> 'f \<Rightarrow> ('f, 'p) Mask" where
  "Mask_new C drawn =
    \<lparr> public_mask = scalar_mul C (base_point_or_generator C) drawn, secret_mask = drawn \<rparr>"

type_synonym ('f, 'p) MaskProof = "('f, 'p) DLEQProof"

definition MaskProof_create ::
    "digests \<Rightarrow> ('f::field, 'p) curve \<Rightarrow> 'f \<Rightarrow> 'f \<Rightarrow> string \<Rightarrow> (('f, 'p) MaskProof, Error) outcome" where
  "MaskProof_create H C r secret unique_str =
    obind (hash_to_curve C (string_bytes unique_str)) (\<lambda>pt. DLEQProof_new H C r pt secret)"

definition MaskProof_verify_and_get_output ::
    "digests \<Rightarrow> ('f::field, 'p::ab_group_add) curve \<Rightarrow> ('f, 'p) MaskProof \<Rightarrow> 'p \<Rightarrow> string \<Rightarrow>
      ('p, Error) outcome" where
  "MaskProof_verify_and_get_output H C self pubmask unique_str =
    obind (hash_to_curve C (string_bytes unique_str)) (\<lambda>pt.
    verify_and_get_output H C self pubmask pt)"

text \<open>Only for \<open>Secp256k1\<close>; the big-endian bytes of the hash.\<close>

definition invert_mask_and_obtain_prf ::
    "('f, 'p) curve \<Rightarrow> 'f \<Rightarrow> 'p \<Rightarrow> (bytes, Error) outcome" where
  "invert_mask_and_obtain_prf C secret network_output =
    obind (mul_inv C secret) (\<lambda>inverted.
    case inverted of
      None \<Rightarrow> Err (Other ''Could not invert mask'')
    | Some mi \<Rightarrow>
        obind (hash_from_curve C (scalar_mul C network_output mi)) (\<lambda>h. Ok (to_bytes_be h)))"

record ('f, 'p) FrontendData =
  jwt :: string
  key_idx :: nat
  mask_proof :: "('f, 'p) MaskProof"

section \<open>Claims\<close>

record JWTClaims =
  iss :: string
  aud :: "string option"
  azp :: "string option"
  sub :: string
  pubmask :: string
  salt :: "string option"
  from_enclave :: "bool option"

text \<open>\<open>split('.')\<close> of the standard library: always at least one part.\<close>

fun split_on :: "char \<Rightarrow> string \<Rightarrow> string list" where
  "split_on c [] = [[]]"
| "split_on c (x # xs) =
    (if x = c then [] # split_on c xs
     else case split_on c xs of [] \<Rightarrow> [[x]] | w # ws \<Rightarrow> (x # w) # ws)"

text \<open>Base64 and JSON: decoding and parsing return the error's message, \<open>get\<close> looks a key up.\<close>

record 'v jsoncrate =
  b64_decode :: "string \<Rightarrow> (bytes, string) outcome"
  from_slice :: "bytes \<Rightarrow> ('v, string) outcome"
  json_get :: "'v \<Rightarrow> string \<Rightarrow> 'v option"
  as_str :: "'v \<Rightarrow> string option"
  as_bool :: "'v \<Rightarrow> bool option"

definition required_claim :: "'v jsoncrate \<Rightarrow> 'v \<Rightarrow> string \<Rightarrow> (string, string) outcome" where
  "required_claim J claims key =
    obind (ok_or ''JWT claim missing'' (json_get J claims key)) (\<lambda>v.
    ok_or ''JWT claim missing'' (as_str J v))"

definition optional_claim :: "'v jsoncrate \<Rightarrow> 'v \<Rightarrow> string \<Rightarrow> string option" where
  "optional_claim J claims key = Option.bind (json_get J claims key) (as_str J)"

definition from_raw_token_unchecked :: "'v jsoncrate \<Rightarrow> string \<Rightarrow> (JWTClaims, string) outcome" where
  "from_raw_token_unchecked J token =
    (let parts = split_on (CHR ''.'') token in
     if length parts \<noteq> 3 then Err ''Invalid JWT format''
     else obind (b64_decode J (parts ! 1)) (\<lambda>bs.
     obind (from_slice J bs) (\<lambda>claims.
     obind (required_claim J claims ''iss'') (\<lambda>i.
     obind (required_claim J claims ''sub'') (\<lambda>s.
     obind (required_claim J claims ''pubmask'') (\<lambda>p.
     Ok \<lparr> iss = i, aud = optional_claim J claims ''aud'', azp = optional_claim J claims ''azp'',
          sub = s, pubmask = p, salt = optional_claim J claims ''salt'',
          from_enclave = map_option (\<lambda>v. case as_bool J v of Some b \<Rightarrow> b | None \<Rightarrow> False)
            (json_get J claims ''from_enclave'') \<rparr>))))))"

fun join :: "char \<Rightarrow> string list \<Rightarrow> string" where
  "join c [] = []"
| "join c [w] = w"
| "join c (w # v # ws) = w @ c # join c (v # ws)"

definition unique_string :: "JWTClaims \<Rightarrow> (string, string) outcome" where
  "unique_string self =
    obind (ok_or ''JWT must include azp or aud'' (case azp self of Some a \<Rightarrow> Some a | None \<Rightarrow> aud self))
      (\<lambda>login_at_domain.
        Ok (join (CHR '','')
          [login_at_domain, iss self, sub self,
           case salt self of Some s \<Rightarrow> s | None \<Rightarrow> ''human-default-salt'']))"

section \<open>Lemmas\<close>

lemma split_on_join:
  assumes "ws \<noteq> []" and "\<And>w. w \<in> set ws \<Longrightarrow> c \<notin> set w"
  shows "split_on c (join c ws) = ws"
proof -
  have word: "split_on c w = [w]" if "c \<notin> set w" for c w
    using that by (induction w) auto
  have sep: "split_on c (w @ c # rest) = w # split_on c rest" if "c \<notin> set w" for c w rest
    using that by (induction w) auto
  show ?thesis
    using assms by (induction c ws rule: join.induct) (simp_all add: word sep)
qed

lemma split_on_length: "length (split_on c s) = Suc (count_list s c)"
proof (induction s)
  case (Cons x s)
  then show ?case by (cases "split_on c s") auto
qed simp

text \<open>The four parts of the unique string: the domain, issuer, subject and salt.\<close>

definition unique_parts :: "JWTClaims \<Rightarrow> string list" where
  "unique_parts c =
    [case azp c of Some a \<Rightarrow> a | None \<Rightarrow> the (aud c), iss c, sub c,
     case salt c of Some s \<Rightarrow> s | None \<Rightarrow> ''human-default-salt'']"

lemma unique_string_Ok:
  "unique_string c = Ok u \<Longrightarrow> u = join (CHR '','') (unique_parts c)"
  by (auto simp: unique_string_def unique_parts_def obind_eq_Ok split: option.splits)

lemma unique_string_inject:
  assumes "unique_string c = Ok u" and "unique_string d = Ok u"
    and "\<And>w. w \<in> set (unique_parts c) \<union> set (unique_parts d) \<Longrightarrow> CHR '','' \<notin> set w"
  shows "unique_parts c = unique_parts d"
proof -
  have "split_on (CHR '','') u = unique_parts c"
    unfolding unique_string_Ok [OF assms(1)]
    by (rule split_on_join) (use assms(3) in \<open>auto simp: unique_parts_def\<close>)
  moreover have "split_on (CHR '','') u = unique_parts d"
    unfolding unique_string_Ok [OF assms(2)]
    by (rule split_on_join) (use assms(3) in \<open>auto simp: unique_parts_def\<close>)
  ultimately show ?thesis by simp
qed

end
