(* ===== verification/Encryption_Properties.thy ===== *)
theory Encryption_Properties
  imports Encryption Zkinjmask Small_Field
begin

text \<open>
  The properties of encryption, signatures, serialization and injected masks.
\<close>

section \<open>Encryption under conditions\<close>

text \<open>C27. ElGamal over BabyJubJub: if some counter below \<open>0x30644e72e131a029\<close> maps the message to
  the curve and the message is not the number 1, encrypting to a public key succeeds, and
  decrypting with the shared secret gives the message back.\<close>

theorem elgamal_round_trip:
  assumes "curve_laws (BabyJubJub H A)" and "digests_ok H" and "koblitz_laws A"
    and "length msg = 24" and "from_bytes_be msg \<noteq> 1"
    and "acc < 0x30644e72e131a029" and "koblitz_step H A msg acc = Ok (Some Q)"
  shows "let C = BabyJubJub H A; M = BabyJubJub_MapCurve H A in
    \<exists>ct. encrypt_elgamal C M drawn msg (scalar_mul C (base_point_or_generator C) sk) secret = Ok ct \<and>
      decrypt_elgamal_from_shared_secret M ct (scalar_mul C (ephemeral_dh_pubkey ct) sk) = Ok msg"
proof -
  obtain P where "bjj_koblitz_map H A msg = Ok P" "bjj_reverse_koblitz A P = Ok msg"
    using koblitz_round_trip [OF assms(2-7)] by blast
  moreover have "scalar_mul (BabyJubJub H A) (scalar_mul (BabyJubJub H A) G a) b =
      scalar_mul (BabyJubJub H A) (scalar_mul (BabyJubJub H A) G b) a" for G a b
    by (simp add: scalar_mul_mul [OF assms(1)] mult.commute)
  ultimately show ?thesis
    by (simp add: encrypt_elgamal_def decrypt_elgamal_from_shared_secret_def BabyJubJub_MapCurve_def Let_def)
qed

definition small_koblitz_ark :: "(gf7, gf7) ark" where
  "small_koblitz_ark =
    small_ark\<lparr> get_point_from_y_unchecked := (\<lambda>y g. if 1 \<le> y \<and> y < 7 then Some (gf y) else None) \<rparr>"

lemma small_koblitz_laws:
  "koblitz_laws small_koblitz_ark" "curve_laws (BabyJubJub small_digests small_koblitz_ark)"
  by (auto simp: koblitz_laws_def small_koblitz_ark_def small_ark_def gf7_simps)
    (rule curve_laws_intro, simp_all add: BabyJubJub_def small_koblitz_ark_def small_ark_def algebra_simps)

lemma small_koblitz_step:
  "koblitz_step small_digests small_koblitz_ark (be_bytes 24 5) 0 = Ok (Some (gf 5))"
proof -
  have "koblitz_y 0 (be_bytes 24 5) = 5" by (simp add: koblitz_y_exact from_be_bytes)
  then show ?thesis
    by (simp add: koblitz_step_def hash256_Ok [OF small_digests_ok] small_sha3 small_koblitz_ark_def
        small_ark_def Let_def)
qed

theorem elgamal_round_trip_witness:
  "let C = BabyJubJub small_digests small_koblitz_ark; M = BabyJubJub_MapCurve small_digests small_koblitz_ark in
   \<exists>ct. encrypt_elgamal C M (gf 2) (be_bytes 24 5) (scalar_mul C (base_point_or_generator C) (gf 3)) None = Ok ct \<and>
     decrypt_elgamal_from_shared_secret M ct (scalar_mul C (ephemeral_dh_pubkey ct) (gf 3)) = Ok (be_bytes 24 5)"
  by (rule elgamal_round_trip [OF small_koblitz_laws(2) small_digests_ok small_koblitz_laws(1) _ _ _
        small_koblitz_step]) (simp_all add: from_be_bytes)


definition small_map :: "gf7 MapCurve" where
  "small_map = \<lparr> NUM_BYTES_PADDING = 8, koblitz_map = (\<lambda>_. Ok (gf 4)), reverse_koblitz = (\<lambda>_. Ok []) \<rparr>"

lemma small_schnorr_hash: "schnorr_hash small_digests small_curve msg R pk = Ok (gf 5)"
  by (simp add: schnorr_hash_def hash512_def small_digests_def Let_def)


text \<open>A nonce signed twice gives the key away: from two accepted signatures with one
  commitment and different challenges the secret key is computed. This is also the soundness of
  the signature against a forger that is rewound.\<close>

theorem schnorr_special_soundness:
  fixes C :: "('f::field, 'p::ab_group_add) curve"
  assumes "curve_laws C" and "base_point_or_generator C \<noteq> 0"
    and "pk = scalar_mul C (base_point_or_generator C) sk"
    and "verify H\<^sub>1 C m\<^sub>1 pk \<lparr> sig_R = R, sig_s = s\<^sub>1 \<rparr> = Ok ()"
    and "verify H\<^sub>2 C m\<^sub>2 pk \<lparr> sig_R = R, sig_s = s\<^sub>2 \<rparr> = Ok ()"
    and "schnorr_hash H\<^sub>1 C m\<^sub>1 R pk = Ok h\<^sub>1" and "schnorr_hash H\<^sub>2 C m\<^sub>2 R pk = Ok h\<^sub>2" and "h\<^sub>1 \<noteq> h\<^sub>2"
  shows "sk = (s\<^sub>1 - s\<^sub>2) / (h\<^sub>1 - h\<^sub>2)"
  using assms(4-7)
  by (intro schnorr_extract [OF assms(1-3) _ _ assms(8)]) (auto simp: verify_Ok_iff_equation)

definition one_digests :: digests where
  "one_digests = \<lparr> Blake2b512 = (\<lambda>_. replicate 63 0 @ [1]), Sha3_256 = (\<lambda>_. replicate 32 1) \<rparr>"

lemma one_schnorr_hash: "schnorr_hash one_digests small_curve msg R pk = Ok (gf 1)"
  by (simp add: schnorr_hash_def hash512_def one_digests_def Let_def)

theorem schnorr_special_soundness_witness: "gf 2 = (gf 4 - gf 3) / (gf 5 - gf 1)"
proof (rule schnorr_special_soundness [OF small_curve_laws small_generator,
      where pk = "gf 2" and R = "gf 1" and m\<^sub>1 = "[]" and m\<^sub>2 = "[]" and H\<^sub>1 = small_digests and H\<^sub>2 = one_digests])
  show "verify one_digests small_curve [] (gf 2) \<lparr> sig_R = gf 1, sig_s = gf 3 \<rparr> = Ok ()"
    by (simp add: verify_def one_schnorr_hash Let_def gf7_simps)
  show "verify small_digests small_curve [] (gf 2) \<lparr> sig_R = gf 1, sig_s = gf 4 \<rparr> = Ok ()"
    by (simp add: verify_def small_schnorr_hash Let_def gf7_simps)
qed (simp_all add: small_schnorr_hash one_schnorr_hash gf7_simps)

section \<open>Serialization\<close>


definition small_hex :: hexcrate where
  "small_hex =
    \<lparr> hex_encode = (\<lambda>bs. CHR ''x'' # map (\<lambda>b. char_of (unat b)) bs),
      hex_decode = (\<lambda>s. case s of CHR ''x'' # cs \<Rightarrow> Some (map (\<lambda>c. of_nat (of_char c)) cs) | _ \<Rightarrow> None),
      hex_error = (\<lambda>s. s) \<rparr>"

lemma small_codec_laws: "codec_laws small_hex small_curve"
proof -
  have "unat (of_nat (val7 x) :: byte) = val7 x" for x
    using val7_lt [of x] by (simp add: unat_of_nat)
  moreover have "unat b mod 256 = unat b" for b :: byte
    using unat_byte_lt [of b] by simp
  ultimately show ?thesis
    by (auto simp: codec_laws_def hex_laws_def small_hex_def small_curve_def comp_def)
qed


section \<open>Injected masks\<close>

text \<open>C29. The injected mask end to end: a frontend proves the masked point of its unique string
  under its mask; the network accepts it against the public mask, multiplies the proven point by
  its key, and only unmasking with that mask gives the keyed hash of the unique string.\<close>

theorem injected_mask_correct:
  assumes "curve_laws C" and "b \<noteq> 0" and "mul_inv C b = Ok (Some (inverse b))"
    and "hash_to_curve C (string_bytes u) = Ok X" and "MaskProof_create H C r b u = Ok prf"
    and "hash_from_curve C (scalar_mul C X k) = Ok h"
  shows "\<exists>masked. MaskProof_verify_and_get_output H C prf (public_mask (Mask_new C b)) u = Ok masked \<and>
    invert_mask_and_obtain_prf C b (scalar_mul C masked k) = Ok (to_bytes_be h)"
proof -
  have "DLEQProof_new H C r X b = Ok prf"
    using assms(4,5) by (simp add: MaskProof_create_def)
  from dleq_completeness [OF assms(1) this] show ?thesis
    using assms(3,4,6) oprf_unmask [OF assms(1,2)]
    by (simp add: MaskProof_verify_and_get_output_def invert_mask_and_obtain_prf_def Mask_new_def)
qed

theorem injected_mask_correct_witness:
  "\<exists>prf masked. MaskProof_create small_digests small_curve (gf 1) (gf 2) ''u'' = Ok prf \<and>
    MaskProof_verify_and_get_output small_digests small_curve prf (public_mask (Mask_new small_curve (gf 2))) ''u'' = Ok masked \<and>
    invert_mask_and_obtain_prf small_curve (gf 2) (scalar_mul small_curve masked (gf 5)) = Ok (to_bytes_be 1)"
proof -
  have "\<exists>prf. MaskProof_create small_digests small_curve (gf 1) (gf 2) ''u'' = Ok prf"
    by (simp add: MaskProof_create_def DLEQProof_new_def challenge_hash_def hash512_def small_digests_def Let_def)
  then obtain q where "MaskProof_create small_digests small_curve (gf 1) (gf 2) ''u'' = Ok q" ..
  with injected_mask_correct [OF small_curve_laws _ _ _ this, of "gf 3" "gf 5" 1] show ?thesis
    by (auto simp: secp_mul_inv_def gf7_simps)
qed

text \<open>The unique string separates claims whose parts contain no comma: equal strings come
  from equal domains, issuers, subjects and salts. With a comma it does not: the two claims
  below differ in domain and issuer and have one string.\<close>

theorem unique_string_separates:
  "(\<forall>c d u. unique_string c = Ok u \<and> unique_string d = Ok u \<and>
      (\<forall>w \<in> set (unique_parts c) \<union> set (unique_parts d). CHR '','' \<notin> set w) \<longrightarrow>
      unique_parts c = unique_parts d) \<and>
   (let c = \<lparr> iss = ''c'', aud = None, azp = Some ''a,b'', sub = ''s'', pubmask = [], salt = None, from_enclave = None \<rparr>;
        d = \<lparr> iss = ''b,c'', aud = None, azp = Some ''a'', sub = ''s'', pubmask = [], salt = None, from_enclave = None \<rparr>
    in unique_string c = unique_string d \<and> is_ok (unique_string c) \<and> unique_parts c \<noteq> unique_parts d)"
  using unique_string_inject by (auto simp: unique_string_def unique_parts_def)

theorem unique_string_separates_witness:
  "unique_parts \<lparr> iss = ''i'', aud = Some ''d'', azp = None, sub = ''s'', pubmask = [], salt = None, from_enclave = None \<rparr> =
   unique_parts \<lparr> iss = ''i'', aud = None, azp = Some ''d'', sub = ''s'', pubmask = [], salt = Some ''human-default-salt'', from_enclave = None \<rparr>"
proof (rule unique_string_separates [THEN conjunct1, THEN spec, THEN spec, THEN spec, THEN mp], intro conjI)
  show "unique_string \<lparr> iss = ''i'', aud = Some ''d'', azp = None, sub = ''s'', pubmask = [], salt = None, from_enclave = None \<rparr> =
      Ok ''d,i,s,human-default-salt''"
    by (simp add: unique_string_def)
qed (simp_all add: unique_string_def unique_parts_def)

end
