(* ===== verification/Node_Selection.thy ===== *)
theory Node_Selection
  imports Prelude
begin

text \<open>
  Selection of the nodes a request goes to and of the provers of an epoch
  (\<open>cryptography/src/node_selection.rs\<close>). The generator of \<open>rand_chacha\<close> and the arithmetic of
  \<open>f64\<close> are parameters; a function that draws threads the generator's state.
\<close>

section \<open>Parameters\<close>

record ('g, 'r) rng =
  ChaCha8Rng_from_seed :: "bytes \<Rightarrow> 'g"
  next_u64 :: "'g \<Rightarrow> nat \<times> 'g"
  gen_range_big :: "nat \<Rightarrow> 'g \<Rightarrow> nat \<times> 'g"
  gen_range_f64 :: "'r \<Rightarrow> 'g \<Rightarrow> ('r \<times> 'g) option"

text \<open>\<open>gen_range(0.0..total)\<close> panics (here \<open>None\<close>) on a range that is empty or not finite.\<close>

record 'r f64 =
  f_zero :: 'r
  f_add :: "'r \<Rightarrow> 'r \<Rightarrow> 'r"
  f_mul :: "'r \<Rightarrow> 'r \<Rightarrow> 'r"
  f_powi2 :: "nat \<Rightarrow> 'r"
  f_sqrt :: "'r \<Rightarrow> 'r"
  f_ln_1p :: "'r \<Rightarrow> 'r"
  f_eq :: "'r \<Rightarrow> 'r \<Rightarrow> bool"
  f_le :: "'r \<Rightarrow> 'r \<Rightarrow> bool"
  f_lt :: "'r \<Rightarrow> 'r \<Rightarrow> bool"
  f_div :: "'r \<Rightarrow> 'r \<Rightarrow> 'r"
  f_ceil_as_u32 :: "'r \<Rightarrow> nat"
  f_of_nat :: "nat \<Rightarrow> 'r"
  to_f64 :: "nat \<Rightarrow> 'r option"

section \<open>The global parameters\<close>

record 'r selection_globals =
  MIN_NODES :: nat
  EPSILON :: nat
  THRESHOLD :: 'r

definition selection_defaults :: "'r f64 \<Rightarrow> 'r selection_globals" where
  "selection_defaults F = \<lparr> MIN_NODES = 3, EPSILON = 1, THRESHOLD = f_of_nat F 60 \<rparr>"

definition get_min_nodes :: "'r selection_globals \<Rightarrow> nat" where
  "get_min_nodes S = MIN_NODES S"

definition set_min_nodes :: "nat \<Rightarrow> 'r selection_globals \<Rightarrow> 'r selection_globals" where
  "set_min_nodes val S = S\<lparr> MIN_NODES := val \<rparr>"

definition get_epsilon :: "'r selection_globals \<Rightarrow> nat" where
  "get_epsilon S = EPSILON S"

definition set_epsilon :: "nat \<Rightarrow> 'r selection_globals \<Rightarrow> 'r selection_globals" where
  "set_epsilon val S = S\<lparr> EPSILON := val \<rparr>"

definition get_threshold :: "'r selection_globals \<Rightarrow> 'r" where
  "get_threshold S = THRESHOLD S"

definition set_threshold :: "'r \<Rightarrow> 'r selection_globals \<Rightarrow> 'r selection_globals" where
  "set_threshold val S = S\<lparr> THRESHOLD := val \<rparr>"

section \<open>The nodes of a request\<close>

text \<open>\<open>Vec::remove\<close> at an index in range.\<close>

definition remove_nth :: "nat \<Rightarrow> 'a list \<Rightarrow> 'a list" where
  "remove_nth i xs = take i xs @ drop (Suc i) xs"

definition request_seed :: "nat \<Rightarrow> nat \<Rightarrow> bytes" where
  "request_seed epoch_num request_num = be_bytes 16 epoch_num @ be_bytes 16 request_num"

text \<open>\<open>num % 0\<close> panics when no node is left.\<close>

fun choose_nodes :: "('g, 'r) rng \<Rightarrow> nat \<Rightarrow> nat list \<Rightarrow> 'g \<Rightarrow> (nat list, 'e) outcome" where
  "choose_nodes R 0 node_indices g = Ok []"
| "choose_nodes R (Suc k) node_indices g =
    (let (num, g') = next_u64 R g in
     if node_indices = [] then Panic
     else let node_chosen_idx = num mod length node_indices;
              node_chosen = as_u32 (node_indices ! node_chosen_idx) in
       obind (choose_nodes R k (remove_nth node_chosen_idx node_indices) g') (\<lambda>nodes_chosen.
       Ok (node_chosen # nodes_chosen)))"

definition calc_nodes_to_send_to ::
    "('g, 'r) rng \<Rightarrow> nat \<Rightarrow> nat \<Rightarrow> nat \<Rightarrow> nat list \<Rightarrow> (nat list, 'e) outcome" where
  "calc_nodes_to_send_to R epoch_num request_num t_plus_epsilon node_indices =
    choose_nodes R t_plus_epsilon node_indices (ChaCha8Rng_from_seed R (request_seed epoch_num request_num))"

fun chosen_among :: "('g, 'r) rng \<Rightarrow> nat \<Rightarrow> nat \<Rightarrow> nat list \<Rightarrow> 'g \<Rightarrow> (bool, 'e) outcome" where
  "chosen_among R 0 node node_indexes g = Ok False"
| "chosen_among R (Suc k) node node_indexes g =
    (let (num, g') = next_u64 R g in
     if node_indexes = [] then Panic
     else let node_chosen_idx = num mod length node_indexes in
       if node_indexes ! node_chosen_idx = node then Ok True
       else chosen_among R k node (remove_nth node_chosen_idx node_indexes) g')"

definition should_be_sent_to_node ::
    "('g, 'r) rng \<Rightarrow> nat \<Rightarrow> nat \<Rightarrow> nat \<Rightarrow> nat \<Rightarrow> nat list \<Rightarrow> (bool, 'e) outcome" where
  "should_be_sent_to_node R epoch_num request_num t_plus_epsilon node node_indexes =
    chosen_among R t_plus_epsilon node (sort node_indexes)
      (ChaCha8Rng_from_seed R (request_seed epoch_num request_num))"

section \<open>Weighted sampling\<close>

definition biguint_to_f64 :: "'r f64 \<Rightarrow> nat \<Rightarrow> 'r" where
  "biguint_to_f64 F value =
    (let bs = to_bytes_be value in
     foldl (\<lambda>result (i, byte).
         f_add F result (f_mul F (f_of_nat F (unat byte)) (f_powi2 F ((length bs - 1 - i) * 8))))
       (f_zero F) (enumerate 0 bs))"

fun cum_sums :: "nat \<Rightarrow> nat list \<Rightarrow> nat list" where
  "cum_sums acc [] = []"
| "cum_sums acc (w # ws) = (acc + w) # cum_sums (acc + w) ws"

definition first_at_least :: "nat list \<Rightarrow> nat \<Rightarrow> nat option" where
  "first_at_least cum_sum r = find (\<lambda>i. r \<le> cum_sum ! i) [0..<length cum_sum]"

definition weighted_sample ::
    "('g, 'r) rng \<Rightarrow> ('n \<Rightarrow> nat) \<Rightarrow> 'n list \<Rightarrow> 'g \<Rightarrow> (nat option \<times> 'g, 'e) outcome" where
  "weighted_sample R weight nodes g =
    (let cum_sum = cum_sums 0 (map weight nodes) in
     if cum_sum = [] then Ok (None, g)
     else let total_weight = last cum_sum in
       if total_weight = 0 then Ok (None, g)
       else let (r, g') = gen_range_big R total_weight g in
         Ok (first_at_least cum_sum r, g'))"

text \<open>The shared end of the two floating-point samplers: the total, the draw, the walk with its
  fallback to the last node.\<close>

fun walk :: "'r f64 \<Rightarrow> 'r \<Rightarrow> 'r \<Rightarrow> nat \<Rightarrow> 'r list \<Rightarrow> nat option" where
  "walk F r acc i [] = None"
| "walk F r acc i (w # ws) =
    (let acc' = f_add F acc w in if f_le F r acc' then Some i else walk F r acc' (i + 1) ws)"

definition sample_adjusted ::
    "'r f64 \<Rightarrow> ('g, 'r) rng \<Rightarrow> 'r list \<Rightarrow> 'g \<Rightarrow> (nat option \<times> 'g, 'e) outcome" where
  "sample_adjusted F R weights g =
    (let total_weight = foldl (f_add F) (f_zero F) weights in
     if f_eq F total_weight (f_zero F) then Ok (None, g)
     else case gen_range_f64 R total_weight g of
       None \<Rightarrow> Panic
     | Some (r, g') \<Rightarrow>
         Ok (Some (case walk F r (f_zero F) 0 weights of
               Some i \<Rightarrow> i
             | None \<Rightarrow> sub_u64 (length weights) 1), g'))"

definition sqrt_weight :: "'r f64 \<Rightarrow> nat \<Rightarrow> 'r" where
  "sqrt_weight F weight =
    f_sqrt F (case to_f64 F weight of Some w \<Rightarrow> w | None \<Rightarrow> f_zero F)"

definition log_weight :: "'r f64 \<Rightarrow> nat \<Rightarrow> 'r" where
  "log_weight F weight =
    (let w = (case to_f64 F weight of Some w \<Rightarrow> w | None \<Rightarrow> f_zero F) in
     if f_le F w (f_zero F) then f_zero F else f_ln_1p F w)"

definition weighted_sample_with_sqrt ::
    "'r f64 \<Rightarrow> ('g, 'r) rng \<Rightarrow> ('n \<Rightarrow> nat) \<Rightarrow> 'n list \<Rightarrow> 'g \<Rightarrow> (nat option \<times> 'g, 'e) outcome" where
  "weighted_sample_with_sqrt F R weight nodes g =
    sample_adjusted F R (map (\<lambda>node. sqrt_weight F (weight node)) nodes) g"

definition weighted_sample_with_log ::
    "'r f64 \<Rightarrow> ('g, 'r) rng \<Rightarrow> ('n \<Rightarrow> nat) \<Rightarrow> 'n list \<Rightarrow> 'g \<Rightarrow> (nat option \<times> 'g, 'e) outcome" where
  "weighted_sample_with_log F R weight nodes g =
    sample_adjusted F R (map (\<lambda>node. log_weight F (weight node)) nodes) g"

section \<open>Sampling without replacement\<close>

text \<open>The loop of the three \<open>weighted_sample_n_no_*\<close> functions, for the sampler each calls.
  \<open>remove\<close> panics out of range.\<close>

fun draw_n ::
    "('n list \<Rightarrow> 'g \<Rightarrow> (nat option \<times> 'g, 'e) outcome) \<Rightarrow> nat \<Rightarrow> 'n list \<Rightarrow> 'n list \<Rightarrow> 'g \<Rightarrow>
      ('n list option, 'e) outcome" where
  "draw_n sample 0 result available_nodes g = Ok (Some result)"
| "draw_n sample (Suc k) result available_nodes g =
    obind (sample available_nodes g) (\<lambda>(choice, g').
    case choice of
      None \<Rightarrow> Ok None
    | Some idx \<Rightarrow>
        assert_then (idx < length available_nodes)
          (draw_n sample k (result @ [available_nodes ! idx]) (remove_nth idx available_nodes) g'))"

definition sample_n ::
    "('g, 'r) rng \<Rightarrow> ('n list \<Rightarrow> 'g \<Rightarrow> (nat option \<times> 'g, 'e) outcome) \<Rightarrow> 'n list \<Rightarrow> nat \<Rightarrow> bytes \<Rightarrow>
      ('n list option, 'e) outcome" where
  "sample_n R sample nodes n random_seed =
    (let len = length nodes in
     if len = 0 \<or> n = 0 \<or> n > len then Ok None
     else draw_n sample n [] nodes (ChaCha8Rng_from_seed R random_seed))"

definition weighted_sample_n_no_sqrt ::
    "'r f64 \<Rightarrow> ('g, 'r) rng \<Rightarrow> ('n \<Rightarrow> nat) \<Rightarrow> 'n list \<Rightarrow> nat \<Rightarrow> bytes \<Rightarrow> ('n list option, 'e) outcome" where
  "weighted_sample_n_no_sqrt F R weight = sample_n R (weighted_sample_with_sqrt F R weight)"

definition weighted_sample_n_no_classic ::
    "('g, 'r) rng \<Rightarrow> ('n \<Rightarrow> nat) \<Rightarrow> 'n list \<Rightarrow> nat \<Rightarrow> bytes \<Rightarrow> ('n list option, 'e) outcome" where
  "weighted_sample_n_no_classic R weight = sample_n R (weighted_sample R weight)"

definition weighted_sample_n_no_log ::
    "'r f64 \<Rightarrow> ('g, 'r) rng \<Rightarrow> ('n \<Rightarrow> nat) \<Rightarrow> 'n list \<Rightarrow> nat \<Rightarrow> bytes \<Rightarrow> ('n list option, 'e) outcome" where
  "weighted_sample_n_no_log F R weight = sample_n R (weighted_sample_with_log F R weight)"

text \<open>\<open>weighted_sample_n_no_replace\<close> goes on after a failed draw once it has \<open>MIN_NODES\<close>
  nodes (the \<open>Some(result.clone())\<close> of the source is a discarded expression).\<close>

fun draw_n_tolerant ::
    "nat \<Rightarrow> ('n list \<Rightarrow> 'g \<Rightarrow> (nat option \<times> 'g, 'e) outcome) \<Rightarrow> nat \<Rightarrow> 'n list \<Rightarrow> 'n list \<Rightarrow> 'g \<Rightarrow>
      ('n list option, 'e) outcome" where
  "draw_n_tolerant min_nodes sample 0 result the_nodes g = Ok (Some result)"
| "draw_n_tolerant min_nodes sample (Suc k) result the_nodes g =
    obind (sample the_nodes g) (\<lambda>(choice, g').
    case choice of
      None \<Rightarrow> if length result \<ge> min_nodes then draw_n_tolerant min_nodes sample k result the_nodes g'
              else Ok None
    | Some idx \<Rightarrow>
        assert_then (idx < length the_nodes)
          (draw_n_tolerant min_nodes sample k (result @ [the_nodes ! idx]) (remove_nth idx the_nodes) g'))"

definition weighted_sample_n_no_replace ::
    "'r f64 \<Rightarrow> ('g, 'r) rng \<Rightarrow> 'r selection_globals \<Rightarrow> ('n \<Rightarrow> nat) \<Rightarrow> 'n list \<Rightarrow> nat \<Rightarrow> bytes \<Rightarrow>
      ('n list option, 'e) outcome" where
  "weighted_sample_n_no_replace F R S weight nodes n random_seed =
    (let len = length nodes in
     if len = 0 \<or> n = 0 \<or> n > len then Ok None
     else draw_n_tolerant (get_min_nodes S) (weighted_sample_with_sqrt F R weight) n [] nodes
       (ChaCha8Rng_from_seed R random_seed))"

section \<open>Removing by index\<close>

lemma remove_nth_mset:
  assumes "i < length xs"
  shows "mset xs = add_mset (xs ! i) (mset (remove_nth i xs))"
proof -
  have "mset xs = mset (take i xs @ xs ! i # drop (Suc i) xs)"
    using id_take_nth_drop [OF assms] by simp
  then show ?thesis by (simp add: remove_nth_def)
qed

lemma remove_nth_length [simp]: "i < length xs \<Longrightarrow> length (remove_nth i xs) = length xs - 1"
  by (simp add: remove_nth_def)

lemma remove_nth_distinct:
  assumes "i < length xs" and "distinct xs"
  shows "distinct (remove_nth i xs)" and "set (remove_nth i xs) = set xs - {xs ! i}"
proof -
  have "distinct (take i xs @ xs ! i # drop (Suc i) xs)" "set (take i xs @ xs ! i # drop (Suc i) xs) = set xs"
    using assms id_take_nth_drop [OF assms(1)] by simp_all
  then show "distinct (remove_nth i xs)" and "set (remove_nth i xs) = set xs - {xs ! i}"
    by (auto simp: remove_nth_def)
qed

section \<open>The nodes of a request\<close>

lemma choose_nodes_Ok:
  assumes "k \<le> length idx" and "distinct idx" and "\<forall>i\<in>set idx. i < 2 ^ 32"
  shows "\<exists>res. choose_nodes R k idx g = (Ok res :: (_, 'e) outcome) \<and> length res = k \<and> distinct res \<and> set res \<subseteq> set idx"
  using assms
proof (induction k arbitrary: idx g)
  case (Suc k)
  obtain num g' where num: "next_u64 R g = (num, g')" by (cases "next_u64 R g")
  from Suc.prems have ne: "idx \<noteq> []" by auto
  let ?i = "num mod length idx"
  from ne have i: "?i < length idx" by simp
  note rest = remove_nth_distinct [OF i Suc.prems(2)]
  have "\<exists>res. choose_nodes R k (remove_nth ?i idx) g' = (Ok res :: (_, 'e) outcome) \<and> length res = k \<and> distinct res \<and>
      set res \<subseteq> set (remove_nth ?i idx)"
    using Suc.prems i rest by (intro Suc.IH) auto
  moreover have "as_u32 (idx ! ?i) = idx ! ?i" using Suc.prems(3) i by simp
  ultimately show ?case
    using num ne i rest by (auto simp: Let_def)
qed simp

lemma choose_nodes_Panic:
  "length idx < k \<Longrightarrow> choose_nodes R k idx g = (Panic :: (_, 'e) outcome)"
proof (induction k arbitrary: idx g)
  case (Suc k)
  obtain num g' where num: "next_u64 R g = (num, g')" by (cases "next_u64 R g")
  show ?case
  proof (cases "idx = []")
    case False
    let ?i = "num mod length idx"
    have "length (remove_nth ?i idx) < k" using False Suc.prems by (cases idx) simp_all
    then have "choose_nodes R k (remove_nth ?i idx) g' = (Panic :: (_, 'e) outcome)"
      by (rule Suc.IH)
    with num False show ?thesis by (simp add: Let_def)
  qed (simp add: num)
qed simp

text \<open>Asking whether a node is chosen is membership in the chosen list.\<close>

lemma chosen_among_iff:
  assumes "k \<le> length idx" and "distinct idx" and "\<forall>i\<in>set idx. i < 2 ^ 32"
  shows "chosen_among R k node idx g =
    (Ok (node \<in> set (the_ok (choose_nodes R k idx g :: (_, 'e) outcome))) :: (_, 'e) outcome)"
  using assms
proof (induction k arbitrary: idx g)
  case (Suc k)
  obtain num g' where num: "next_u64 R g = (num, g')" by (cases "next_u64 R g")
  from Suc.prems have ne: "idx \<noteq> []" by auto
  let ?i = "num mod length idx" and ?rest = "remove_nth (num mod length idx) idx"
  from ne have i: "?i < length idx" by simp
  note rest = remove_nth_distinct [OF i Suc.prems(2)]
  have hyps: "k \<le> length ?rest" "distinct ?rest" "\<forall>i\<in>set ?rest. i < 2 ^ 32"
    using Suc.prems(1) i by simp (rule rest(1), use Suc.prems(3) rest(2) in blast)
  have IH: "chosen_among R k node ?rest g' =
      (Ok (node \<in> set (the_ok (choose_nodes R k ?rest g' :: (_, 'e) outcome))) :: (_, 'e) outcome)"
    by (rule Suc.IH [OF hyps])
  obtain res where res: "choose_nodes R k ?rest g' = (Ok res :: (_, 'e) outcome)"
    using choose_nodes_Ok [OF hyps, of R g'] by auto
  have "as_u32 (idx ! ?i) = idx ! ?i" using Suc.prems(3) i by simp
  with num ne res have "choose_nodes R (Suc k) idx g = (Ok (idx ! ?i # res) :: (_, 'e) outcome)"
    by (simp add: Let_def)
  moreover from num ne IH res have
    "chosen_among R (Suc k) node idx g = (Ok (idx ! ?i = node \<or> node \<in> set res) :: (_, 'e) outcome)"
    by (simp add: Let_def)
  ultimately show ?case by (simp only: the_ok.simps outcome.inject list.set insert_iff) blast
qed simp

section \<open>Cumulative sums\<close>

lemma length_cum_sums [simp]: "length (cum_sums acc ws) = length ws"
  by (induction ws arbitrary: acc) simp_all

lemma cum_sums_nth: "i < length ws \<Longrightarrow> cum_sums acc ws ! i = acc + sum_list (take (Suc i) ws)"
  by (induction ws arbitrary: acc i) (auto simp: nth_Cons split: nat.split)

lemma cum_sums_eq_Nil [simp]: "cum_sums acc ws = [] \<longleftrightarrow> ws = []"
  by (cases ws) simp_all

lemma last_cum_sums: "ws \<noteq> [] \<Longrightarrow> last (cum_sums 0 ws) = sum_list ws"
  by (simp add: last_conv_nth cum_sums_nth)

lemma sum_take_mono: "i \<le> j \<Longrightarrow> sum_list (take i ws) \<le> (sum_list (take j ws) :: nat)"
  by (metis le_add1 min.absorb1 sum_list.append take_add take_take le_add_diff_inverse)

text \<open>The draws that select a node form an interval as long as its weight; the first interval
  also holds the draw 0, and the last one ends before the total.\<close>

lemma first_at_least_interval:
  assumes "r < sum_list ws"
  shows "first_at_least (cum_sums 0 ws) r = Some i \<longleftrightarrow>
    i < length ws \<and> (i = 0 \<or> sum_list (take i ws) < r) \<and> r \<le> sum_list (take (Suc i) ws)"
proof -
  have "first_at_least (cum_sums 0 ws) r = Some i \<longleftrightarrow>
      i < length ws \<and> r \<le> sum_list (take (Suc i) ws) \<and> (\<forall>j<i. \<not> r \<le> sum_list (take (Suc j) ws))"
    unfolding first_at_least_def find_Some_iff
    by (auto simp: cum_sums_nth)
  also have "\<dots> \<longleftrightarrow> i < length ws \<and> (i = 0 \<or> sum_list (take i ws) < r) \<and> r \<le> sum_list (take (Suc i) ws)"
    using sum_take_mono [of _ i ws] by (cases i) (auto simp: not_le dest: le_less_trans less_Suc_eq_le [THEN iffD1])
  finally show ?thesis .
qed

section \<open>Samplers\<close>

text \<open>What the loops rely on of a sampler: it answers with an index in range.\<close>

locale sampler =
  fixes ok :: "'c \<Rightarrow> bool"
    and sample :: "'c \<Rightarrow> 'n list \<Rightarrow> 'g \<Rightarrow> (nat option \<times> 'g, 'e) outcome"
  assumes in_range: "\<lbrakk>ok c; sample c ns g = Ok (Some i, g')\<rbrakk> \<Longrightarrow> i < length ns"
begin

lemma draw_n_spec:
  assumes "draw_n (sample c) k result ns g = Ok (Some res)"
  shows "length res = length result + k \<and> mset res \<subseteq># mset result + mset ns"
  using assms
proof (induction k arbitrary: result ns g)
  case (Suc k)
  then obtain i g' where i: "i < length ns"
    and rec: "draw_n (sample c) k (result @ [ns ! i]) (remove_nth i ns) g' = Ok (Some res)"
    by (auto simp: obind_eq_Ok split: option.splits)
  from Suc.IH [OF rec] show ?case
    using remove_nth_mset [OF i] by auto
qed auto

lemma draw_n_tolerant_spec:
  assumes "draw_n_tolerant m (sample c) k result ns g = Ok (Some res)"
  shows "length res \<le> length result + k \<and> (length res = length result + k \<or> m \<le> length res) \<and>
    mset res \<subseteq># mset result + mset ns"
  using assms
proof (induction k arbitrary: result ns g)
  case (Suc k)
  then obtain choice g' where c: "sample c ns g = Ok (choice, g')"
    by (auto simp: obind_eq_Ok)
  show ?case
  proof (cases choice)
    case None
    with Suc.prems c have m: "m \<le> length result"
      and rec: "draw_n_tolerant m (sample c) k result ns g' = Ok (Some res)" by (auto split: if_splits)
    from Suc.IH [OF rec] m show ?thesis by auto
  next
    case (Some i)
    with Suc.prems c have i: "i < length ns"
      and rec: "draw_n_tolerant m (sample c) k (result @ [ns ! i]) (remove_nth i ns) g' = Ok (Some res)"
      by auto
    from Suc.IH [OF rec] show ?thesis
      using remove_nth_mset [OF i] by auto
  qed
qed auto

lemma draw_n_no_range_panic:
  assumes "ok c" and "\<And>ns g. sample c ns g \<noteq> Panic"
  shows "draw_n (sample c) k result ns g \<noteq> Panic"
proof (induction k arbitrary: result ns g)
  case (Suc k)
  then show ?case
    using assms(2) [of ns g] in_range [OF assms(1), of ns g]
    by (cases "sample c ns g") (auto simp: assert_then_def split: option.splits)
qed simp

lemma sample_n_spec:
  assumes "sample_n R (sample c) nodes n seed = Ok (Some res)"
  shows "length res = n \<and> n \<le> length nodes \<and> 0 < n \<and> mset res \<subseteq># mset nodes"
  using assms draw_n_spec [of c n "[]" nodes _ res]
  by (auto simp: sample_n_def Let_def split: if_splits dest!: meta_spec)

end

lemma walk_range: "walk F r acc i ws = Some j \<Longrightarrow> i \<le> j \<and> j < i + length ws"
  by (induction ws arbitrary: acc i) (force simp: Let_def split: if_splits)+

text \<open>The floating-point samplers answer only for a total that is not zero, so there is a last
  node to fall back to.\<close>

definition f64_laws :: "'r f64 \<Rightarrow> bool" where
  "f64_laws F \<longleftrightarrow> f_eq F (f_zero F) (f_zero F)"

lemma sample_adjusted_range:
  assumes "f64_laws F" and "sample_adjusted F R ws g = Ok (Some i, g')"
  shows "i < length ws"
proof -
  have ne: "ws \<noteq> []"
    using assms by (auto simp: sample_adjusted_def f64_laws_def)
  then have "sub_u64 (length ws) 1 \<le> length ws - 1"
    by (cases ws) (simp_all add: sub_u64_def)
  with ne have "sub_u64 (length ws) 1 < length ws"
    by (cases ws) simp_all
  with assms(2) walk_range [of F _ "f_zero F" 0 ws] show ?thesis
    by (auto simp: sample_adjusted_def Let_def split: if_splits option.splits)
qed

interpretation classic: sampler "\<lambda>_. True" "\<lambda>(R, weight). weighted_sample R weight"
  by unfold_locales
    (auto simp: weighted_sample_def Let_def first_at_least_def find_Some_iff
      split: if_splits prod.splits)

interpretation with_sqrt: sampler "\<lambda>(F, R, weight). f64_laws F"
    "\<lambda>(F, R, weight). weighted_sample_with_sqrt F R weight"
  by unfold_locales (auto simp: weighted_sample_with_sqrt_def dest: sample_adjusted_range)

interpretation with_log: sampler "\<lambda>(F, R, weight). f64_laws F"
    "\<lambda>(F, R, weight). weighted_sample_with_log F R weight"
  by unfold_locales (auto simp: weighted_sample_with_log_def dest: sample_adjusted_range)

lemma sample_n_no_replace_spec:
  assumes "weighted_sample_n_no_replace F R S weight nodes n seed = Ok (Some res)"
  shows "length res \<le> n \<and> (length res = n \<or> MIN_NODES S \<le> length res) \<and> mset res \<subseteq># mset nodes"
  using assms with_sqrt.draw_n_tolerant_spec [of "MIN_NODES S" "(F, R, weight)" n "[]" nodes _ res]
  by (auto simp: weighted_sample_n_no_replace_def get_min_nodes_def Let_def split: if_splits)

end
