(* ===== verification/Selection_Properties.thy ===== *)
theory Selection_Properties
  imports Node_Selection
begin

text \<open>The properties of node selection.\<close>

text \<open>A concrete generator and arithmetic for the witnesses: a counter, and numbers as their own
  square roots.\<close>

definition small_rng :: "(nat, nat) rng" where
  "small_rng =
    \<lparr> ChaCha8Rng_from_seed = from_bytes_be, next_u64 = (\<lambda>g. (g, g + 1)),
      gen_range_big = (\<lambda>total g. (g mod total, g + 1)),
      gen_range_f64 = (\<lambda>total g. Some (g mod total, g + 1)) \<rparr>"

definition small_f64 :: "nat f64" where
  "small_f64 =
    \<lparr> f_zero = 0, f_add = (+), f_mul = (*), f_powi2 = (\<lambda>k. 2 ^ k), f_sqrt = (\<lambda>x. x), f_ln_1p = (\<lambda>x. x),
      f_eq = (=), f_le = (\<le>), f_lt = (<), f_div = (div), f_ceil_as_u32 = as_u32, f_of_nat = (\<lambda>n. n), to_f64 = Some \<rparr>"

text \<open>The nodes of a request: with at most as many draws as nodes the choice succeeds and
  picks that many distinct nodes of the list; with more draws it panics.\<close>

theorem request_nodes_chosen:
  assumes "distinct idx" and "\<forall>i\<in>set idx. i < 2 ^ 32"
  shows "(t \<le> length idx \<longrightarrow> (\<exists>res. calc_nodes_to_send_to R epoch req t idx = (Ok res :: (_, 'e) outcome) \<and>
      length res = t \<and> distinct res \<and> set res \<subseteq> set idx)) \<and>
    (length idx < t \<longrightarrow> calc_nodes_to_send_to R epoch req t idx = (Panic :: (_, 'e) outcome))"
  unfolding calc_nodes_to_send_to_def
  by (intro conjI impI choose_nodes_Ok choose_nodes_Panic assms)

theorem request_nodes_chosen_witness:
  "calc_nodes_to_send_to small_rng 0 1 5 [2, 4, 6, 8] = (Panic :: (_, unit) outcome)"
  using request_nodes_chosen [of "[2, 4, 6, 8]" 5 small_rng 0 1] by simp

text \<open>C25. The shortcut \<open>should_be_sent_to_node\<close> agrees with the reference: a node is asked exactly
  if it is among the nodes chosen from the sorted list of indices. The relayer's list is not
  sorted, and on an unsorted list the two disagree.\<close>

theorem should_be_sent_iff_chosen:
  "(t \<le> length idx \<and> distinct idx \<and> (\<forall>i\<in>set idx. i < 2 ^ 32) \<longrightarrow>
     should_be_sent_to_node R epoch req t node idx =
       (Ok (node \<in> set (the_ok (calc_nodes_to_send_to R epoch req t (sort idx) :: (_, 'e) outcome))) ::
         (_, 'e) outcome)) \<and>
   should_be_sent_to_node small_rng 0 0 1 7 [9, 7] = (Ok True :: (_, 'e) outcome) \<and>
   calc_nodes_to_send_to small_rng 0 0 1 [9, 7] = (Ok [9] :: (_, 'e) outcome)"
proof -
  have "from_bytes_be (request_seed 0 0) = 0"
    by (simp add: request_seed_def from_bytes_be_append from_be_bytes)
  then show ?thesis
    unfolding should_be_sent_to_node_def calc_nodes_to_send_to_def
    by (intro conjI impI chosen_among_iff) (simp_all add: small_rng_def)
qed

theorem should_be_sent_iff_chosen_witness:
  "should_be_sent_to_node small_rng 0 0 2 9 [9, 7] =
    (Ok (9 \<in> set (the_ok (calc_nodes_to_send_to small_rng 0 0 2 [7, 9] :: (_, unit) outcome))) :: (_, unit) outcome)"
  using should_be_sent_iff_chosen [of 2 "[9, 7]" small_rng 0 0 9, THEN conjunct1] by simp

text \<open>Sampling without replacement: whichever of the weightings is used, a successful sample
  has exactly the requested number of nodes and takes no node more often than the list has it;
  the tolerant variant may stop short, but not below \<open>MIN_NODES\<close>.\<close>

theorem samples_without_replacement:
  "(weighted_sample_n_no_classic R weight nodes n seed = Ok (Some res) \<or>
    weighted_sample_n_no_sqrt F R weight nodes n seed = Ok (Some res) \<or>
    weighted_sample_n_no_log F R weight nodes n seed = Ok (Some res) \<longrightarrow>
      length res = n \<and> 0 < n \<and> mset res \<subseteq># mset nodes) \<and>
   (weighted_sample_n_no_replace F R S weight nodes n seed = Ok (Some res) \<longrightarrow>
      length res \<le> n \<and> (length res = n \<or> get_min_nodes S \<le> length res) \<and> mset res \<subseteq># mset nodes)"
  using classic.sample_n_spec [of R "(R, weight)" nodes n seed res]
    with_sqrt.sample_n_spec [of R "(F, R, weight)" nodes n seed res]
    with_log.sample_n_spec [of R "(F, R, weight)" nodes n seed res]
    sample_n_no_replace_spec [of F R S weight nodes n seed res]
  by (auto simp: weighted_sample_n_no_classic_def weighted_sample_n_no_sqrt_def
      weighted_sample_n_no_log_def get_min_nodes_def)

theorem samples_without_replacement_witness:
  "mset [''b''] \<subseteq># mset [''a'', ''b'', ''c'']"
proof -
  have "weighted_sample_n_no_classic small_rng length [''a'', ''b'', ''c''] 1 [2] = Ok (Some [''b''])"
    by (simp add: weighted_sample_n_no_classic_def sample_n_def small_rng_def Let_def
        weighted_sample_def first_at_least_def remove_nth_def upt_rec assert_then_def)
  then show ?thesis
    by (rule samples_without_replacement [THEN conjunct1, THEN mp, OF disjI1, THEN conjunct2, THEN conjunct2])
qed

text \<open>How likely a node is: the draws that make \<open>weighted_sample\<close> return a node are the
  interval above the weights before it, one draw per unit of weight; the first node also gets
  the draw 0, for which the last node pays, so the odds are proportional to the weights only up
  to one unit, and a first node of weight 0 can be chosen.\<close>

theorem weighted_sample_odds:
  assumes "map weight nodes = ws" and "0 < sum_list ws" and "gen_range_big R (sum_list ws) g = (r, g')"
    and "r < sum_list ws"
  shows "\<exists>i. weighted_sample R weight nodes g = (Ok (Some i, g') :: (_, 'e) outcome) \<and> i < length nodes \<and>
    r \<in> {if i = 0 then 0 else Suc (sum_list (take i ws)) .. sum_list (take (Suc i) ws)}"
proof -
  from assms(2) have ne: "ws \<noteq> []" by auto
  have len: "length nodes = length ws" using assms(1) by auto
  have "r \<le> cum_sums 0 ws ! (length ws - 1)"
    using assms(4) ne by (simp add: cum_sums_nth)
  then have "\<exists>i. i \<in> set [0..<length (cum_sums 0 ws)] \<and> r \<le> cum_sums 0 ws ! i"
    using ne by (intro exI [of _ "length ws - 1"]) simp
  then have "first_at_least (cum_sums 0 ws) r \<noteq> None"
    unfolding first_at_least_def find_None_iff by blast
  then obtain i where i: "first_at_least (cum_sums 0 ws) r = Some i" by auto
  moreover have "weighted_sample R weight nodes g = (Ok (Some i, g') :: (_, 'e) outcome)"
    unfolding weighted_sample_def assms(1) Let_def last_cum_sums [OF ne] assms(3)
    using assms(2) ne i by (simp del: sum_list_eq_0_iff)
  ultimately show ?thesis
    using first_at_least_interval [OF assms(4), of i] len by (intro exI [of _ i]) (auto simp: Suc_le_eq)
qed

theorem weighted_sample_odds_witness:
  "\<exists>i. weighted_sample small_rng length [[], ''b''] 0 = (Ok (Some i, 1) :: (_, unit) outcome) \<and> i < 2 \<and>
    0 \<in> {if i = 0 then 0 else Suc (sum_list (take i [0, 1])) .. sum_list (take (Suc i) [0, 1])}"
  using weighted_sample_odds [of length "[[], ''b'']" "[0, 1]" small_rng 0 0 1]
  by (simp add: small_rng_def numeral_2_eq_2)

end
