(* ===== verification/Types.thy ===== *)
theory Types
  imports Zkinjmask Encryption
begin

text \<open>
  The data the nodes exchange (\<open>messages/src/lib.rs\<close>, \<open>actor_type.rs\<close>, \<open>utils.rs\<close>, \<open>drand.rs\<close>,
  \<open>kafka.rs\<close>, \<open>types.rs\<close> and the structs of \<open>message.rs\<close>): states and their names, actors, provers
  and their weights, Kafka topics and payloads. Peer ids, network addresses and public keys of
  libp2p are opaque strings and bytes.
\<close>

type_synonym PeerId = string
type_synonym Multiaddr = string
type_synonym PublicKey = bytes
type_synonym Topic = string
type_synonym RequestID = string
type_synonym RSAPublicKey = string

section \<open>States and actors\<close>

datatype NodeState = Bootstrap | WaitingForElection | QuorumElected | DkgRound1 | DkgRound2 | DkgRound3

fun show_NodeState :: "NodeState \<Rightarrow> string" where
  "show_NodeState Bootstrap = ''Bootstrap''"
| "show_NodeState WaitingForElection = ''WaitingForElection''"
| "show_NodeState NodeState.QuorumElected = ''QuorumElected''"
| "show_NodeState DkgRound1 = ''DKG-Round1''"
| "show_NodeState DkgRound2 = ''DKG-Round2''"
| "show_NodeState DkgRound3 = ''DKG-Round3''"

datatype ElectionState = CollectingProposals | CollectedProposals | TriggerElection | QuorumElected

fun show_ElectionState :: "ElectionState \<Rightarrow> string" where
  "show_ElectionState CollectingProposals = ''CollectingProposals''"
| "show_ElectionState CollectedProposals = ''CollectedProposals''"
| "show_ElectionState ElectionState.QuorumElected = ''QuorumElected''"
| "show_ElectionState TriggerElection = ''TriggerElection''"

datatype DkgState = DkgInit

fun show_DkgState :: "DkgState \<Rightarrow> string" where
  "show_DkgState DkgInit = ''DKGInit''"

datatype ActorType = GossipEngine | ElectionEngine | Relay | DkgEngine | AppStateEngine | Rpc

fun show_ActorType :: "ActorType \<Rightarrow> string" where
  "show_ActorType GossipEngine = ''gossip_engine''"
| "show_ActorType ElectionEngine = ''election_engine''"
| "show_ActorType Relay = ''relay''"
| "show_ActorType DkgEngine = ''dkg_engine''"
| "show_ActorType Rpc = ''rpc''"
| "show_ActorType AppStateEngine = ''app_state_engine''"

text \<open>The last arm is \<open>unreachable!\<close>.\<close>

definition resolve_actor_type :: "string \<Rightarrow> (ActorType, 'e) outcome" where
  "resolve_actor_type s =
    (if s = ''gossip_engine'' then Ok GossipEngine
     else if s = ''election_engine'' then Ok ElectionEngine
     else if s = ''relay'' then Ok Relay
     else if s = ''dkg_engine'' then Ok DkgEngine
     else if s = ''rpc'' then Ok Rpc
     else if s = ''app_state_engine'' then Ok AppStateEngine
     else Panic)"

datatype SupervisorType =
    AppEngineStateSuperVisor
  | ElectionEngineSuperVisor
  | DkgEngineSuperVisor
  | GossipEngineSuperVisor

fun show_SupervisorType :: "SupervisorType \<Rightarrow> string" where
  "show_SupervisorType AppEngineStateSuperVisor = ''app_engine_state_supervisor''"
| "show_SupervisorType ElectionEngineSuperVisor = ''election_engine_supervisor''"
| "show_SupervisorType DkgEngineSuperVisor = ''dkg_engine_supervisor''"
| "show_SupervisorType GossipEngineSuperVisor = ''gossip_engine_supervisor''"

datatype MonitorEvent = DKG | Resharing | MultiplicationResult string

fun show_MonitorEvent :: "MonitorEvent \<Rightarrow> string" where
  "show_MonitorEvent DKG = ''DKG''"
| "show_MonitorEvent Resharing = ''Resharing''"
| "show_MonitorEvent (MultiplicationResult uuid) = ''MultiplicationResult '' @ uuid"

section \<open>Keys and randomness\<close>

text \<open>The protobuf coding of libp2p's public keys is a parameter.\<close>

datatype HumanPublicKey = HumanPublicKey PublicKey

record protobuf =
  encode_protobuf :: "PublicKey \<Rightarrow> bytes"
  try_decode_protobuf :: "bytes \<Rightarrow> (PublicKey, string) outcome"

fun HumanPublicKey_to_string :: "hexcrate \<Rightarrow> protobuf \<Rightarrow> HumanPublicKey \<Rightarrow> string" where
  "HumanPublicKey_to_string X B (HumanPublicKey pk) = hex_encode X (encode_protobuf B pk)"

fun HumanPublicKey_serialize :: "hexcrate \<Rightarrow> protobuf \<Rightarrow> HumanPublicKey \<Rightarrow> (string, 'e) outcome" where
  "HumanPublicKey_serialize X B (HumanPublicKey pk) = Ok (hex_encode X (encode_protobuf B pk))"

definition HumanPublicKey_deserialize ::
    "hexcrate \<Rightarrow> protobuf \<Rightarrow> (string, SerdeError) outcome \<Rightarrow> (HumanPublicKey, SerdeError) outcome" where
  "HumanPublicKey_deserialize X B str =
    obind str (\<lambda>hex_str.
    obind (ok_or (custom (hex_error X hex_str)) (hex_decode X hex_str)) (\<lambda>bs.
    obind (map_err custom (try_decode_protobuf B bs)) (\<lambda>public_key.
    Ok (HumanPublicKey public_key))))"

definition PK_LEO_MAINNET :: bytes where
  "PK_LEO_MAINNET =
    [0x86, 0x8f, 0x00, 0x5e, 0xb8, 0xe6, 0xe4, 0xca, 0x0a, 0x47, 0xc8, 0xa7, 0x7c, 0xea, 0xa5, 0x30,
     0x9a, 0x47, 0x97, 0x8a, 0x7c, 0x71, 0xbc, 0x5c, 0xce, 0x96, 0x36, 0x6b, 0x5d, 0x7a, 0x56, 0x99,
     0x37, 0xc5, 0x29, 0xee, 0xda, 0x66, 0xc7, 0x29, 0x37, 0x84, 0xa9, 0x40, 0x28, 0x01, 0xaf, 0x31]"

record DrandResponse =
  drand_round :: nat
  randomness :: string
  drand_signature :: string
  previous_signature :: string

record 'k drandcrate =
  G1Pubkey_from_fixed :: "bytes \<Rightarrow> ('k, string) outcome"
  G1Pubkey_verify :: "'k \<Rightarrow> nat \<Rightarrow> bytes \<Rightarrow> bytes \<Rightarrow> (bool, string) outcome"

definition verify_drand :: "'k drandcrate \<Rightarrow> nat \<Rightarrow> bytes \<Rightarrow> bytes \<Rightarrow> (bool, 'e) outcome" where
  "verify_drand D rnd prev sig =
    obind (unwrap (G1Pubkey_from_fixed D PK_LEO_MAINNET)) (\<lambda>pk.
    case G1Pubkey_verify D pk rnd prev sig of Ok valid \<Rightarrow> Ok valid | Err e \<Rightarrow> Ok False | Panic \<Rightarrow> Panic)"

section \<open>Provers\<close>

text \<open>A \<open>U256\<close> is its four 64-bit limbs, the least significant first.\<close>

type_synonym U256 = "64 word list"

record ElectionInfo =
  threshold :: nat
  epsilon :: nat
  total_provers :: nat

definition ElectionInfo_new :: "nat \<Rightarrow> nat \<Rightarrow> nat \<Rightarrow> ElectionInfo" where
  "ElectionInfo_new t e n = \<lparr> threshold = t, epsilon = e, total_provers = n \<rparr>"

record ProverInfoWithoutStake =
  evm_address :: address
  peer_id :: PeerId
  prover_address :: Multiaddr
  rpcaddr :: string
  human_pub_key :: HumanPublicKey
  rsa_pub_key :: RSAPublicKey
  prover_idx :: nat

record ProverInfo = ProverInfoWithoutStake +
  voting_power :: U256

definition to_le_bytes :: "64 word \<Rightarrow> bytes" where
  "to_le_bytes w = rev (be_bytes 8 (unat w))"

definition from_bytes_le :: "bytes \<Rightarrow> nat" where
  "from_bytes_le bs = from_bytes_be (rev bs)"

definition weight :: "ProverInfo \<Rightarrow> nat" where
  "weight self = from_bytes_le (foldl (\<lambda>bs value. bs @ to_le_bytes value) [] (voting_power self))"

section \<open>Methods and topics\<close>

datatype Method =
    OPRFSecp256k1
  | OPRFBabyJubJub
  | DecryptBabyJubJub
  | JWTPRFSecp256k1

fun Method_as_str :: "Method \<Rightarrow> string" where
  "Method_as_str OPRFSecp256k1 = ''OPRFSecp256k1''"
| "Method_as_str OPRFBabyJubJub = ''OPRFBabyJubJub''"
| "Method_as_str DecryptBabyJubJub = ''DecryptBabyJubJub''"
| "Method_as_str JWTPRFSecp256k1 = ''JWTPRFSecp256k1''"

definition Method_from_str :: "string \<Rightarrow> Method option" where
  "Method_from_str s =
    (if s = ''OPRFSecp256k1'' then Some OPRFSecp256k1
     else if s = ''OPRFBabyJubJub'' then Some OPRFBabyJubJub
     else if s = ''DecryptBabyJubJub'' then Some DecryptBabyJubJub
     else if s = ''JWTPRFSecp256k1'' then Some JWTPRFSecp256k1
     else None)"

datatype KafkaTopic = Requests | Credits | PeerReachabilityTCP | PeerReachabilityQUIC | QuorumResharingStatus

fun KafkaTopic_as_str :: "KafkaTopic \<Rightarrow> string" where
  "KafkaTopic_as_str QuorumResharingStatus = ''quorum_resharing_status''"
| "KafkaTopic_as_str Requests = ''requests''"
| "KafkaTopic_as_str Credits = ''credits''"
| "KafkaTopic_as_str PeerReachabilityTCP = ''peer_reachability_tcp''"
| "KafkaTopic_as_str PeerReachabilityQUIC = ''peer_reachability_quic''"

definition KafkaTopic_from_str :: "string \<Rightarrow> KafkaTopic option" where
  "KafkaTopic_from_str s =
    (if s = ''quorum_resharing_status'' then Some QuorumResharingStatus
     else if s = ''requests'' then Some Requests
     else if s = ''credits'' then Some Credits
     else if s = ''peer_reachability_tcp'' then Some PeerReachabilityTCP
     else if s = ''peer_reachability_quic'' then Some PeerReachabilityQUIC
     else None)"

datatype kafka_payload =
    PeerReachabilityTCPStatus bool string "string option"
  | PeerReachabilityQuicStatus bool "nat option"
  | UserCreditsByMethod string nat
  | QuorumResharingInfo "ProverInfo list" bool
  | RequestInfo address Method "PeerId list"

record kafka_record =
  kafka_topic :: string
  kafka_key :: string
  kafka_value :: kafka_payload

text \<open>The services a node uses: Redis, a map of strings that may be unreachable, and Kafka, the list
  of the records delivered.\<close>

record services =
  redis_up :: bool
  redis :: "(string, string) hashmap"
  kafka_up :: bool
  kafka :: "kafka_record list"

text \<open>A failed delivery is only logged.\<close>

definition kafka_send :: "KafkaTopic \<Rightarrow> string \<Rightarrow> kafka_payload \<Rightarrow> services \<Rightarrow> services" where
  "kafka_send topic key payload S =
    (if kafka_up S then
       S\<lparr> kafka := kafka S @ [\<lparr> kafka_topic = KafkaTopic_as_str topic, kafka_key = key, kafka_value = payload \<rparr>] \<rparr>
     else S)"

section \<open>Lemmas\<close>

text \<open>The contract of a type with names: what is shown is read back, and only names are read.\<close>

locale named_type =
  fixes to_str :: "'a \<Rightarrow> string"
    and of_str :: "string \<Rightarrow> 'a option"
  assumes of_to: "of_str (to_str x) = Some x"
    and to_of: "of_str s = Some x \<Longrightarrow> to_str x = s"
begin

lemma name_inject: "to_str x = to_str y \<longleftrightarrow> x = y"
  by (metis of_to option.inject)

lemma read_iff: "of_str s = Some x \<longleftrightarrow> s = to_str x"
  by (metis of_to to_of)

lemma unknown_iff: "of_str s = None \<longleftrightarrow> s \<notin> range to_str"
  by (metis of_to to_of not_Some_eq rangeE rangeI)

end

interpretation method_name: named_type Method_as_str Method_from_str
proof
  show "Method_from_str (Method_as_str x) = Some x" for x
    by (cases x) (simp_all add: Method_from_str_def)
qed (auto simp: Method_from_str_def split: if_splits)

interpretation topic_name: named_type KafkaTopic_as_str KafkaTopic_from_str
proof
  show "KafkaTopic_from_str (KafkaTopic_as_str x) = Some x" for x
    by (cases x) (simp_all add: KafkaTopic_from_str_def)
qed (auto simp: KafkaTopic_from_str_def split: if_splits)

definition actor_of_name :: "string \<Rightarrow> ActorType option" where
  "actor_of_name s = (case resolve_actor_type s :: (ActorType, unit) outcome of Ok a \<Rightarrow> Some a | _ \<Rightarrow> None)"

interpretation actor_name: named_type show_ActorType actor_of_name
proof
  show "actor_of_name (show_ActorType x) = Some x" for x
    by (cases x) (simp_all add: actor_of_name_def resolve_actor_type_def)
qed (auto simp: actor_of_name_def resolve_actor_type_def split: if_splits)

lemma resolve_actor_type_eq:
  "resolve_actor_type s = (case actor_of_name s of Some a \<Rightarrow> Ok a | None \<Rightarrow> Panic)"
  by (simp add: actor_of_name_def resolve_actor_type_def)

text \<open>The value of a number of limbs.\<close>

fun U256_value :: "U256 \<Rightarrow> nat" where
  "U256_value [] = 0"
| "U256_value (w # ws) = unat w + 2 ^ 64 * U256_value ws"

lemma limb_bound: "a < b \<Longrightarrow> v < x \<Longrightarrow> a + b * v < b * (x :: nat)"
  using mult_le_mono2 [of "v + 1" x b] by (simp add: algebra_simps)

lemma U256_value_bound: "U256_value ws < (2 ^ 64) ^ length ws"
proof (induction ws)
  case (Cons w ws)
  have "unat w < 2 ^ 64"
    using unsigned_less [of w, where 'a = nat] by simp
  from limb_bound [OF this Cons] show ?case
    by (simp only: U256_value.simps list.size power_Suc add_0_right add_Suc_right)
qed simp

lemma weight_value: "weight p = U256_value (voting_power p)"
proof -
  have "foldl (\<lambda>bs value. bs @ to_le_bytes value) acc ws = acc @ concat (map to_le_bytes ws)" for acc ws
    by (induction ws arbitrary: acc) simp_all
  moreover have "from_bytes_be (rev (concat (map to_le_bytes ws))) = U256_value ws" for ws
  proof (induction ws)
    case (Cons w ws)
    have "unat w mod 256 ^ 8 = unat w"
      using unsigned_less [of w, where 'a = nat] by simp
    with Cons show ?case
      by (simp add: to_le_bytes_def from_bytes_be_append from_be_bytes)
  qed simp
  ultimately show ?thesis
    by (simp add: weight_def from_bytes_le_def)
qed

definition protobuf_laws :: "hexcrate \<Rightarrow> protobuf \<Rightarrow> bool" where
  "protobuf_laws X B \<longleftrightarrow> hex_laws X \<and> (\<forall>pk. try_decode_protobuf B (encode_protobuf B pk) = Ok pk)"

interpretation human_key: serde_module "\<lambda>(X, B). protobuf_laws X B"
    "\<lambda>(X, B). HumanPublicKey_serialize X B" "\<lambda>(X, B) s. HumanPublicKey_deserialize X B (Ok s)"
proof (unfold_locales, clarify)
  fix X B x s
  assume "protobuf_laws X B" and "HumanPublicKey_serialize X B x = Ok s"
  then show "HumanPublicKey_deserialize X B (Ok s) = Ok x"
    by (cases x) (auto simp: HumanPublicKey_deserialize_def protobuf_laws_def hex_laws_def)
qed

end
