(* ===== verification/Requests.thy ===== *)
theory Requests
  imports Types Node_Selection
begin

text \<open>
  Requests to the network and their accounting (\<open>messages/src/network_utils.rs\<close>), the check of
  JSON web tokens (\<open>messages/src/jwt.rs\<close>) and of task proofs (\<open>messages/src/task_proofs.rs\<close>).
  Contracts, HTTP, bincode, JSON and signatures of the Ethereum libraries are parameters. Errors of \<open>anyhow\<close>
  are their messages.
\<close>

section \<open>Redis\<close>

text \<open>Decimal numbers as \<open>str::parse::<u32>\<close> reads them.\<close>

definition digit_value :: "char \<Rightarrow> nat option" where
  "digit_value c =
    (let n = of_char c in if 48 \<le> n \<and> n \<le> 57 then Some (n - 48) else None)"

fun parse_digits :: "nat \<Rightarrow> string \<Rightarrow> nat option" where
  "parse_digits acc [] = Some acc"
| "parse_digits acc (c # cs) =
    (case digit_value c of None \<Rightarrow> None | Some d \<Rightarrow> parse_digits (10 * acc + d) cs)"

definition parse_u32 :: "string \<Rightarrow> nat option" where
  "parse_u32 s =
    (let t = (case s of c # cs \<Rightarrow> if c = CHR ''+'' then cs else s | [] \<Rightarrow> s) in
     if t = [] then None
     else case parse_digits 0 t of
       Some n \<Rightarrow> if n < 2 ^ 32 then Some n else None
     | None \<Rightarrow> None)"

definition redis_get_u32 :: "string \<Rightarrow> services \<Rightarrow> (nat option, string) outcome" where
  "redis_get_u32 k S =
    (if \<not> redis_up S then Err ''redis''
     else case hm_get k (redis S) of
       None \<Rightarrow> Ok None
     | Some v \<Rightarrow> (case parse_u32 v of Some n \<Rightarrow> Ok (Some n) | None \<Rightarrow> Err ''Response was of incompatible type''))"

definition redis_get_string :: "string \<Rightarrow> services \<Rightarrow> (string, string) outcome" where
  "redis_get_string k S =
    (if \<not> redis_up S then Err ''redis''
     else ok_or ''Response was of incompatible type'' (hm_get k (redis S)))"

definition redis_set :: "string \<Rightarrow> string \<Rightarrow> services \<Rightarrow> (services, string) outcome" where
  "redis_set k v S = (if redis_up S then Ok (S\<lparr> redis := hm_insert k v (redis S) \<rparr>) else Err ''redis'')"

section \<open>JSON web tokens\<close>

record ('v, 'k) jwtcrate =
  json :: "'v jsoncrate"
  as_array :: "'v \<Rightarrow> 'v list option"
  json_from_str :: "string \<Rightarrow> ('v, string) outcome"
  http_get_json :: "string \<Rightarrow> ('v, string) outcome"
  from_rsa_components :: "string \<Rightarrow> string \<Rightarrow> ('k, string) outcome"
  jwt_decode :: "string \<Rightarrow> 'k \<Rightarrow> (JWTClaims, string) outcome"
  enclave_signer_env :: "string option"
  parse_address :: "string \<Rightarrow> (address, string) outcome"
  b64_standard_decode :: "string \<Rightarrow> (bytes, string) outcome"
  signature_try_from :: "bytes \<Rightarrow> (bytes, string) outcome"
  signature_recover :: "bytes \<Rightarrow> bytes \<Rightarrow> (address, string) outcome"

definition ENCLAVE_SIGNER_ADDRESS :: string where
  "ENCLAVE_SIGNER_ADDRESS = ''0x9C26A4a9dc213511Af416fE36571213a389C3d40''"

text \<open>With a connection the endpoint's answer is only read from the cache; without one it is
  fetched, and the inner \<open>set_ex\<close> is not reached because the connection is \<open>None\<close> there.\<close>

definition get_jwk :: "('v, 'k) jwtcrate \<Rightarrow> string \<Rightarrow> services option \<Rightarrow> ('v, string) outcome" where
  "get_jwk J issuer connection =
    (case connection of
       Some c \<Rightarrow> obind (redis_get_string (''jwk:issuer:'' @ issuer) c) (json_from_str J)
     | None \<Rightarrow> http_get_json J (issuer @ ''/.well-known/jwks.json''))"

definition verify_enclave_jwt ::
    "('v, 'k) jwtcrate \<Rightarrow> (address \<Rightarrow> string) \<Rightarrow> string \<Rightarrow> (unit, string) outcome" where
  "verify_enclave_jwt J show_address token =
    obind (parse_address J (case enclave_signer_env J of Some a \<Rightarrow> a | None \<Rightarrow> ENCLAVE_SIGNER_ADDRESS))
      (\<lambda>enclave_signer_address.
    obind (from_raw_token_unchecked (json J) token) (\<lambda>unvalidated.
    if from_enclave unvalidated \<noteq> Some True then Err ''Must be from enclave''
    else
      let parts = split_on (CHR ''.'') token in
      obind (if 2 < length parts then Ok (parts ! 2) else Err ''JWT lacks signature'') (\<lambda>sig64.
      obind (b64_standard_decode J sig64) (\<lambda>sig_bytes.
      obind (signature_try_from J sig_bytes) (\<lambda>sig.
      obind (unique_string unvalidated) (\<lambda>u.
      obind (signature_recover J sig (string_bytes u)) (\<lambda>recovered.
      if recovered = enclave_signer_address then Ok ()
      else Err (''JWT signature from '' @ show_address recovered @
        '' does not match enclave signer address: '' @ show_address enclave_signer_address))))))))"

definition jwk_component :: "('v, 'k) jwtcrate \<Rightarrow> 'v \<Rightarrow> string \<Rightarrow> string \<Rightarrow> (string, string) outcome" where
  "jwk_component J key name missing =
    obind (ok_or missing (json_get (json J) key name)) (\<lambda>v.
    ok_or ''key has invalid format'' (as_str (json J) v))"

definition verify_jwt ::
    "('v, 'k) jwtcrate \<Rightarrow> (address \<Rightarrow> string) \<Rightarrow> string \<Rightarrow> nat \<Rightarrow> services option \<Rightarrow>
      (string \<times> string, string) outcome" where
  "verify_jwt J show_address token idx jwk_cache =
    obind (from_raw_token_unchecked (json J) token) (\<lambda>unvalidated.
    if from_enclave unvalidated = Some True then
      obind (verify_enclave_jwt J show_address token) (\<lambda>_.
      obind (unique_string unvalidated) (\<lambda>u. Ok (u, pubmask unvalidated)))
    else
      obind (get_jwk J (iss unvalidated) jwk_cache) (\<lambda>jwk.
      obind (ok_or ''JWK lacks 'keys' field'' (json_get (json J) jwk ''keys'')) (\<lambda>keys_field.
      obind (ok_or ''JWK 'keys' is not an array'' (as_array J keys_field)) (\<lambda>keys.
      obind (if idx < length keys then Ok (keys ! idx) else Err ''JWK key index is out of boudns'') (\<lambda>key.
      obind (jwk_component J key ''n'' ''JWK key (assuming RSA) is missing modulus'') (\<lambda>modulus.
      obind (jwk_component J key ''e'' ''JWK key (assuming RSA) is missing exponent'') (\<lambda>exponent.
      obind (from_rsa_components J modulus exponent) (\<lambda>decoding_key.
      obind (jwt_decode J token decoding_key) (\<lambda>claims.
      if iss claims \<noteq> iss unvalidated then
        Err ''Issuer in the JWT does not match the issuer whose key was fetched''
      else obind (unique_string claims) (\<lambda>u. Ok (u, pubmask claims)))))))))))"

section \<open>Credits\<close>

text \<open>What the requests call outside: the credits contract (a 256-bit number), the contracts with
  decryption conditions, \<open>keccak256\<close>, \<open>bincode\<close>, wallets. \<open>wallet_sign\<close> signs with the
  caller's wallet.\<close>

type_synonym signature = bytes

record RequestToNetwork =
  req_method :: Method
  req_point :: bytes
  req_epoch :: nat
  request_per_user :: nat
  req_signature :: "signature option"
  extra_data :: "bytes option"

type_synonym proof_strings = "string \<times> string \<times> string \<times> string"

record RequestToNetworkWithProofs =
  base :: RequestToNetwork
  proofs :: "proof_strings list"

record ('f, 'p, 'g, 'q) chain =
  credits_for :: "address \<Rightarrow> (nat, string) outcome"
  can_decrypt :: "address \<Rightarrow> address \<Rightarrow> bytes \<Rightarrow> (bool, string) outcome"
  keccak256 :: "bytes \<Rightarrow> bytes"
  bincode_conditions :: "bytes \<Rightarrow> (('g, 'q) ElGamalCiphertextWithSignedConditions, string) outcome"
  bincode_frontend :: "bytes \<Rightarrow> (('f, 'p) FrontendData, string) outcome"
  bincode_request :: "RequestToNetwork \<Rightarrow> (bytes, string) outcome"
  ecdsa_recover :: "signature \<Rightarrow> bytes \<Rightarrow> (address, string) outcome"
  show_addr :: "address \<Rightarrow> string"

text \<open>The build without mocked credits; \<open>as_u128\<close> panics on a larger balance.\<close>

definition standard_credits :: "('f, 'p, 'g, 'q) chain \<Rightarrow> address \<Rightarrow> (nat, string) outcome" where
  "standard_credits E user =
    obind (map_err (\<lambda>e. ''Failed to get user's credits: '' @ e) (credits_for E user)) (\<lambda>balance.
    assert_then (balance < 2 ^ 128) (Ok balance))"

definition decrypt_credits ::
    "digests \<Rightarrow> ('g::field, 'q::ab_group_add) curve \<Rightarrow> ('f, 'p, 'g, 'q) chain \<Rightarrow> address \<Rightarrow> bytes \<Rightarrow>
      bytes option \<Rightarrow> (nat, string) outcome" where
  "decrypt_credits H BJJ E user point extra =
    obind (standard_credits E user) (\<lambda>standard.
    case extra of
      None \<Rightarrow> Err ''No extra data provided for DecryptBabyJubJub method''
    | Some bs \<Rightarrow>
        obind (bincode_conditions E bs) (\<lambda>data.
        obind (map_err show_Error (get_contract_and_pubkey_if_valid H BJJ data)) (\<lambda>(contr, pk).
        obind (map_err show_Error (from_encoded BJJ point)) (\<lambda>pt.
        if pt \<noteq> pk then Err ''Point provided does not match the public key in the signature''
        else
          let c1 = ephemeral_dh_pubkey (ciphertext data) in
          obind (map_err show_Error (encode BJJ c1)) (\<lambda>enc.
          let c1_hash = keccak256 E enc in
          obind (map_err (\<lambda>e. ''Failed to get user's credits: '' @ e) (can_decrypt E contr user c1_hash)) (\<lambda>can.
          Ok (if can then standard else 0)))))))"

definition jwt_credits ::
    "digests \<Rightarrow> hexcrate \<Rightarrow> ('v, 'k) jwtcrate \<Rightarrow> ('f::field, 'p::ab_group_add) curve \<Rightarrow> ('f, 'p, 'g, 'q) chain \<Rightarrow>
      services \<Rightarrow> address \<Rightarrow> bytes option \<Rightarrow> (nat, string) outcome" where
  "jwt_credits H X J SECP E S user extra =
    obind (standard_credits E user) (\<lambda>standard.
    case extra of
      None \<Rightarrow> Err ''No extra data provided for JWTPRFSecp256k1 method''
    | Some raw_data \<Rightarrow>
        obind (bincode_frontend E raw_data) (\<lambda>fd.
        obind (case verify_jwt J (show_addr E) (jwt fd) (key_idx fd) (Some S) of
                 Ok result \<Rightarrow> Ok result
               | Err _ \<Rightarrow> verify_jwt J (show_addr E) (jwt fd) (key_idx fd) None
               | Panic \<Rightarrow> Panic) (\<lambda>(unique_str, mask_hex).
        obind (ok_or (hex_error X mask_hex) (hex_decode X mask_hex)) (\<lambda>mask_bytes.
        obind (map_err show_Error (from_encoded SECP mask_bytes)) (\<lambda>mask_pt.
        obind (map_err show_Error
                (MaskProof_verify_and_get_output H SECP (mask_proof fd) mask_pt unique_str)) (\<lambda>_.
        Ok standard))))))"

definition get_user_credits ::
    "digests \<Rightarrow> hexcrate \<Rightarrow> ('v, 'k) jwtcrate \<Rightarrow> ('f::field, 'p::ab_group_add) curve \<Rightarrow>
      ('g::field, 'q::ab_group_add) curve \<Rightarrow> ('f, 'p, 'g, 'q) chain \<Rightarrow> Method \<Rightarrow> services \<Rightarrow> address \<Rightarrow> bytes \<Rightarrow>
      bytes option \<Rightarrow> (nat, string) outcome" where
  "get_user_credits H X J SECP BJJ E method S user point extra =
    (case method of
       OPRFSecp256k1 \<Rightarrow> standard_credits E user
     | OPRFBabyJubJub \<Rightarrow> standard_credits E user
     | DecryptBabyJubJub \<Rightarrow> decrypt_credits H BJJ E user point extra
     | JWTPRFSecp256k1 \<Rightarrow> jwt_credits H X J SECP E S user extra)"

section \<open>Signing and accounting\<close>

definition is_for_my_node ::
    "('s, 'r) rng \<Rightarrow> RequestToNetwork \<Rightarrow> nat \<Rightarrow> nat \<Rightarrow> nat list \<Rightarrow> (bool, 'e) outcome" where
  "is_for_my_node R self t_plus_epsilon my_node_idx new_provers_idxes =
    should_be_sent_to_node R (req_epoch self) (request_per_user self) t_plus_epsilon my_node_idx new_provers_idxes"

definition get_nodes ::
    "('s, 'r) rng \<Rightarrow> RequestToNetwork \<Rightarrow> nat \<Rightarrow> nat list \<Rightarrow> (nat list, 'e) outcome" where
  "get_nodes R self t_plus_epsilon nodes_idxes =
    calc_nodes_to_send_to R (req_epoch self) (request_per_user self) t_plus_epsilon nodes_idxes"

definition signed ::
    "('f, 'p, 'g, 'q) chain \<Rightarrow> (bytes \<Rightarrow> (signature, string) outcome) \<Rightarrow> RequestToNetwork \<Rightarrow>
      (RequestToNetwork, string) outcome" where
  "signed E wallet_sign self =
    (if req_signature self \<noteq> None then Err ''Request already signed''
     else obind (bincode_request E self) (\<lambda>bs.
          obind (wallet_sign bs) (\<lambda>sig.
          Ok (self\<lparr> req_signature := Some sig \<rparr>))))"

definition recover :: "('f, 'p, 'g, 'q) chain \<Rightarrow> RequestToNetwork \<Rightarrow> (address, string) outcome" where
  "recover E self =
    (case req_signature self of
       Some s \<Rightarrow> obind (bincode_request E (self\<lparr> req_signature := None \<rparr>)) (ecdsa_recover E s)
     | None \<Rightarrow> Err ''Request not signed'')"

definition count_key :: "hexcrate \<Rightarrow> Method \<Rightarrow> address \<Rightarrow> string" where
  "count_key X method user = ''total_count:'' @ Method_as_str method @ '':0x'' @ hex_encode X user"

definition account_request_from_signer ::
    "digests \<Rightarrow> hexcrate \<Rightarrow> ('v, 'k) jwtcrate \<Rightarrow> ('f::field, 'p::ab_group_add) curve \<Rightarrow>
      ('g::field, 'q::ab_group_add) curve \<Rightarrow> ('f, 'p, 'g, 'q) chain \<Rightarrow> RequestToNetwork \<Rightarrow> bool \<Rightarrow> services \<Rightarrow>
      (nat \<times> services, string) outcome" where
  "account_request_from_signer H X J SECP BJJ E self record S =
    obind (recover E self) (\<lambda>user.
    obind (get_user_credits H X J SECP BJJ E (req_method self) S user (req_point self) (extra_data self)) (\<lambda>credits.
    let key = count_key X (req_method self) user in
    obind (redis_get_u32 key S) (\<lambda>stored.
    let stored_requests_per_user = (case stored of Some n \<Rightarrow> n | None \<Rightarrow> 0);
        new_credits_per_user = as_u32 (stored_requests_per_user + 1) in
    if new_credits_per_user > as_u32 credits then
      Err (''No credits for a request: acquired '' @ dec credits @ '' credits but used '' @
        dec stored_requests_per_user)
    else if record then
      obind (redis_set key (dec new_credits_per_user) S) (\<lambda>S'.
      Ok (1, kafka_send Credits (''0x'' @ hex_encode X user)
        (UserCreditsByMethod (Method_as_str (req_method self)) (request_per_user self)) S'))
    else Ok (1, S))))"

text \<open>\<open>x as i64\<close> of a wider unsigned number.\<close>

definition as_i64 :: "nat \<Rightarrow> int" where
  "as_i64 n = (let m = n mod 2 ^ 64 in if m < 2 ^ 63 then int m else int m - 2 ^ 64)"

definition verify_account_request_from_signer ::
    "digests \<Rightarrow> hexcrate \<Rightarrow> ('v, 'k) jwtcrate \<Rightarrow> ('f::field, 'p::ab_group_add) curve \<Rightarrow>
      ('g::field, 'q::ab_group_add) curve \<Rightarrow> ('f, 'p, 'g, 'q) chain \<Rightarrow> RequestToNetwork \<Rightarrow> services \<Rightarrow>
      (services, string) outcome" where
  "verify_account_request_from_signer H X J SECP BJJ E self S =
    obind (recover E self) (\<lambda>user.
    obind (get_user_credits H X J SECP BJJ E (req_method self) S user (req_point self) (extra_data self)) (\<lambda>credits.
    let key = count_key X (req_method self) user; n = request_per_user self in
    obind (redis_get_u32 key S) (\<lambda>stored.
    let stored_requests_per_user = (case stored of Some k \<Rightarrow> k | None \<Rightarrow> 0) in
    obind (if as_i64 n > as_i64 stored_requests_per_user then
             if n > credits then
               Err (''Request # provided: '' @ dec n @ '' must be higher than the last recorded request number: '' @
                 dec stored_requests_per_user @ '' for this user but it is higher than credits for user '' @ dec credits)
             else if 2 ^ 63 \<le> n then Err ''out of range integral type conversion attempted''
             else redis_set key (dec n) S
           else Ok S) (\<lambda>S'.
    if n > credits then
      Err (''No credits for a request: acquired '' @ dec credits @ '' credits but used '' @ dec n)
    else Ok S'))))"

section \<open>Task proofs\<close>

definition TASK_SIZE :: nat where
  "TASK_SIZE = 1000"

type_synonym TaskProof = "RequestToNetworkWithProofs list"

definition verify_proof ::
    "digests \<Rightarrow> hexcrate \<Rightarrow> (bytes \<Rightarrow> ('f, 'p) DLEQProof option) \<Rightarrow> ('f::field, 'p::ab_group_add) curve \<Rightarrow>
      proof_strings \<Rightarrow> ('p, string) outcome" where
  "verify_proof H X from_json C p =
    (case p of (dleq_proof_hex, pub_key_share_hex, masked_point_hex, _) \<Rightarrow>
      obind (ok_or ''Failed to decode DLEQ proof'' (hex_decode X dleq_proof_hex)) (\<lambda>proof_bytes.
      obind (ok_or ''Failed to deserialize DLEQ proof'' (from_json proof_bytes)) (\<lambda>deserialized_proof.
      obind (ok_or ''Failed to decode pub key share'' (hex_decode X pub_key_share_hex)) (\<lambda>share_bytes.
      obind (map_err (\<lambda>_. ''Failed to decode pub key share point'') (from_encoded C share_bytes)) (\<lambda>pub_key_share.
      obind (ok_or ''Failed to decode masked point'' (hex_decode X masked_point_hex)) (\<lambda>masked_bytes.
      obind (map_err (\<lambda>_. ''Failed to decode masked point'') (from_encoded C masked_bytes)) (\<lambda>masked_point.
      map_err show_Error (verify_and_get_output H C deserialized_proof pub_key_share masked_point))))))))"

definition verify_proofs ::
    "digests \<Rightarrow> hexcrate \<Rightarrow> (bytes \<Rightarrow> ('f, 'p) DLEQProof option) \<Rightarrow> ('f::field, 'p::ab_group_add) curve \<Rightarrow>
      proof_strings list \<Rightarrow> (unit, string) outcome" where
  "verify_proofs H X from_json C ps =
    ofold (\<lambda>_ p. obind (verify_proof H X from_json C p) (\<lambda>_. Ok ())) () ps"

text \<open>The strings \<open>as_str\<close> returns select the curve; no other string is possible.\<close>

definition TaskProof_verify ::
    "digests \<Rightarrow> hexcrate \<Rightarrow> (bytes \<Rightarrow> ('f, 'p) DLEQProof option) \<Rightarrow> (bytes \<Rightarrow> ('g, 'q) DLEQProof option) \<Rightarrow>
      ('f::field, 'p::ab_group_add) curve \<Rightarrow> ('g::field, 'q::ab_group_add) curve \<Rightarrow> TaskProof \<Rightarrow>
      (unit, string) outcome" where
  "TaskProof_verify H X secp_json bjj_json SECP BJJ self =
    ofold (\<lambda>_ request.
      let m = Method_as_str (req_method (base request)) in
      if m = ''OPRFSecp256k1'' \<or> m = ''JWTPRFSecp256k1'' then verify_proofs H X secp_json SECP (proofs request)
      else if m = ''OPRFBabyJubJub'' \<or> m = ''DecryptBabyJubJub'' then verify_proofs H X bjj_json BJJ (proofs request)
      else Err ''Invalid method'') () self"

section \<open>Decimal counters\<close>

lemma digit_value_nth: "d < 10 \<Longrightarrow> digit_value (''0123456789'' ! d) = Some d"
  by (auto simp: numeral_eq_Suc less_Suc_eq digit_value_def)

lemma parse_digits_append:
  "parse_digits acc (xs @ ys) = (case parse_digits acc xs of None \<Rightarrow> None | Some a \<Rightarrow> parse_digits a ys)"
  by (induction xs arbitrary: acc) (auto split: option.splits)

lemma parse_digits_dec: "parse_digits 0 (dec n) = Some n"
proof (induction n rule: dec.induct)
  case (1 n)
  then show ?case
    by (subst dec.simps) (auto simp: parse_digits_append digit_value_nth)
qed

lemma digit_not_plus: "d < 10 \<Longrightarrow> ''0123456789'' ! d \<noteq> CHR ''+''"
  by (auto simp: numeral_eq_Suc less_Suc_eq)

lemma dec_Cons: "\<exists>c cs. dec n = c # cs \<and> c \<noteq> CHR ''+''"
proof (induction n rule: dec.induct)
  case (1 n)
  show ?case
  proof (cases "n < 10")
    case True
    then show ?thesis
      using digit_not_plus [OF True] dec.simps [of n] by simp
  next
    case False
    then show ?thesis
      using 1 [OF False] dec.simps [of n] by auto
  qed
qed

lemma parse_u32_dec [simp]: "n < 2 ^ 32 \<Longrightarrow> parse_u32 (dec n) = Some n"
  using dec_Cons [of n] parse_digits_dec [of n] by (auto simp: parse_u32_def)

lemma count_key_inject:
  assumes "hex_laws X"
  shows "count_key X m u = count_key X m' u' \<longleftrightarrow> m = m' \<and> u = u'"
proof -
  have "hex_encode X u = hex_encode X u' \<Longrightarrow> u = u'"
    using assms by (metis hex_laws_def option.inject)
  then show ?thesis
    by (cases m; cases m') (auto simp: count_key_def)
qed

section \<open>What the operations do on a successful call\<close>

text \<open>No method grants more than the purchased credits.\<close>

lemma get_user_credits_le:
  "get_user_credits H X J SECP BJJ E m S u point extra = Ok n \<Longrightarrow>
    \<exists>b. credits_for E u = Ok b \<and> n \<le> b \<and> b < 2 ^ 128"
  by (cases m)
    (auto simp: get_user_credits_def decrypt_credits_def jwt_credits_def standard_credits_def obind_eq_Ok
      Let_def split: option.splits if_splits prod.splits)

definition stored_count :: "string \<Rightarrow> services \<Rightarrow> nat" where
  "stored_count k S = (case redis_get_u32 k S of Ok (Some n) \<Rightarrow> n | _ \<Rightarrow> 0)"

lemma account_Ok:
  assumes "account_request_from_signer H X J SECP BJJ E r True S = Ok (n, S')"
  obtains u c where "recover E r = Ok u"
    and "get_user_credits H X J SECP BJJ E (req_method r) S u (req_point r) (extra_data r) = Ok c"
    and "as_u32 (stored_count (count_key X (req_method r) u) S + 1) \<le> as_u32 c" and "redis_up S"
    and "S' = kafka_send Credits (''0x'' @ hex_encode X u)
      (UserCreditsByMethod (Method_as_str (req_method r)) (request_per_user r))
      (S\<lparr> redis := hm_insert (count_key X (req_method r) u)
        (dec (as_u32 (stored_count (count_key X (req_method r) u) S + 1))) (redis S) \<rparr>)"
proof -
  obtain u c where u: "recover E r = Ok u"
    "get_user_credits H X J SECP BJJ E (req_method r) S u (req_point r) (extra_data r) = Ok c"
    using assms by (auto simp: account_request_from_signer_def obind_eq_Ok)
  obtain st where st: "redis_get_u32 (count_key X (req_method r) u) S = Ok st"
    using assms u by (auto simp: account_request_from_signer_def obind_eq_Ok Let_def)
  have eq: "(case st of Some n \<Rightarrow> n | None \<Rightarrow> 0) = stored_count (count_key X (req_method r) u) S"
    by (simp add: stored_count_def st split: option.split)
  show thesis
    using assms unfolding account_request_from_signer_def u st obind.simps Let_def eq
    by (intro that [OF u])
      (auto simp: obind_eq_Ok redis_set_def not_less split: if_splits)
qed

lemma account_is_ok:
  assumes "recover E r = Ok u"
  shows "is_ok (account_request_from_signer H X J SECP BJJ E r record S) \<longleftrightarrow>
    (\<exists>c. get_user_credits H X J SECP BJJ E (req_method r) S u (req_point r) (extra_data r) = Ok c \<and>
      as_u32 (stored_count (count_key X (req_method r) u) S + 1) \<le> as_u32 c) \<and>
    is_ok (redis_get_u32 (count_key X (req_method r) u) S)"
proof (cases "get_user_credits H X J SECP BJJ E (req_method r) S u (req_point r) (extra_data r)")
  case cr: (Ok c)
  show ?thesis
  proof (cases "redis_get_u32 (count_key X (req_method r) u) S")
    case (Ok st)
    have eq: "(case st of Some n \<Rightarrow> n | None \<Rightarrow> 0) = stored_count (count_key X (req_method r) u) S"
      by (simp add: stored_count_def Ok split: option.split)
    have "redis_up S"
      using Ok by (simp add: redis_get_u32_def split: if_splits)
    then show ?thesis
      unfolding account_request_from_signer_def assms cr Ok obind.simps Let_def eq
      by (simp add: redis_set_def not_less)
  qed (simp_all add: account_request_from_signer_def assms cr Let_def)
qed (simp_all add: account_request_from_signer_def assms)

lemma stored_count_insert:
  assumes "redis_up S" and "n < 2 ^ 32"
  shows "stored_count k (kafka_send topic key payload (S\<lparr> redis := hm_insert k' (dec n) (redis S) \<rparr>)) =
    (if k = k' then n else stored_count k S)"
  using assms by (auto simp: stored_count_def redis_get_u32_def kafka_send_def hashmap.get_ins)

lemma stored_count_lt: "stored_count k S < 2 ^ 32"
  by (auto simp: stored_count_def redis_get_u32_def parse_u32_def Let_def
      split: option.splits outcome.splits if_splits)

text \<open>A relayer's run: each request is accounted for and recorded, and a rejected one changes
  nothing. The result lists the accepted requests.\<close>

fun account_run ::
    "digests \<Rightarrow> hexcrate \<Rightarrow> ('v, 'k) jwtcrate \<Rightarrow> ('f::field, 'p::ab_group_add) curve \<Rightarrow>
      ('g::field, 'q::ab_group_add) curve \<Rightarrow> ('f, 'p, 'g, 'q) chain \<Rightarrow> RequestToNetwork list \<Rightarrow> services \<Rightarrow>
      RequestToNetwork list \<times> services" where
  "account_run H X J SECP BJJ E [] S = ([], S)"
| "account_run H X J SECP BJJ E (r # rs) S =
    (case account_request_from_signer H X J SECP BJJ E r True S of
       Ok (_, S') \<Rightarrow> (case account_run H X J SECP BJJ E rs S' of (acc, T) \<Rightarrow> (r # acc, T))
     | _ \<Rightarrow> account_run H X J SECP BJJ E rs S)"

definition by_user :: "('f, 'p, 'g, 'q) chain \<Rightarrow> Method \<Rightarrow> address \<Rightarrow> RequestToNetwork \<Rightarrow> bool" where
  "by_user E m u r \<longleftrightarrow> req_method r = m \<and> recover E r = Ok u"

lemma account_step_count:
  assumes hex: "hex_laws X" and bal: "credits_for E u = Ok b" "b < 2 ^ 32 - 1"
    and inv: "stored_count (count_key X m u) S \<le> b"
    and step: "account_request_from_signer H X J SECP BJJ E r True S = Ok (n, S')"
  shows "stored_count (count_key X m u) S' =
      stored_count (count_key X m u) S + (if by_user E m u r then 1 else 0)"
    and "by_user E m u r \<Longrightarrow> stored_count (count_key X m u) S < b"
proof -
  obtain v c where rec: "recover E r = Ok v"
    and cr: "get_user_credits H X J SECP BJJ E (req_method r) S v (req_point r) (extra_data r) = Ok c"
    and le: "as_u32 (stored_count (count_key X (req_method r) v) S + 1) \<le> as_u32 c"
    and up: "redis_up S"
    and S': "S' = kafka_send Credits (''0x'' @ hex_encode X v)
      (UserCreditsByMethod (Method_as_str (req_method r)) (request_per_user r))
      (S\<lparr> redis := hm_insert (count_key X (req_method r) v)
        (dec (as_u32 (stored_count (count_key X (req_method r) v) S + 1))) (redis S) \<rparr>)"
    using step by (rule account_Ok)
  have lt: "as_u32 k < 2 ^ 32" for k
    by (simp add: as_u32_def)
  have own: "stored_count (count_key X m u) S < b \<and>
      as_u32 (stored_count (count_key X m u) S + 1) = stored_count (count_key X m u) S + 1"
    if "by_user E m u r"
  proof -
    have "v = u" "req_method r = m" "c \<le> b"
      using that rec get_user_credits_le [OF cr] bal(1) by (auto simp: by_user_def)
    then have "as_u32 (stored_count (count_key X m u) S + 1) \<le> c"
      using le bal(2) by simp
    then show ?thesis
      using inv bal(2) \<open>c \<le> b\<close> by simp
  qed
  show "stored_count (count_key X m u) S' =
      stored_count (count_key X m u) S + (if by_user E m u r then 1 else 0)"
    using own rec by (auto simp: S' stored_count_insert [OF up lt] count_key_inject [OF hex] by_user_def)
  show "by_user E m u r \<Longrightarrow> stored_count (count_key X m u) S < b"
    using own by simp
qed

end
