(* ===== verification/Request_Properties.thy ===== *)
theory Request_Properties
  imports Requests Encryption_Properties
begin

text \<open>The properties of requests: accounting against credits, signatures, web tokens and task
  proofs, with concrete services for the witnesses.\<close>

definition small_json :: "string jsoncrate" where
  "small_json =
    \<lparr> b64_decode = (\<lambda>s. Ok (string_bytes s)), from_slice = (\<lambda>bs. Ok ''claims''),
      json_get = (\<lambda>v k. if k = ''from_enclave'' then None else Some k), as_str = Some, as_bool = (\<lambda>_. None) \<rparr>"

definition small_jwt :: "(string, string) jwtcrate" where
  "small_jwt =
    \<lparr> json = small_json, as_array = (\<lambda>v. Some [v]), json_from_str = Ok, http_get_json = Ok,
      from_rsa_components = (\<lambda>n e. Ok (n @ e)),
      jwt_decode = (\<lambda>_ _. Ok \<lparr> iss = ''iss'', aud = None, azp = Some ''azp'', sub = ''sub'', pubmask = ''pubmask'',
        salt = None, from_enclave = None \<rparr>),
      enclave_signer_env = None, parse_address = (\<lambda>_. Ok []), b64_standard_decode = (\<lambda>_. Ok []),
      signature_try_from = Ok, signature_recover = (\<lambda>_ _. Ok []) \<rparr>"

definition small_chain :: "(gf7, gf7, gf7, gf7) chain" where
  "small_chain =
    \<lparr> credits_for = (\<lambda>_. Ok 1), can_decrypt = (\<lambda>_ _ _. Ok True), keccak256 = (\<lambda>bs. bs),
      bincode_conditions = (\<lambda>_. Err ''bincode''), bincode_frontend = (\<lambda>_. Err ''bincode''),
      bincode_request = (\<lambda>r. Ok (req_point r)), ecdsa_recover = (\<lambda>s _. Ok s), show_addr = (\<lambda>_. ''0x'') \<rparr>"

definition small_request :: RequestToNetwork where
  "small_request = \<lparr> req_method = OPRFSecp256k1, req_point = [1], req_epoch = 0, request_per_user = 1,
     req_signature = Some [9], extra_data = None \<rparr>"

definition no_services :: services where
  "no_services = \<lparr> redis_up = True, redis = [], kafka_up = True, kafka = [] \<rparr>"

section \<open>Accounting\<close>

lemma account_run_bound:
  assumes "hex_laws X" and "credits_for E u = Ok b" and "b < 2 ^ 32 - 1"
    and "stored_count (count_key X m u) S \<le> b"
  shows "stored_count (count_key X m u) S +
    length (filter (by_user E m u) (fst (account_run H X J SECP BJJ E rs S))) \<le> b"
  using assms(4)
proof (induction rs arbitrary: S)
  case (Cons r rs)
  show ?case
  proof (cases "account_request_from_signer H X J SECP BJJ E r True S")
    case (Ok p)
    then obtain n S' where step: "account_request_from_signer H X J SECP BJJ E r True S = Ok (n, S')"
      by (cases p) auto
    note count = account_step_count [OF assms(1-3) Cons.prems step]
    have "stored_count (count_key X m u) S' \<le> b"
      using count Cons.prems by auto
    from Cons.IH [OF this] show ?thesis
      using step count(1) by (auto split: prod.splits if_splits)
  qed (use Cons in simp_all)
qed simp

text \<open>C16. Accounting never serves more than was paid for: whatever requests arrive in whatever
  order, of those signed by one user for one method at most as many are accepted as the user has
  credits, when no request was counted before and the credits are below \<open>2\<^sup>3\<^sup>2 - 1\<close>.\<close>

theorem credits_bound_requests:
  assumes "hex_laws X" and "credits_for E u = Ok b" and "b < 2 ^ 32 - 1"
    and "hm_get (count_key X m u) (redis S) = None"
  shows "length (filter (by_user E m u) (fst (account_run H X J SECP BJJ E rs S))) \<le> b"
proof -
  have "stored_count (count_key X m u) S = 0"
    using assms(4) by (simp add: stored_count_def redis_get_u32_def)
  then show ?thesis
    using account_run_bound [OF assms(1-3), of m S H J SECP BJJ rs] by simp
qed

theorem credits_bound_requests_witness:
  "length (filter (by_user small_chain OPRFSecp256k1 [9])
    (fst (account_run small_digests small_hex small_jwt small_curve small_curve small_chain
      [small_request, small_request] no_services))) \<le> 1 \<and>
   is_ok (account_request_from_signer small_digests small_hex small_jwt small_curve small_curve small_chain
      small_request True no_services)"
proof -
  have "hex_laws small_hex"
    using small_codec_laws by (simp add: codec_laws_def)
  moreover have "is_ok (account_request_from_signer small_digests small_hex small_jwt small_curve small_curve small_chain
      small_request True no_services)"
    by (simp add: small_chain_def no_services_def small_request_def account_is_ok [of _ _ "[9]"] recover_def
        get_user_credits_def standard_credits_def redis_get_u32_def stored_count_def
        hashmap.get_emp)
  ultimately show ?thesis
    by (intro conjI credits_bound_requests) (simp_all add: small_chain_def no_services_def hashmap.get_emp)
qed

text \<open>The balance is truncated to 32 bits and the counter wraps: \<open>2\<^sup>3\<^sup>2\<close> credits buy no request at
  all, and once \<open>2\<^sup>3\<^sup>2 - 1\<close> requests are counted a user with fewer credits is served again from a
  counter of 0.\<close>

theorem account_truncates:
  assumes "recover E r = Ok u" and "req_method r = OPRFSecp256k1" and "credits_for E u = Ok c" and "c < 2 ^ 128"
    and "redis_up S"
  shows "(c mod 2 ^ 32 = 0 \<and> stored_count (count_key X OPRFSecp256k1 u) S < 2 ^ 32 - 1 \<longrightarrow>
      \<not> is_ok (account_request_from_signer H X J SECP BJJ E r rec S)) \<and>
    (hm_get (count_key X OPRFSecp256k1 u) (redis S) = Some (dec (2 ^ 32 - 1)) \<longrightarrow>
      (\<exists>S'. account_request_from_signer H X J SECP BJJ E r True S = Ok (1, S') \<and>
        hm_get (count_key X OPRFSecp256k1 u) (redis S') = Some ''0''))"
proof -
  have cr: "get_user_credits H X J SECP BJJ E OPRFSecp256k1 S u p e = Ok c" for p e
    using assms by (simp add: get_user_credits_def standard_credits_def)
  have zero: "dec 0 = ''0''"
    by (subst dec.simps) simp
  have "c mod 2 ^ 32 = 0 \<and> stored_count k S < 2 ^ 32 - 1 \<longrightarrow>
      \<not> as_u32 (stored_count k S + 1) \<le> as_u32 c" for k
    by (simp add: as_u32_def del: mod_eq_0_iff_dvd)
  from this [of "count_key X OPRFSecp256k1 u"]
  have "c mod 2 ^ 32 = 0 \<and> stored_count (count_key X OPRFSecp256k1 u) S < 2 ^ 32 - 1 \<longrightarrow>
      \<not> is_ok (account_request_from_signer H X J SECP BJJ E r rec S)"
    by (simp only: account_is_ok [OF assms(1)] assms(2) cr outcome.inject) auto
  moreover have "\<exists>S'. account_request_from_signer H X J SECP BJJ E r True S = Ok (1, S') \<and>
        hm_get (count_key X OPRFSecp256k1 u) (redis S') = Some ''0''"
    if "hm_get (count_key X OPRFSecp256k1 u) (redis S) = Some (dec (2 ^ 32 - 1))"
    using assms that cr
    by (simp add: account_request_from_signer_def redis_get_u32_def redis_set_def as_u32_def zero
        kafka_send_def Let_def hashmap.get_ins)
  ultimately show ?thesis by blast
qed

theorem account_truncates_witness:
  "\<not> is_ok (account_request_from_signer small_digests small_hex small_jwt small_curve small_curve
    (small_chain\<lparr> credits_for := \<lambda>_. Ok (2 ^ 32) \<rparr>) small_request False no_services)"
proof (rule account_truncates [of _ _ "[9]" "2 ^ 32", THEN conjunct1, THEN mp])
qed (simp_all add: small_chain_def small_request_def no_services_def recover_def stored_count_def redis_get_u32_def
    hashmap.get_emp)

text \<open>Accounting does not look at the request number or the epoch: two requests that differ
  only there and carry signatures of the same user are treated alike, and the very same request
  is served again while credits last.\<close>

theorem request_number_unchecked:
  assumes "recover E r = Ok u" and "recover E (r\<lparr> request_per_user := n, req_epoch := e, req_signature := s \<rparr>) = Ok u"
  shows "is_ok (account_request_from_signer H X J SECP BJJ E
      (r\<lparr> request_per_user := n, req_epoch := e, req_signature := s \<rparr>) rec S) \<longleftrightarrow>
    is_ok (account_request_from_signer H X J SECP BJJ E r rec S)"
  unfolding account_is_ok [OF assms(1)] account_is_ok [OF assms(2)] by simp

theorem request_number_unchecked_witness:
  "is_ok (account_request_from_signer small_digests small_hex small_jwt small_curve small_curve small_chain
      (small_request\<lparr> request_per_user := 0, req_epoch := 7, req_signature := Some [9] \<rparr>) False no_services)"
proof (subst request_number_unchecked)
  show "is_ok (account_request_from_signer small_digests small_hex small_jwt small_curve small_curve small_chain
      small_request False no_services)"
    by (simp add: small_chain_def no_services_def small_request_def account_is_ok [of _ _ "[9]"] recover_def
        get_user_credits_def standard_credits_def redis_get_u32_def stored_count_def
        hashmap.get_emp)
qed (simp_all add: small_chain_def small_request_def recover_def)

section \<open>Signatures\<close>

text \<open>Signing and recovering: a request signed by a wallet whose signatures recover to its
  address recovers to that address, an unsigned request recovers to nothing, and a signed one is
  not signed again.\<close>

theorem signed_recovers:
  assumes "\<forall>m sig. wallet_sign m = Ok sig \<longrightarrow> ecdsa_recover E sig m = Ok wallet"
    and "signed E wallet_sign r = Ok r'"
  shows "recover E r' = Ok wallet \<and> r'\<lparr> req_signature := None \<rparr> = r \<and>
    recover E r = Err ''Request not signed'' \<and> signed E wallet_sign r' = Err ''Request already signed''"
  using assms by (cases r) (auto simp: signed_def recover_def obind_eq_Ok split: if_splits)

theorem signed_recovers_witness:
  "\<exists>r'. signed small_chain (\<lambda>_. Ok [9]) (small_request\<lparr> req_signature := None \<rparr>) = Ok r' \<and>
    recover small_chain r' = Ok [9]"
  using signed_recovers [of "\<lambda>_. Ok [9]" small_chain "[9]" "small_request\<lparr> req_signature := None \<rparr>" small_request]
  by (simp add: small_chain_def small_request_def signed_def)

section \<open>Web tokens\<close>

text \<open>The two ways a token may be vouched for, with \<open>u\<close> its unique string and \<open>m\<close> its public mask.\<close>

definition enclave_signed :: "('v, 'k) jwtcrate \<Rightarrow> string \<Rightarrow> string \<Rightarrow> string \<Rightarrow> bool" where
  "enclave_signed J token u m \<longleftrightarrow>
    (\<exists>c sig a. from_raw_token_unchecked (json J) token = Ok c \<and> from_enclave c = Some True \<and>
      unique_string c = Ok u \<and> m = pubmask c \<and> signature_recover J sig (string_bytes u) = Ok a \<and>
      parse_address J (case enclave_signer_env J of Some e \<Rightarrow> e | None \<Rightarrow> ENCLAVE_SIGNER_ADDRESS) = Ok a)"

definition issuer_signed ::
    "('v, 'k) jwtcrate \<Rightarrow> string \<Rightarrow> nat \<Rightarrow> services option \<Rightarrow> string \<Rightarrow> string \<Rightarrow> bool" where
  "issuer_signed J token idx cache u m \<longleftrightarrow>
    (\<exists>d jwk field keys n e key. get_jwk J (iss d) cache = Ok jwk \<and>
      json_get (json J) jwk ''keys'' = Some field \<and> as_array J field = Some keys \<and> idx < length keys \<and>
      Option.bind (json_get (json J) (keys ! idx) ''n'') (as_str (json J)) = Some n \<and>
      Option.bind (json_get (json J) (keys ! idx) ''e'') (as_str (json J)) = Some e \<and>
      from_rsa_components J n e = Ok key \<and> jwt_decode J token key = Ok d \<and> unique_string d = Ok u \<and> m = pubmask d)"

lemma verify_enclave_jwt_Ok:
  "verify_enclave_jwt J sh token = Ok () \<Longrightarrow> from_raw_token_unchecked (json J) token = Ok c \<Longrightarrow>
    unique_string c = Ok u \<Longrightarrow>
    \<exists>sig a. signature_recover J sig (string_bytes u) = Ok a \<and>
      parse_address J (case enclave_signer_env J of Some e \<Rightarrow> e | None \<Rightarrow> ENCLAVE_SIGNER_ADDRESS) = Ok a"
  by (auto simp: verify_enclave_jwt_def obind_eq_Ok Let_def split: if_splits)

lemma jwk_component_Ok:
  "jwk_component J key name missing = Ok s \<longleftrightarrow> Option.bind (json_get (json J) key name) (as_str (json J)) = Some s"
  by (auto simp: jwk_component_def obind_eq_Ok bind_eq_Some_conv)



section \<open>Task proofs\<close>

lemma verify_proofs_Ok:
  "verify_proofs H X from_json C ps = Ok () \<longleftrightarrow> (\<forall>p\<in>set ps. is_ok (verify_proof H X from_json C p))"
  unfolding verify_proofs_def by (induction ps) (auto simp: obind_eq_Ok is_ok_iff)

lemma method_curve_cases:
  "Method_as_str m = ''OPRFSecp256k1'' \<or> Method_as_str m = ''JWTPRFSecp256k1'' \<longleftrightarrow> m \<in> {OPRFSecp256k1, JWTPRFSecp256k1}"
  "Method_as_str m = ''OPRFBabyJubJub'' \<or> Method_as_str m = ''DecryptBabyJubJub'' \<longleftrightarrow> m \<in> {OPRFBabyJubJub, DecryptBabyJubJub}"
  by (cases m; simp)+



section \<open>Names and weights\<close>

text \<open>Names are unambiguous: the names of methods, topics and actors are read back as what they
  name, and nothing else is read; resolving any other actor name is the \<open>unreachable!\<close> panic.\<close>

theorem names_round_trip:
  "(Method_from_str s = Some m \<longleftrightarrow> s = Method_as_str m) \<and>
   (KafkaTopic_from_str s = Some t \<longleftrightarrow> s = KafkaTopic_as_str t) \<and>
   (resolve_actor_type s = (Ok a :: (_, 'e) outcome) \<longleftrightarrow> s = show_ActorType a) \<and>
   (resolve_actor_type s = (Panic :: (_, 'e) outcome) \<longleftrightarrow> s \<notin> range show_ActorType)"
  unfolding method_name.read_iff topic_name.read_iff actor_name.read_iff [symmetric]
    actor_name.unknown_iff [symmetric]
  by (simp add: resolve_actor_type_eq split: option.split)

text \<open>The weight of a prover is its voting power: reading the limbs' little-endian bytes as one
  number gives the 256-bit value, so provers are ordered by weight as by stake.\<close>

theorem weight_is_voting_power:
  assumes "length (voting_power p) = 4"
  shows "weight p = (\<Sum>i<4. unat (voting_power p ! i) * 2 ^ (64 * i)) \<and> weight p < 2 ^ 256"
proof -
  obtain a b c d where "voting_power p = [a, b, c, d]"
    using assms by (auto simp: numeral_eq_Suc length_Suc_conv)
  moreover have "(2 ^ 64) ^ 4 = (2 ^ 256 :: nat)"
    by (simp flip: power_mult)
  ultimately show ?thesis
    using U256_value_bound [of "voting_power p"]
    by (simp add: weight_value lessThan_nat_numeral algebra_simps)
qed

theorem weight_is_voting_power_witness:
  "weight \<lparr> evm_address = [], peer_id = ''a'', prover_address = [], rpcaddr = [], human_pub_key = HumanPublicKey [],
     rsa_pub_key = [], prover_idx = 0, voting_power = [5, 1, 0, 0] \<rparr> = 5 + 2 ^ 64"
  using weight_is_voting_power [of "\<lparr> evm_address = [], peer_id = ''a'', prover_address = [], rpcaddr = [],
     human_pub_key = HumanPublicKey [], rsa_pub_key = [], prover_idx = 0, voting_power = [5, 1, 0, 0] \<rparr>"]
  by (simp add: lessThan_nat_numeral)

end
