(* ===== verification/Messages.thy ===== *)
theory Messages
  imports Requests
begin

text \<open>
  The messages of the actors and the responses to clients (\<open>messages/src/message.rs\<close>,
  \<open>messages/src/types.rs\<close>). A sender of a channel is its number. \<open>serde_json\<close> is a parameter.
\<close>

section \<open>Responses\<close>

record StateRequest =
  state_user :: address
  state_method :: Method

record 'r PeerScore =
  score_peer_id :: PeerId
  score :: "'r option"

datatype (plugins only: code size) StateResponse =
    Success (epoch: nat) (state_response_method: Method) (requests_from_user: nat)
  | StateError (state_error_message: string)

datatype (plugins only: code size) ('f, 'p, 'g, 'q, 'r) NodeResponse =
    Submitted RequestID
  | ConstructedProofSecp256k1 nat PeerId RequestID "('f, 'p) DLEQProof" Method
  | ConstructedProofBabyJubJub nat PeerId RequestID "('g, 'q) DLEQProof" Method
  | VerifiedProofSecp256k1 RequestID 'p
  | VerifiedProofBabyJubJub RequestID bytes
  | Participated
  | Error RequestID string
  | Keyshare "(string, string) hashmap"
  | Restored
  | ElectionState nat nat nat nat "(PeerId, ProverInfo \<times> nat) hashmap"
  | VotingPower nat string PeerId
  | UpdatedIsResharingEnabled
  | Version string
  | AddedToExclusionList PeerId
  | RemovedFromExclusionList PeerId
  | CurrentExcludedPeers "PeerId set"
  | ConnectedPeers nat "PeerId list"
  | PeerScores "'r PeerScore list"
  | MeshPeers nat "PeerId list"
  | NodeElectionParams nat nat 'r

text \<open>\<open>to_string\<close> prints the proof of the generic curve; the two readers give proofs of the fixed
  curves.\<close>

definition new_constructed_proof ::
    "(('a, 'b) DLEQProof \<Rightarrow> (string, string) outcome) \<Rightarrow> (string \<Rightarrow> (('f, 'p) DLEQProof, string) outcome) \<Rightarrow>
      (string \<Rightarrow> (('g, 'q) DLEQProof, string) outcome) \<Rightarrow> ('a, 'b) curve \<Rightarrow> nat \<Rightarrow> PeerId \<Rightarrow> RequestID \<Rightarrow>
      ('a, 'b) DLEQProof \<Rightarrow> Method \<Rightarrow> (('f, 'p, 'g, 'q, 'r) NodeResponse, string) outcome" where
  "new_constructed_proof to_string secp_from_str bjj_from_str C node_idx peer request_id q method =
    (if NAME C = ''Secp256k1'' then
       obind (to_string q) (\<lambda>s. obind (secp_from_str s) (\<lambda>q'.
       Ok (ConstructedProofSecp256k1 node_idx peer request_id q' method)))
     else if NAME C = ''BabyJubJub'' then
       obind (to_string q) (\<lambda>s. obind (bjj_from_str s) (\<lambda>q'.
       Ok (ConstructedProofBabyJubJub node_idx peer request_id q' method)))
     else Err ''Invalid curve'')"

record Response =
  response_data :: "string option"
  success :: bool
  response_message :: string

definition Response_new :: "string option \<Rightarrow> bool \<Rightarrow> string \<Rightarrow> Response" where
  "Response_new d s m = \<lparr> response_data = d, success = s, response_message = m \<rparr>"

record ElectionResponse =
  peers :: "PeerId list"
  election_n :: nat
  election_t :: nat
  is_peer_elected :: bool
  election_ok :: bool
  election_message :: string

definition ElectionResponse_new ::
    "PeerId list \<Rightarrow> nat \<Rightarrow> nat \<Rightarrow> bool \<Rightarrow> bool \<Rightarrow> string \<Rightarrow> ElectionResponse" where
  "ElectionResponse_new ps n t elected st m =
    \<lparr> peers = ps, election_n = n, election_t = t, is_peer_elected = elected, election_ok = st,
      election_message = m \<rparr>"

definition ElectionResponse_default :: ElectionResponse where
  "ElectionResponse_default = ElectionResponse_new [] 0 0 False False []"

definition ElectionResponse_err_response :: "string \<Rightarrow> ElectionResponse" where
  "ElectionResponse_err_response m = ElectionResponse_default\<lparr> election_message := m \<rparr>"

section \<open>Messages\<close>

type_synonym Sender = nat
type_synonym Round1Output = "(nat, bytes) hashmap \<times> bytes list \<times> bytes"
type_synonym Round1Outputs = "(string, Round1Output) hashmap"
type_synonym ResharingRound1Output = "(nat, bytes) hashmap \<times> bytes list"
type_synonym ResharingRound1Outputs = "(string, ResharingRound1Output) hashmap"
type_synonym Round2Outputs = "(string, bytes) hashmap"
type_synonym ResharingRound2Outputs = "(string, bytes) hashmap"
type_synonym PrivkeyShares = "(string, bytes) hashmap"
type_synonym PubkeyShares = "(string, bytes) hashmap"
type_synonym GroupPublicKeys = "(string, bytes) hashmap"
type_synonym Provers = "(PeerId, ProverInfo \<times> nat) hashmap"

datatype (plugins only: code size) CurveType = Secp256k1 | BabyJubJub

record 'r ElectionParams =
  params_threshold :: "'r option"
  params_epsilon :: "nat option"
  params_min_nodes :: "nat option"

datatype (plugins only: code size) DkgEngineMessage =
    Init nat PeerId Provers nat
  | Round1
  | Round1Out nat Round1Outputs
  | Round2
  | StoreReceivedPublicKey nat PubkeyShares
  | StoreResharedReceivedPublicKey nat PubkeyShares
  | Round3
  | ResharingInit nat Provers Provers ElectionInfo PeerId "(string, bytes) hashmap"
  | ResharingRound1 ElectionInfo bool
  | ResharingRound1Out nat ResharingRound1Outputs
  | ResharingRound2
  | ResharingRound3
  | ClearShares
  | StartDKGRound1
  | StartDKGRound2
  | StartDKGRound3
  | StartResharingRound1
  | StartResharingRound2
  | StartResharingRound3

datatype (plugins only: code size) 'r ElectionEngineMessage =
    Participating PeerId bool
  | FirstElection
  | TriggerReElection "ProverInfo list"
  | CheckElectedStatus "ProverInfo list"
  | CheckReElectedStatus ElectionInfo Provers Provers "(string, bytes) hashmap" DrandResponse
  | RecordElectionNodeStatus PeerId
  | RecordRelectionNodeStatus PeerId
  | StartDKGInit
  | StartResharingInit
  | RecordDKGInitNodeStatus PeerId
  | RecordResharingInitNodeStatus PeerId
  | RecordDKGRound1NodeStatus PeerId
  | RecordResharingRound1NodeStatus PeerId
  | RecordDKGRound2NodeStatus PeerId
  | RecordResharingRound2NodeStatus PeerId
  | AddToExclusionList PeerId Sender
  | RemoveFromExclusionList PeerId Sender
  | GetExclusionList Sender
  | UpdateElectionParams "'r ElectionParams" Sender
  | GetElectionParams Sender

datatype (plugins only: code size) ('f, 'p, 'g, 'q, 'r) AppStateChangeMessage =
    StateRequest StateRequest Sender
  | MulRequest RequestToNetwork Sender string
  | ProcessMulRequest RequestID RequestToNetwork Sender
  | UpdateElectedProvers "ProverInfo list" bool
  | UpdatedThreshold ElectionInfo
  | UpdateNodeIdx nat
  | StoreKeyShares PrivkeyShares
  | ProcessReceivedProofSecp256k1 nat PeerId RequestID "('f, 'p) DLEQProof" Method
  | ProcessReceivedProofBabyJubJub nat PeerId RequestID "('g, 'q) DLEQProof" Method
  | StoreKSet PeerId PubkeyShares nat GroupPublicKeys
  | ResharingStoreKSet PeerId PubkeyShares nat
  | FetchReconstructedPoint RequestID Sender
  | StoreQuorumMap Provers Provers
  | PreResharing
  | ClearShares
  | ForwardReElectedProvers ElectionInfo Provers Provers DrandResponse
  | UpdateCachedProversMap Provers
  | BackupState
  | MonitorQuorumFormation MonitorEvent
  | FetchKeyShare Sender
  | RestoreKeyShare "(string, string) hashmap" Sender
  | FetchElectionState PeerId Sender
  | RestoreElectionState Sender
  | SyncPeerData Sender
  | FetchElectionInfo PeerId Sender
  | RollbackToPreviousState
  | SaveCurrentState
  | QuicPing PeerId Sender
  | FetchVotingPower PeerId Sender
  | ForwardErrorResponse string "('f, 'p, 'g, 'q, 'r) NodeResponse"
  | SetResharingEnabled bool Sender
  | FetchFinalizedGroupPubkeys Sender

datatype (plugins only: code size) Message =
    ElectedProvers ElectionInfo "ProverInfo list"
  | ReElectedProvers ElectionInfo Provers Provers "(string, bytes) hashmap" DrandResponse
  | ReElection
  | Round1Out nat Round1Outputs
  | ResharingRound1Out nat ResharingRound1Outputs
  | Round2Out nat Round2Outputs
  | ResharingRound2Out nat ResharingRound2Outputs
  | Ready nat PeerId PubkeyShares GroupPublicKeys
  | ResharingPrepared nat PeerId PubkeyShares
  | Subscribe Topic
  | Unsubscribe Topic
  | Message string
  | ForwardMulRequest RequestID RequestToNetwork
  | ProcessMulRequest string RequestToNetwork Sender
  | AddToBlacklist PeerId
  | RemoveFromBlacklist PeerId
  | ReportElectionNodeStatus PeerId
  | ReportReElectionNodeStatus PeerId
  | StartDKGInit
  | StartResharingInit
  | DKGInitCompleted PeerId
  | ResharingInitCompleted PeerId
  | StartDKGRound1
  | StartResharingRound1
  | DKGRound1Completed PeerId
  | ResharingRound1Completed PeerId
  | StartDKGRound2
  | StartResharingRound2
  | DKGRound2Completed PeerId
  | ResharingRound2Completed PeerId
  | StartDKGRound3
  | StartResharingRound3
  | Ping PeerId Multiaddr Sender
  | RollbackToPreviousState
  | SaveCurrentState
  | GetConnectedPeers Sender
  | GetPeerScores Sender
  | GetMeshPeers Sender

datatype (plugins only: code size) GossipEngineMessage =
    Gossip Message Topic
  | ForwardToRelay PeerId
  | Forward Message "(PeerId \<times> Multiaddr) list"
  | Subscribe Topic
  | Unsubscribe Topic
  | Block PeerId
  | Ping PeerId Multiaddr Sender
  | GetConnectedPeers Sender
  | GetPeerScores Sender
  | GetMeshPeers Sender

text \<open>The four variants that hold a one-shot sender cannot be cloned: \<open>clone\<close> panics on them.\<close>

definition Message_clone :: "Message \<Rightarrow> (Message, 'e) outcome" where
  "Message_clone m =
    (case m of
       Message.ProcessMulRequest _ _ _ \<Rightarrow> Panic
     | Message.GetConnectedPeers _ \<Rightarrow> Panic
     | Message.GetPeerScores _ \<Rightarrow> Panic
     | Message.GetMeshPeers _ \<Rightarrow> Panic
     | _ \<Rightarrow> Ok m)"

definition get_type :: "Message \<Rightarrow> string" where
  "get_type m =
    (case m of
       Message.ElectedProvers _ _ \<Rightarrow> ''ElectedProvers''
     | Message.ReElectedProvers _ _ _ _ _ \<Rightarrow> ''ReElectedProvers''
     | Message.Round1Out _ _ \<Rightarrow> ''Round1Out''
     | Message.ResharingRound1Out _ _ \<Rightarrow> ''ResharingRound1Out''
     | Message.Round2Out _ _ \<Rightarrow> ''Round2Output''
     | Message.ResharingRound2Out _ _ \<Rightarrow> ''ResharingRound2Out''
     | Message.Ready _ _ _ _ \<Rightarrow> ''Ready''
     | Message.ResharingPrepared _ _ _ \<Rightarrow> ''ResharingPrepared''
     | Message.Subscribe _ \<Rightarrow> ''Subscribe''
     | Message.Unsubscribe _ \<Rightarrow> ''Unsubscribe''
     | Message.Message _ \<Rightarrow> ''Message''
     | Message.ForwardMulRequest _ _ \<Rightarrow> ''ForwardMulRequest''
     | Message.ProcessMulRequest _ _ _ \<Rightarrow> ''ProcessOprf''
     | Message.ReElection \<Rightarrow> ''ReElection''
     | Message.AddToBlacklist _ \<Rightarrow> ''AddToBlackList''
     | Message.RemoveFromBlacklist _ \<Rightarrow> ''RemoveFromBlacklist''
     | Message.ReportReElectionNodeStatus _ \<Rightarrow> ''ReportReElectionNodeStatus''
     | Message.ReportElectionNodeStatus _ \<Rightarrow> ''ReportElectionNodeStatus''
     | Message.StartDKGInit \<Rightarrow> ''StartDKGInit''
     | Message.StartResharingInit \<Rightarrow> ''StartResharingInit''
     | Message.DKGInitCompleted _ \<Rightarrow> ''DKGInitCompleted''
     | Message.ResharingInitCompleted _ \<Rightarrow> ''ResharingInitCompleted''
     | Message.StartDKGRound1 \<Rightarrow> ''StartDKGRound1''
     | Message.StartResharingRound1 \<Rightarrow> ''StartResharingRound1''
     | Message.DKGRound1Completed _ \<Rightarrow> ''DKGRound1Completed''
     | Message.ResharingRound1Completed _ \<Rightarrow> ''ResharingRound1Completed''
     | Message.StartDKGRound2 \<Rightarrow> ''StartDKGRound2''
     | Message.StartResharingRound2 \<Rightarrow> ''StartResharingRound2''
     | Message.DKGRound2Completed _ \<Rightarrow> ''DKGRound2Completed''
     | Message.ResharingRound2Completed _ \<Rightarrow> ''ResharingRound2Completed''
     | Message.StartDKGRound3 \<Rightarrow> ''StartDKGRound3''
     | Message.StartResharingRound3 \<Rightarrow> ''StartResharingRound3''
     | Message.Ping _ _ _ \<Rightarrow> ''SwarmPing''
     | Message.RollbackToPreviousState \<Rightarrow> ''RollbackToPreviousState''
     | Message.SaveCurrentState \<Rightarrow> ''SaveCurrentState''
     | Message.GetConnectedPeers _ \<Rightarrow> ''GetConnectedPeers''
     | Message.GetPeerScores _ \<Rightarrow> ''GetPeerScores''
     | Message.GetMeshPeers _ \<Rightarrow> ''GetMeshPeers'')"

end
