(* ===== verification/Registry.thy ===== *)
theory Registry
  imports Types
begin

text \<open>
  The registry of peers (\<open>network/src/utils.rs\<close>): the kinds of node, and the provers read from the
  registry contract with the stakes read from the governance contract. The two contracts, the
  parsers of libp2p and \<open>hex\<close> are parameters.
\<close>

datatype NodeType = Bootstrap | Relay | Prover | Verifier

definition NodeType_from_str :: "string \<Rightarrow> (NodeType, string) outcome" where
  "NodeType_from_str input =
    (if input = ''Bootstrap'' then Ok NodeType.Bootstrap
     else if input = ''Relay'' then Ok NodeType.Relay
     else if input = ''Prover'' then Ok Prover
     else if input = ''Verifier'' then Ok Verifier
     else Err (''Invalid NodeType: '' @ input))"

fun show_NodeType :: "NodeType \<Rightarrow> string" where
  "show_NodeType NodeType.Bootstrap = ''Bootstrap Node''"
| "show_NodeType NodeType.Relay = ''Relay Node''"
| "show_NodeType Prover = ''Prover Node''"
| "show_NodeType Verifier = ''Verifier Node''"

text \<open>An entry of the registry contract.\<close>

record Peer =
  addr :: address
  peer_peer_id :: string
  multiaddr :: string
  rpc_addr :: string
  libp_2p_pubkey :: string
  rsa_pubkey :: string

record contracts =
  get_peers_call :: "(Peer list, string) outcome"
  voting_power_call :: "address \<Rightarrow> (U256, string) outcome"
  PeerId_from_str :: "string \<Rightarrow> PeerId option"
  Multiaddr_from_str :: "string \<Rightarrow> Multiaddr option"
  peer_key_protobuf :: protobuf
  peer_hex :: hexcrate

definition get_peers :: "contracts \<Rightarrow> Peer list" where
  "get_peers K = (case get_peers_call K of Ok peers \<Rightarrow> peers | _ \<Rightarrow> [])"

text \<open>\<open>RSAPublicKey\<close> is \<open>String\<close>, whose \<open>from_str\<close> does not fail.\<close>

definition parse_prover_info :: "contracts \<Rightarrow> nat \<Rightarrow> Peer \<Rightarrow> (ProverInfoWithoutStake, unit) outcome" where
  "parse_prover_info K idx prover =
    obind (ok_or () (PeerId_from_str K (peer_peer_id prover))) (\<lambda>pid.
    obind (ok_or () (Multiaddr_from_str K (multiaddr prover))) (\<lambda>ma.
    obind (ok_or () (hex_decode (peer_hex K) (libp_2p_pubkey prover))) (\<lambda>key_bytes.
    obind (map_err (\<lambda>_. ()) (try_decode_protobuf (peer_key_protobuf K) key_bytes)) (\<lambda>peer_pub_key.
    Ok \<lparr> evm_address = addr prover, peer_id = pid, prover_address = ma, rpcaddr = rpc_addr prover,
         human_pub_key = HumanPublicKey peer_pub_key, rsa_pub_key = rsa_pubkey prover, prover_idx = idx \<rparr>))))"

text \<open>The call of the governance contract is unwrapped.\<close>

definition get_prover_stake :: "contracts \<Rightarrow> ProverInfoWithoutStake \<Rightarrow> (ProverInfo, string) outcome" where
  "get_prover_stake K prover =
    obind (unwrap (voting_power_call K (evm_address prover))) (\<lambda>power.
    Ok \<lparr> evm_address = evm_address prover, peer_id = peer_id prover, prover_address = prover_address prover,
         rpcaddr = rpcaddr prover, human_pub_key = human_pub_key prover, rsa_pub_key = rsa_pub_key prover,
         prover_idx = prover_idx prover, voting_power = power \<rparr>)"

definition fetch_prover :: "contracts \<Rightarrow> ProverInfo list \<Rightarrow> nat \<times> Peer \<Rightarrow> (ProverInfo list, string) outcome" where
  "fetch_prover K prover_info = (\<lambda>(idx, prover).
    case parse_prover_info K idx prover of
      Ok info \<Rightarrow>
        (case get_prover_stake K info of
           Ok info_with_stake \<Rightarrow> Ok (prover_info @ [info_with_stake])
         | Err _ \<Rightarrow> Ok prover_info
         | Panic \<Rightarrow> Panic)
    | Err _ \<Rightarrow> Ok prover_info
    | Panic \<Rightarrow> Panic)"

definition fetch_provers_v2 :: "contracts \<Rightarrow> (ProverInfo list, string) outcome" where
  "fetch_provers_v2 K =
    obind (ofold (fetch_prover K) [] (enumerate 0 (get_peers K))) (\<lambda>prover_info.
    if prover_info = [] then Panic else Ok prover_info)"

section \<open>Indices\<close>

lemma fetched_idx:
  "parse_prover_info K i q = Ok info \<Longrightarrow> get_prover_stake K info = Ok p \<Longrightarrow> prover_idx p = i"
  by (auto simp: parse_prover_info_def get_prover_stake_def obind_eq_Ok)

text \<open>The provers come in the order of the registry, each with its place there as its index.\<close>

lemma fetch_provers_indices:
  assumes "ofold (fetch_prover K) acc (enumerate n peers) = Ok ps"
    and "sorted_wrt (<) (map prover_idx acc)" and "\<forall>p\<in>set acc. prover_idx p < n"
  shows "sorted_wrt (<) (map prover_idx ps) \<and> (\<forall>p\<in>set ps. prover_idx p < n + length peers)"
  using assms
proof (induction peers arbitrary: acc n)
  case (Cons q peers)
  obtain acc' where step: "fetch_prover K acc (n, q) = Ok acc'"
    and rest: "ofold (fetch_prover K) acc' (enumerate (Suc n) peers) = Ok ps"
    using Cons.prems(1) by (auto simp: obind_eq_Ok)
  have "sorted_wrt (<) (map prover_idx acc') \<and> (\<forall>p\<in>set acc'. prover_idx p < Suc n)"
    using step Cons.prems(2,3)
    by (auto simp: fetch_prover_def sorted_wrt_append less_Suc_eq fetched_idx split: outcome.splits)
  with Cons.IH [OF rest] show ?case by simp
qed simp

lemma sorted_wrt_less_ge:
  assumes "sorted_wrt (<) (xs :: nat list)" and "i < length xs"
  shows "i \<le> xs ! i"
  using assms(2)
proof (induction i)
  case (Suc i)
  then have "xs ! i < xs ! Suc i"
    using assms(1) by (simp add: sorted_wrt_iff_nth_less)
  with Suc show ?case by simp
qed simp

text \<open>Without the two entries for the bootstrap and relay nodes, the indices are distinct and at
  least 2, so none of them is the point 0 at which a shared polynomial has its secret.\<close>

lemma fetched_prover_indices:
  assumes "fetch_provers_v2 K = Ok ps"
  shows "distinct (map prover_idx ps)" and "p \<in> set (drop 2 ps) \<Longrightarrow> 2 \<le> prover_idx p"
proof -
  have "ofold (fetch_prover K) [] (enumerate 0 (get_peers K)) = Ok ps"
    using assms by (auto simp: fetch_provers_v2_def obind_eq_Ok split: if_splits)
  then have sorted: "sorted_wrt (<) (map prover_idx ps)"
    using fetch_provers_indices by fastforce
  then show "distinct (map prover_idx ps)"
    by (simp add: strict_sorted_iff)
  assume "p \<in> set (drop 2 ps)"
  then obtain j where j: "j < length ps - 2" "p = ps ! (j + 2)"
    by (auto simp: in_set_conv_nth add.commute)
  have "j + 2 \<le> map prover_idx ps ! (j + 2)"
    using j(1) by (intro sorted_wrt_less_ge sorted) simp
  then show "2 \<le> prover_idx p"
    using j by simp
qed

end
