(* ===== verification/Election.thy ===== *)
theory Election
  imports Messages Registry
begin

text \<open>
  The election engine (\<open>actors/src/election_actor.rs\<close>, \<open>election_context.rs\<close>): the actor's state, its
  handlers and the casts they make. A node's state extends \<open>ElectionEngineState\<close> with what the
  handlers share with the other actors: the casts made so far, the answers sent to clients, the
  global parameters and the exclusion list, the state directory and the services. Everything the
  handlers ask the network (registry, pings, drand) is the record \<open>world\<close>, which a message is
  handled in.
\<close>

section \<open>State\<close>

definition NETWORK_TOPIC :: string where
  "NETWORK_TOPIC = ''main-net-alpha''"

definition TOTAL_BOOTSTRAP_RELAY_NODES :: nat where
  "TOTAL_BOOTSTRAP_RELAY_NODES = 2"

definition DRAND_ROUND_THRESHOLD_TOLERNACE :: nat where
  "DRAND_ROUND_THRESHOLD_TOLERNACE = 3"

datatype RelectionStatus = ReElected | ResharingInit | ResharingRound1 | ResharingRound2 | ResharingRound3

record ReElectionCheckContext =
  ctx_tstar_provers :: Provers
  ctx_new_provers :: Provers
  ctx_group_keys :: "(string, bytes) hashmap"
  ctx_election_info :: ElectionInfo

record ElectionEngineState =
  node_type :: NodeType
  my_peer_id :: PeerId
  relay_node :: "PeerId \<times> Multiaddr"
  current_state :: ElectionState
  tstar_provers :: "ProverInfo list"
  elected_provers :: "ProverInfo list"
  current_threshold :: nat
  election_status :: "PeerId set"
  re_election_status :: "(PeerId, RelectionStatus) hashmap"
  dkg_init_status :: "PeerId set"
  re_sharing_init_status :: "(PeerId, RelectionStatus) hashmap"
  dkg_round1_status :: "PeerId set"
  dkg_round2_status :: "PeerId set"
  re_sharing_round1_status :: "(PeerId, RelectionStatus) hashmap"
  re_sharing_round2_status :: "(PeerId, RelectionStatus) hashmap"
  re_election_check_context :: "ReElectionCheckContext option"
  has_kafka :: bool

text \<open>A cast names the engine it goes to by its constructor.\<close>

datatype ('f, 'p, 'g, 'q, 'r) cast =
    ToGossip GossipEngineMessage
  | ToDkg DkgEngineMessage
  | ToAppState "('f, 'p, 'g, 'q, 'r) AppStateChangeMessage"
  | ToElection "'r ElectionEngineMessage"

fun cast_actor :: "('f, 'p, 'g, 'q, 'r) cast \<Rightarrow> ActorType" where
  "cast_actor (ToGossip _) = GossipEngine"
| "cast_actor (ToDkg _) = DkgEngine"
| "cast_actor (ToAppState _) = AppStateEngine"
| "cast_actor (ToElection _) = ElectionEngine"

text \<open>What is stored in the state directory.\<close>

datatype 'r db_value =
    db_peers "PeerId set" | db_f64 'r | db_nat nat | db_peer PeerId | db_provers Provers
  | db_shares "(string, bytes) hashmap" | db_pubkey_shares "(PeerId, PubkeyShares) hashmap"

record ('f, 'p, 'g, 'q, 'r) election_node = ElectionEngineState +
  casts :: "('f, 'p, 'g, 'q, 'r) cast list"
  responses :: "(Sender \<times> ('f, 'p, 'g, 'q, 'r) NodeResponse) list"
  globals :: "'r selection_globals"
  TEMP_EXCLUSION_PEER_LIST :: "PeerId set"
  state_db :: "(string, 'r db_value) hashmap option"
  node_services :: services

text \<open>\<open>cast_message!\<close> delivers to a registered actor and otherwise only logs; \<open>casts\<close> lists the
  messages the handlers cast, and \<open>delivered\<close> those that reach an actor.\<close>

definition cast_message ::
    "('f, 'p, 'g, 'q, 'r) cast \<Rightarrow> ('f, 'p, 'g, 'q, 'r) election_node \<Rightarrow> ('f, 'p, 'g, 'q, 'r) election_node" where
  "cast_message c s = s\<lparr> casts := casts s @ [c] \<rparr>"

definition delivered :: "ActorType set \<Rightarrow> ('f, 'p, 'g, 'q, 'r) cast list \<Rightarrow> ('f, 'p, 'g, 'q, 'r) cast list" where
  "delivered registered cs = filter (\<lambda>c. cast_actor c \<in> registered) cs"

definition send_response ::
    "Sender \<Rightarrow> ('f, 'p, 'g, 'q, 'r) NodeResponse \<Rightarrow> ('f, 'p, 'g, 'q, 'r) election_node \<Rightarrow>
      ('f, 'p, 'g, 'q, 'r) election_node" where
  "send_response tx r s = s\<lparr> responses := responses s @ [(tx, r)] \<rparr>"

text \<open>The directory is \<open>None\<close> when it cannot be opened; then saving and reading only log.\<close>

definition save_state ::
    "string \<Rightarrow> 'r db_value \<Rightarrow> ('f, 'p, 'g, 'q, 'r) election_node \<Rightarrow> ('f, 'p, 'g, 'q, 'r) election_node" where
  "save_state k v s = s\<lparr> state_db := map_option (hm_insert k v) (state_db s) \<rparr>"

definition get_state :: "string \<Rightarrow> (string, 'r db_value) hashmap option \<Rightarrow> 'r db_value option" where
  "get_state k db = Option.bind db (hm_get k)"

definition pre_start ::
    "NodeType \<Rightarrow> PeerId \<Rightarrow> PeerId \<Rightarrow> Multiaddr \<Rightarrow> bool \<Rightarrow> 'r selection_globals \<Rightarrow>
      (string, 'r db_value) hashmap option \<Rightarrow> services \<Rightarrow> ('f, 'p, 'g, 'q, 'r) election_node" where
  "pre_start nt pid relay relay_addr kafka_on g db svc =
    (let excl = (case get_state ''temp_exclusion_peer_list'' db of Some (db_peers ps) \<Rightarrow> ps | _ \<Rightarrow> {});
         g = (case get_state ''election_threshold'' db of Some (db_f64 v) \<Rightarrow> set_threshold v g | _ \<Rightarrow> g);
         g = (case get_state ''election_min_nodes'' db of Some (db_nat v) \<Rightarrow> set_min_nodes v g | _ \<Rightarrow> g);
         g = (case get_state ''election_epsilon'' db of Some (db_nat v) \<Rightarrow> set_epsilon v g | _ \<Rightarrow> g)
     in \<lparr> node_type = nt, my_peer_id = pid, relay_node = (relay, relay_addr), current_state = CollectingProposals,
          tstar_provers = [], elected_provers = [], current_threshold = 0, election_status = {},
          re_election_status = [], dkg_init_status = {}, re_sharing_init_status = [], dkg_round1_status = {},
          dkg_round2_status = {}, re_sharing_round1_status = [], re_sharing_round2_status = [],
          re_election_check_context = None, has_kafka = kafka_on, casts = [], responses = [], globals = g,
          TEMP_EXCLUSION_PEER_LIST = excl, state_db = db, node_services = svc \<rparr>)"

section \<open>The world\<close>

text \<open>The \<open>i\<close>-th element of \<open>registry_at\<close> and \<open>ping_at\<close> is what the \<open>i\<close>-th attempt of a retry loop
  meets. \<open>version_of\<close> is the text of a peer's \<open>Version\<close> response, if it gives one.\<close>

record ('rg, 'r, 'k) world =
  registry_at :: "nat \<Rightarrow> contracts"
  ping_at :: "nat \<Rightarrow> ProverInfo \<Rightarrow> bool"
  version_of :: "ProverInfo \<Rightarrow> string option"
  drand_data :: "(DrandResponse, string) outcome"
  thread_rng :: bytes
  drand_crate :: "'k drandcrate"
  hex_crate :: hexcrate
  float_ops :: "'r f64"
  chacha :: "('rg, 'r) rng"

definition calculate_threshold :: "'r f64 \<Rightarrow> nat \<Rightarrow> 'r \<Rightarrow> nat" where
  "calculate_threshold F n threshold_percentage =
    (if f_lt F threshold_percentage (f_zero F) \<or> f_lt F (f_of_nat F 100) threshold_percentage then 0
     else if n = 0 then 0
     else
       let intermediate = f_div F (f_mul F (f_of_nat F n) threshold_percentage) (f_of_nat F 100);
           result = f_ceil_as_u32 F intermediate in
       if result = 0 \<and> f_lt F (f_zero F) intermediate then 0 else result)"

text \<open>\<open>raw.rsplit(": ").next()\<close> is what follows the last separator.\<close>

fun after_last_colon :: "string \<Rightarrow> string \<Rightarrow> string" where
  "after_last_colon cur (c # d # cs) =
    (if c = CHR '':'' \<and> d = CHR '' '' then after_last_colon cs cs else after_last_colon cur (d # cs))"
| "after_last_colon cur _ = cur"

definition is_space :: "char \<Rightarrow> bool" where
  "is_space c = (let n = (of_char c :: nat) in n = 32 \<or> (9 \<le> n \<and> n \<le> 13))"

definition normalize_version :: "string \<Rightarrow> string" where
  "normalize_version raw = rev (dropWhile is_space (rev (dropWhile is_space (after_last_colon raw raw))))"

definition probe :: "('rg, 'r, 'k) world \<Rightarrow> nat \<Rightarrow> bool \<Rightarrow> services \<Rightarrow> ProverInfo \<Rightarrow> services" where
  "probe W i kafka_on S peer =
    (if \<not> kafka_on then S
     else if ping_at W i peer then
       kafka_send PeerReachabilityTCP (peer_id peer)
         (PeerReachabilityTCPStatus True (rpcaddr peer) (map_option normalize_version (version_of W peer))) S
     else kafka_send PeerReachabilityTCP (peer_id peer) (PeerReachabilityTCPStatus False (rpcaddr peer) None) S)"

definition ping_peers ::
    "('rg, 'r, 'k) world \<Rightarrow> nat \<Rightarrow> bool \<Rightarrow> ProverInfo list \<Rightarrow> services \<Rightarrow>
      (ProverInfo list, string) outcome \<times> services" where
  "ping_peers W i kafka_on new_set S =
    (if new_set = [] then (Err ''No peers provided'', S)
     else
       let S' = foldl (probe W i kafka_on) S new_set;
           reachable_peers = filter (ping_at W i) new_set in
       if reachable_peers \<noteq> [] then (Ok reachable_peers, S') else (Err ''No reachable peers found'', S'))"

section \<open>The first election\<close>

text \<open>\<open>[2..]\<close> panics on a shorter list.\<close>

definition conduct_election ::
    "('rg, 'r, 'k) world \<Rightarrow> ('f, 'p, 'g, 'q, 'r) election_node \<Rightarrow>
      (unit, string) outcome \<times> ('f, 'p, 'g, 'q, 'r) election_node" where
  "conduct_election W s =
    (let s = s\<lparr> current_state := TriggerElection \<rparr> in
     case fetch_provers_v2 (registry_at W 0) of
       Ok provers \<Rightarrow>
         if length provers < 2 then (Panic, s\<lparr> elected_provers := provers \<rparr>)
         else (Ok (), s\<lparr> elected_provers := drop 2 provers, current_state := ElectionState.QuorumElected \<rparr>)
     | Err e \<Rightarrow> (Err e, s)
     | Panic \<Rightarrow> (Panic, s))"

text \<open>Peers are pinged until enough of them answer; a run that never meets enough does not return.\<close>

partial_function (option) await_quorum ::
    "('rg, 'r, 'k) world \<Rightarrow> nat \<Rightarrow> bool \<Rightarrow> ProverInfo list \<Rightarrow> nat \<Rightarrow> services \<Rightarrow>
      (ProverInfo list \<times> services) option" where
  "await_quorum W min_nodes kafka_on provers i S =
    (case ping_peers W i kafka_on provers S of
       (Ok reachable_peers, S') \<Rightarrow>
         if length reachable_peers < min_nodes then await_quorum W min_nodes kafka_on provers (Suc i) S'
         else Some (reachable_peers, S')
     | (_, S') \<Rightarrow> await_quorum W min_nodes kafka_on provers (Suc i) S')"

text \<open>The map from peer ids to provers and their indices; \<open>indexed\<close> is \<open>indexed_provers_map\<close>.\<close>

definition quorum_map :: "(ProverInfo \<times> nat) list \<Rightarrow> ProverInfo list \<Rightarrow> (Provers, string) outcome" where
  "quorum_map indexed provers =
    ofold (\<lambda>m prover. obind (unwrap_option (map_of indexed prover)) (\<lambda>idx.
      Ok (hm_insert (peer_id prover) (prover, idx) m))) [] provers"

definition indexed_provers :: "ProverInfo list \<Rightarrow> (ProverInfo \<times> nat) list" where
  "indexed_provers provers = map (\<lambda>prover. (prover, prover_idx prover)) provers"

definition current_election_info :: "nat \<Rightarrow> ('f, 'p, 'g, 'q, 'r) election_node \<Rightarrow> ElectionInfo" where
  "current_election_info t s =
    ElectionInfo_new t (get_epsilon (globals s)) (as_u32 (length (elected_provers s)))"

definition announce_election ::
    "('rg, 'r, 'k) world \<Rightarrow> ('f, 'p, 'g, 'q, 'r) election_node \<Rightarrow> ('f, 'p, 'g, 'q, 'r) election_node" where
  "announce_election W s =
    (let s = cast_message (ToAppState (UpdateElectedProvers (elected_provers s) False)) s;
         t = calculate_threshold (float_ops W) (length (elected_provers s)) (get_threshold (globals s));
         s = s\<lparr> current_threshold := t \<rparr>;
         s = cast_message (ToAppState (UpdatedThreshold (current_election_info t s))) s;
         s = cast_message (ToGossip (Gossip
           (Message.ElectedProvers (current_election_info t s) (elected_provers s)) NETWORK_TOPIC)) s
     in cast_message (ToAppState (MonitorQuorumFormation DKG)) s)"

definition elect_reachable ::
    "('rg, 'r, 'k) world \<Rightarrow> ProverInfo list \<Rightarrow> ('f, 'p, 'g, 'q, 'r) election_node \<Rightarrow>
      (unit, string) outcome \<times> ('f, 'p, 'g, 'q, 'r) election_node" where
  "elect_reachable W reachable_peers s =
    (let s = s\<lparr> elected_provers := take (get_min_nodes (globals s)) reachable_peers \<rparr> in
     case quorum_map (indexed_provers reachable_peers) (elected_provers s) of
       Ok m \<Rightarrow> (Ok (), announce_election W (cast_message (ToAppState (UpdateCachedProversMap m)) s))
     | Err e \<Rightarrow> (Err e, s)
     | Panic \<Rightarrow> (Panic, s))"

definition handle_trigger_election ::
    "('rg, 'r, 'k) world \<Rightarrow> ('f, 'p, 'g, 'q, 'r) election_node \<Rightarrow>
      ((unit, string) outcome \<times> ('f, 'p, 'g, 'q, 'r) election_node) option" where
  "handle_trigger_election W s =
    (case conduct_election W s of
       (Ok _, s) \<Rightarrow>
         if current_state s = ElectionState.QuorumElected then
           let s = s\<lparr> dkg_init_status := {}, dkg_round1_status := {}, dkg_round2_status := {} \<rparr> in
           (case await_quorum W (get_min_nodes (globals s)) (has_kafka s) (elected_provers s) 0 (node_services s) of
              None \<Rightarrow> None
            | Some (reachable_peers, S) \<Rightarrow>
                Some (elect_reachable W reachable_peers (s\<lparr> node_services := S \<rparr>)))
         else Some (Ok (), s)
     | (r, s) \<Rightarrow> Some (r, s))"

section \<open>Re-election\<close>

definition clear_status :: "('f, 'p, 'g, 'q, 'r) election_node \<Rightarrow> ('f, 'p, 'g, 'q, 'r) election_node" where
  "clear_status s =
    s\<lparr> election_status := {}, re_election_status := [], re_sharing_init_status := [],
       re_sharing_round1_status := [], re_sharing_round2_status := [], dkg_init_status := {},
       dkg_round1_status := {}, dkg_round2_status := {} \<rparr>"

partial_function (option) await_provers ::
    "('rg, 'r, 'k) world \<Rightarrow> nat \<Rightarrow> (ProverInfo list, string) outcome option" where
  "await_provers W i =
    (case fetch_provers_v2 (registry_at W i) of
       Ok participating_provers \<Rightarrow>
         if length participating_provers \<le> TOTAL_BOOTSTRAP_RELAY_NODES then await_provers W (Suc i)
         else Some (Ok participating_provers)
     | r \<Rightarrow> Some r)"

text \<open>The random number of an election and the drand round it comes from; the local generator is
  the fallback.\<close>

definition DrandResponse_default :: DrandResponse where
  "DrandResponse_default = \<lparr> drand_round = 0, randomness = [], drand_signature = [], previous_signature = [] \<rparr>"

definition election_randomness :: "('rg, 'r, 'k) world \<Rightarrow> (bytes \<times> DrandResponse, string) outcome" where
  "election_randomness W =
    (case drand_data W of
       Ok dat \<Rightarrow>
         (case hex_decode (hex_crate W) (previous_signature dat) of
            None \<Rightarrow> Err (''Invalid DRAND previous signature: '' @ hex_error (hex_crate W) (previous_signature dat))
          | Some prev_sig \<Rightarrow>
         (case hex_decode (hex_crate W) (drand_signature dat) of
            None \<Rightarrow> Err (''Invalid DRAND signature: '' @ hex_error (hex_crate W) (drand_signature dat))
          | Some sig \<Rightarrow>
         obind (verify_drand (drand_crate W) (drand_round dat) prev_sig sig) (\<lambda>valid.
         if valid then
           (case hex_decode (hex_crate W) (randomness dat) of
              Some r \<Rightarrow> Ok (if length r \<ge> 32 then take 32 r else thread_rng W, dat)
            | None \<Rightarrow> Ok (thread_rng W, dat))
         else Ok (thread_rng W, DrandResponse_default))))
     | Err _ \<Rightarrow> Ok (thread_rng W, DrandResponse_default)
     | Panic \<Rightarrow> Panic)"

definition announce_re_election ::
    "('rg, 'r, 'k) world \<Rightarrow> Provers \<Rightarrow> Provers \<Rightarrow> DrandResponse \<Rightarrow> ('f, 'p, 'g, 'q, 'r) election_node \<Rightarrow>
      ('f, 'p, 'g, 'q, 'r) election_node" where
  "announce_re_election W tstar_quorum_map new_quorum_map drand s =
    (let s = cast_message (ToAppState AppStateChangeMessage.ClearShares) s;
         s = cast_message (ToAppState (UpdateElectedProvers (elected_provers s) True)) s;
         s = cast_message (ToAppState (StoreQuorumMap tstar_quorum_map new_quorum_map)) s;
         t = calculate_threshold (float_ops W) (length (elected_provers s)) (get_threshold (globals s));
         s = cast_message (ToAppState (UpdatedThreshold (current_election_info t s))) s;
         s = cast_message (ToAppState (ForwardReElectedProvers (current_election_info t s)
           tstar_quorum_map new_quorum_map drand)) s
     in cast_message (ToAppState (MonitorQuorumFormation Resharing)) s)"

definition form_quorums ::
    "('rg, 'r, 'k) world \<Rightarrow> ProverInfo list \<Rightarrow> ProverInfo list \<Rightarrow> ProverInfo list \<Rightarrow> ProverInfo list \<Rightarrow> DrandResponse \<Rightarrow>
      ('f, 'p, 'g, 'q, 'r) election_node \<Rightarrow> (unit, string) outcome \<times> ('f, 'p, 'g, 'q, 'r) election_node" where
  "form_quorums W prev_elected_provers participating_provers reachable_peers new_set drand s =
    (let prev_elected_peer_ids = map peer_id prev_elected_provers;
         t_star_quorum = filter (\<lambda>p. peer_id p \<in> set prev_elected_peer_ids) reachable_peers;
         new_quorum = take (get_min_nodes (globals s)) new_set;
         indexed = indexed_provers participating_provers in
     if current_threshold s \<le> length t_star_quorum then
       (case obind (quorum_map indexed t_star_quorum) (\<lambda>m. obind (quorum_map indexed new_quorum) (\<lambda>m'. Ok (m, m'))) of
          Ok (tstar_quorum_map, new_quorum_map) \<Rightarrow>
            (Ok (), announce_re_election W tstar_quorum_map new_quorum_map drand
              (s\<lparr> tstar_provers := t_star_quorum, elected_provers := new_quorum \<rparr>))
        | Err e \<Rightarrow> (Err e, s)
        | Panic \<Rightarrow> (Panic, s))
     else (Ok (), s))"

text \<open>\<open>{:?}\<close> of a string prints it in quotes.\<close>

definition debug_str :: "string \<Rightarrow> string" where
  "debug_str e = CHR 0x22 # e @ [CHR 0x22]"

definition re_elect ::
    "('rg, 'r, 'k) world \<Rightarrow> ProverInfo list \<Rightarrow> ProverInfo list \<Rightarrow> ('f, 'p, 'g, 'q, 'r) election_node \<Rightarrow>
      (unit, string) outcome \<times> ('f, 'p, 'g, 'q, 'r) election_node" where
  "re_elect W prev_elected_provers fetched s =
    (let participating_provers = filter (\<lambda>p. peer_id p \<notin> TEMP_EXCLUSION_PEER_LIST s) (drop 2 fetched) in
     if participating_provers = [] then (Err ''No valid participating provers'', s)
     else case ping_peers W 0 (has_kafka s) participating_provers (node_services s) of
       (Ok reachable_peers, S) \<Rightarrow>
         let s = s\<lparr> node_services := S \<rparr>; min_nodes = get_min_nodes (globals s) in
         if length reachable_peers < min_nodes then (Ok (), s)
         else (case election_randomness W of
             Err e \<Rightarrow> (Err e, s)
           | Panic \<Rightarrow> (Panic, s)
           | Ok (rand_num, drand) \<Rightarrow>
               (case weighted_sample_n_no_replace (float_ops W) (chacha W) (globals s) weight reachable_peers min_nodes rand_num of
                  Ok (Some new_set) \<Rightarrow>
                    form_quorums W prev_elected_provers participating_provers reachable_peers new_set drand s
                | Ok None \<Rightarrow> (Ok (), cast_message (ToAppState (MonitorQuorumFormation Resharing)) s)
                | Err e \<Rightarrow> (Err e, s)
                | Panic \<Rightarrow> (Panic, s)))
     | (Err e, S) \<Rightarrow> (Err (''Peer ping failed: '' @ debug_str e), s\<lparr> node_services := S \<rparr>)
     | (Panic, S) \<Rightarrow> (Panic, s\<lparr> node_services := S \<rparr>))"

definition trigger_re_election ::
    "('rg, 'r, 'k) world \<Rightarrow> ProverInfo list \<Rightarrow> ('f, 'p, 'g, 'q, 'r) election_node \<Rightarrow>
      ((unit, string) outcome \<times> ('f, 'p, 'g, 'q, 'r) election_node) option" where
  "trigger_re_election W prev_elected_provers s =
    (let s = clear_status s in
     case await_provers W 0 of
       None \<Rightarrow> None
     | Some (Ok fetched) \<Rightarrow> Some (re_elect W prev_elected_provers fetched s)
     | Some (Err e) \<Rightarrow> Some (Err e, s)
     | Some Panic \<Rightarrow> Some (Panic, s))"

section \<open>A node's part\<close>

definition provers_map :: "ProverInfo list \<Rightarrow> Provers" where
  "provers_map ps = foldl (\<lambda>m p. hm_insert (peer_id p) (p, prover_idx p) m) [] ps"

definition gossip ::
    "Message \<Rightarrow> ('f, 'p, 'g, 'q, 'r) election_node \<Rightarrow> ('f, 'p, 'g, 'q, 'r) election_node" where
  "gossip m s = cast_message (ToGossip (Gossip m NETWORK_TOPIC)) s"

definition handle_check_elected_status ::
    "ProverInfo list \<Rightarrow> ('f, 'p, 'g, 'q, 'r) election_node \<Rightarrow> ('f, 'p, 'g, 'q, 'r) election_node" where
  "handle_check_elected_status peer_ids s =
    (case find (\<lambda>p. peer_id p = my_peer_id s) peer_ids of
       Some prover_info \<Rightarrow>
         let s = s\<lparr> elected_provers := peer_ids \<rparr>;
             s = cast_message (ToAppState (UpdateNodeIdx (as_u32 (prover_idx prover_info)))) s;
             s = cast_message (ToAppState (UpdateCachedProversMap (provers_map peer_ids))) s
         in gossip (Message.ReportElectionNodeStatus (my_peer_id s)) s
     | None \<Rightarrow> s)"

definition handle_check_re_elected_status ::
    "ElectionInfo \<Rightarrow> Provers \<Rightarrow> Provers \<Rightarrow> (string, bytes) hashmap \<Rightarrow> ('f, 'p, 'g, 'q, 'r) election_node \<Rightarrow>
      ('f, 'p, 'g, 'q, 'r) election_node" where
  "handle_check_re_elected_status election_info tstar new_provers group_keys s =
    (let s = s\<lparr> re_election_check_context := Some \<lparr> ctx_tstar_provers = tstar, ctx_new_provers = new_provers,
           ctx_group_keys = group_keys, ctx_election_info = election_info \<rparr> \<rparr>;
         s = cast_message (ToAppState AppStateChangeMessage.ClearShares) s;
         s = cast_message (ToDkg DkgEngineMessage.ClearShares) s;
         has_participated = hm_contains (my_peer_id s) tstar;
         s = (if has_participated then gossip (Message.ReportReElectionNodeStatus (my_peer_id s)) s else s);
         s = (case hm_get (my_peer_id s) new_provers of
                Some (_, idx) \<Rightarrow>
                  if \<not> has_participated then
                    cast_message (ToAppState (UpdateNodeIdx (as_u32 idx)))
                      (gossip (Message.ReportReElectionNodeStatus (my_peer_id s)) s)
                  else s
              | None \<Rightarrow> s)
     in cast_message (ToAppState (UpdateCachedProversMap new_provers)) s)"

text \<open>Both rounds must verify only if the latest one does: a latest round that fails verification is
  logged and the handler goes on. The difference of the rounds wraps.\<close>

definition drand_is_fresh :: "('rg, 'r, 'k) world \<Rightarrow> DrandResponse \<Rightarrow> (bool, string) outcome" where
  "drand_is_fresh W drand =
    (case drand_data W of
       Ok dat \<Rightarrow>
         obind (unwrap_option (hex_decode (hex_crate W) (previous_signature dat))) (\<lambda>prev_sig.
         obind (unwrap_option (hex_decode (hex_crate W) (drand_signature dat))) (\<lambda>sig.
         obind (verify_drand (drand_crate W) (drand_round dat) prev_sig sig) (\<lambda>valid.
         if \<not> valid then Ok True
         else if sub_u64 (drand_round dat) (drand_round drand) \<ge> DRAND_ROUND_THRESHOLD_TOLERNACE then Ok False
         else
           obind (unwrap_option (hex_decode (hex_crate W) (previous_signature drand))) (\<lambda>prev_sig.
           obind (unwrap_option (hex_decode (hex_crate W) (drand_signature drand))) (\<lambda>sig.
           verify_drand (drand_crate W) (drand_round drand) prev_sig sig)))))
     | Err _ \<Rightarrow> Ok True
     | Panic \<Rightarrow> Panic)"

definition check_re_elected_status ::
    "('rg, 'r, 'k) world \<Rightarrow> ElectionInfo \<Rightarrow> Provers \<Rightarrow> Provers \<Rightarrow> (string, bytes) hashmap \<Rightarrow> DrandResponse \<Rightarrow>
      ('f, 'p, 'g, 'q, 'r) election_node \<Rightarrow> (unit, string) outcome \<times> ('f, 'p, 'g, 'q, 'r) election_node" where
  "check_re_elected_status W election_info tstar new_provers group_keys drand s =
    (case drand_is_fresh W drand of
       Ok True \<Rightarrow> (Ok (), handle_check_re_elected_status election_info tstar new_provers group_keys s)
     | Ok False \<Rightarrow> (Ok (), s)
     | Err e \<Rightarrow> (Err e, s)
     | Panic \<Rightarrow> (Panic, s))"

definition handle_trigger_init_dkg ::
    "'r f64 \<Rightarrow> ('f, 'p, 'g, 'q, 'r) election_node \<Rightarrow> ('f, 'p, 'g, 'q, 'r) election_node" where
  "handle_trigger_init_dkg F s =
    (let peer_ids = elected_provers s in
     case find (\<lambda>p. peer_id p = my_peer_id s) peer_ids of
       Some prover_info \<Rightarrow>
         let t = calculate_threshold F (length peer_ids) (get_threshold (globals s)) in
         cast_message (ToDkg (Init (prover_idx prover_info) (my_peer_id s) (provers_map peer_ids) t)) s
     | None \<Rightarrow> s)"

definition handle_trigger_init_resharing ::
    "('f, 'p, 'g, 'q, 'r) election_node \<Rightarrow> ('f, 'p, 'g, 'q, 'r) election_node" where
  "handle_trigger_init_resharing s =
    (case re_election_check_context s of
       Some ctx \<Rightarrow>
         let me = my_peer_id s;
             init = (\<lambda>idx. ToDkg (DkgEngineMessage.ResharingInit idx (ctx_tstar_provers ctx) (ctx_new_provers ctx)
               (ctx_election_info ctx) me (ctx_group_keys ctx))) in
         (case hm_get me (ctx_tstar_provers ctx) of
            Some (_, idx) \<Rightarrow> cast_message (init idx) s
          | None \<Rightarrow>
              (case hm_get me (ctx_new_provers ctx) of
                 Some (_, idx) \<Rightarrow> cast_message (ToAppState (UpdateNodeIdx (as_u32 idx))) (cast_message (init idx) s)
               | None \<Rightarrow> s))
     | None \<Rightarrow> s)"

section \<open>Recording reports\<close>

text \<open>The relay counts the reports of a phase and starts the next one when all have come in. The
  lists of missing peers are only logged.\<close>

definition elected_ids :: "('f, 'p, 'g, 'q, 'r) election_node \<Rightarrow> PeerId set" where
  "elected_ids s = peer_id ` set (elected_provers s)"

definition record_election_node_status ::
    "PeerId \<Rightarrow> ('f, 'p, 'g, 'q, 'r) election_node \<Rightarrow> ('f, 'p, 'g, 'q, 'r) election_node" where
  "record_election_node_status pid s =
    (let s = (if pid \<in> elected_ids s then s\<lparr> election_status := insert pid (election_status s) \<rparr> else s) in
     if card (election_status s) = card (elected_ids s) then gossip Message.StartDKGInit s else s)"

definition record_re_election_node_status ::
    "PeerId \<Rightarrow> ('f, 'p, 'g, 'q, 'r) election_node \<Rightarrow> ('f, 'p, 'g, 'q, 'r) election_node" where
  "record_re_election_node_status pid s =
    (if hm_get pid (re_election_status s) = Some ReElected then s
     else
       let list_resharing_init_peers = peer_id ` set (elected_provers s @ tstar_provers s);
           s = (if pid \<in> list_resharing_init_peers
                then s\<lparr> re_election_status := hm_insert pid ReElected (re_election_status s) \<rparr> else s) in
       if length (re_election_status s) = card list_resharing_init_peers
       then gossip Message.StartResharingInit s else s)"

definition record_dkg_init_node_status ::
    "PeerId \<Rightarrow> ('f, 'p, 'g, 'q, 'r) election_node \<Rightarrow> ('f, 'p, 'g, 'q, 'r) election_node" where
  "record_dkg_init_node_status pid s =
    (let s = (if pid \<in> elected_ids s then s\<lparr> dkg_init_status := insert pid (dkg_init_status s) \<rparr> else s) in
     if card (dkg_init_status s) = length (elected_provers s) then gossip Message.StartDKGRound1 s else s)"

text \<open>The first prover of each peer id.\<close>

fun unique_by_peer_id :: "PeerId set \<Rightarrow> ProverInfo list \<Rightarrow> ProverInfo list" where
  "unique_by_peer_id seen [] = []"
| "unique_by_peer_id seen (p # ps) =
    (if peer_id p \<in> seen then unique_by_peer_id seen ps
     else p # unique_by_peer_id (insert (peer_id p) seen) ps)"

definition record_resharing_init_node_status ::
    "PeerId \<Rightarrow> ('f, 'p, 'g, 'q, 'r) election_node \<Rightarrow> ('f, 'p, 'g, 'q, 'r) election_node" where
  "record_resharing_init_node_status pid s =
    (if hm_get pid (re_sharing_init_status s) = Some RelectionStatus.ResharingInit then s
     else
       let unique_provers = unique_by_peer_id {} (tstar_provers s @ elected_provers s);
           s = (if pid \<in> peer_id ` set unique_provers
                then s\<lparr> re_sharing_init_status := hm_insert pid RelectionStatus.ResharingInit (re_sharing_init_status s) \<rparr>
                else s) in
       if length (re_sharing_init_status s) = length unique_provers
       then gossip Message.StartResharingRound1 s else s)"

definition record_dkg_round1_node_status ::
    "PeerId \<Rightarrow> ('f, 'p, 'g, 'q, 'r) election_node \<Rightarrow> ('f, 'p, 'g, 'q, 'r) election_node" where
  "record_dkg_round1_node_status pid s =
    (let s = (if pid \<in> elected_ids s then s\<lparr> dkg_round1_status := insert pid (dkg_round1_status s) \<rparr> else s) in
     if card (dkg_round1_status s) = length (elected_provers s) then gossip Message.StartDKGRound2 s else s)"

definition record_resharing_round1_node_status ::
    "PeerId \<Rightarrow> ('f, 'p, 'g, 'q, 'r) election_node \<Rightarrow> ('f, 'p, 'g, 'q, 'r) election_node" where
  "record_resharing_round1_node_status pid s =
    (if hm_get pid (re_sharing_round1_status s) = Some RelectionStatus.ResharingRound1 then s
     else
       let s = (if pid \<in> elected_ids s
                then s\<lparr> re_sharing_round1_status :=
                  hm_insert pid RelectionStatus.ResharingRound1 (re_sharing_round1_status s) \<rparr> else s) in
       if length (re_sharing_round1_status s) = length (elected_provers s)
       then gossip Message.StartResharingRound2 s else s)"

definition record_dkg_round2_node_status ::
    "PeerId \<Rightarrow> ('f, 'p, 'g, 'q, 'r) election_node \<Rightarrow> ('f, 'p, 'g, 'q, 'r) election_node" where
  "record_dkg_round2_node_status pid s =
    (let s = (if pid \<in> elected_ids s then s\<lparr> dkg_round2_status := insert pid (dkg_round2_status s) \<rparr> else s) in
     if card (dkg_round2_status s) = length (elected_provers s) then gossip Message.StartDKGRound3 s else s)"

definition record_resharing_round2_node_status ::
    "PeerId \<Rightarrow> ('f, 'p, 'g, 'q, 'r) election_node \<Rightarrow> ('f, 'p, 'g, 'q, 'r) election_node" where
  "record_resharing_round2_node_status pid s =
    (if hm_get pid (re_sharing_round2_status s) = Some RelectionStatus.ResharingRound2 then s
     else
       let s = (if pid \<in> elected_ids s
                then s\<lparr> re_sharing_round2_status :=
                  hm_insert pid RelectionStatus.ResharingRound2 (re_sharing_round2_status s) \<rparr> else s) in
       if length (re_sharing_round2_status s) = length (elected_provers s)
       then gossip Message.StartResharingRound3 s else s)"

section \<open>Exclusion list and parameters\<close>

text \<open>These requests are answered by the relay only.\<close>

definition relay_only ::
    "Sender \<Rightarrow> (('f, 'p, 'g, 'q, 'r) election_node \<Rightarrow> ('f, 'p, 'g, 'q, 'r) election_node) \<Rightarrow>
      ('f, 'p, 'g, 'q, 'r) election_node \<Rightarrow> (unit, string) outcome \<times> ('f, 'p, 'g, 'q, 'r) election_node" where
  "relay_only tx act s =
    (if my_peer_id s = fst (relay_node s) then (Ok (), act s)
     else (Err ''Not a relay node'', send_response tx (NodeResponse.Error [] ''Not a relay node'') s))"

definition save_exclusion_list ::
    "('f, 'p, 'g, 'q, 'r) election_node \<Rightarrow> ('f, 'p, 'g, 'q, 'r) election_node" where
  "save_exclusion_list s = save_state ''temp_exclusion_peer_list'' (db_peers (TEMP_EXCLUSION_PEER_LIST s)) s"

definition add_to_exclusion_list ::
    "PeerId \<Rightarrow> Sender \<Rightarrow> ('f, 'p, 'g, 'q, 'r) election_node \<Rightarrow>
      (unit, string) outcome \<times> ('f, 'p, 'g, 'q, 'r) election_node" where
  "add_to_exclusion_list pid tx = relay_only tx (\<lambda>s.
    send_response tx (AddedToExclusionList pid)
      (save_exclusion_list (s\<lparr> TEMP_EXCLUSION_PEER_LIST := insert pid (TEMP_EXCLUSION_PEER_LIST s) \<rparr>)))"

definition remove_from_exclusion_list ::
    "PeerId \<Rightarrow> Sender \<Rightarrow> ('f, 'p, 'g, 'q, 'r) election_node \<Rightarrow>
      (unit, string) outcome \<times> ('f, 'p, 'g, 'q, 'r) election_node" where
  "remove_from_exclusion_list pid tx = relay_only tx (\<lambda>s.
    send_response tx (RemovedFromExclusionList pid)
      (save_exclusion_list (s\<lparr> TEMP_EXCLUSION_PEER_LIST := TEMP_EXCLUSION_PEER_LIST s - {pid} \<rparr>)))"

definition get_exclusion_list ::
    "Sender \<Rightarrow> ('f, 'p, 'g, 'q, 'r) election_node \<Rightarrow>
      (unit, string) outcome \<times> ('f, 'p, 'g, 'q, 'r) election_node" where
  "get_exclusion_list tx = relay_only tx (\<lambda>s.
    send_response tx (CurrentExcludedPeers (TEMP_EXCLUSION_PEER_LIST s)) s)"

definition update_election_params ::
    "'r ElectionParams \<Rightarrow> Sender \<Rightarrow> ('f, 'p, 'g, 'q, 'r) election_node \<Rightarrow>
      (unit, string) outcome \<times> ('f, 'p, 'g, 'q, 'r) election_node" where
  "update_election_params params tx = relay_only tx (\<lambda>s.
    let g = globals s;
        g = (case params_threshold params of Some v \<Rightarrow> set_threshold v g | None \<Rightarrow> g);
        g = (case params_epsilon params of Some v \<Rightarrow> set_epsilon v g | None \<Rightarrow> g);
        g = (case params_min_nodes params of Some v \<Rightarrow> set_min_nodes v g | None \<Rightarrow> g);
        s = send_response tx (NodeElectionParams (get_min_nodes g) (get_epsilon g) (get_threshold g)) (s\<lparr> globals := g \<rparr>);
        s = save_state ''election_threshold'' (db_f64 (get_threshold g)) s;
        s = save_state ''election_epsilon'' (db_nat (get_epsilon g)) s
    in save_state ''election_min_nodes'' (db_nat (get_min_nodes g)) s)"

definition get_election_params ::
    "Sender \<Rightarrow> ('f, 'p, 'g, 'q, 'r) election_node \<Rightarrow>
      (unit, string) outcome \<times> ('f, 'p, 'g, 'q, 'r) election_node" where
  "get_election_params tx = relay_only tx (\<lambda>s.
    send_response tx (NodeElectionParams (get_min_nodes (globals s)) (get_epsilon (globals s))
      (get_threshold (globals s))) s)"

section \<open>The handler\<close>

definition handle ::
    "('rg, 'r, 'k) world \<Rightarrow> 'r ElectionEngineMessage \<Rightarrow> ('f, 'p, 'g, 'q, 'r) election_node \<Rightarrow>
      ((unit, string) outcome \<times> ('f, 'p, 'g, 'q, 'r) election_node) option" where
  "handle W m s =
    (case m of
       TriggerReElection prev \<Rightarrow> trigger_re_election W prev s
     | FirstElection \<Rightarrow> handle_trigger_election W s
     | CheckElectedStatus peer_ids \<Rightarrow> Some (Ok (), handle_check_elected_status peer_ids s)
     | CheckReElectedStatus info tstar new keys drand \<Rightarrow> Some (check_re_elected_status W info tstar new keys drand s)
     | RecordElectionNodeStatus pid \<Rightarrow> Some (Ok (), record_election_node_status pid s)
     | RecordRelectionNodeStatus pid \<Rightarrow> Some (Ok (), record_re_election_node_status pid s)
     | ElectionEngineMessage.StartDKGInit \<Rightarrow> Some (Ok (), handle_trigger_init_dkg (float_ops W) s)
     | ElectionEngineMessage.StartResharingInit \<Rightarrow> Some (Ok (), handle_trigger_init_resharing s)
     | RecordDKGInitNodeStatus pid \<Rightarrow> Some (Ok (), record_dkg_init_node_status pid s)
     | RecordResharingInitNodeStatus pid \<Rightarrow> Some (Ok (), record_resharing_init_node_status pid s)
     | RecordDKGRound1NodeStatus pid \<Rightarrow> Some (Ok (), record_dkg_round1_node_status pid s)
     | RecordResharingRound1NodeStatus pid \<Rightarrow> Some (Ok (), record_resharing_round1_node_status pid s)
     | RecordDKGRound2NodeStatus pid \<Rightarrow> Some (Ok (), record_dkg_round2_node_status pid s)
     | RecordResharingRound2NodeStatus pid \<Rightarrow> Some (Ok (), record_resharing_round2_node_status pid s)
     | AddToExclusionList pid tx \<Rightarrow> Some (add_to_exclusion_list pid tx s)
     | RemoveFromExclusionList pid tx \<Rightarrow> Some (remove_from_exclusion_list pid tx s)
     | GetExclusionList tx \<Rightarrow> Some (get_exclusion_list tx s)
     | UpdateElectionParams params tx \<Rightarrow> Some (update_election_params params tx s)
     | GetElectionParams tx \<Rightarrow> Some (get_election_params tx s)
     | Participating _ _ \<Rightarrow> Some (Ok (), s))"

end
