(* ===== verification/Barriers.thy ===== *)
theory Barriers
  imports Election
begin

text \<open>
  The phases of key generation and resharing as barriers: the relay starts the next phase when the
  peers of the phase have reported. An abstract barrier is the set of expected and the set of
  reported peers; the eight recording handlers of \<open>actors/src/election_actor.rs\<close> implement it with
  sets, with maps of statuses and with counts of lists.
\<close>

section \<open>The contract of a barrier\<close>

text \<open>\<open>need\<close> is the number of reports the phase waits for; \<open>emits\<close> says that a report starts the next
  phase.\<close>

locale barrier =
  fixes ok :: "'s \<Rightarrow> bool"
    and step :: "'i \<Rightarrow> 's \<Rightarrow> 's"
    and expected :: "'s \<Rightarrow> 'i set"
    and reported :: "'s \<Rightarrow> 'i set"
    and need :: "'s \<Rightarrow> nat"
    and emits :: "'i \<Rightarrow> 's \<Rightarrow> bool"
  assumes finite_expected: "finite (expected s)"
    and need_ge: "card (expected s) \<le> need s"
    and ok_sub: "ok s \<Longrightarrow> reported s \<subseteq> expected s"
    and ok_step: "ok s \<Longrightarrow> ok (step i s)"
    and expected_step: "expected (step i s) = expected s"
    and need_step: "need (step i s) = need s"
    and reported_step: "ok s \<Longrightarrow> reported (step i s) = reported s \<union> ({i} \<inter> expected s)"
    and emits_full: "\<lbrakk>ok s; emits i s\<rbrakk> \<Longrightarrow> card (reported (step i s)) = need s"
    and emits_last: "\<lbrakk>ok s; i \<in> expected s; i \<notin> reported s; card (reported (step i s)) = need s\<rbrakk> \<Longrightarrow> emits i s"
begin

lemma emits_complete:
  assumes "ok s" and "emits i s"
  shows "reported (step i s) = expected s"
proof (rule card_subset_eq [OF finite_expected])
  show sub: "reported (step i s) \<subseteq> expected s"
    using ok_sub [OF ok_step [OF assms(1)]] by (simp add: expected_step)
  show "card (reported (step i s)) = card (expected s)"
    using emits_full [OF assms] need_ge [of s] card_mono [OF finite_expected sub] by simp
qed

lemma fold_step:
  "ok s \<Longrightarrow> ok (fold step ps s) \<and> expected (fold step ps s) = expected s \<and> need (fold step ps s) = need s \<and>
    reported (fold step ps s) = reported s \<union> (set ps \<inter> expected s)"
  by (induction ps arbitrary: s) (auto simp: ok_step expected_step need_step reported_step)

lemma emits_eventually:
  assumes "ok s" and "need s = card (expected s)" and "reported s \<noteq> expected s"
    and "expected s \<subseteq> reported s \<union> set ps"
  shows "\<exists>qs i rs. ps = qs @ i # rs \<and> emits i (fold step qs s)"
  using assms
proof (induction ps arbitrary: s)
  case (Cons i ps)
  show ?case
  proof (cases "reported (step i s) = expected s")
    case True
    then have "i \<in> expected s" and "i \<notin> reported s"
      using Cons.prems(1,3) reported_step [OF Cons.prems(1), of i] by auto
    then have "emits i s"
      using True Cons.prems(1,2) by (intro emits_last) simp_all
    then have "i # ps = [] @ i # ps \<and> emits i (fold step [] s)" by simp
    then show ?thesis by blast
  next
    case False
    have "expected (step i s) \<subseteq> reported (step i s) \<union> set ps"
      using Cons.prems(4) by (auto simp: expected_step reported_step [OF Cons.prems(1)])
    with Cons.IH [OF ok_step [OF Cons.prems(1)], of i] False Cons.prems(2)
    obtain qs j rs where "ps = qs @ j # rs \<and> emits j (fold step qs (step i s))"
      by (auto simp: expected_step need_step)
    then have "i # ps = (i # qs) @ j # rs \<and> emits j (fold step (i # qs) s)" by simp
    then show ?thesis by blast
  qed
qed (use ok_sub in auto)

lemma emits_never:
  assumes "ok s" and "need s \<noteq> card (expected s)"
  shows "\<not> emits i (fold step ps s)"
proof
  assume *: "emits i (fold step ps s)"
  have ok: "ok (fold step ps s)" and eq: "expected (fold step ps s) = expected s" "need (fold step ps s) = need s"
    using fold_step [OF assms(1)] by auto
  show False
    using emits_complete [OF ok *] emits_full [OF ok *] eq assms(2) by simp
qed

end

section \<open>The phases\<close>

datatype phase =
    p_election
  | p_re_election
  | p_dkg_init
  | p_resharing_init
  | p_dkg_round1
  | p_resharing_round1
  | p_dkg_round2
  | p_resharing_round2

text \<open>The message that reports a peer for a phase, the message that starts the next one, and the
  peers the phase waits for.\<close>

fun phase_report :: "phase \<Rightarrow> PeerId \<Rightarrow> 'r ElectionEngineMessage" where
  "phase_report p_election = RecordElectionNodeStatus"
| "phase_report p_re_election = RecordRelectionNodeStatus"
| "phase_report p_dkg_init = RecordDKGInitNodeStatus"
| "phase_report p_resharing_init = RecordResharingInitNodeStatus"
| "phase_report p_dkg_round1 = RecordDKGRound1NodeStatus"
| "phase_report p_resharing_round1 = RecordResharingRound1NodeStatus"
| "phase_report p_dkg_round2 = RecordDKGRound2NodeStatus"
| "phase_report p_resharing_round2 = RecordResharingRound2NodeStatus"

fun phase_start :: "phase \<Rightarrow> Message" where
  "phase_start p_election = Message.StartDKGInit"
| "phase_start p_re_election = Message.StartResharingInit"
| "phase_start p_dkg_init = Message.StartDKGRound1"
| "phase_start p_resharing_init = Message.StartResharingRound1"
| "phase_start p_dkg_round1 = Message.StartDKGRound2"
| "phase_start p_resharing_round1 = Message.StartResharingRound2"
| "phase_start p_dkg_round2 = Message.StartDKGRound3"
| "phase_start p_resharing_round2 = Message.StartResharingRound3"

fun phase_step ::
    "phase \<Rightarrow> PeerId \<Rightarrow> ('f, 'p, 'g, 'q, 'r) election_node \<Rightarrow> ('f, 'p, 'g, 'q, 'r) election_node" where
  "phase_step p_election = record_election_node_status"
| "phase_step p_re_election = record_re_election_node_status"
| "phase_step p_dkg_init = record_dkg_init_node_status"
| "phase_step p_resharing_init = record_resharing_init_node_status"
| "phase_step p_dkg_round1 = record_dkg_round1_node_status"
| "phase_step p_resharing_round1 = record_resharing_round1_node_status"
| "phase_step p_dkg_round2 = record_dkg_round2_node_status"
| "phase_step p_resharing_round2 = record_resharing_round2_node_status"

fun phase_expected :: "phase \<Rightarrow> ('f, 'p, 'g, 'q, 'r) election_node \<Rightarrow> PeerId set" where
  "phase_expected p_re_election s = peer_id ` set (elected_provers s @ tstar_provers s)"
| "phase_expected p_resharing_init s = peer_id ` set (tstar_provers s @ elected_provers s)"
| "phase_expected _ s = elected_ids s"

fun phase_reported :: "phase \<Rightarrow> ('f, 'p, 'g, 'q, 'r) election_node \<Rightarrow> PeerId set" where
  "phase_reported p_election s = election_status s"
| "phase_reported p_re_election s = set (hm_keys (re_election_status s))"
| "phase_reported p_dkg_init s = dkg_init_status s"
| "phase_reported p_resharing_init s = set (hm_keys (re_sharing_init_status s))"
| "phase_reported p_dkg_round1 s = dkg_round1_status s"
| "phase_reported p_resharing_round1 s = set (hm_keys (re_sharing_round1_status s))"
| "phase_reported p_dkg_round2 s = dkg_round2_status s"
| "phase_reported p_resharing_round2 s = set (hm_keys (re_sharing_round2_status s))"

fun phase_need :: "phase \<Rightarrow> ('f, 'p, 'g, 'q, 'r) election_node \<Rightarrow> nat" where
  "phase_need p_election s = card (phase_expected p_election s)"
| "phase_need p_re_election s = card (phase_expected p_re_election s)"
| "phase_need p_resharing_init s = card (phase_expected p_resharing_init s)"
| "phase_need _ s = length (elected_provers s)"

text \<open>A map of statuses holds one status, under distinct keys.\<close>

definition status_map :: "RelectionStatus \<Rightarrow> (PeerId, RelectionStatus) hashmap \<Rightarrow> bool" where
  "status_map st m \<longleftrightarrow> hm_wf m \<and> (\<forall>(k, v)\<in>set m. v = st)"

fun phase_map_ok :: "phase \<Rightarrow> ('f, 'p, 'g, 'q, 'r) election_node \<Rightarrow> bool" where
  "phase_map_ok p_re_election s = status_map ReElected (re_election_status s)"
| "phase_map_ok p_resharing_init s = status_map RelectionStatus.ResharingInit (re_sharing_init_status s)"
| "phase_map_ok p_resharing_round1 s = status_map RelectionStatus.ResharingRound1 (re_sharing_round1_status s)"
| "phase_map_ok p_resharing_round2 s = status_map RelectionStatus.ResharingRound2 (re_sharing_round2_status s)"
| "phase_map_ok _ s = True"

definition phase_ok :: "phase \<Rightarrow> ('f, 'p, 'g, 'q, 'r) election_node \<Rightarrow> bool" where
  "phase_ok ph s \<longleftrightarrow> phase_map_ok ph s \<and> phase_reported ph s \<subseteq> phase_expected ph s"

definition phase_emits :: "phase \<Rightarrow> PeerId \<Rightarrow> ('f, 'p, 'g, 'q, 'r) election_node \<Rightarrow> bool" where
  "phase_emits ph i s \<longleftrightarrow>
    casts (phase_step ph i s) = casts s @ [ToGossip (Gossip (phase_start ph) NETWORK_TOPIC)]"

section \<open>The handlers are barriers\<close>

lemma status_map_Nil [simp]: "status_map st []"
  by (simp add: status_map_def hm_wf_def)

lemma status_map_get: "status_map st m \<Longrightarrow> hm_get k m = Some st \<longleftrightarrow> k \<in> set (hm_keys m)"
  by (force simp: status_map_def hm_get_mem hm_keys_def)

lemma status_map_insert:
  assumes "status_map st m"
  shows "status_map st (hm_insert k st m)"
proof -
  have wf: "hm_wf m" "hm_wf (hm_insert k st m)"
    using assms hashmap.wf_ins by (auto simp: status_map_def)
  have "v = st" if "(k', v) \<in> set (hm_insert k st m)" for k' v
    using that assms unfolding hm_get_mem [OF wf(2), symmetric] hashmap.get_ins
    by (auto simp: hm_get_mem [OF wf(1)] status_map_def split: if_splits)
  with wf show ?thesis
    by (auto simp: status_map_def)
qed

lemma status_map_length: "status_map st m \<Longrightarrow> length m = card (set (hm_keys m))"
  using distinct_card [of "map fst m"] by (simp add: status_map_def hm_wf_def hm_keys_def)

lemma unique_by_peer_id_ids: "peer_id ` set (unique_by_peer_id seen ps) = peer_id ` set ps - seen"
  by (induction seen ps rule: unique_by_peer_id.induct) auto

lemma unique_by_peer_id_length: "length (unique_by_peer_id seen ps) = card (peer_id ` set ps - seen)"
proof -
  have "distinct (map peer_id (unique_by_peer_id seen ps))"
    by (induction seen ps rule: unique_by_peer_id.induct) (simp_all add: unique_by_peer_id_ids)
  then have "length (map peer_id (unique_by_peer_id seen ps)) = card (set (map peer_id (unique_by_peer_id seen ps)))"
    by (rule distinct_card [symmetric])
  then show ?thesis
    by (simp only: length_map set_map unique_by_peer_id_ids)
qed

lemmas record_defs =
  record_election_node_status_def record_re_election_node_status_def record_dkg_init_node_status_def
  record_resharing_init_node_status_def record_dkg_round1_node_status_def
  record_resharing_round1_node_status_def record_dkg_round2_node_status_def
  record_resharing_round2_node_status_def gossip_def cast_message_def elected_ids_def Let_def

lemma phase_expected_step [simp]: "phase_expected ph (phase_step ph i s) = phase_expected ph s"
  by (cases ph) (simp_all add: record_defs)

lemma phase_need_step [simp]: "phase_need ph (phase_step ph i s) = phase_need ph s"
  by (cases ph) (simp_all add: record_defs)

lemma phase_map_ok_step: "phase_map_ok ph s \<Longrightarrow> phase_map_ok ph (phase_step ph i s)"
  by (cases ph) (simp_all add: record_defs status_map_insert del: hm_insert_new)

lemma phase_reported_step:
  "phase_map_ok ph s \<Longrightarrow>
    phase_reported ph (phase_step ph i s) = (if i \<in> phase_expected ph s then insert i (phase_reported ph s) else phase_reported ph s)"
  by (cases ph)
    (simp_all add: record_defs status_map_get unique_by_peer_id_ids insert_absorb del: hm_insert_new)

lemmas status_counts = status_map_length status_map_length [OF status_map_insert]

lemma phase_card:
  "phase_map_ok ph s \<Longrightarrow> casts (phase_step ph i s) \<noteq> casts s \<Longrightarrow>
    phase_emits ph i s \<and> card (phase_reported ph (phase_step ph i s)) = phase_need ph s"
  by (cases ph)
    (simp_all add: phase_emits_def record_defs status_map_get status_counts unique_by_peer_id_ids
      unique_by_peer_id_length del: hm_insert_new split: if_split_asm)

lemma phase_last:
  "phase_map_ok ph s \<Longrightarrow> i \<notin> phase_reported ph s \<Longrightarrow>
    card (phase_reported ph (phase_step ph i s)) = phase_need ph s \<Longrightarrow> phase_emits ph i s"
  by (cases ph)
    (simp_all add: phase_emits_def record_defs status_map_get status_counts unique_by_peer_id_ids
      unique_by_peer_id_length del: hm_insert_new split: if_split_asm)

interpretation phase: barrier "phase_ok ph" "phase_step ph" "phase_expected ph" "phase_reported ph" "phase_need ph"
    "phase_emits ph" for ph
proof
  fix s :: "('a, 'b, 'c, 'd, 'e) election_node" and i
  show "finite (phase_expected ph s)"
    by (cases ph) (simp_all add: elected_ids_def)
  show "card (phase_expected ph s) \<le> phase_need ph s"
    using card_image_le [of "set (elected_provers s)" peer_id] card_length [of "elected_provers s"]
    by (cases ph) (simp_all add: elected_ids_def)
  show "phase_ok ph s \<Longrightarrow> phase_reported ph s \<subseteq> phase_expected ph s"
    by (simp add: phase_ok_def)
  show "phase_ok ph s \<Longrightarrow> phase_ok ph (phase_step ph i s)"
    by (auto simp: phase_ok_def phase_map_ok_step phase_reported_step)
  show "phase_expected ph (phase_step ph i s) = phase_expected ph s"
    by simp
  show "phase_need ph (phase_step ph i s) = phase_need ph s"
    by simp
  show "phase_ok ph s \<Longrightarrow> phase_reported ph (phase_step ph i s) = phase_reported ph s \<union> ({i} \<inter> phase_expected ph s)"
    by (auto simp: phase_ok_def phase_reported_step)
  show "phase_ok ph s \<Longrightarrow> phase_emits ph i s \<Longrightarrow> card (phase_reported ph (phase_step ph i s)) = phase_need ph s"
    using phase_card [of ph s i] by (simp add: phase_ok_def phase_emits_def)
  show "phase_ok ph s \<Longrightarrow> i \<in> phase_expected ph s \<Longrightarrow> i \<notin> phase_reported ph s \<Longrightarrow>
      card (phase_reported ph (phase_step ph i s)) = phase_need ph s \<Longrightarrow> phase_emits ph i s"
    by (simp add: phase_ok_def phase_last)
qed

end
