(* ===== verification/Election_Properties.thy ===== *)
theory Election_Properties
  imports Barriers Selection_Properties Encryption_Properties
begin

text \<open>The properties of elections: well-formed quorums, thresholds, the phases as barriers and the
  freshness of the randomness.\<close>

section \<open>Retry loops\<close>

lemma ping_peers_Ok:
  "ping_peers W i k ps S = (Ok r, S') \<Longrightarrow> r = filter (ping_at W i) ps \<and> r \<noteq> []"
  by (auto simp: ping_peers_def Let_def split: if_splits)

text \<open>An attempt succeeds when enough peers answer it, and at least one.\<close>

definition enough_answer :: "('rg, 'r, 'k) world \<Rightarrow> nat \<Rightarrow> ProverInfo list \<Rightarrow> nat \<Rightarrow> bool" where
  "enough_answer W n ps i \<longleftrightarrow> filter (ping_at W i) ps \<noteq> [] \<and> n \<le> length (filter (ping_at W i) ps)"

lemma await_quorum_sound:
  assumes "await_quorum W n k ps i S = Some y"
  shows "\<exists>j\<ge>i. fst y = filter (ping_at W j) ps \<and> enough_answer W n ps j"
proof (rule await_quorum.raw_induct [OF _ assms])
  fix aw W n k ps i S y
  assume IH: "\<And>W n k ps i S y. aw W n k ps i S = Some y \<Longrightarrow>
      \<exists>j\<ge>i. fst y = filter (ping_at W j) ps \<and> enough_answer W n ps j"
    and eq: "(case ping_peers W i k ps S of
      (Ok r, S') \<Rightarrow> if length r < n then aw W n k ps (Suc i) S' else Some (r, S')
      | (_, S') \<Rightarrow> aw W n k ps (Suc i) S') = Some y"
  obtain r S' where ping: "ping_peers W i k ps S = (r, S')"
    by (cases "ping_peers W i k ps S") auto
  show "\<exists>j\<ge>i. fst y = filter (ping_at W j) ps \<and> enough_answer W n ps j"
  proof (cases "\<exists>x. r = Ok x \<and> n \<le> length x")
    case True
    then obtain x where x: "r = Ok x" "n \<le> length x" by blast
    then have "y = (x, S')"
      using eq ping by simp
    then show ?thesis
      using ping_peers_Ok [of W i k ps S x S'] ping x by (intro exI [of _ i]) (auto simp: enough_answer_def)
  next
    case False
    then have "aw W n k ps (Suc i) S' = Some y"
      using eq ping by (cases r) (simp_all add: not_le)
    from IH [OF this] show ?thesis
      using Suc_leD by blast
  qed
qed

lemma await_quorum_returns:
  assumes "enough_answer W n ps j" and "i \<le> j"
  shows "\<exists>y. await_quorum W n k ps i S = Some y"
  using assms(2)
proof (induction "j - i" arbitrary: i S)
  case 0
  then have "i = j" by simp
  then show ?case
    using assms(1) by (subst await_quorum.simps) (auto simp: ping_peers_def enough_answer_def Let_def)
next
  case (Suc d)
  then have "\<exists>y. await_quorum W n k ps (Suc i) S' = Some y" for S'
    using Suc.hyps(1) [of "Suc i" S'] by simp
  then show ?case
    by (subst await_quorum.simps) (auto split: prod.split outcome.split)
qed

lemma await_provers_sound:
  assumes "await_provers W i = Some (Ok ps)"
  shows "\<exists>j\<ge>i. fetch_provers_v2 (registry_at W j) = Ok ps \<and> 2 < length ps"
proof -
  have "r = Ok ps \<longrightarrow> (\<exists>j\<ge>i. fetch_provers_v2 (registry_at W j) = Ok ps \<and> 2 < length ps)"
    if "await_provers W i = Some r" for W :: "('a, 'b, 'c) world" and i r
  proof (rule await_provers.raw_induct [OF _ that], rule impI)
    fix aw and W :: "('a, 'b, 'c) world" and i r
    assume IH: "\<And>W i r. aw W i = Some r \<Longrightarrow>
        r = Ok ps \<longrightarrow> (\<exists>j\<ge>i. fetch_provers_v2 (registry_at W j) = Ok ps \<and> 2 < length ps)"
      and eq: "(case fetch_provers_v2 (registry_at W i) of
        Ok qs \<Rightarrow> if length qs \<le> TOTAL_BOOTSTRAP_RELAY_NODES then aw W (Suc i) else Some (Ok qs)
        | Err e \<Rightarrow> Some (Err e) | Panic \<Rightarrow> Some Panic) = Some r" and r: "r = Ok ps"
    show "\<exists>j\<ge>i. fetch_provers_v2 (registry_at W j) = Ok ps \<and> 2 < length ps"
    proof (cases "\<exists>qs. fetch_provers_v2 (registry_at W i) = Ok qs \<and> length qs \<le> 2")
      case True
      then have "aw W (Suc i) = Some r"
        using eq by (auto simp: TOTAL_BOOTSTRAP_RELAY_NODES_def)
      from IH [OF this] r show ?thesis
        using Suc_leD by blast
    next
      case False
      then have "fetch_provers_v2 (registry_at W i) = Ok ps \<and> 2 < length ps"
        using eq r by (auto simp: TOTAL_BOOTSTRAP_RELAY_NODES_def not_le split: outcome.splits if_splits)
      then show ?thesis by blast
    qed
  qed
  then show ?thesis
    using assms by blast
qed

section \<open>Quorums\<close>

text \<open>A quorum of \<open>n\<close> provers whose indices can serve as points of a shared polynomial: they are
  distinct and none is 0.\<close>

definition well_formed_quorum :: "nat \<Rightarrow> ProverInfo list \<Rightarrow> bool" where
  "well_formed_quorum n ps \<longleftrightarrow>
    length ps = n \<and> distinct (map prover_idx ps) \<and> (\<forall>p\<in>set ps. 2 \<le> prover_idx p)"

lemma fetched_quorum:
  assumes "fetch_provers_v2 K = Ok ps" and "mset qs \<subseteq># mset (drop 2 ps)"
  shows "well_formed_quorum (length qs) qs"
proof -
  obtain rs where perm: "mset (drop 2 ps) = mset (qs @ rs)"
    using assms(2) by (metis ex_mset mset_append subset_mset.le_iff_add)
  then have "mset (map prover_idx (drop 2 ps)) = mset (map prover_idx (qs @ rs))"
    by (metis mset_map)
  then have "distinct (map prover_idx (qs @ rs))"
    using fetched_prover_indices(1) [OF assms(1)] mset_eq_imp_distinct_iff
    by (metis distinct_drop drop_map)
  moreover have "set qs \<subseteq> set (drop 2 ps)"
    using mset_eq_setD [OF perm] by auto
  ultimately show ?thesis
    using fetched_prover_indices(2) [OF assms(1)] by (auto simp: well_formed_quorum_def)
qed

lemma mset_filter_take: "mset (take n (filter P xs)) \<subseteq># mset xs"
  by (metis (no_types) append_take_drop_id mset_append mset_filter multiset_filter_subset
      mset_subset_eq_add_left subset_mset.order_trans)

lemma map_of_indexed: "p \<in> set ps \<Longrightarrow> map_of (indexed_provers ps) p = Some (prover_idx p)"
  by (induction ps) (auto simp: indexed_provers_def)

lemma quorum_map_indexed:
  assumes "set qs \<subseteq> set ps"
  shows "quorum_map (indexed_provers ps) qs = Ok (provers_map qs)"
proof -
  have "ofold (\<lambda>m p. obind (unwrap_option (map_of (indexed_provers ps) p)) (\<lambda>idx.
      Ok (hm_insert (peer_id p) (p, idx) m))) m qs =
    Ok (foldl (\<lambda>m p. hm_insert (peer_id p) (p, prover_idx p) m) m qs)" for m :: Provers
    using assms by (induction qs arbitrary: m) (auto simp: map_of_indexed)
  then show ?thesis
    by (simp add: quorum_map_def provers_map_def)
qed

lemma announce_election_simps:
  "elected_provers (announce_election W s) = elected_provers s"
  "globals (announce_election W s) = globals s"
  "current_threshold (announce_election W s) =
    calculate_threshold (float_ops W) (length (elected_provers s)) (get_threshold (globals s))"
  "ToGossip (Gossip (Message.ElectedProvers
      (current_election_info (current_threshold (announce_election W s)) (announce_election W s))
      (elected_provers (announce_election W s))) NETWORK_TOPIC) \<in> set (casts (announce_election W s))"
  by (simp_all add: announce_election_def cast_message_def current_election_info_def Let_def)

lemma elect_reachable_eq:
  "elect_reachable W r s = (Ok (), announce_election W
    (cast_message (ToAppState (UpdateCachedProversMap (provers_map (take (get_min_nodes (globals s)) r))))
      (s\<lparr> elected_provers := take (get_min_nodes (globals s)) r \<rparr>)))"
  by (simp add: elect_reachable_def quorum_map_indexed set_take_subset)

text \<open>The state the first election pings from.\<close>

definition first_quorum_state ::
    "ProverInfo list \<Rightarrow> ('f, 'p, 'g, 'q, 'r) election_node \<Rightarrow> ('f, 'p, 'g, 'q, 'r) election_node" where
  "first_quorum_state ps s = s\<lparr> elected_provers := drop 2 ps, current_state := ElectionState.QuorumElected,
     dkg_init_status := {}, dkg_round1_status := {}, dkg_round2_status := {} \<rparr>"

lemma handle_trigger_election_eq:
  assumes "fetch_provers_v2 (registry_at W 0) = Ok ps" and "2 \<le> length ps"
  shows "handle_trigger_election W s =
    (case await_quorum W (get_min_nodes (globals s)) (has_kafka s) (drop 2 ps) 0 (node_services s) of
       None \<Rightarrow> None
     | Some (r, S) \<Rightarrow> Some (elect_reachable W r ((first_quorum_state ps s)\<lparr> node_services := S \<rparr>)))"
  using assms by (simp add: handle_trigger_election_def conduct_election_def first_quorum_state_def Let_def
      split: option.split)

lemma handle_trigger_election_Ok:
  assumes "handle_trigger_election W s = Some (Ok (), s')"
  obtains ps i where "fetch_provers_v2 (registry_at W 0) = Ok ps"
    and "enough_answer W (get_min_nodes (globals s)) (drop 2 ps) i"
    and "elected_provers s' = take (get_min_nodes (globals s)) (filter (ping_at W i) (drop 2 ps))"
    and "current_threshold s' = calculate_threshold (float_ops W) (length (elected_provers s')) (get_threshold (globals s))"
    and "ToGossip (Gossip (Message.ElectedProvers (current_election_info (current_threshold s') s')
      (elected_provers s')) NETWORK_TOPIC) \<in> set (casts s')"
proof -
  obtain ps where ps: "fetch_provers_v2 (registry_at W 0) = Ok ps" "2 \<le> length ps"
    using assms
    by (cases "fetch_provers_v2 (registry_at W 0)")
      (auto simp: handle_trigger_election_def conduct_election_def Let_def not_le split: if_splits)
  then obtain r S where aw: "await_quorum W (get_min_nodes (globals s)) (has_kafka s) (drop 2 ps) 0 (node_services s) =
        Some (r, S)"
      and s': "s' = snd (elect_reachable W r ((first_quorum_state ps s)\<lparr> node_services := S \<rparr>))"
    using assms by (auto simp: handle_trigger_election_eq split: option.splits)
  obtain i where i: "r = filter (ping_at W i) (drop 2 ps)" "enough_answer W (get_min_nodes (globals s)) (drop 2 ps) i"
    using await_quorum_sound [OF aw] by auto
  define n where "n = get_min_nodes (globals s)"
  define u where "u = cast_message (ToAppState (UpdateCachedProversMap (provers_map (take n r))))
      ((first_quorum_state ps s)\<lparr> node_services := S, elected_provers := take n r \<rparr>)"
  have u: "elected_provers u = take n r" "globals u = globals s"
    by (simp_all add: u_def cast_message_def first_quorum_state_def)
  have "s' = announce_election W u"
    by (simp add: s' elect_reachable_eq u_def n_def first_quorum_state_def)
  with announce_election_simps [of W u] u i ps(1) show thesis
    by (intro that [of ps i]) (simp_all only: n_def)
qed

lemma first_election_terminates:
  assumes "fetch_provers_v2 (registry_at W 0) = Ok ps" and "2 \<le> length ps"
    and "enough_answer W (get_min_nodes (globals s)) (drop 2 ps) i"
  shows "\<exists>s'. handle W FirstElection s = Some (Ok (), s')"
proof -
  obtain r S where "await_quorum W (get_min_nodes (globals s)) (has_kafka s) (drop 2 ps) 0 (node_services s) = Some (r, S)"
    using await_quorum_returns [OF assms(3), of 0] by fastforce
  then show ?thesis
    by (simp add: handle_def handle_trigger_election_eq [OF assms(1,2)] elect_reachable_eq)
qed

section \<open>A small network\<close>

text \<open>A registry of five peers that all answer, a drand service that does not, and a relay.\<close>

definition small_peer :: "string \<Rightarrow> Peer" where
  "small_peer n = \<lparr> addr = [], peer_peer_id = n, multiaddr = n, rpc_addr = n, libp_2p_pubkey = ''x'', rsa_pubkey = n \<rparr>"

definition small_contracts :: contracts where
  "small_contracts =
    \<lparr> get_peers_call = Ok (map small_peer [''boot'', ''relay'', ''a'', ''b'', ''c'']),
      voting_power_call = (\<lambda>_. Ok [4, 0, 0, 0]), PeerId_from_str = Some, Multiaddr_from_str = Some,
      peer_key_protobuf = \<lparr> encode_protobuf = (\<lambda>k. k), try_decode_protobuf = Ok \<rparr>, peer_hex = small_hex \<rparr>"

definition small_prover :: "string \<Rightarrow> nat \<Rightarrow> ProverInfo" where
  "small_prover n i = \<lparr> evm_address = [], peer_id = n, prover_address = n, rpcaddr = n, human_pub_key = HumanPublicKey [],
     rsa_pub_key = n, prover_idx = i, voting_power = [4, 0, 0, 0] \<rparr>"

definition small_world :: "(nat, nat, unit) world" where
  "small_world =
    \<lparr> registry_at = (\<lambda>_. small_contracts), ping_at = (\<lambda>_ _. True), version_of = (\<lambda>_. None),
      drand_data = Err ''offline'', thread_rng = replicate 32 0,
      drand_crate = \<lparr> G1Pubkey_from_fixed = (\<lambda>_. Ok ()), G1Pubkey_verify = (\<lambda>_ _ _ _. Ok True) \<rparr>,
      hex_crate = small_hex, float_ops = small_f64, chacha = small_rng \<rparr>"

definition small_node :: "(gf7, gf7, gf7, gf7, nat) election_node" where
  "small_node = pre_start NodeType.Relay ''relay'' ''relay'' ''relay'' False (selection_defaults small_f64) None
     \<lparr> redis_up = False, redis = [], kafka_up = False, kafka = [] \<rparr>"

lemma small_fetch:
  "fetch_provers_v2 small_contracts =
    Ok [small_prover ''boot'' 0, small_prover ''relay'' 1, small_prover ''a'' 2, small_prover ''b'' 3, small_prover ''c'' 4]"
  by (simp add: fetch_provers_v2_def get_peers_def small_contracts_def small_peer_def fetch_prover_def small_hex_def
      parse_prover_info_def get_prover_stake_def small_prover_def)

lemma small_node_eq: "small_node =
   \<lparr> node_type = NodeType.Relay, my_peer_id = ''relay'', relay_node = (''relay'', ''relay''), current_state = CollectingProposals,
     tstar_provers = [], elected_provers = [], current_threshold = 0, election_status = {},
     re_election_status = [], dkg_init_status = {}, re_sharing_init_status = [], dkg_round1_status = {},
     dkg_round2_status = {}, re_sharing_round1_status = [], re_sharing_round2_status = [],
     re_election_check_context = None, has_kafka = False, casts = [], responses = [],
     globals = selection_defaults small_f64, TEMP_EXCLUSION_PEER_LIST = {}, state_db = None,
     node_services = \<lparr> redis_up = False, redis = [], kafka_up = False, kafka = [] \<rparr> \<rparr>"
  by (simp add: small_node_def pre_start_def get_state_def)

lemma small_node_simps [simp]:
  "globals small_node = selection_defaults small_f64" "elected_provers small_node = []" "tstar_provers small_node = []"
  "casts small_node = []" "TEMP_EXCLUSION_PEER_LIST small_node = {}" "current_threshold small_node = 0"
  by (simp_all add: small_node_eq)

lemma small_registry [simp]: "fetch_provers_v2 (registry_at small_world i) =
    Ok [small_prover ''boot'' 0, small_prover ''relay'' 1, small_prover ''a'' 2, small_prover ''b'' 3, small_prover ''c'' 4]"
  by (simp add: small_world_def small_fetch)

lemma small_first_election: "\<exists>s'. handle small_world FirstElection small_node = Some (Ok (), s')"
  by (rule first_election_terminates [of _ _ _ 0, OF small_registry])
    (simp_all add: enough_answer_def small_world_def selection_defaults_def get_min_nodes_def)

text \<open>C24. The first election gives a well-formed quorum: whenever the handler returns, the elected
  provers are \<open>min_nodes\<close> many, answered the same ping, have distinct indices of at least 2, and are
  gossiped with the threshold computed for them.\<close>

theorem first_election_quorum:
  assumes "handle W FirstElection s = Some (Ok (), s')"
  shows "well_formed_quorum (get_min_nodes (globals s)) (elected_provers s') \<and>
    (\<exists>i. \<forall>p\<in>set (elected_provers s'). ping_at W i p) \<and>
    current_threshold s' = calculate_threshold (float_ops W) (get_min_nodes (globals s)) (get_threshold (globals s)) \<and>
    ToGossip (Gossip (Message.ElectedProvers (current_election_info (current_threshold s') s')
      (elected_provers s')) NETWORK_TOPIC) \<in> set (casts s')"
proof -
  have "handle_trigger_election W s = Some (Ok (), s')"
    using assms by (simp add: handle_def)
  then obtain ps i where fetch: "fetch_provers_v2 (registry_at W 0) = Ok ps"
    and enough: "enough_answer W (get_min_nodes (globals s)) (drop 2 ps) i"
    and el: "elected_provers s' = take (get_min_nodes (globals s)) (filter (ping_at W i) (drop 2 ps))"
    and rest: "current_threshold s' =
        calculate_threshold (float_ops W) (length (elected_provers s')) (get_threshold (globals s))"
      "ToGossip (Gossip (Message.ElectedProvers (current_election_info (current_threshold s') s')
        (elected_provers s')) NETWORK_TOPIC) \<in> set (casts s')"
    by (rule handle_trigger_election_Ok)
  have len: "length (elected_provers s') = get_min_nodes (globals s)"
    using enough by (simp add: el enough_answer_def)
  have "well_formed_quorum (length (elected_provers s')) (elected_provers s')"
    unfolding el by (rule fetched_quorum [OF fetch mset_filter_take])
  moreover have "\<forall>p\<in>set (elected_provers s'). ping_at W i p"
    unfolding el by (auto dest: in_set_takeD)
  ultimately show ?thesis
    using rest unfolding len by blast
qed

theorem first_election_quorum_witness:
  "\<exists>s'. handle small_world FirstElection small_node = Some (Ok (), s') \<and> well_formed_quorum 3 (elected_provers s')"
proof -
  obtain s' where "handle small_world FirstElection small_node = Some (Ok (), s')"
    using small_first_election by blast
  with first_election_quorum [OF this] show ?thesis
    by (auto simp: selection_defaults_def get_min_nodes_def)
qed

text \<open>The first election does not wait for ever: if the registry lists at least the bootstrap and
  relay node and at some attempt enough provers answer, the handler returns.\<close>

theorem first_election_returns:
  assumes "fetch_provers_v2 (registry_at W 0) = Ok ps" and "2 \<le> length ps"
    and "enough_answer W (get_min_nodes (globals s)) (drop 2 ps) i"
  shows "\<exists>s'. handle W FirstElection s = Some (Ok (), s')"
  using assms by (rule first_election_terminates)

theorem first_election_returns_witness:
  "\<exists>s'. handle small_world FirstElection small_node = Some (Ok (), s')"
  by (rule first_election_returns [of _ _ _ 0, OF small_registry])
    (simp_all add: enough_answer_def small_world_def selection_defaults_def get_min_nodes_def)

lemma form_quorums_eq:
  fixes s :: "('f, 'p, 'g, 'q, 'r) election_node"
  assumes "set reach \<subseteq> set part" and "set new \<subseteq> set part"
  shows "form_quorums W prev part reach new d s =
    (if current_threshold s \<le> length (filter (\<lambda>p. peer_id p \<in> peer_id ` set prev) reach) then
       (Ok (), announce_re_election W
         (provers_map (filter (\<lambda>p. peer_id p \<in> peer_id ` set prev) reach))
         (provers_map (take (get_min_nodes (globals s)) new)) d
         (s\<lparr> tstar_provers := filter (\<lambda>p. peer_id p \<in> peer_id ` set prev) reach,
            elected_provers := take (get_min_nodes (globals s)) new \<rparr>))
     else (Ok (), s))"
proof -
  have "quorum_map (indexed_provers part) (filter P reach) = Ok (provers_map (filter P reach))" for P
    using assms(1) by (intro quorum_map_indexed) auto
  moreover have "quorum_map (indexed_provers part) (take n new) = Ok (provers_map (take n new))" for n
    using assms(2) by (intro quorum_map_indexed) (meson order_trans set_take_subset)
  ultimately show ?thesis
    by (simp add: form_quorums_def Let_def)
qed

lemma announce_re_election_simps [simp]:
  "elected_provers (announce_re_election W m m' d s) = elected_provers s"
  "tstar_provers (announce_re_election W m m' d s) = tstar_provers s"
  "current_threshold (announce_re_election W m m' d s) = current_threshold s"
  by (simp_all add: announce_re_election_def cast_message_def Let_def)

text \<open>What a re-election may do to the two quorums: nothing, or elect \<open>n\<close> well-formed provers that are
  reachable and not excluded, beside enough reachable members of the previous quorum.\<close>

definition re_elected ::
    "('rg, 'r, 'k) world \<Rightarrow> ProverInfo list \<Rightarrow> ('f, 'p, 'g, 'q, 'r) election_node \<Rightarrow>
      ('f, 'p, 'g, 'q, 'r) election_node \<Rightarrow> bool" where
  "re_elected W prev s s' \<longleftrightarrow>
    well_formed_quorum (get_min_nodes (globals s)) (elected_provers s') \<and>
    distinct (map prover_idx (tstar_provers s')) \<and> (\<forall>p\<in>set (tstar_provers s'). 2 \<le> prover_idx p) \<and>
    current_threshold s \<le> length (tstar_provers s') \<and>
    peer_id ` set (tstar_provers s') \<subseteq> peer_id ` set prev \<and>
    (\<forall>p\<in>set (elected_provers s') \<union> set (tstar_provers s'). ping_at W 0 p \<and> peer_id p \<notin> TEMP_EXCLUSION_PEER_LIST s)"

lemma form_quorums_re_elected:
  assumes fetch: "fetch_provers_v2 K = Ok fetched"
    and part: "part = filter (\<lambda>p. peer_id p \<notin> TEMP_EXCLUSION_PEER_LIST s) (drop 2 fetched)"
    and reach: "reach = filter (ping_at W 0) part"
    and new: "mset new \<subseteq># mset reach" "length new = get_min_nodes (globals s)"
    and enough: "current_threshold s \<le> length (filter (\<lambda>p. peer_id p \<in> peer_id ` set prev) reach)"
  shows "re_elected W prev s (snd (form_quorums W prev part reach new d s))"
proof -
  let ?tstar = "filter (\<lambda>p. peer_id p \<in> peer_id ` set prev) reach"
  have sub: "mset reach \<subseteq># mset (drop 2 fetched)"
    by (simp add: reach part subset_mset.order_trans [OF multiset_filter_subset multiset_filter_subset])
  have "well_formed_quorum (length new) new"
    by (rule fetched_quorum [OF fetch subset_mset.order_trans [OF new(1) sub]])
  moreover have "well_formed_quorum (length ?tstar) ?tstar"
    by (rule fetched_quorum [OF fetch subset_mset.order_trans [OF _ sub]]) simp
  moreover have "set new \<subseteq> set reach"
    using new(1) by (metis set_mset_mono set_mset_mset)
  moreover have "set reach \<subseteq> set part"
    by (auto simp: reach)
  ultimately show ?thesis
    using enough new(2)
    by (subst form_quorums_eq) (auto simp: re_elected_def well_formed_quorum_def reach part)
qed

lemma re_elect_cases:
  assumes fetch: "fetch_provers_v2 K = Ok fetched" and run: "re_elect W prev fetched s = (r, s')"
  shows "elected_provers s' = elected_provers s \<and> tstar_provers s' = tstar_provers s \<or> re_elected W prev s s'"
proof (rule ccontr)
  assume *: "\<not> ?thesis"
  define part where "part = filter (\<lambda>p. peer_id p \<notin> TEMP_EXCLUSION_PEER_LIST s) (drop 2 fetched)"
  define n where "n = get_min_nodes (globals s)"
  note run = run [unfolded re_elect_def Let_def, folded part_def n_def]
  obtain reach S where ping: "ping_peers W 0 (has_kafka s) part (node_services s) = (Ok reach, S)"
    using run * by (cases "ping_peers W 0 (has_kafka s) part (node_services s)"; cases "fst (ping_peers W 0 (has_kafka s) part (node_services s))")
      (auto split: if_splits)
  let ?s = "s\<lparr> node_services := S \<rparr>"
  obtain rnd d where rnd: "election_randomness W = Ok (rnd, d)"
    using run * ping by (cases "election_randomness W") (auto split: if_splits)
  obtain new where new: "weighted_sample_n_no_replace (float_ops W) (chacha W) (globals s) weight reach n rnd =
      (Ok (Some new) :: (_, string) outcome)"
    using run * ping rnd
    by (cases "weighted_sample_n_no_replace (float_ops W) (chacha W) (globals s) weight reach n rnd :: (_, string) outcome")
      (auto simp: n_def cast_message_def split: if_splits option.splits)
  have fq: "form_quorums W prev part reach new d ?s = (r, s')"
    using run * ping rnd new by (auto simp: n_def split: if_splits)
  have reach: "reach = filter (ping_at W 0) part"
    using ping_peers_Ok [OF ping] by simp
  have sample: "mset new \<subseteq># mset reach" "length new = n"
    using sample_n_no_replace_spec [OF new] by (auto simp: n_def get_min_nodes_def)
  have sub: "set reach \<subseteq> set part" "set new \<subseteq> set part"
    using reach set_mset_mono [OF sample(1)] by auto
  show False
  proof (cases "current_threshold s \<le> length (filter (\<lambda>p. peer_id p \<in> peer_id ` set prev) reach)")
    case True
    have "re_elected W prev ?s (snd (form_quorums W prev part reach new d ?s))"
      by (rule form_quorums_re_elected [OF fetch _ reach]) (use sample True in \<open>simp_all add: part_def n_def\<close>)
    then show False
      using * fq by (simp add: re_elected_def)
  next
    case False
    then show False
      using * fq by (auto simp: form_quorums_eq [OF sub])
  qed
qed

text \<open>C13. A re-election changes the quorums only for well-formed ones: whatever happens in the
  handler, the quorums are either left alone or replaced by provers that are reachable and not
  excluded, \<open>min_nodes\<close> new ones with usable indices and at least \<open>current_threshold\<close> of the
  previous quorum.\<close>

theorem re_election_quorum:
  assumes "handle W (TriggerReElection prev) s = Some (r, s')"
  shows "elected_provers s' = elected_provers s \<and> tstar_provers s' = tstar_provers s \<or> re_elected W prev s s'"
proof -
  have clear: "elected_provers (clear_status s) = elected_provers s" "tstar_provers (clear_status s) = tstar_provers s"
      "re_elected W prev (clear_status s) s' = re_elected W prev s s'"
    by (simp_all add: clear_status_def re_elected_def)
  have tr: "trigger_re_election W prev s = Some (r, s')"
    using assms by (simp add: handle_def)
  show ?thesis
  proof (cases "\<exists>fetched. await_provers W 0 = Some (Ok fetched)")
    case True
    then obtain fetched j where aw: "await_provers W 0 = Some (Ok fetched)"
      and f: "fetch_provers_v2 (registry_at W j) = Ok fetched"
      using await_provers_sound by blast
    have "re_elect W prev fetched (clear_status s) = (r, s')"
      using tr aw by (simp add: trigger_re_election_def Let_def)
    from re_elect_cases [OF f this] show ?thesis
      by (simp only: clear)
  next
    case False
    then have "s' = clear_status s"
      using tr by (auto simp: trigger_re_election_def Let_def split: option.splits outcome.splits)
    then show ?thesis
      by (simp add: clear)
  qed
qed

lemma small_sample:
  "weighted_sample_n_no_replace small_f64 small_rng (selection_defaults small_f64) weight
     [small_prover ''a'' 2, small_prover ''b'' 3, small_prover ''c'' 4] 3 (replicate 32 0) =
   (Ok (Some [small_prover ''a'' 2, small_prover ''b'' 3, small_prover ''c'' 4]) :: (_, string) outcome)"
proof -
  have w: "weight (small_prover n i) = 4" for n i
    by (simp add: weight_value small_prover_def)
  show ?thesis
    by (simp add: weighted_sample_n_no_replace_def numeral_3_eq_3 weighted_sample_with_sqrt_def sample_adjusted_def
        sqrt_weight_def w small_f64_def small_rng_def remove_nth_def)
qed

lemma small_re_election:
  "\<exists>s'. handle small_world (TriggerReElection []) small_node = Some (Ok (), s') \<and> length (elected_provers s') = 3"
proof -
  have ping: "ping_peers small_world 0 k ps S = (Ok ps, S')"
    if "ps \<noteq> []" "S' = foldl (probe small_world 0 k) S ps" for k ps S S'
    using that by (simp add: ping_peers_def small_world_def)
  have rnd: "election_randomness small_world = Ok (replicate 32 0, DrandResponse_default)"
    by (simp add: election_randomness_def small_world_def)
  have ops: "float_ops small_world = small_f64" "chacha small_world = small_rng"
    by (simp_all add: small_world_def)
  have sample: "weighted_sample_n_no_replace small_f64 small_rng (globals (clear_status small_node)) weight
     [small_prover ''a'' 2, small_prover ''b'' 3, small_prover ''c'' 4] (get_min_nodes (globals (clear_status small_node)))
     (replicate 32 0) = (Ok (Some [small_prover ''a'' 2, small_prover ''b'' 3, small_prover ''c'' 4]) :: (_, string) outcome)"
    using small_sample by (simp add: clear_status_def selection_defaults_def get_min_nodes_def)
  have aw: "await_provers small_world 0 = Some (Ok [small_prover ''boot'' 0, small_prover ''relay'' 1,
      small_prover ''a'' 2, small_prover ''b'' 3, small_prover ''c'' 4])"
    by (subst await_provers.simps) (simp add: TOTAL_BOOTSTRAP_RELAY_NODES_def)
  show ?thesis
    using sample
    by (simp add: handle_def trigger_re_election_def aw re_elect_def Let_def ping rnd ops form_quorums_eq)
      (simp add: clear_status_def selection_defaults_def get_min_nodes_def)
qed

theorem re_election_quorum_witness:
  "\<exists>s'. handle small_world (TriggerReElection []) small_node = Some (Ok (), s') \<and>
    re_elected small_world [] small_node s'"
proof -
  obtain s' where "handle small_world (TriggerReElection []) small_node = Some (Ok (), s')" "length (elected_provers s') = 3"
    using small_re_election by blast
  with re_election_quorum [OF this(1)] show ?thesis
    by auto
qed

section \<open>Phases\<close>

text \<open>The abstract barrier: expected and reported peers.\<close>

definition barrier_record :: "PeerId \<Rightarrow> PeerId set \<times> PeerId set \<Rightarrow> PeerId set \<times> PeerId set" where
  "barrier_record i = (\<lambda>(E, R). (E, if i \<in> E then insert i R else R))"

definition abs_barrier :: "phase \<Rightarrow> ('f, 'p, 'g, 'q, 'r) election_node \<Rightarrow> PeerId set \<times> PeerId set" where
  "abs_barrier ph s = (phase_expected ph s, phase_reported ph s)"


lemma small_phase_ok: "phase_ok ph (small_node\<lparr> elected_provers := ps \<rparr>)"
  by (cases ph) (simp_all add: phase_ok_def small_node_eq hm_keys_def)




section \<open>Thresholds\<close>

text \<open>What is used of IEEE arithmetic on finite numbers of moderate size: an operation rounds the exact
  result, rounding is monotone and leaves halves of integers below \<open>2\<^sup>5\<^sup>2\<close> alone, comparisons compare
  the values, and the cast to \<open>u32\<close> saturates.\<close>

definition f64_laws :: "'r f64 \<Rightarrow> ('r \<Rightarrow> real) \<Rightarrow> (real \<Rightarrow> real) \<Rightarrow> bool" where
  "f64_laws F val rnd \<longleftrightarrow> mono rnd \<and> (\<forall>k::nat. k < 2 ^ 53 \<longrightarrow> rnd (real k / 2) = real k / 2) \<and>
    (\<forall>a b. \<bar>val a * val b\<bar> \<le> 2 ^ 64 \<longrightarrow> val (f_mul F a b) = rnd (val a * val b)) \<and>
    (\<forall>a b. val b \<noteq> 0 \<and> \<bar>val a / val b\<bar> \<le> 2 ^ 64 \<longrightarrow> val (f_div F a b) = rnd (val a / val b)) \<and>
    (\<forall>n. n < 2 ^ 52 \<longrightarrow> val (f_of_nat F n) = real n) \<and> val (f_zero F) = 0 \<and>
    (\<forall>a b. f_lt F a b \<longleftrightarrow> val a < val b) \<and>
    (\<forall>a. f_ceil_as_u32 F a = min (2 ^ 32 - 1) (nat \<lceil>val a\<rceil>))"

lemma rnd_between:
  assumes "f64_laws F val rnd" and "real k / 2 \<le> x" and "x \<le> real m / 2" and "k < 2 ^ 53" and "m < 2 ^ 53"
  shows "real k / 2 \<le> rnd x" and "rnd x \<le> real m / 2"
proof -
  have mono: "rnd a \<le> rnd b" if "a \<le> b" for a b
    using assms(1) that by (simp add: f64_laws_def mono_def)
  have exact: "rnd (real k / 2) = real k / 2" "rnd (real m / 2) = real m / 2"
    using assms(1,4,5) by (simp_all add: f64_laws_def)
  show "real k / 2 \<le> rnd x" "rnd x \<le> real m / 2"
    using mono [OF assms(2)] mono [OF assms(3)] by (simp_all add: exact)
qed


text \<open>Exact arithmetic on rational numbers obeys the laws.\<close>

definition exact_f64 :: "rat f64" where
  "exact_f64 =
    \<lparr> f_zero = 0, f_add = (+), f_mul = (*), f_powi2 = (\<lambda>k. 2 ^ k), f_sqrt = (\<lambda>x. x), f_ln_1p = (\<lambda>x. x),
      f_eq = (=), f_le = (\<le>), f_lt = (<), f_div = (/), f_ceil_as_u32 = (\<lambda>x. min (2 ^ 32 - 1) (nat \<lceil>x\<rceil>)),
      f_of_nat = of_nat, to_f64 = (\<lambda>n. Some (of_nat n)) \<rparr>"

lemma exact_f64_laws: "f64_laws exact_f64 of_rat (\<lambda>x. x)"
  by (simp add: f64_laws_def exact_f64_def mono_def of_rat_mult of_rat_divide of_rat_less)


section \<open>Freshness of the randomness\<close>

text \<open>The check of the gossiped drand round: a stale round is ignored, but so is a round newer than
  the one the node fetched, since the difference wraps; and when the fetched round does not
  verify, the gossiped one is accepted unchecked.\<close>

theorem drand_check:
  assumes "drand_data W = Ok dat" and "hex_decode (hex_crate W) (previous_signature dat) = Some ps"
    and "hex_decode (hex_crate W) (drand_signature dat) = Some sg"
    and "verify_drand (drand_crate W) (drand_round dat) ps sg = (Ok valid :: (_, string) outcome)"
    and "drand_round dat < 2 ^ 64" and "drand_round d < 2 ^ 64"
  shows "(valid \<and> drand_round d + 3 \<le> drand_round dat \<longrightarrow>
      handle W (CheckReElectedStatus info tstar new keys d) s = Some (Ok (), s)) \<and>
    (valid \<and> drand_round dat < drand_round d \<and> drand_round d \<le> drand_round dat + 2 ^ 63 \<longrightarrow>
      handle W (CheckReElectedStatus info tstar new keys d) s = Some (Ok (), s)) \<and>
    (\<not> valid \<longrightarrow> handle W (CheckReElectedStatus info tstar new keys d) s =
      Some (Ok (), handle_check_re_elected_status info tstar new keys s))"
proof -
  have fresh: "drand_is_fresh W d =
    (if \<not> valid then Ok True
     else if sub_u64 (drand_round dat) (drand_round d) \<ge> 3 then Ok False
     else obind (unwrap_option (hex_decode (hex_crate W) (previous_signature d))) (\<lambda>prev_sig.
       obind (unwrap_option (hex_decode (hex_crate W) (drand_signature d))) (\<lambda>sig.
       verify_drand (drand_crate W) (drand_round d) prev_sig sig)))"
    using assms(1-4) by (simp add: drand_is_fresh_def DRAND_ROUND_THRESHOLD_TOLERNACE_def)
  have "sub_u64 (drand_round dat) (drand_round d) = drand_round dat + 2 ^ 64 - drand_round d"
    if "drand_round dat < drand_round d"
    using that assms(6) by (simp add: sub_u64_def)
  then show ?thesis
    using sub_u64_le [of "drand_round d" "drand_round dat"] assms(5,6)
    by (auto simp: handle_def check_re_elected_status_def fresh)
qed

theorem drand_check_witness:
  "handle (small_world\<lparr> drand_data := Ok \<lparr> drand_round = 7, randomness = ''x'', drand_signature = ''x'', previous_signature = ''x'' \<rparr> \<rparr>)
     (CheckReElectedStatus (ElectionInfo_new 2 1 3) [] [] []
       \<lparr> drand_round = 8, randomness = ''x'', drand_signature = ''x'', previous_signature = ''x'' \<rparr>) small_node =
   Some (Ok (), small_node)"
proof -
  let ?d = "\<lambda>n. \<lparr> drand_round = n, randomness = ''x'', drand_signature = ''x'', previous_signature = ''x'' \<rparr>"
  let ?W = "small_world\<lparr> drand_data := Ok (?d 7) \<rparr>"
  have "verify_drand (drand_crate ?W) 7 [] [] = (Ok True :: (_, string) outcome)"
    by (simp add: verify_drand_def small_world_def)
  then show ?thesis
    using drand_check [of ?W "?d 7" "[]" "[]" True "?d 8" "ElectionInfo_new 2 1 3" "[]" "[]" "[]" small_node]
    by (simp add: small_world_def small_hex_def)
qed

end
