(* ===== verification/Dkg_Engine.thy ===== *)
theory Dkg_Engine
  imports Election Dkg_Run Resharing
begin

text \<open>
  The engine that runs key generation and resharing on a node
  (\<open>actors/src/dkg_engine_actor.rs\<close>, \<open>quorum_context.rs\<close>): the data it keeps for each of its four
  keys, the rounds it runs on them and the handlers of its messages. The curves, the crate \<open>rsa\<close>,
  the reader of PEM files, the random values and the state directory are the record \<open>dkg_env\<close>.
\<close>

section \<open>Errors\<close>

text \<open>\<open>{:?}\<close> of a string, of the errors of the cryptography and of the engine's own error.\<close>

definition escape_char :: "char \<Rightarrow> string" where
  "escape_char c =
    (if c = CHR 0x22 \<or> c = CHR 0x5C then [CHR 0x5C, c]
     else if c = CHR 0x0A then [CHR 0x5C, CHR ''n'']
     else if c = CHR 0x0D then [CHR 0x5C, CHR ''r'']
     else if c = CHR 0x09 then [CHR 0x5C, CHR ''t'']
     else [c])"

definition debug_string :: "string \<Rightarrow> string" where
  "debug_string s = [CHR 0x22] @ concat (map escape_char s) @ [CHR 0x22]"

definition debug_tuple :: "string \<Rightarrow> string \<Rightarrow> string" where
  "debug_tuple name arg = name @ ''('' @ arg @ '')''"

fun debug_Error :: "Error \<Rightarrow> string" where
  "debug_Error InvalidInput = ''InvalidInput''"
| "debug_Error InvalidSignature = ''InvalidSignature''"
| "debug_Error ExtremelyRareErrorInputUnhashableToCurve = ''ExtremelyRareErrorInputUnhashableToCurve''"
| "debug_Error InvalidDLEQProof = ''InvalidDLEQProof''"
| "debug_Error UnknownError = ''UnknownError''"
| "debug_Error (Other s) = debug_tuple ''Other'' (debug_string s)"

fun debug_ResharingError :: "ResharingError \<Rightarrow> string" where
  "debug_ResharingError (RS_RsaError s) = debug_tuple ''RsaError'' (debug_string s)"
| "debug_ResharingError (RS_KeyGenerationFailed s) = debug_tuple ''KeyGenerationFailed'' (debug_string s)"
| "debug_ResharingError RS_PublicKeyVerificationFailed = ''PublicKeyVerificationFailed''"
| "debug_ResharingError (RS_Other s) = debug_tuple ''Other'' (debug_string s)"

fun debug_DKGError :: "DKGError \<Rightarrow> string" where
  "debug_DKGError (DKG_RsaError s) = debug_tuple ''RsaError'' (debug_string s)"
| "debug_DKGError (DKG_KeyGenerationFailed s) = debug_tuple ''KeyGenerationFailed'' (debug_string s)"
| "debug_DKGError DKG_PublicKeyVerificationFailed = ''PublicKeyVerificationFailed''"
| "debug_DKGError (DKG_Other s) = debug_tuple ''Other'' (debug_string s)"
| "debug_DKGError (DKG_ResharingError e) = debug_tuple ''ResharingError'' (debug_ResharingError e)"

datatype DKGEngineError = Custom string

fun display_DKGEngineError :: "DKGEngineError \<Rightarrow> string" where
  "display_DKGEngineError (Custom s) = ''Error occurred in election engine: '' @ s"

text \<open>A boxed error keeps the error it was made from.\<close>

datatype ActorProcessingErr =
    from_dkg DKGError
  | from_engine DKGEngineError
  | from_point Error
  | from_text string

section \<open>Node data\<close>

record ('f, 'p, 'pk, 'sk) NodeData =
  node_input_y :: "(nat, bytes) hashmap"
  node_input_v :: "(nat, 'p list) hashmap"
  other_pubshares :: "(nat, 'p) hashmap"
  inner_node :: "('f, 'p, 'pk, 'sk) Node"

datatype ('f, 'p, 'g, 'q, 'pk, 'sk) NodeDataVariant =
    Secp256k1 "('f, 'p, 'pk, 'sk) NodeData"
  | BabyJubJub "('g, 'q, 'pk, 'sk) NodeData"

record ('f, 'p, 'g, 'q, 'pk, 'sk) dkg_env =
  secp :: "('f, 'p) curve"
  bjj :: "('g, 'q) curve"
  rsa_crate :: "('pk, 'sk) rsa"
  from_pkcs1_pem :: "string \<Rightarrow> ('pk, string) outcome"
  secp_fresh :: "string \<Rightarrow> nat \<Rightarrow> 'f"
  bjj_fresh :: "string \<Rightarrow> nat \<Rightarrow> 'g"
  secp_coins :: "string \<Rightarrow> 'f \<times> (nat \<Rightarrow> 'f) \<times> (nat \<Rightarrow> nat)"
  bjj_coins :: "string \<Rightarrow> 'g \<times> (nat \<Rightarrow> 'g) \<times> (nat \<Rightarrow> nat)"
  saved_keyshares :: "PeerId \<Rightarrow> (string, bytes) hashmap option"

text \<open>The macros \<open>new_node!\<close> and \<open>restore_node_with_share!\<close>.\<close>

definition new_node ::
    "('pk, 'sk) rsa \<Rightarrow> (nat \<Rightarrow> 'f) \<Rightarrow> 'sk \<Rightarrow> nat \<Rightarrow>
      (('f, 'p::ab_group_add, 'pk, 'sk) NodeData, DKGEngineError) outcome" where
  "new_node R rnd rsa_private_key i =
    obind (map_err (\<lambda>e. Custom (''Error initializing node for DKG: '' @ debug_DKGError e))
             (with_rsa_key R rnd i rsa_private_key)) (\<lambda>n.
    Ok \<lparr> node_input_y = [], node_input_v = [], other_pubshares = [], inner_node = n \<rparr>)"

definition restore_node_with_share ::
    "('pk, 'sk) rsa \<Rightarrow> ('f, 'p::ab_group_add) curve \<Rightarrow> (nat \<Rightarrow> 'f) \<Rightarrow> 'sk \<Rightarrow> nat \<Rightarrow> bytes \<Rightarrow> bytes \<Rightarrow>
      (('f, 'p, 'pk, 'sk) NodeData, DKGEngineError) outcome" where
  "restore_node_with_share R C rnd rsa_private_key i keyshare network_pk =
    obind (map_err (\<lambda>e. Custom (''Error initializing node for resharing: '' @ debug_DKGError e))
             (with_rsa_key_and_keyshare R C rnd i rsa_private_key keyshare network_pk)) (\<lambda>n.
    Ok \<lparr> node_input_y = [], node_input_v = [], other_pubshares = [], inner_node = n \<rparr>)"

text \<open>A method of the variant runs the same code for the curve the variant holds; a method may
  change the data before it fails.\<close>

fun on_variant ::
    "(('f, 'p, 'pk, 'sk) NodeData \<Rightarrow> 'x \<times> ('f, 'p, 'pk, 'sk) NodeData) \<Rightarrow>
      (('g, 'q, 'pk, 'sk) NodeData \<Rightarrow> 'x \<times> ('g, 'q, 'pk, 'sk) NodeData) \<Rightarrow>
      ('f, 'p, 'g, 'q, 'pk, 'sk) NodeDataVariant \<Rightarrow> 'x \<times> ('f, 'p, 'g, 'q, 'pk, 'sk) NodeDataVariant" where
  "on_variant f g (NodeDataVariant.Secp256k1 nd) = (case f nd of (r, nd') \<Rightarrow> (r, NodeDataVariant.Secp256k1 nd'))"
| "on_variant f g (NodeDataVariant.BabyJubJub nd) = (case g nd of (r, nd') \<Rightarrow> (r, NodeDataVariant.BabyJubJub nd'))"

fun get_variant ::
    "(('f, 'p, 'pk, 'sk) NodeData \<Rightarrow> 'x) \<Rightarrow> (('g, 'q, 'pk, 'sk) NodeData \<Rightarrow> 'x) \<Rightarrow>
      ('f, 'p, 'g, 'q, 'pk, 'sk) NodeDataVariant \<Rightarrow> 'x" where
  "get_variant f g (NodeDataVariant.Secp256k1 nd) = f nd"
| "get_variant f g (NodeDataVariant.BabyJubJub nd) = g nd"

text \<open>\<open>encode\<close> returns bytes or panics.\<close>

definition encode_v_values :: "('f, 'p) curve \<Rightarrow> 'p list \<Rightarrow> (bytes list, 'e) outcome" where
  "encode_v_values C v_values = omap (\<lambda>v. unwrap (encode C v)) v_values"

definition own_y_value_bytes :: "('f, 'p) curve \<Rightarrow> 'f \<Rightarrow> bytes" where
  "own_y_value_bytes C own_y_value = scalar_to_bytes C own_y_value"

definition process_dkg_round_1 ::
    "('pk, 'sk) rsa \<Rightarrow> ('f::field, 'p::ab_group_add) curve \<Rightarrow> 'f \<times> (nat \<Rightarrow> 'f) \<times> (nat \<Rightarrow> nat) \<Rightarrow> 'pk Network \<Rightarrow>
      ('f, 'p, 'pk, 'sk) NodeData \<Rightarrow> (Round1Output, DKGError) outcome \<times> ('f, 'p, 'pk, 'sk) NodeData" where
  "process_dkg_round_1 R C coins net nd =
    (case coins of (ai0, draw, nonce) \<Rightarrow>
     case dkg_round_1 R C ai0 draw nonce (inner_node nd) net of
       Err e \<Rightarrow> (Err e, nd)
     | Panic \<Rightarrow> (Panic, nd)
     | Ok (encrypted_y_values, v_values, own_y_value) \<Rightarrow>
         let n = (inner_node nd)\<lparr> own_partial_share := own_y_value \<rparr> in
         case v_values of
           [] \<Rightarrow> (Panic, nd\<lparr> inner_node := n \<rparr>)
         | v0 # _ \<Rightarrow>
             (obind (encode_v_values C v_values) (\<lambda>vs.
                Ok (encrypted_y_values, vs, own_y_value_bytes C own_y_value)),
              nd\<lparr> inner_node := n\<lparr> init_pub_share := v0 \<rparr> \<rparr>))"

definition variant_dkg_round_1 ::
    "('f::field, 'p::ab_group_add, 'g::field, 'q::ab_group_add, 'pk, 'sk) dkg_env \<Rightarrow> 'pk Network \<Rightarrow> string \<Rightarrow>
      ('f, 'p, 'g, 'q, 'pk, 'sk) NodeDataVariant \<Rightarrow>
      (Round1Output, DKGError) outcome \<times> ('f, 'p, 'g, 'q, 'pk, 'sk) NodeDataVariant" where
  "variant_dkg_round_1 E net key =
    on_variant (process_dkg_round_1 (rsa_crate E) (secp E) (secp_coins E key) net)
               (process_dkg_round_1 (rsa_crate E) (bjj E) (bjj_coins E key) net)"

text \<open>A literal backslash followed by \<open>r\<close> becomes a newline.\<close>

fun replace_escaped_cr :: "string \<Rightarrow> string" where
  "replace_escaped_cr (c # d # cs) =
    (if c = CHR 0x5C \<and> d = CHR ''r'' then CHR 0x0A # replace_escaped_cr cs
     else c # replace_escaped_cr (d # cs))"
| "replace_escaped_cr cs = cs"

text \<open>\<open>collect\<close> into a map: a later entry replaces an earlier one with the same index.\<close>

definition parse_rsa_keys ::
    "('f, 'p, 'g, 'q, 'pk, 'sk) dkg_env \<Rightarrow> Provers \<Rightarrow> ((nat, 'pk) hashmap, DKGEngineError) outcome" where
  "parse_rsa_keys E elected_peers =
    ofold (\<lambda>m (pid, prover, i).
        obind (map_err (\<lambda>e. Custom (''Failed to parse RSA public key for peer '' @ pid @ '': '' @ e))
                 (from_pkcs1_pem E (replace_escaped_cr (rsa_pub_key prover)))) (\<lambda>key.
        Ok (hm_insert i key m)))
      [] elected_peers"

definition quorum_network ::
    "('f, 'p, 'g, 'q, 'pk, 'sk) dkg_env \<Rightarrow> nat \<Rightarrow> Provers \<Rightarrow> bool \<Rightarrow> ('pk Network, DKGError) outcome" where
  "quorum_network E t provers is_tstar =
    obind (map_err (\<lambda>e. DKG_Other (''Error initializing network for Resharing: '' @ debug_Error e))
             (Network_new t (length provers) is_tstar)) (\<lambda>new_network.
    obind (map_err (\<lambda>e. DKG_Other (''Error occurred while parsing pub keys for resharing, details: '' @
               display_DKGEngineError e)) (parse_rsa_keys E provers)) (\<lambda>rsa_keys_map.
    Ok (new_network\<lparr> public_keys := rsa_keys_map \<rparr>)))"

definition process_resharing_round_1 ::
    "('pk, 'sk) rsa \<Rightarrow> ('f::field, 'p::ab_group_add) curve \<Rightarrow> 'f \<times> (nat \<Rightarrow> 'f) \<times> (nat \<Rightarrow> nat) \<Rightarrow> 'pk Network \<Rightarrow>
      'pk Network \<Rightarrow> ('f, 'p, 'pk, 'sk) NodeData \<Rightarrow>
      (ResharingRound1Output, DKGError) outcome \<times> ('f, 'p, 'pk, 'sk) NodeData" where
  "process_resharing_round_1 R C coins net new_network nd =
    (obind (map_err DKG_ResharingError
              (resharing_round_1 R C (fst (snd coins)) (snd (snd coins)) (inner_node nd) net new_network))
       (\<lambda>(encrypted_y_values, v_values).
     obind (encode_v_values C v_values) (\<lambda>vs. Ok (encrypted_y_values, vs))), nd)"

definition variant_resharing_round_1 ::
    "('f::field, 'p::ab_group_add, 'g::field, 'q::ab_group_add, 'pk, 'sk) dkg_env \<Rightarrow> nat \<Rightarrow> 'pk Network \<Rightarrow> Provers \<Rightarrow>
      string \<Rightarrow> ('f, 'p, 'g, 'q, 'pk, 'sk) NodeDataVariant \<Rightarrow>
      (ResharingRound1Output, DKGError) outcome \<times> ('f, 'p, 'g, 'q, 'pk, 'sk) NodeDataVariant" where
  "variant_resharing_round_1 E t net new_provers key v =
    (case quorum_network E t new_provers False of
       Ok new_network \<Rightarrow>
         on_variant (process_resharing_round_1 (rsa_crate E) (secp E) (secp_coins E key) net new_network)
                    (process_resharing_round_1 (rsa_crate E) (bjj E) (bjj_coins E key) net new_network) v
     | Err e \<Rightarrow> (Err e, v)
     | Panic \<Rightarrow> (Panic, v))"

text \<open>Both kinds of round 1 output are registered alike; only the error for a missing share
  differs.\<close>

definition process_round_1 ::
    "string \<Rightarrow> ('f, 'p) curve \<Rightarrow> nat \<Rightarrow> nat \<Rightarrow> (nat, bytes) hashmap \<Rightarrow> bytes list \<Rightarrow>
      ('f, 'p, 'pk, 'sk) NodeData \<Rightarrow> (unit, string) outcome \<times> ('f, 'p, 'pk, 'sk) NodeData" where
  "process_round_1 missing C my_node_id other_node_idx y_values encoded_v nd =
    (case omap (\<lambda>x. map_err (\<lambda>_. ''Error decoding points'') (from_encoded C x)) encoded_v of
       Err e \<Rightarrow> (Err e, nd)
     | Panic \<Rightarrow> (Panic, nd)
     | Ok v_values \<Rightarrow>
         case hm_get my_node_id y_values of
           None \<Rightarrow> (Err missing, nd)
         | Some y_value \<Rightarrow>
             (Ok (), nd\<lparr> node_input_y := hm_insert other_node_idx y_value (node_input_y nd),
                         node_input_v := hm_insert other_node_idx v_values (node_input_v nd) \<rparr>))"

definition register_round_1_result_from_other_node ::
    "('f, 'p, 'g, 'q, 'pk, 'sk) dkg_env \<Rightarrow> nat \<Rightarrow> nat \<Rightarrow> Round1Output \<Rightarrow> ('f, 'p, 'g, 'q, 'pk, 'sk) NodeDataVariant \<Rightarrow>
      (unit, string) outcome \<times> ('f, 'p, 'g, 'q, 'pk, 'sk) NodeDataVariant" where
  "register_round_1_result_from_other_node E my_node_id other_node_idx out =
    (case out of (ys, vs, _) \<Rightarrow>
     let missing = ''Error finding round 1 output for node'' in
     on_variant (process_round_1 missing (secp E) my_node_id other_node_idx ys vs)
                (process_round_1 missing (bjj E) my_node_id other_node_idx ys vs))"

definition register_resharing_round_1_result_from_other_node ::
    "('f, 'p, 'g, 'q, 'pk, 'sk) dkg_env \<Rightarrow> nat \<Rightarrow> nat \<Rightarrow> ResharingRound1Output \<Rightarrow>
      ('f, 'p, 'g, 'q, 'pk, 'sk) NodeDataVariant \<Rightarrow>
      (unit, string) outcome \<times> ('f, 'p, 'g, 'q, 'pk, 'sk) NodeDataVariant" where
  "register_resharing_round_1_result_from_other_node E my_node_id other_node_idx out =
    (case out of (ys, vs) \<Rightarrow>
     let missing = ''Error finding resharing round 1 output for node from node '' @ dec other_node_idx @
           '', my node id '' @ dec my_node_id in
     on_variant (process_round_1 missing (secp E) my_node_id other_node_idx ys vs)
                (process_round_1 missing (bjj E) my_node_id other_node_idx ys vs))"

definition process_dkg_round_2 ::
    "('pk, 'sk) rsa \<Rightarrow> ('f::field, 'p::ab_group_add) curve \<Rightarrow> 'pk Network \<Rightarrow> ('f, 'p, 'pk, 'sk) NodeData \<Rightarrow>
      (bytes, DKGError) outcome \<times> ('f, 'p, 'pk, 'sk) NodeData" where
  "process_dkg_round_2 R C net nd =
    (case dkg_round_2 R C (inner_node nd) net (node_input_y nd) (node_input_v nd) of
       Err e \<Rightarrow> (Err e, nd)
     | Panic \<Rightarrow> (Panic, nd)
     | Ok (priv_share, pub_share, npk) \<Rightarrow>
         (unwrap (encode C pub_share),
          nd\<lparr> inner_node := (inner_node nd)\<lparr> private_share := priv_share, network_pubkey := npk \<rparr>,
              other_pubshares := hm_insert (node_id (inner_node nd)) pub_share (other_pubshares nd) \<rparr>))"

definition variant_dkg_round_2 ::
    "('f::field, 'p::ab_group_add, 'g::field, 'q::ab_group_add, 'pk, 'sk) dkg_env \<Rightarrow> 'pk Network \<Rightarrow>
      ('f, 'p, 'g, 'q, 'pk, 'sk) NodeDataVariant \<Rightarrow>
      (bytes, DKGError) outcome \<times> ('f, 'p, 'g, 'q, 'pk, 'sk) NodeDataVariant" where
  "variant_dkg_round_2 E net =
    on_variant (process_dkg_round_2 (rsa_crate E) (secp E) net) (process_dkg_round_2 (rsa_crate E) (bjj E) net)"

text \<open>The group key is decoded first; \<open>kind\<close> is the text of the error for the curve.\<close>

definition process_resharing_round_2 ::
    "('pk, 'sk) rsa \<Rightarrow> ('f::field, 'p::ab_group_add) curve \<Rightarrow> string \<Rightarrow> 'pk Network \<Rightarrow> 'pk Network \<Rightarrow> bytes \<Rightarrow>
      ('f, 'p, 'pk, 'sk) NodeData \<Rightarrow> (bytes, DKGError) outcome \<times> ('f, 'p, 'pk, 'sk) NodeData" where
  "process_resharing_round_2 R C kind tstar_network new_network k_dkg nd =
    (case obind (map_err (\<lambda>e. DKG_Other (''Error encoding group public key to '' @ kind @ '' point: '' @ show_Error e))
                   (from_encoded C k_dkg)) (\<lambda>K.
          map_err DKG_ResharingError
            (resharing_round_2 R C (inner_node nd) tstar_network new_network (node_input_y nd) (node_input_v nd) K)) of
       Err e \<Rightarrow> (Err e, nd)
     | Panic \<Rightarrow> (Panic, nd)
     | Ok (priv_share, pub_share, npk) \<Rightarrow>
         (unwrap (encode C pub_share),
          nd\<lparr> inner_node := (inner_node nd)\<lparr> private_share := priv_share, network_pubkey := npk \<rparr>,
              other_pubshares := hm_insert (node_id (inner_node nd)) pub_share (other_pubshares nd) \<rparr>))"

definition variant_resharing_round_2 ::
    "('f::field, 'p::ab_group_add, 'g::field, 'q::ab_group_add, 'pk, 'sk) dkg_env \<Rightarrow> 'pk Network \<Rightarrow> 'pk Network \<Rightarrow>
      bytes \<Rightarrow> ('f, 'p, 'g, 'q, 'pk, 'sk) NodeDataVariant \<Rightarrow>
      (bytes, DKGError) outcome \<times> ('f, 'p, 'g, 'q, 'pk, 'sk) NodeDataVariant" where
  "variant_resharing_round_2 E tstar_network new_network k_dkg =
    on_variant (process_resharing_round_2 (rsa_crate E) (secp E) ''affine'' tstar_network new_network k_dkg)
               (process_resharing_round_2 (rsa_crate E) (bjj E) ''edwards affine'' tstar_network new_network k_dkg)"

definition process_round_3 ::
    "('f::field, 'p::ab_group_add) curve \<Rightarrow> 'pk Network \<Rightarrow> bool \<Rightarrow> bool \<Rightarrow> ('f, 'p, 'pk, 'sk) NodeData \<Rightarrow>
      (unit, DKGError) outcome" where
  "process_round_3 C net is_resharing is_elected nd =
    obind (if is_resharing \<and> is_elected
           then map_err DKG_ResharingError (resharing_round_3 C (inner_node nd) net (other_pubshares nd))
           else dkg_round_3 C (inner_node nd) net (other_pubshares nd)) (\<lambda>_. Ok ())"

definition process_store_pubshare ::
    "('f, 'p) curve \<Rightarrow> nat \<Rightarrow> bytes \<Rightarrow> ('f, 'p, 'pk, 'sk) NodeData \<Rightarrow>
      (unit, Error) outcome \<times> ('f, 'p, 'pk, 'sk) NodeData" where
  "process_store_pubshare C i pubshare nd =
    (case from_encoded C pubshare of
       Err e \<Rightarrow> (Err e, nd)
     | Panic \<Rightarrow> (Panic, nd)
     | Ok point \<Rightarrow> (Ok (), nd\<lparr> other_pubshares := hm_insert i point (other_pubshares nd) \<rparr>))"

definition store_pubshare_for_node ::
    "('f, 'p, 'g, 'q, 'pk, 'sk) dkg_env \<Rightarrow> nat \<Rightarrow> bytes \<Rightarrow> ('f, 'p, 'g, 'q, 'pk, 'sk) NodeDataVariant \<Rightarrow>
      (unit, Error) outcome \<times> ('f, 'p, 'g, 'q, 'pk, 'sk) NodeDataVariant" where
  "store_pubshare_for_node E i pubshare =
    on_variant (process_store_pubshare (secp E) i pubshare) (process_store_pubshare (bjj E) i pubshare)"

definition get_priv_share ::
    "('f, 'p, 'g, 'q, 'pk, 'sk) dkg_env \<Rightarrow> ('f, 'p, 'g, 'q, 'pk, 'sk) NodeDataVariant \<Rightarrow> bytes" where
  "get_priv_share E =
    get_variant (\<lambda>nd. scalar_to_bytes (secp E) (private_share (inner_node nd)))
                (\<lambda>nd. scalar_to_bytes (bjj E) (private_share (inner_node nd)))"

definition get_pub_share ::
    "('f, 'p, 'g, 'q, 'pk, 'sk) dkg_env \<Rightarrow> ('f, 'p, 'g, 'q, 'pk, 'sk) NodeDataVariant \<Rightarrow> (bytes, 'e) outcome" where
  "get_pub_share E =
    get_variant
      (\<lambda>nd. unwrap (encode (secp E)
         (scalar_mul (secp E) (base_point_or_generator (secp E)) (private_share (inner_node nd)))))
      (\<lambda>nd. unwrap (encode (bjj E)
         (scalar_mul (bjj E) (base_point_or_generator (bjj E)) (private_share (inner_node nd)))))"

definition get_no_of_inputs :: "('f, 'p, 'g, 'q, 'pk, 'sk) NodeDataVariant \<Rightarrow> nat \<times> nat" where
  "get_no_of_inputs =
    get_variant (\<lambda>nd. (length (node_input_v nd), length (node_input_y nd)))
                (\<lambda>nd. (length (node_input_v nd), length (node_input_y nd)))"

definition clear_inputs ::
    "('f, 'p, 'g, 'q, 'pk, 'sk) NodeDataVariant \<Rightarrow> ('f, 'p, 'g, 'q, 'pk, 'sk) NodeDataVariant" where
  "clear_inputs v =
    snd (on_variant
      (\<lambda>nd. ((), nd\<lparr> node_input_y := [], node_input_v := [], other_pubshares := [] \<rparr>))
      (\<lambda>nd. ((), nd\<lparr> node_input_y := [], node_input_v := [], other_pubshares := [] \<rparr>)) v)"

definition get_received_y_v_from :: "('f, 'p, 'g, 'q, 'pk, 'sk) NodeDataVariant \<Rightarrow> nat set" where
  "get_received_y_v_from =
    get_variant (\<lambda>nd. set (hm_keys (node_input_v nd)) \<union> set (hm_keys (node_input_y nd)))
                (\<lambda>nd. set (hm_keys (node_input_v nd)) \<union> set (hm_keys (node_input_y nd)))"

definition get_no_of_other_pub_shares :: "('f, 'p, 'g, 'q, 'pk, 'sk) NodeDataVariant \<Rightarrow> nat" where
  "get_no_of_other_pub_shares =
    get_variant (\<lambda>nd. length (other_pubshares nd)) (\<lambda>nd. length (other_pubshares nd))"

definition pub_shares_received_from :: "('f, 'p, 'g, 'q, 'pk, 'sk) NodeDataVariant \<Rightarrow> nat set" where
  "pub_shares_received_from =
    get_variant (\<lambda>nd. set (hm_keys (other_pubshares nd))) (\<lambda>nd. set (hm_keys (other_pubshares nd)))"

definition get_node_type :: "('f, 'p, 'g, 'q, 'pk, 'sk) NodeDataVariant \<Rightarrow> string" where
  "get_node_type = get_variant (\<lambda>_. ''Secp256k1'') (\<lambda>_. ''BabyJubJub'')"

definition get_network_pubkey ::
    "('f, 'p, 'g, 'q, 'pk, 'sk) dkg_env \<Rightarrow> ('f, 'p, 'g, 'q, 'pk, 'sk) NodeDataVariant \<Rightarrow> (bytes, 'e) outcome" where
  "get_network_pubkey E =
    get_variant (\<lambda>nd. unwrap (encode (secp E) (network_pubkey (inner_node nd))))
                (\<lambda>nd. unwrap (encode (bjj E) (network_pubkey (inner_node nd))))"

section \<open>The engine's state\<close>

record 'sk ResharingInitContext =
  init_rsa_private_key :: 'sk
  init_election_info :: ElectionInfo
  node_peer_id :: PeerId
  init_group_keys :: "(string, bytes) hashmap"

record ('f, 'p, 'g, 'q, 'pk, 'sk) DKGEngineState =
  engine_idx :: nat
  engine_peer_id :: PeerId
  engine_network :: "'pk Network"
  dkg_nodes :: "(string, ('f, 'p, 'g, 'q, 'pk, 'sk) NodeDataVariant) hashmap"
  engine_tstar_provers :: Provers
  new_provers :: Provers
  engine_election_info :: ElectionInfo
  finalized_group_public_keys :: "(string, bytes) hashmap"
  resharing_round2_triggered :: bool
  resharing_round1_context :: "'sk ResharingInitContext option"

text \<open>The four nodes are inserted into an empty map.\<close>

definition dkg_init ::
    "('f, 'p::ab_group_add, 'g, 'q::ab_group_add, 'pk, 'sk) dkg_env \<Rightarrow> PeerId \<Rightarrow> nat \<Rightarrow> 'sk \<Rightarrow> Provers \<Rightarrow> nat \<Rightarrow>
      (('f, 'p, 'g, 'q, 'pk, 'sk) DKGEngineState, DKGEngineError) outcome" where
  "dkg_init E pid i rsa_private_key elected_peers t =
    (let R = rsa_crate E;
         secp_node = (\<lambda>k. obind (new_node R (secp_fresh E k) rsa_private_key i) (\<lambda>nd.
           Ok (k, NodeDataVariant.Secp256k1 nd)));
         bjj_node = (\<lambda>k. obind (new_node R (bjj_fresh E k) rsa_private_key i) (\<lambda>nd.
           Ok (k, NodeDataVariant.BabyJubJub nd))) in
     obind (secp_node ''OPRFSecp256k1'') (\<lambda>n1.
     obind (bjj_node ''OPRFBabyJubJub'') (\<lambda>n2.
     obind (secp_node ''JWTPRFSecp256k1'') (\<lambda>n3.
     obind (bjj_node ''DecryptBabyJubjub'') (\<lambda>n4.
     obind (map_err (\<lambda>e. Custom (''Error initializing network for DKG: '' @ debug_Error e))
              (Network_new t (length elected_peers) False)) (\<lambda>net.
     obind (parse_rsa_keys E elected_peers) (\<lambda>rsa_keys_map.
     Ok \<lparr> engine_idx = i, engine_peer_id = pid, engine_network = net\<lparr> public_keys := rsa_keys_map \<rparr>,
          dkg_nodes = [n1, n2, n3, n4], engine_tstar_provers = [], new_provers = elected_peers,
          engine_election_info = ElectionInfo_new 0 0 0, finalized_group_public_keys = [],
          resharing_round2_triggered = False, resharing_round1_context = None \<rparr>)))))))"

definition restore_old_resharing_state ::
    "('f, 'p::ab_group_add, 'g, 'q::ab_group_add, 'pk, 'sk) dkg_env \<Rightarrow> PeerId \<Rightarrow> nat \<Rightarrow> 'sk \<Rightarrow> Provers \<Rightarrow> nat \<Rightarrow>
      (string, bytes) hashmap \<Rightarrow> Provers \<Rightarrow> (string, bytes) hashmap \<Rightarrow>
      (('f, 'p, 'g, 'q, 'pk, 'sk) DKGEngineState, DKGEngineError) outcome" where
  "restore_old_resharing_state E pid i rsa_private_key elected_peers t private_keyshares tstar group_keys =
    (let R = rsa_crate E;
         share = (\<lambda>k. ok_or (Custom (''Missing private key share for '' @ k)) (hm_get k private_keyshares));
         group_key = (\<lambda>k. ok_or (Custom (''Missing group key for '' @ k)) (hm_get k group_keys));
         secp_node = (\<lambda>k s K. obind (restore_node_with_share R (secp E) (secp_fresh E k) rsa_private_key i s K)
           (\<lambda>nd. Ok (k, NodeDataVariant.Secp256k1 nd)));
         bjj_node = (\<lambda>k s K. obind (restore_node_with_share R (bjj E) (bjj_fresh E k) rsa_private_key i s K)
           (\<lambda>nd. Ok (k, NodeDataVariant.BabyJubJub nd))) in
     obind (share ''OPRFSecp256k1'') (\<lambda>s1.
     obind (share ''OPRFBabyJubJub'') (\<lambda>s2.
     obind (share ''JWTPRFSecp256k1'') (\<lambda>s3.
     obind (share ''DecryptBabyJubjub'') (\<lambda>s4.
     obind (group_key ''OPRFSecp256k1'') (\<lambda>K1.
     obind (group_key ''OPRFBabyJubJub'') (\<lambda>K2.
     obind (group_key ''JWTPRFSecp256k1'') (\<lambda>K3.
     obind (group_key ''DecryptBabyJubjub'') (\<lambda>K4.
     obind (secp_node ''OPRFSecp256k1'' s1 K1) (\<lambda>n1.
     obind (bjj_node ''OPRFBabyJubJub'' s2 K2) (\<lambda>n2.
     obind (secp_node ''JWTPRFSecp256k1'' s3 K3) (\<lambda>n3.
     obind (bjj_node ''DecryptBabyJubjub'' s4 K4) (\<lambda>n4.
     obind (map_err (\<lambda>e. Custom (''Failed to initialize network for DKG: '' @ debug_Error e))
              (Network_new t (length elected_peers) False)) (\<lambda>net.
     obind (parse_rsa_keys E elected_peers) (\<lambda>rsa_keys_map.
     Ok \<lparr> engine_idx = i, engine_peer_id = pid, engine_network = net\<lparr> public_keys := rsa_keys_map \<rparr>,
          dkg_nodes = [n1, n2, n3, n4], engine_tstar_provers = tstar, new_provers = elected_peers,
          engine_election_info = ElectionInfo_new t (as_u32 (length elected_peers)) 1,
          finalized_group_public_keys = group_keys, resharing_round2_triggered = False,
          resharing_round1_context = None \<rparr>)))))))))))))))"

section \<open>Loops over the nodes\<close>

text \<open>A loop with \<open>iter_mut\<close> whose body may leave the function: the nodes seen so far keep their
  changes, and the results are collected under the keys.\<close>

fun for_nodes ::
    "(string \<Rightarrow> 'v \<Rightarrow> ('a, 'e) outcome \<times> 'v) \<Rightarrow> (string, 'v) hashmap \<Rightarrow>
      ((string, 'a) hashmap, 'e) outcome \<times> (string, 'v) hashmap" where
  "for_nodes f [] = (Ok [], [])"
| "for_nodes f ((key, v) # nodes) =
    (case f key v of
       (Ok a, v') \<Rightarrow> (case for_nodes f nodes of (r, nodes') \<Rightarrow> (obind r (\<lambda>m. Ok ((key, a) # m)), (key, v') # nodes'))
     | (Err e, v') \<Rightarrow> (Err e, (key, v') # nodes)
     | (Panic, v') \<Rightarrow> (Panic, (key, v') # nodes))"

text \<open>A loop over the entries of a message that updates the node of each entry's key, if there
  is one.\<close>

fun for_entries ::
    "(string \<Rightarrow> 'a \<Rightarrow> 'v \<Rightarrow> (unit, 'e) outcome \<times> 'v) \<Rightarrow> (string, 'a) hashmap \<Rightarrow> (string, 'v) hashmap \<Rightarrow>
      (unit, 'e) outcome \<times> (string, 'v) hashmap" where
  "for_entries f [] nodes = (Ok (), nodes)"
| "for_entries f ((key, a) # es) nodes =
    (case hm_get key nodes of
       None \<Rightarrow> for_entries f es nodes
     | Some v \<Rightarrow>
         (case f key a v of
            (Ok _, v') \<Rightarrow> for_entries f es (hm_insert key v' nodes)
          | (Err e, v') \<Rightarrow> (Err e, hm_insert key v' nodes)
          | (Panic, v') \<Rightarrow> (Panic, hm_insert key v' nodes)))"

text \<open>An error that is only logged.\<close>

fun logged :: "(unit, 'd) outcome \<times> 'v \<Rightarrow> (unit, 'e) outcome \<times> 'v" where
  "logged (Panic, v) = (Panic, v)"
| "logged (_, v) = (Ok (), v)"

definition run_round ::
    "(string \<Rightarrow> ('f, 'p, 'g, 'q, 'pk, 'sk) NodeDataVariant \<Rightarrow>
       ('a, DKGError) outcome \<times> ('f, 'p, 'g, 'q, 'pk, 'sk) NodeDataVariant) \<Rightarrow>
      ('f, 'p, 'g, 'q, 'pk, 'sk) DKGEngineState \<Rightarrow>
      ((string, 'a) hashmap, DKGError) outcome \<times> ('f, 'p, 'g, 'q, 'pk, 'sk) DKGEngineState" where
  "run_round output_fn s =
    (case for_nodes output_fn (dkg_nodes s) of (r, nodes) \<Rightarrow> (r, s\<lparr> dkg_nodes := nodes \<rparr>))"

definition round1 ::
    "('f::field, 'p::ab_group_add, 'g::field, 'q::ab_group_add, 'pk, 'sk) dkg_env \<Rightarrow>
      ('f, 'p, 'g, 'q, 'pk, 'sk) DKGEngineState \<Rightarrow>
      (Round1Outputs, DKGError) outcome \<times> ('f, 'p, 'g, 'q, 'pk, 'sk) DKGEngineState" where
  "round1 E s = run_round (variant_dkg_round_1 E (engine_network s)) s"

definition resharing_round1 ::
    "('f::field, 'p::ab_group_add, 'g::field, 'q::ab_group_add, 'pk, 'sk) dkg_env \<Rightarrow> ElectionInfo \<Rightarrow>
      ('f, 'p, 'g, 'q, 'pk, 'sk) DKGEngineState \<Rightarrow>
      (ResharingRound1Outputs, DKGError) outcome \<times> ('f, 'p, 'g, 'q, 'pk, 'sk) DKGEngineState" where
  "resharing_round1 E info s =
    (case quorum_network E (threshold info) (engine_tstar_provers s) True of
       Ok tstar_network \<Rightarrow>
         run_round (variant_resharing_round_1 E (threshold info) tstar_network (new_provers s)) s
     | Err e \<Rightarrow> (Err e, s)
     | Panic \<Rightarrow> (Panic, s))"

section \<open>The actor\<close>

text \<open>The state is \<open>None\<close> until the node takes part in an election. \<open>engine_casts\<close> lists the messages
  cast so far; \<open>api_token_used\<close> is \<open>API_TOKEN.used\<close>.\<close>

record ('f, 'p, 'g, 'q, 'pk, 'sk, 'r) dkg_actor =
  actor_key :: 'sk
  engine_state :: "('f, 'p, 'g, 'q, 'pk, 'sk) DKGEngineState option"
  engine_casts :: "('f, 'p, 'g, 'q, 'r) cast list"
  api_token_used :: bool

type_synonym ('f, 'p, 'g, 'q, 'pk, 'sk, 'r) handled =
  "(unit, ActorProcessingErr) outcome \<times> ('f, 'p, 'g, 'q, 'pk, 'sk, 'r) dkg_actor"

definition dkg_pre_start :: "'sk \<Rightarrow> bool \<Rightarrow> ('f, 'p, 'g, 'q, 'pk, 'sk, 'r) dkg_actor" where
  "dkg_pre_start sk used =
    \<lparr> actor_key = sk, engine_state = None, engine_casts = [], api_token_used = used \<rparr>"

definition engine_cast ::
    "('f, 'p, 'g, 'q, 'r) cast \<Rightarrow> ('f, 'p, 'g, 'q, 'pk, 'sk, 'r) dkg_actor \<Rightarrow>
      ('f, 'p, 'g, 'q, 'pk, 'sk, 'r) dkg_actor" where
  "engine_cast c a = a\<lparr> engine_casts := engine_casts a @ [c] \<rparr>"

definition engine_gossip ::
    "Message \<Rightarrow> ('f, 'p, 'g, 'q, 'pk, 'sk, 'r) dkg_actor \<Rightarrow> ('f, 'p, 'g, 'q, 'pk, 'sk, 'r) dkg_actor" where
  "engine_gossip m = engine_cast (ToGossip (Gossip m NETWORK_TOPIC))"

definition set_engine ::
    "('f, 'p, 'g, 'q, 'pk, 'sk) DKGEngineState \<Rightarrow> ('f, 'p, 'g, 'q, 'pk, 'sk, 'r) dkg_actor \<Rightarrow>
      ('f, 'p, 'g, 'q, 'pk, 'sk, 'r) dkg_actor" where
  "set_engine s a = a\<lparr> engine_state := Some s \<rparr>"

definition handle_dkg_init ::
    "('f, 'p::ab_group_add, 'g, 'q::ab_group_add, 'pk, 'sk) dkg_env \<Rightarrow> nat \<Rightarrow> PeerId \<Rightarrow> Provers \<Rightarrow> nat \<Rightarrow>
      ('f, 'p, 'g, 'q, 'pk, 'sk, 'r) dkg_actor \<Rightarrow> ('f, 'p, 'g, 'q, 'pk, 'sk, 'r) handled" where
  "handle_dkg_init E i pid elected t a =
    carry (dkg_init E pid i (actor_key a) elected t) from_engine a (\<lambda>s.
      (Ok (), engine_gossip (DKGInitCompleted pid) (set_engine s a)))"

text \<open>The second and third parts of the handler of \<open>ResharingInit\<close>: a node that has a state, and a
  node of the new quorum that has none. \<open>net\<close> is the network made for the old quorum.\<close>

definition resharing_init_known ::
    "('f, 'p, 'g, 'q, 'pk, 'sk) dkg_env \<Rightarrow> 'sk ResharingInitContext \<Rightarrow> Provers \<Rightarrow> Provers \<Rightarrow> 'pk Network \<Rightarrow>
      ('f, 'p, 'g, 'q, 'pk, 'sk) DKGEngineState \<Rightarrow> ('f, 'p, 'g, 'q, 'pk, 'sk, 'r) dkg_actor \<Rightarrow>
      ('f, 'p, 'g, 'q, 'pk, 'sk, 'r) handled" where
  "resharing_init_known E ctx tstar newp net s0 a =
    (let s = s0\<lparr> resharing_round2_triggered := False, resharing_round1_context := None,
                 dkg_nodes := map (\<lambda>(k, v). (k, clear_inputs v)) (dkg_nodes s0) \<rparr>;
         finish = (\<lambda>s. s\<lparr> engine_tstar_provers := tstar, new_provers := newp,
                           engine_election_info := init_election_info ctx,
                           finalized_group_public_keys := init_group_keys ctx \<rparr>) in
     if hm_contains (engine_peer_id s) tstar then
       carry (parse_rsa_keys E tstar) from_engine (set_engine s a) (\<lambda>rsa_keys_map.
         (Ok (), engine_gossip (ResharingInitCompleted (engine_peer_id s))
            (set_engine (finish (s\<lparr> engine_network := net\<lparr> public_keys := rsa_keys_map \<rparr>,
                                    resharing_round1_context := Some ctx \<rparr>)) a)))
     else if hm_contains (engine_peer_id s) newp then
       (Ok (), engine_gossip (ResharingInitCompleted (engine_peer_id s)) (set_engine (finish s) a))
     else (Ok (), set_engine (finish s) a))"

definition resharing_init_new ::
    "('f, 'p::ab_group_add, 'g, 'q::ab_group_add, 'pk, 'sk) dkg_env \<Rightarrow> 'sk ResharingInitContext \<Rightarrow> nat \<Rightarrow> Provers \<Rightarrow>
      Provers \<Rightarrow> ('f, 'p, 'g, 'q, 'pk, 'sk, 'r) dkg_actor \<Rightarrow> ('f, 'p, 'g, 'q, 'pk, 'sk, 'r) handled" where
  "resharing_init_new E ctx i tstar newp a =
    (let info = init_election_info ctx in
     carry (dkg_init E (node_peer_id ctx) i (init_rsa_private_key ctx) newp (threshold info)) from_engine a (\<lambda>s.
     carry (Network_new (threshold info) (length newp) False)
       (\<lambda>e. from_engine (Custom (''Failed to initialize network for resharing: '' @ debug_Error e)))
       (set_engine s a) (\<lambda>net.
     (Ok (), engine_gossip (ResharingInitCompleted (engine_peer_id s))
        (set_engine (s\<lparr> engine_tstar_provers := tstar, new_provers := newp, engine_election_info := info,
            engine_network := net, finalized_group_public_keys := init_group_keys ctx,
            dkg_nodes := map (\<lambda>(k, v). (k, clear_inputs v)) (dkg_nodes s) \<rparr>) a)))))"

definition handle_resharing_init ::
    "('f, 'p::ab_group_add, 'g, 'q::ab_group_add, 'pk, 'sk) dkg_env \<Rightarrow> 'sk ResharingInitContext \<Rightarrow> nat \<Rightarrow> Provers \<Rightarrow>
      Provers \<Rightarrow> ('f, 'p, 'g, 'q, 'pk, 'sk, 'r) dkg_actor \<Rightarrow> ('f, 'p, 'g, 'q, 'pk, 'sk, 'r) handled" where
  "handle_resharing_init E ctx i tstar newp a =
    (let info = init_election_info ctx; pid = node_peer_id ctx in
     carry (Network_new (threshold info) (length tstar) True)
       (\<lambda>e. from_engine (Custom (''Failed to initialize network for resharing: '' @ debug_Error e))) a (\<lambda>net.
     case engine_state a of
       Some s \<Rightarrow> resharing_init_known E ctx tstar newp net s a
     | None \<Rightarrow>
         if hm_contains pid tstar then
           carry (restore_old_resharing_state E pid i (init_rsa_private_key ctx) newp (threshold info)
                    (case saved_keyshares E pid of Some m \<Rightarrow> m | None \<Rightarrow> []) tstar (init_group_keys ctx))
             from_engine a (\<lambda>s. resharing_init_known E ctx tstar newp net s (set_engine s a))
         else if hm_contains pid newp then resharing_init_new E ctx i tstar newp a
         else (Ok (), a)))"

text \<open>The five handlers of the start messages that ask for a member of the new quorum.\<close>

definition start_round ::
    "DkgEngineMessage \<Rightarrow> ('f, 'p, 'g, 'q, 'pk, 'sk, 'r) dkg_actor \<Rightarrow> ('f, 'p, 'g, 'q, 'pk, 'sk, 'r) handled" where
  "start_round m a =
    (case engine_state a of
       None \<Rightarrow> (Ok (), a)
     | Some s \<Rightarrow>
         if hm_contains (engine_peer_id s) (new_provers s) then (Ok (), engine_cast (ToDkg m) a) else (Ok (), a))"

definition handle_start_dkg_round_1 ::
    "('f, 'p, 'g, 'q, 'pk, 'sk, 'r) dkg_actor \<Rightarrow> ('f, 'p, 'g, 'q, 'pk, 'sk, 'r) handled" where
  "handle_start_dkg_round_1 = start_round DkgEngineMessage.Round1"

definition handle_start_dkg_round_2 ::
    "('f, 'p, 'g, 'q, 'pk, 'sk, 'r) dkg_actor \<Rightarrow> ('f, 'p, 'g, 'q, 'pk, 'sk, 'r) handled" where
  "handle_start_dkg_round_2 = start_round DkgEngineMessage.Round2"

definition handle_start_dkg_round_3 ::
    "('f, 'p, 'g, 'q, 'pk, 'sk, 'r) dkg_actor \<Rightarrow> ('f, 'p, 'g, 'q, 'pk, 'sk, 'r) handled" where
  "handle_start_dkg_round_3 = start_round DkgEngineMessage.Round3"

definition handle_start_resharing_round_2 ::
    "('f, 'p, 'g, 'q, 'pk, 'sk, 'r) dkg_actor \<Rightarrow> ('f, 'p, 'g, 'q, 'pk, 'sk, 'r) handled" where
  "handle_start_resharing_round_2 = start_round DkgEngineMessage.ResharingRound2"

definition handle_start_resharing_round_3 ::
    "('f, 'p, 'g, 'q, 'pk, 'sk, 'r) dkg_actor \<Rightarrow> ('f, 'p, 'g, 'q, 'pk, 'sk, 'r) handled" where
  "handle_start_resharing_round_3 = start_round DkgEngineMessage.ResharingRound3"

definition handle_start_resharing_round_1 ::
    "('f, 'p, 'g, 'q, 'pk, 'sk, 'r) dkg_actor \<Rightarrow> ('f, 'p, 'g, 'q, 'pk, 'sk, 'r) handled" where
  "handle_start_resharing_round_1 a =
    (case engine_state a of
       None \<Rightarrow> (Ok (), a)
     | Some s \<Rightarrow>
         if hm_contains (engine_peer_id s) (engine_tstar_provers s) then
           (case resharing_round1_context s of
              Some ctx \<Rightarrow>
                (Ok (), engine_cast (ToDkg (DkgEngineMessage.ResharingRound1 (init_election_info ctx)
                   (hm_contains (node_peer_id ctx) (new_provers s)))) a)
            | None \<Rightarrow> (Ok (), a))
         else (Ok (), a))"

section \<open>Readiness\<close>

text \<open>The tests that end the rounds.\<close>

definition dkg_round1_ready :: "('f, 'p, 'g, 'q, 'pk, 'sk) DKGEngineState \<Rightarrow> bool" where
  "dkg_round1_ready s =
    list_all (\<lambda>(key, v). case get_no_of_inputs v of (i, j) \<Rightarrow>
        i = sub_u64 (total_nodes (engine_network s)) 1 \<and> j = sub_u64 (total_nodes (engine_network s)) 1)
      (dkg_nodes s)"

definition resharing_round1_ready :: "('f, 'p, 'g, 'q, 'pk, 'sk) DKGEngineState \<Rightarrow> bool" where
  "resharing_round1_ready s =
    list_all (\<lambda>(key, v). case get_no_of_inputs v of (i, j) \<Rightarrow>
        i = length (engine_tstar_provers s) \<and> j = length (engine_tstar_provers s) \<and>
        hm_contains (engine_peer_id s) (new_provers s))
      (dkg_nodes s)"

definition pubshares_ready :: "nat \<Rightarrow> ('f, 'p, 'g, 'q, 'pk, 'sk) DKGEngineState \<Rightarrow> bool" where
  "pubshares_ready required s =
    list_all (\<lambda>(key, v). get_no_of_other_pub_shares v = required) (dkg_nodes s)"

text \<open>\<open>state.new_provers.iter().any(..)\<close>: the sender's index belongs to the new quorum.\<close>

definition valid_node :: "nat \<Rightarrow> ('f, 'p, 'g, 'q, 'pk, 'sk) DKGEngineState \<Rightarrow> bool" where
  "valid_node i s = list_ex (\<lambda>(_, _, node_idx). node_idx = i) (new_provers s)"

section \<open>Round 1\<close>

definition handle_round1 ::
    "('f::field, 'p::ab_group_add, 'g::field, 'q::ab_group_add, 'pk, 'sk) dkg_env \<Rightarrow>
      ('f, 'p, 'g, 'q, 'pk, 'sk, 'r) dkg_actor \<Rightarrow> ('f, 'p, 'g, 'q, 'pk, 'sk, 'r) handled" where
  "handle_round1 E a =
    (case engine_state a of
       None \<Rightarrow> (Ok (), a)
     | Some s \<Rightarrow>
         (case round1 E s of
            (Ok round1_output, s') \<Rightarrow>
              let a' = engine_gossip (Message.Round1Out (engine_idx s') round1_output) (set_engine s' a) in
              (Ok (), if dkg_round1_ready s' then engine_gossip (DKGRound1Completed (engine_peer_id s')) a' else a')
          | (Err _, s') \<Rightarrow> (Ok (), set_engine s' a)
          | (Panic, s') \<Rightarrow> (Panic, set_engine s' a)))"

text \<open>A node that stays in the quorum registers its own output; an error leaves the handler.\<close>

definition process_own_output ::
    "string \<Rightarrow> ('f, 'p) curve \<Rightarrow> nat \<Rightarrow> ResharingRound1Output \<Rightarrow> ('f, 'p, 'pk, 'sk) NodeData \<Rightarrow>
      (unit, string) outcome \<times> ('f, 'p, 'pk, 'sk) NodeData" where
  "process_own_output kind C i outputs nd =
    carry (ok_or (''Missing resharing Round 1 output for index '' @ dec i) (hm_get i (fst outputs))) (\<lambda>e. e) nd
      (\<lambda>resharing_output.
    carry (omap (\<lambda>x. map_err (\<lambda>_. ''Error decoding '' @ kind @ '' points'') (from_encoded C x)) (snd outputs))
      (\<lambda>e. e) nd (\<lambda>v_values.
    (Ok (), nd\<lparr> node_input_y := hm_insert i resharing_output (node_input_y nd),
                node_input_v := hm_insert i v_values (node_input_v nd) \<rparr>)))"

definition register_own_output ::
    "('f, 'p, 'g, 'q, 'pk, 'sk) dkg_env \<Rightarrow> nat \<Rightarrow> ResharingRound1Output \<Rightarrow> ('f, 'p, 'g, 'q, 'pk, 'sk) NodeDataVariant \<Rightarrow>
      (unit, string) outcome \<times> ('f, 'p, 'g, 'q, 'pk, 'sk) NodeDataVariant" where
  "register_own_output E i outputs =
    on_variant (process_own_output ''Secp256k1'' (secp E) i outputs) (process_own_output ''BabyJubJub'' (bjj E) i outputs)"

definition finish_resharing_round1 ::
    "('f, 'p, 'g, 'q, 'pk, 'sk) DKGEngineState \<Rightarrow> ('f, 'p, 'g, 'q, 'pk, 'sk, 'r) dkg_actor \<Rightarrow>
      ('f, 'p, 'g, 'q, 'pk, 'sk, 'r) handled" where
  "finish_resharing_round1 s a =
    (Ok (), if resharing_round1_ready s \<and> hm_contains (engine_peer_id s) (new_provers s)
            then engine_gossip (ResharingRound1Completed (engine_peer_id s)) (set_engine s a)
            else set_engine s a)"

definition handle_resharing_round1 ::
    "('f::field, 'p::ab_group_add, 'g::field, 'q::ab_group_add, 'pk, 'sk) dkg_env \<Rightarrow> ElectionInfo \<Rightarrow> bool \<Rightarrow>
      ('f, 'p, 'g, 'q, 'pk, 'sk, 'r) dkg_actor \<Rightarrow> ('f, 'p, 'g, 'q, 'pk, 'sk, 'r) handled" where
  "handle_resharing_round1 E info is_relected a =
    (case engine_state a of
       None \<Rightarrow> (Ok (), a)
     | Some s \<Rightarrow>
         if \<not> hm_contains (engine_peer_id s) (engine_tstar_provers s) then (Ok (), a)
         else
           (case resharing_round1 E info s of
              (Ok outputs, s') \<Rightarrow>
                let a' = engine_gossip (Message.ResharingRound1Out (engine_idx s') outputs) (set_engine s' a) in
                if is_relected then
                  (case for_entries (\<lambda>_ out. register_own_output E (engine_idx s') out) outputs (dkg_nodes s') of
                     (r, nodes) \<Rightarrow>
                       let s'' = s'\<lparr> dkg_nodes := nodes \<rparr> in
                       carry r from_text (set_engine s'' a') (\<lambda>_. finish_resharing_round1 s'' a'))
                else finish_resharing_round1 s' a'
            | (Err _, s') \<Rightarrow> (Ok (), set_engine s' a)
            | (Panic, s') \<Rightarrow> (Panic, set_engine s' a)))"

definition handle_round1_output ::
    "('f, 'p, 'g, 'q, 'pk, 'sk) dkg_env \<Rightarrow> nat \<Rightarrow> Round1Outputs \<Rightarrow> ('f, 'p, 'g, 'q, 'pk, 'sk, 'r) dkg_actor \<Rightarrow>
      ('f, 'p, 'g, 'q, 'pk, 'sk, 'r) handled" where
  "handle_round1_output E i round_1_outputs a =
    (case engine_state a of
       None \<Rightarrow> (Ok (), a)
     | Some s \<Rightarrow>
         (case for_entries (\<lambda>_ out v. logged (register_round_1_result_from_other_node E (engine_idx s) i out v))
                 round_1_outputs (dkg_nodes s) of
            (r, nodes) \<Rightarrow>
              let s' = s\<lparr> dkg_nodes := nodes \<rparr>; a' = set_engine s' a in
              carry r from_text a' (\<lambda>_.
                (Ok (), if dkg_round1_ready s' then engine_gossip (DKGRound1Completed (engine_peer_id s')) a'
                        else a'))))"

definition handle_resharing_round1_output ::
    "('f, 'p, 'g, 'q, 'pk, 'sk) dkg_env \<Rightarrow> nat \<Rightarrow> ResharingRound1Outputs \<Rightarrow>
      ('f, 'p, 'g, 'q, 'pk, 'sk, 'r) dkg_actor \<Rightarrow> ('f, 'p, 'g, 'q, 'pk, 'sk, 'r) handled" where
  "handle_resharing_round1_output E i round_1_outputs a =
    (case engine_state a of
       None \<Rightarrow> (Ok (), a)
     | Some s \<Rightarrow>
         if \<not> hm_contains (engine_peer_id s) (new_provers s) then (Ok (), a)
         else if \<not> list_ex (\<lambda>(_, tstar_idx). tstar_idx = as_u64 i) (hm_values (engine_tstar_provers s)) then (Ok (), a)
         else
           (case for_entries
                   (\<lambda>_ out v. logged (register_resharing_round_1_result_from_other_node E (engine_idx s) i out v))
                   round_1_outputs (dkg_nodes s) of
              (r, nodes) \<Rightarrow>
                let s' = s\<lparr> dkg_nodes := nodes \<rparr>; a' = set_engine s' a in
                carry r from_text a' (\<lambda>_.
                  (Ok (), if resharing_round1_ready s'
                          then engine_gossip (ResharingRound1Completed (engine_peer_id s')) a' else a'))))"

section \<open>Round 2\<close>

definition handle_round2 ::
    "('f::field, 'p::ab_group_add, 'g::field, 'q::ab_group_add, 'pk, 'sk) dkg_env \<Rightarrow>
      ('f, 'p, 'g, 'q, 'pk, 'sk, 'r) dkg_actor \<Rightarrow> ('f, 'p, 'g, 'q, 'pk, 'sk, 'r) handled" where
  "handle_round2 E a =
    (case engine_state a of
       None \<Rightarrow> (Ok (), a)
     | Some s \<Rightarrow>
         if \<not> hm_contains (engine_peer_id s) (new_provers s) then (Ok (), a)
         else
           (case for_nodes (\<lambda>_. variant_dkg_round_2 E (engine_network s)) (dkg_nodes s) of
              (r, nodes) \<Rightarrow>
                let s' = s\<lparr> dkg_nodes := nodes \<rparr> in
                carry r from_dkg (set_engine s' a) (\<lambda>pubkeys_for_node.
                  let a' = engine_gossip (Message.Round2Out (engine_idx s') pubkeys_for_node) (set_engine s' a) in
                  (Ok (), if pubshares_ready (length (new_provers s')) s'
                          then engine_gossip (DKGRound2Completed (engine_peer_id s')) a' else a'))))"

definition resharing_round_2_step ::
    "('f::field, 'p::ab_group_add, 'g::field, 'q::ab_group_add, 'pk, 'sk) dkg_env \<Rightarrow> 'pk Network \<Rightarrow> 'pk Network \<Rightarrow>
      (string, bytes) hashmap \<Rightarrow> string \<Rightarrow> ('f, 'p, 'g, 'q, 'pk, 'sk) NodeDataVariant \<Rightarrow>
      (bytes, ActorProcessingErr) outcome \<times> ('f, 'p, 'g, 'q, 'pk, 'sk) NodeDataVariant" where
  "resharing_round_2_step E tstar_network new_network group_keys key v =
    (case hm_get key group_keys of
       None \<Rightarrow> (Err (from_text (''Missing finalized group public key for node '' @ key)), v)
     | Some k_dkg \<Rightarrow> apfst (map_err from_dkg) (variant_resharing_round_2 E tstar_network new_network k_dkg v))"

definition handle_resharing_round2 ::
    "('f::field, 'p::ab_group_add, 'g::field, 'q::ab_group_add, 'pk, 'sk) dkg_env \<Rightarrow>
      ('f, 'p, 'g, 'q, 'pk, 'sk, 'r) dkg_actor \<Rightarrow> ('f, 'p, 'g, 'q, 'pk, 'sk, 'r) handled" where
  "handle_resharing_round2 E a =
    (case engine_state a of
       None \<Rightarrow> (Ok (), a)
     | Some s \<Rightarrow>
         if \<not> hm_contains (engine_peer_id s) (new_provers s) then (Ok (), a)
         else
           carry (quorum_network E (threshold (engine_election_info s)) (new_provers s) False) from_dkg a (\<lambda>new_network.
           carry (quorum_network E (threshold (engine_election_info s)) (engine_tstar_provers s) True) from_dkg a
             (\<lambda>tstar_network.
           case for_nodes (resharing_round_2_step E tstar_network new_network (finalized_group_public_keys s))
                  (dkg_nodes s) of
             (r, nodes) \<Rightarrow>
               let s' = s\<lparr> dkg_nodes := nodes \<rparr> in
               carry r (\<lambda>e. e) (set_engine s' a) (\<lambda>pubkeys_for_node.
                 let a' = engine_gossip (Message.ResharingRound2Out (engine_idx s') pubkeys_for_node) (set_engine s' a) in
                 (Ok (), if pubshares_ready (length (new_provers s')) s'
                         then engine_gossip (ResharingRound2Completed (engine_peer_id s')) a' else a')))))"

definition handle_store_received_pubshare ::
    "('f, 'p, 'g, 'q, 'pk, 'sk) dkg_env \<Rightarrow> nat \<Rightarrow> PubkeyShares \<Rightarrow> ('f, 'p, 'g, 'q, 'pk, 'sk, 'r) dkg_actor \<Rightarrow>
      ('f, 'p, 'g, 'q, 'pk, 'sk, 'r) handled" where
  "handle_store_received_pubshare E i pubshares a =
    (case engine_state a of
       None \<Rightarrow> (Ok (), a)
     | Some s \<Rightarrow>
         if engine_idx s = i then (Ok (), a)
         else if \<not> valid_node i s then (Ok (), a)
         else
           (case for_entries (\<lambda>_. store_pubshare_for_node E i) pubshares (dkg_nodes s) of
              (r, nodes) \<Rightarrow>
                let s' = s\<lparr> dkg_nodes := nodes \<rparr>; a' = set_engine s' a in
                carry r from_point a' (\<lambda>_.
                  (Ok (), if pubshares_ready (total_nodes (engine_network s')) s'
                          then engine_gossip (DKGRound2Completed (engine_peer_id s')) a' else a'))))"

definition handle_store_reshared_received_pubshare ::
    "('f, 'p, 'g, 'q, 'pk, 'sk) dkg_env \<Rightarrow> nat \<Rightarrow> PubkeyShares \<Rightarrow> ('f, 'p, 'g, 'q, 'pk, 'sk, 'r) dkg_actor \<Rightarrow>
      ('f, 'p, 'g, 'q, 'pk, 'sk, 'r) handled" where
  "handle_store_reshared_received_pubshare E i pubshares a =
    (case engine_state a of
       None \<Rightarrow> (Ok (), a)
     | Some s \<Rightarrow>
         if engine_idx s = i then (Ok (), a)
         else if \<not> hm_contains (engine_peer_id s) (new_provers s) then (Ok (), a)
         else if \<not> valid_node i s then (Ok (), a)
         else
           (case for_entries (\<lambda>_. store_pubshare_for_node E i) pubshares (dkg_nodes s) of
              (r, nodes) \<Rightarrow>
                let s' = s\<lparr> dkg_nodes := nodes \<rparr>; a' = set_engine s' a in
                carry r from_point a' (\<lambda>_.
                  (Ok (), if pubshares_ready (length (new_provers s')) s'
                          then engine_gossip (ResharingRound2Completed (engine_peer_id s')) a' else a'))))"

section \<open>Round 3 and dispatch\<close>

text \<open>\<open>verify_nodes\<close> is the first loop of the handler; a pair of the maps it gossips is built key by key.\<close>

definition verify_nodes ::
    "('f::field, 'p::ab_group_add, 'g::field, 'q::ab_group_add, 'pk, 'sk) dkg_env \<Rightarrow> 'pk Network \<Rightarrow> bool \<Rightarrow>
      ('f, 'p, 'g, 'q, 'pk, 'sk) DKGEngineState \<Rightarrow> (unit, DKGError) outcome" where
  "verify_nodes E net is_resharing s =
    (let is_elected = hm_contains (engine_peer_id s) (new_provers s) in
     ofold (\<lambda>_ (key, v). get_variant (process_round_3 (secp E) net is_resharing is_elected)
                                      (process_round_3 (bjj E) net is_resharing is_elected) v) () (dkg_nodes s))"

definition collect_nodes ::
    "('v \<Rightarrow> ('a, 'e) outcome) \<Rightarrow> (string, 'v) hashmap \<Rightarrow> ((string, 'a) hashmap, 'e) outcome" where
  "collect_nodes f nodes = omap (\<lambda>(key, v). obind (f v) (\<lambda>x. Ok (key, x))) nodes"

definition announce_resharing ::
    "('f, 'p, 'g, 'q, 'pk, 'sk) dkg_env \<Rightarrow> ('f, 'p, 'g, 'q, 'pk, 'sk) DKGEngineState \<Rightarrow>
      ('f, 'p, 'g, 'q, 'pk, 'sk, 'r) dkg_actor \<Rightarrow> ('f, 'p, 'g, 'q, 'pk, 'sk, 'r) handled" where
  "announce_resharing E s a =
    (let a' = engine_cast (ToAppState (StoreKeyShares (map (\<lambda>(key, v). (key, get_priv_share E v)) (dkg_nodes s)))) a in
     carry (collect_nodes (get_pub_share E) (dkg_nodes s)) (\<lambda>e. e) a' (\<lambda>pub_shares.
     (Ok (), (engine_gossip (ResharingPrepared (engine_idx s) (engine_peer_id s) pub_shares) a')
        \<lparr> api_token_used := False \<rparr>)))"

definition announce_ready ::
    "('f, 'p, 'g, 'q, 'pk, 'sk) dkg_env \<Rightarrow> ('f, 'p, 'g, 'q, 'pk, 'sk) DKGEngineState \<Rightarrow>
      ('f, 'p, 'g, 'q, 'pk, 'sk, 'r) dkg_actor \<Rightarrow> ('f, 'p, 'g, 'q, 'pk, 'sk, 'r) handled" where
  "announce_ready E s a =
    (let a' = engine_cast (ToAppState (StoreKeyShares (map (\<lambda>(key, v). (key, get_priv_share E v)) (dkg_nodes s)))) a in
     carry (collect_nodes (get_network_pubkey E) (dkg_nodes s)) (\<lambda>e. e) a' (\<lambda>keys.
     carry (collect_nodes (get_pub_share E) (dkg_nodes s)) (\<lambda>e. e) a' (\<lambda>pub_shares.
     (Ok (), engine_gossip (Ready (engine_idx s) (engine_peer_id s) pub_shares keys) a'))))"

definition handle_round3 ::
    "('f::field, 'p::ab_group_add, 'g::field, 'q::ab_group_add, 'pk, 'sk) dkg_env \<Rightarrow> bool \<Rightarrow>
      ('f, 'p, 'g, 'q, 'pk, 'sk, 'r) dkg_actor \<Rightarrow> ('f, 'p, 'g, 'q, 'pk, 'sk, 'r) handled" where
  "handle_round3 E is_resharing a =
    (case engine_state a of
       None \<Rightarrow> (Ok (), a)
     | Some s \<Rightarrow>
         carry (if \<not> is_resharing then Ok (engine_network s)
                else quorum_network E (threshold (engine_election_info s)) (new_provers s) False) from_dkg a (\<lambda>net.
         carry (verify_nodes E net is_resharing s) from_dkg a (\<lambda>_.
         if is_resharing then
           let s' = s\<lparr> engine_network := net \<rparr> in
           if hm_contains (engine_peer_id s') (new_provers s') then announce_resharing E s' (set_engine s' a)
           else (Ok (), set_engine s' a)
         else if engine_tstar_provers s = [] then announce_ready E s a
         else (Ok (), a))))"

definition handle_clear_shares ::
    "('f, 'p, 'g, 'q, 'pk, 'sk, 'r) dkg_actor \<Rightarrow> ('f, 'p, 'g, 'q, 'pk, 'sk, 'r) handled" where
  "handle_clear_shares a =
    (case engine_state a of
       None \<Rightarrow> (Ok (), a)
     | Some s \<Rightarrow> (Ok (), set_engine (s\<lparr> dkg_nodes := map (\<lambda>(k, v). (k, clear_inputs v)) (dkg_nodes s) \<rparr>) a))"

fun dkg_handle ::
    "('f::field, 'p::ab_group_add, 'g::field, 'q::ab_group_add, 'pk, 'sk) dkg_env \<Rightarrow> DkgEngineMessage \<Rightarrow>
      ('f, 'p, 'g, 'q, 'pk, 'sk, 'r) dkg_actor \<Rightarrow> ('f, 'p, 'g, 'q, 'pk, 'sk, 'r) handled" where
  "dkg_handle E (DkgEngineMessage.Init i pid elected t) a = handle_dkg_init E i pid elected t a"
| "dkg_handle E DkgEngineMessage.Round1 a = handle_round1 E a"
| "dkg_handle E (DkgEngineMessage.Round1Out i out) a = handle_round1_output E i out a"
| "dkg_handle E DkgEngineMessage.Round2 a = handle_round2 E a"
| "dkg_handle E (DkgEngineMessage.StoreReceivedPublicKey i pubs) a = handle_store_received_pubshare E i pubs a"
| "dkg_handle E (DkgEngineMessage.StoreResharedReceivedPublicKey i pubs) a =
    handle_store_reshared_received_pubshare E i pubs a"
| "dkg_handle E DkgEngineMessage.Round3 a = handle_round3 E False a"
| "dkg_handle E (DkgEngineMessage.ResharingInit i tstar newp info pid group_keys) a =
    handle_resharing_init E \<lparr> init_rsa_private_key = actor_key a, init_election_info = info, node_peer_id = pid,
      init_group_keys = group_keys \<rparr> i tstar newp a"
| "dkg_handle E (DkgEngineMessage.ResharingRound1 info is_relected) a = handle_resharing_round1 E info is_relected a"
| "dkg_handle E (DkgEngineMessage.ResharingRound1Out i out) a = handle_resharing_round1_output E i out a"
| "dkg_handle E DkgEngineMessage.ResharingRound2 a = handle_resharing_round2 E a"
| "dkg_handle E DkgEngineMessage.ResharingRound3 a = handle_round3 E True a"
| "dkg_handle E DkgEngineMessage.ClearShares a = handle_clear_shares a"
| "dkg_handle E DkgEngineMessage.StartDKGRound1 a = handle_start_dkg_round_1 a"
| "dkg_handle E DkgEngineMessage.StartResharingRound1 a = handle_start_resharing_round_1 a"
| "dkg_handle E DkgEngineMessage.StartDKGRound2 a = handle_start_dkg_round_2 a"
| "dkg_handle E DkgEngineMessage.StartResharingRound2 a = handle_start_resharing_round_2 a"
| "dkg_handle E DkgEngineMessage.StartDKGRound3 a = handle_start_dkg_round_3 a"
| "dkg_handle E DkgEngineMessage.StartResharingRound3 a = handle_start_resharing_round_3 a"

end
