(* ===== verification/Engine_Run.thy ===== *)
theory Engine_Run
  imports Dkg_Engine
begin

text \<open>
  Runs of the key generation engines of a quorum: what each engine holds while honest messages
  arrive in any order and any number of times, and the relay starts a round when every engine has
  announced the round before.
\<close>

section \<open>Loops\<close>

lemma for_nodes_Ok:
  assumes "\<And>k v. (k, v) \<in> set nodes \<Longrightarrow> f k v = (Ok (g k), h k v)"
  shows "for_nodes f nodes = (Ok (map (\<lambda>(k, v). (k, g k)) nodes), map (\<lambda>(k, v). (k, h k v)) nodes)"
  using assms by (induction nodes) auto

lemma hm_insert_present:
  "\<lbrakk>hm_wf m; k \<in> set (hm_keys m)\<rbrakk> \<Longrightarrow> hm_insert k v m = map (\<lambda>(k', u). (k', if k' = k then v else u)) m"
proof (induction m)
  case (Cons x m)
  then show ?case
    by (cases x) (auto simp: hm_defs intro!: map_idI [symmetric]; metis fst_conv imageI)
qed (simp add: hm_keys_def)

lemma hm_insert_same: "\<lbrakk>hm_wf m; hm_get k m = Some v\<rbrakk> \<Longrightarrow> hm_insert k v m = m"
  unfolding hm_defs by (induction m) (auto split: if_splits)

lemma for_entries_Ok:
  assumes "distinct (map fst nodes)" and "distinct ks" and "set ks \<subseteq> set (map fst nodes)"
    and "\<And>k v. \<lbrakk>(k, v) \<in> set nodes; k \<in> set ks\<rbrakk> \<Longrightarrow> f k (a k) v = (Ok (), h k v)"
  shows "for_entries f (map (\<lambda>k. (k, a k)) ks) nodes =
    (Ok (), map (\<lambda>(k, v). (k, if k \<in> set ks then h k v else v)) nodes)"
  using assms
proof (induction ks arbitrary: nodes)
  case (Cons k ks)
  let ?nodes = "map (\<lambda>(k', u). (k', if k' = k then h k u else u)) nodes"
  from Cons.prems obtain v where v: "(k, v) \<in> set nodes" by auto
  with Cons.prems(1) have get: "hm_get k nodes = Some v" by (simp add: hm_get_def)
  have u: "u = v" if "(k, u) \<in> set nodes" for u
    using that v Cons.prems(1) by (meson eq_key_imp_eq_value)
  have "map (\<lambda>(k', u). (k', if k' = k then h k v else u)) nodes = ?nodes"
    using u by (intro map_cong) auto
  then have ins: "hm_insert k (h k v) nodes = ?nodes"
    using Cons.prems(1) v by (subst hm_insert_present) (force simp: hm_wf_def hm_keys_def)+
  have "for_entries f (map (\<lambda>k. (k, a k)) ks) ?nodes =
      (Ok (), map (\<lambda>(k', u). (k', if k' \<in> set ks then h k' u else u)) ?nodes)"
  proof (rule Cons.IH)
    show "distinct (map fst ?nodes)" using Cons.prems(1) by (simp add: o_def split_def)
    show "set ks \<subseteq> set (map fst ?nodes)" using Cons.prems(3) by (simp add: o_def split_def)
    show "f k' (a k') u = (Ok (), h k' u)" if "(k', u) \<in> set ?nodes" "k' \<in> set ks" for k' u
      using that Cons.prems(2,4) by (auto split: if_splits)
  qed (use Cons.prems(2) in simp)
  also have "map (\<lambda>(k', u). (k', if k' \<in> set ks then h k' u else u)) ?nodes =
      map (\<lambda>(k', u). (k', if k' \<in> set (k # ks) then h k' u else u)) nodes"
    using Cons.prems(2) by auto
  finally show ?case using Cons.prems(4) [OF v] get ins by simp
qed (simp add: split_def)

section \<open>The honest values of one key\<close>

definition quorum_net :: "('pk, 'sk) rsa \<Rightarrow> (nat \<Rightarrow> 'sk) \<Rightarrow> nat \<Rightarrow> nat list \<Rightarrow> 'pk Network" where
  "quorum_net R sk t ids =
    \<lparr> net_threshold = t, total_nodes = length ids, public_keys = map (\<lambda>i. (i, public_of R (sk i))) ids \<rparr>"

definition member_node :: "('pk, 'sk) rsa \<Rightarrow> (nat \<Rightarrow> 'sk) \<Rightarrow> nat \<Rightarrow> ('f::zero, 'p::zero, 'pk, 'sk) Node" where
  "member_node R sk i =
    \<lparr> node_id = i, rsa_pubkey = public_of R (sk i), rsa_seckey = sk i, init_pub_share = 0, private_share = 0,
      network_pubkey = 0, own_partial_share = 0 \<rparr>"

definition quorum_poly :: "'f::field randomness \<Rightarrow> nat \<Rightarrow> nat list \<Rightarrow> 'f Polynomial" where
  "quorum_poly rnd t ids = sum_poly t (map (node_poly rnd t) ids)"

text \<open>The public share at an index; the group key is its value at 0.\<close>

definition public_value :: "('f::field, 'p) curve \<Rightarrow> 'f randomness \<Rightarrow> nat \<Rightarrow> nat list \<Rightarrow> nat \<Rightarrow> 'p" where
  "public_value C rnd t ids i =
    scalar_mul C (base_point_or_generator C) (eval (quorum_poly rnd t ids) (of_nat i))"

text \<open>The laws of the curve and of RSA, a quorum the cryptography accepts, and coins whose points
  the curve can write out and read back (\<open>encode\<close> panics on the neutral point of BabyJubJub).\<close>

definition keygen_ok ::
    "('pk, 'sk) rsa \<Rightarrow> ('f::field, 'p::ab_group_add) curve \<Rightarrow> 'f randomness \<Rightarrow> (nat \<Rightarrow> 'sk) \<Rightarrow> nat \<Rightarrow> nat list \<Rightarrow> bool" where
  "keygen_ok R C rnd sk t ids \<longleftrightarrow>
    setup_ok R C (quorum_net R sk t ids) (map (member_node R sk) ids) \<and>
    (\<forall>i\<in>set ids. \<forall>P\<in>set (commitments C (node_poly rnd t i)). point_codec C P) \<and>
    (\<forall>i\<in>insert 0 (set ids). point_codec C (public_value C rnd t ids i))"

lemma keygen_ok_D:
  fixes C :: "('f::field, 'p::ab_group_add) curve"
  assumes "keygen_ok R C rnd sk t ids"
  shows "curve_laws C" and "base_point_or_generator C \<noteq> 0" and "repr_laws C" and "rsa_laws R"
    and "distinct ids" and "length ids < 2 ^ 64" and "0 < t" and "t \<le> length ids"
    and "indices_ok TYPE('f) ids" and "i \<in> set ids \<Longrightarrow> i < 2 ^ 32"
    and "i \<in> set ids \<Longrightarrow> i ^ (t - 1) < 2 ^ 128"
  using assms
  by (auto simp: keygen_ok_def setup_ok_def quorum_net_def member_node_def indices_ok_def o_def)

lemma quorum_poly_eval: "0 < t \<Longrightarrow> eval (quorum_poly rnd t ids) x = (\<Sum>i\<leftarrow>ids. eval (node_poly rnd t i) x)"
  unfolding quorum_poly_def by (subst sum_poly_eval) (auto simp: node_poly_props o_def)

text \<open>The value of the sum, split into the own value and those of the other members in any order.\<close>

lemma quorum_poly_split:
  assumes "0 < t" and "distinct ids" and "i \<in> set ids" and "distinct js" and "set js = set ids - {i}"
  shows "eval (quorum_poly rnd t ids) x = eval (node_poly rnd t i) x + (\<Sum>j\<leftarrow>js. eval (node_poly rnd t j) x)"
proof -
  have "(\<Sum>j\<leftarrow>js. eval (node_poly rnd t j) x) = (\<Sum>j\<leftarrow>filter (\<lambda>j. j \<noteq> i) ids. eval (node_poly rnd t j) x)"
    using assms by (intro sum_list_same_keys) auto
  with assms sum_list_pick [of "\<lambda>j. j" ids i "\<lambda>j. eval (node_poly rnd t j) x"]
  show ?thesis by (simp add: quorum_poly_eval)
qed

definition share_sent ::
    "('pk, 'sk) rsa \<Rightarrow> ('f::field, 'p::ab_group_add) curve \<Rightarrow> 'f randomness \<Rightarrow> (nat \<Rightarrow> 'sk) \<Rightarrow> nat \<Rightarrow> nat \<Rightarrow> nat \<Rightarrow> bytes" where
  "share_sent R C rnd sk t i j = share_ct R C rnd t (member_node R sk i) j"

definition honest_output ::
    "('pk, 'sk) rsa \<Rightarrow> ('f::field, 'p::ab_group_add) curve \<Rightarrow> 'f randomness \<Rightarrow> (nat \<Rightarrow> 'sk) \<Rightarrow> nat \<Rightarrow> nat list \<Rightarrow> nat \<Rightarrow>
      Round1Output" where
  "honest_output R C rnd sk t ids i =
    (map (\<lambda>j. (j, share_sent R C rnd sk t j i)) (filter (\<lambda>j. j \<noteq> i) ids),
     map (\<lambda>P. the_ok (encode C P)) (commitments C (node_poly rnd t i)),
     scalar_to_bytes C (eval (node_poly rnd t i) (of_nat i)))"

section \<open>What a node holds\<close>

text \<open>\<open>js\<close> are the senders whose round 1 output has arrived, in the order of arrival, \<open>ps\<close> the indices
  whose public share has; \<open>r1\<close> and \<open>r2\<close> tell whether the node has run the rounds.\<close>

definition node_inv ::
    "('pk, 'sk) rsa \<Rightarrow> ('f::field, 'p::ab_group_add) curve \<Rightarrow> 'f randomness \<Rightarrow> (nat \<Rightarrow> 'sk) \<Rightarrow> nat \<Rightarrow> nat list \<Rightarrow> nat \<Rightarrow>
      nat list \<Rightarrow> nat list \<Rightarrow> bool \<Rightarrow> bool \<Rightarrow> ('f, 'p, 'pk, 'sk) NodeData \<Rightarrow> bool" where
  "node_inv R C rnd sk t ids i js ps r1 r2 nd \<longleftrightarrow>
    node_id (inner_node nd) = i \<and> rsa_seckey (inner_node nd) = sk i \<and>
    node_input_y nd = map (\<lambda>j. (j, share_sent R C rnd sk t i j)) js \<and>
    node_input_v nd = map (\<lambda>j. (j, commitments C (node_poly rnd t j))) js \<and>
    other_pubshares nd = map (\<lambda>j. (j, public_value C rnd t ids j)) ps \<and>
    (r1 \<longrightarrow> own_partial_share (inner_node nd) = eval (node_poly rnd t i) (of_nat i) \<and>
            init_pub_share (inner_node nd) = hd (commitments C (node_poly rnd t i))) \<and>
    (r2 \<longrightarrow> private_share (inner_node nd) = eval (quorum_poly rnd t ids) (of_nat i) \<and>
            network_pubkey (inner_node nd) = public_value C rnd t ids 0)"

text \<open>A list to which an index is added at the end unless it is there.\<close>

definition add_new :: "nat \<Rightarrow> nat list \<Rightarrow> nat list" where
  "add_new j js = (if j \<in> set js then js else js @ [j])"

lemma add_new_props [simp]:
  "set (add_new j js) = insert j (set js)" "distinct (add_new j js) = distinct js"
  by (auto simp: add_new_def)

lemma hm_insert_add_new:
  "distinct js \<Longrightarrow> hm_insert j (f j) (map (\<lambda>j. (j, f j)) js) = map (\<lambda>j. (j, f j)) (add_new j js)"
  using hm_get_map_inj [of "\<lambda>j. j" js j f]
  by (auto simp: add_new_def hm_keys_def hm_wf_def o_def intro!: hm_insert_same)

lemma decode_commitments:
  assumes "keygen_ok R C rnd sk t ids" and "j \<in> set ids"
  shows "omap (\<lambda>x. map_err (\<lambda>_. msg) (from_encoded C x))
      (map (\<lambda>P. the_ok (encode C P)) (commitments C (node_poly rnd t j))) =
    Ok (commitments C (node_poly rnd t j))"
proof -
  have "omap (\<lambda>x. map_err (\<lambda>_. msg) (from_encoded C x)) (map (\<lambda>P. the_ok (encode C P)) Ps) = Ok Ps"
    if "\<forall>P\<in>set Ps. point_codec C P" for Ps
    using that by (induction Ps) (auto simp: point_codec_def)
  with assms show ?thesis by (simp add: keygen_ok_def)
qed

lemma encode_commitments:
  assumes "keygen_ok R C rnd sk t ids" and "j \<in> set ids"
  shows "encode_v_values C (commitments C (node_poly rnd t j)) =
    Ok (map (\<lambda>P. the_ok (encode C P)) (commitments C (node_poly rnd t j)))"
  unfolding encode_v_values_def
proof (rule omap_total)
  fix P assume "P \<in> set (commitments C (node_poly rnd t j))"
  with assms have "point_codec C P" by (simp add: keygen_ok_def)
  then show "unwrap (encode C P) = Ok (the_ok (encode C P))" by (auto simp: point_codec_def)
qed

lemma node_round_1:
  assumes ok: "keygen_ok R C rnd sk t ids" and i: "i \<in> set ids" and id: "node_id (inner_node nd) = i"
  shows "process_dkg_round_1 R C (rnd i) (quorum_net R sk t ids) nd =
    (Ok (honest_output R C rnd sk t ids i),
     nd\<lparr> inner_node := (inner_node nd)
       \<lparr> own_partial_share := eval (node_poly rnd t i) (of_nat i),
         init_pub_share := hd (commitments C (node_poly rnd t i)) \<rparr> \<rparr>)"
proof -
  let ?net = "quorum_net R sk t ids" and ?p = "node_poly rnd t i"
  let ?n = "member_node R sk i"
  obtain ai0 draw nonce where rnd: "rnd i = (ai0, draw, nonce)" by (cases "rnd i")
  have set: "setup_ok R C ?net (map (member_node R sk) ids)" using ok by (simp add: keygen_ok_def)
  have "dkg_round_1 R C ai0 draw nonce (inner_node nd) ?net = dkg_round_1 R C ai0 draw nonce ?n ?net"
    by (simp add: dkg_round_1_def id member_node_def)
  also have "\<dots> = Ok (sent_shares R C nonce ?p (filter (\<lambda>(key, _). key \<noteq> i) (public_keys ?net)),
      commitments C ?p, eval ?p (of_nat i))"
    using round_1_honest [OF set, of ?n rnd ai0 draw nonce] i rnd
    by (simp add: member_node_def quorum_net_def)
  also have "sent_shares R C nonce ?p (filter (\<lambda>(key, _). key \<noteq> i) (public_keys ?net)) =
      fst (honest_output R C rnd sk t ids i)"
    by (simp add: honest_output_def sent_shares_def share_sent_def share_ct_def quorum_net_def filter_map o_def
        member_node_def rnd)
  finally have r: "dkg_round_1 R C ai0 draw nonce (inner_node nd) ?net =
      Ok (fst (honest_output R C rnd sk t ids i), commitments C ?p, eval ?p (of_nat i))" .
  have "length (commitments C ?p) = t" using keygen_ok_D(7) [OF ok] by (simp add: node_poly_props)
  then obtain v0 vs where v: "commitments C ?p = v0 # vs"
    using keygen_ok_D(7) [OF ok] by (cases "commitments C ?p") auto
  show ?thesis
    using r
    by (simp add: process_dkg_round_1_def rnd Let_def v encode_commitments [OF ok i, unfolded v])
      (simp add: honest_output_def own_y_value_bytes_def v)
qed

lemma node_round_1_inv:
  assumes "keygen_ok R C rnd sk t ids" and "i \<in> set ids" and "node_inv R C rnd sk t ids i js ps r1 r2 nd"
  shows "\<exists>nd'. process_dkg_round_1 R C (rnd i) (quorum_net R sk t ids) nd =
      (Ok (honest_output R C rnd sk t ids i), nd') \<and> node_inv R C rnd sk t ids i js ps True r2 nd'"
  using assms node_round_1 [OF assms(1,2), of nd] by (simp add: node_inv_def)

lemma node_receive_inv:
  assumes ok: "keygen_ok R C rnd sk t ids" and ij: "i \<in> set ids" "j \<in> set ids" "j \<noteq> i"
    and js: "distinct js" and inv: "node_inv R C rnd sk t ids i js ps r1 r2 nd"
    and out: "honest_output R C rnd sk t ids j = (ys, vs, own)"
  shows "\<exists>nd'. process_round_1 missing C i j ys vs nd = (Ok (), nd') \<and>
    node_inv R C rnd sk t ids i (add_new j js) ps r1 r2 nd'"
proof -
  have "hm_get i ys = Some (share_sent R C rnd sk t i j)"
    using out ij hm_get_map_inj [of "\<lambda>k. k" "filter (\<lambda>k. k \<noteq> j) ids" i "\<lambda>k. share_sent R C rnd sk t k j"]
    by (auto simp: honest_output_def)
  moreover have "omap (\<lambda>x. map_err (\<lambda>_. ''Error decoding points'') (from_encoded C x)) vs =
      Ok (commitments C (node_poly rnd t j))"
    using out decode_commitments [OF ok ij(2)] by (auto simp: honest_output_def)
  ultimately have "process_round_1 missing C i j ys vs nd =
      (Ok (), nd\<lparr> node_input_y := hm_insert j (share_sent R C rnd sk t i j) (node_input_y nd),
                  node_input_v := hm_insert j (commitments C (node_poly rnd t j)) (node_input_v nd) \<rparr>)"
    by (simp add: process_round_1_def)
  moreover have "node_inv R C rnd sk t ids i (add_new j js) ps r1 r2
      (nd\<lparr> node_input_y := hm_insert j (share_sent R C rnd sk t i j) (node_input_y nd),
           node_input_v := hm_insert j (commitments C (node_poly rnd t j)) (node_input_v nd) \<rparr>)"
    using inv hm_insert_add_new [OF js, of j "share_sent R C rnd sk t i"]
      hm_insert_add_new [OF js, of j "\<lambda>j. commitments C (node_poly rnd t j)"]
    by (simp add: node_inv_def)
  ultimately show ?thesis by blast
qed

lemma node_round_2_inv:
  fixes C :: "('f::field, 'p::ab_group_add) curve"
  assumes ok: "keygen_ok R C rnd sk t ids" and i: "i \<in> set ids" and js: "distinct js" "set js = set ids - {i}"
    and ps: "distinct ps" and inv: "node_inv R C rnd sk t ids i js ps True r2 nd"
  shows "\<exists>nd'. process_dkg_round_2 R C (quorum_net R sk t ids) nd =
      (Ok (the_ok (encode C (public_value C rnd t ids i))), nd') \<and>
    node_inv R C rnd sk t ids i js (add_new i ps) True True nd'"
proof -
  let ?net = "quorum_net R sk t ids" and ?F = "quorum_poly rnd t ids" and ?G = "base_point_or_generator C"
  note D = keygen_ok_D [OF ok]
  let ?n = "inner_node nd"
  have len: "length js = sub_u64 (total_nodes ?net) 1"
  proof -
    have "length js = card (set ids - {i})" using js distinct_card by metis
    also have "\<dots> = length ids - 1" using D(5) i by (simp add: distinct_card)
    finally show ?thesis using D(6) i by (cases ids) (simp_all add: quorum_net_def sub_u64_le)
  qed
  have n: "node_id ?n = i" "rsa_seckey ?n = sk i"
    "own_partial_share ?n = eval (node_poly rnd t i) (of_nat i)"
    "init_pub_share ?n = hd (commitments C (node_poly rnd t i))"
    using inv by (simp_all add: node_inv_def)
  have ct: "decrypt R (rsa_seckey ?n) (share_sent R C rnd sk t i j) =
      Ok (field_to_repr C (eval (node_poly rnd t j) (of_nat (node_id ?n))))" for j
    using share_ct_decrypts [OF D(4,3), of "member_node R sk i" rnd t j]
    by (simp add: share_sent_def n member_node_def)
  have split: "eval ?F x = eval (node_poly rnd t i) x + (\<Sum>j\<leftarrow>js. eval (node_poly rnd t j) x)" for x
    by (rule quorum_poly_split [OF D(7,5) i js])
  have ne: "coefficients (node_poly rnd t i) \<noteq> []"
    using node_poly_props(1) [OF D(7), of rnd i] D(7) by auto
  have "dkg_round_2 R C ?n ?net (node_input_y nd) (node_input_v nd) =
      (let ki = own_partial_share ?n + (\<Sum>j\<leftarrow>js. eval (node_poly rnd t j) (of_nat (node_id ?n))) in
       Ok (ki, scalar_mul C ?G ki,
         init_pub_share ?n + (\<Sum>j\<leftarrow>js. scalar_mul C ?G (eval (node_poly rnd t j) 0))))"
    using inv round_2_honest [where p = "node_poly rnd t" and ct = "share_sent R C rnd sk t i",
        OF D(1-3) js(1) len _ _ _ ct] D(7) D(11) [OF i] n
    by (simp add: node_inv_def quorum_net_def node_poly_props)
  also have "\<dots> = Ok (eval ?F (of_nat i), public_value C rnd t ids i, public_value C rnd t ids 0)"
    using D(1) by (simp add: Let_def n split public_value_def commitments_hd [OF ne] smul_simps
        scalar_mul_sum_list [of C _ _ js])
  finally have r2: "dkg_round_2 R C ?n ?net (node_input_y nd) (node_input_v nd) =
      Ok (eval ?F (of_nat i), public_value C rnd t ids i, public_value C rnd t ids 0)" .
  have "point_codec C (public_value C rnd t ids i)" using ok i by (simp add: keygen_ok_def)
  then have "encode C (public_value C rnd t ids i) = Ok (the_ok (encode C (public_value C rnd t ids i)))"
    by (auto simp: point_codec_def)
  with r2 inv hm_insert_add_new [OF ps, of i "public_value C rnd t ids"] n
  have "process_dkg_round_2 R C ?net nd = (Ok (the_ok (encode C (public_value C rnd t ids i))),
      nd\<lparr> inner_node := ?n\<lparr> private_share := eval ?F (of_nat i), network_pubkey := public_value C rnd t ids 0 \<rparr>,
          other_pubshares := map (\<lambda>j. (j, public_value C rnd t ids j)) (add_new i ps) \<rparr>)"
    by (simp add: process_dkg_round_2_def node_inv_def)
  with inv show ?thesis by (simp add: node_inv_def)
qed

lemma node_store_inv:
  assumes ok: "keygen_ok R C rnd sk t ids" and j: "j \<in> set ids" and ps: "distinct ps"
    and inv: "node_inv R C rnd sk t ids i js ps r1 r2 nd"
  shows "\<exists>nd'. process_store_pubshare C j (the_ok (encode C (public_value C rnd t ids j))) nd = (Ok (), nd') \<and>
    node_inv R C rnd sk t ids i js (add_new j ps) r1 r2 nd'"
proof -
  have "point_codec C (public_value C rnd t ids j)" using ok j by (simp add: keygen_ok_def)
  then have "from_encoded C (the_ok (encode C (public_value C rnd t ids j))) = Ok (public_value C rnd t ids j)"
    by (auto simp: point_codec_def)
  with inv hm_insert_add_new [OF ps, of j "public_value C rnd t ids"]
  have "process_store_pubshare C j (the_ok (encode C (public_value C rnd t ids j))) nd =
      (Ok (), nd\<lparr> other_pubshares := map (\<lambda>j. (j, public_value C rnd t ids j)) (add_new j ps) \<rparr>)"
    by (simp add: process_store_pubshare_def node_inv_def)
  with inv show ?thesis by (simp add: node_inv_def)
qed

lemma node_round_3:
  fixes C :: "('f::field, 'p::ab_group_add) curve"
  assumes ok: "keygen_ok R C rnd sk t ids" and ps: "distinct ps" "set ps = set ids"
    and inv: "node_inv R C rnd sk t ids i js ps r1 True nd"
  shows "process_round_3 C (quorum_net R sk t ids) False elected nd = Ok ()"
proof -
  let ?net = "quorum_net R sk t ids" and ?F = "quorum_poly rnd t ids" and ?G = "base_point_or_generator C"
  let ?Kj = "map (\<lambda>j. (j, public_value C rnd t ids j)) ps"
  note D = keygen_ok_D [OF ok]
  have keys: "hm_keys (public_keys ?net) = ids" by (simp add: quorum_net_def hm_keys_def o_def)
  have "interpolate_keys DKG_Other C (public_keys ?net) ?Kj = Ok (scalar_mul C ?G (eval ?F 0))"
  proof (rule interpolate_keys_Ok [OF D(1)])
    show "hm_get k ?Kj = Some (scalar_mul C ?G (eval ?F (of_nat k)))"
      if "k \<in> set (hm_keys (public_keys ?net))" for k
      using that keys ps hm_get_map_inj [of "\<lambda>j. j" ps k "public_value C rnd t ids"]
      by (simp add: public_value_def)
    show "length (coefficients ?F) \<le> length (public_keys ?net)"
      using D(8) by (simp add: quorum_poly_def sum_poly_def quorum_net_def)
  qed (use D keys in auto)
  moreover have "length ps = length ids" using ps D(5) by (metis distinct_card)
  ultimately show ?thesis
    using inv by (simp add: process_round_3_def dkg_round_3_def assert_then_def node_inv_def public_value_def
        quorum_net_def)
qed

section \<open>A quorum\<close>

text \<open>The four keys and the curves they are on.\<close>

definition engine_keys :: "string list" where
  "engine_keys = [''OPRFSecp256k1'', ''OPRFBabyJubJub'', ''JWTPRFSecp256k1'', ''DecryptBabyJubjub'']"

definition is_secp :: "string \<Rightarrow> bool" where
  "is_secp k = (k = ''OPRFSecp256k1'' \<or> k = ''JWTPRFSecp256k1'')"

text \<open>The members share the libraries and draw their own coins.\<close>

record ('f, 'p, 'g, 'q, 'pk, 'sk) quorum =
  q_base :: "('f, 'p, 'g, 'q, 'pk, 'sk) dkg_env"
  q_secp_coins :: "string \<Rightarrow> 'f randomness"
  q_bjj_coins :: "string \<Rightarrow> 'g randomness"
  q_key :: "nat \<Rightarrow> 'sk"
  q_threshold :: nat
  q_provers :: Provers

definition q_env :: "('f, 'p, 'g, 'q, 'pk, 'sk) quorum \<Rightarrow> nat \<Rightarrow> ('f, 'p, 'g, 'q, 'pk, 'sk) dkg_env" where
  "q_env Q i = (q_base Q)\<lparr> secp_coins := \<lambda>k. q_secp_coins Q k i, bjj_coins := \<lambda>k. q_bjj_coins Q k i \<rparr>"

definition q_ids :: "('f, 'p, 'g, 'q, 'pk, 'sk) quorum \<Rightarrow> nat list" where
  "q_ids Q = map (\<lambda>(_, _, i). i) (q_provers Q)"

definition q_net :: "('f, 'p, 'g, 'q, 'pk, 'sk) quorum \<Rightarrow> 'pk Network" where
  "q_net Q = quorum_net (rsa_crate (q_base Q)) (q_key Q) (q_threshold Q) (q_ids Q)"

definition quorum_ok :: "('f::field, 'p::ab_group_add, 'g::field, 'q::ab_group_add, 'pk, 'sk) quorum \<Rightarrow> bool" where
  "quorum_ok Q \<longleftrightarrow>
    hm_wf (q_provers Q) \<and> 2 < length (q_provers Q) \<and> q_threshold Q < length (q_provers Q) \<and>
    (\<forall>(pid, prover, i)\<in>set (q_provers Q).
       from_pkcs1_pem (q_base Q) (replace_escaped_cr (rsa_pub_key prover)) =
         Ok (public_of (rsa_crate (q_base Q)) (q_key Q i))) \<and>
    (\<forall>k\<in>set engine_keys.
       if is_secp k
       then keygen_ok (rsa_crate (q_base Q)) (secp (q_base Q)) (q_secp_coins Q k) (q_key Q) (q_threshold Q) (q_ids Q)
       else keygen_ok (rsa_crate (q_base Q)) (bjj (q_base Q)) (q_bjj_coins Q k) (q_key Q) (q_threshold Q) (q_ids Q))"

text \<open>What the engines exchange and store under a key: the round 1 output, the public value at an
  index (the group key at 0), and the key share.\<close>

definition q_output :: "('f::field, 'p::ab_group_add, 'g::field, 'q::ab_group_add, 'pk, 'sk) quorum \<Rightarrow> string \<Rightarrow> nat \<Rightarrow> Round1Output" where
  "q_output Q k i =
    (if is_secp k
     then honest_output (rsa_crate (q_base Q)) (secp (q_base Q)) (q_secp_coins Q k) (q_key Q) (q_threshold Q) (q_ids Q) i
     else honest_output (rsa_crate (q_base Q)) (bjj (q_base Q)) (q_bjj_coins Q k) (q_key Q) (q_threshold Q) (q_ids Q) i)"

definition q_public :: "('f::field, 'p::ab_group_add, 'g::field, 'q::ab_group_add, 'pk, 'sk) quorum \<Rightarrow> nat \<Rightarrow> string \<Rightarrow> bytes" where
  "q_public Q i k =
    (if is_secp k
     then the_ok (encode (secp (q_base Q)) (public_value (secp (q_base Q)) (q_secp_coins Q k) (q_threshold Q) (q_ids Q) i))
     else the_ok (encode (bjj (q_base Q)) (public_value (bjj (q_base Q)) (q_bjj_coins Q k) (q_threshold Q) (q_ids Q) i)))"

definition q_share :: "('f::field, 'p::ab_group_add, 'g::field, 'q::ab_group_add, 'pk, 'sk) quorum \<Rightarrow> nat \<Rightarrow> string \<Rightarrow> bytes" where
  "q_share Q i k =
    (if is_secp k
     then scalar_to_bytes (secp (q_base Q)) (eval (quorum_poly (q_secp_coins Q k) (q_threshold Q) (q_ids Q)) (of_nat i))
     else scalar_to_bytes (bjj (q_base Q)) (eval (quorum_poly (q_bjj_coins Q k) (q_threshold Q) (q_ids Q)) (of_nat i)))"

definition per_key :: "(string \<Rightarrow> 'a) \<Rightarrow> (string, 'a) hashmap" where
  "per_key f = map (\<lambda>k. (k, f k)) engine_keys"

lemma engine_keys_distinct: "distinct engine_keys"
  by (simp add: engine_keys_def)

lemma q_env_sel [simp]:
  "secp (q_env Q i) = secp (q_base Q)" "bjj (q_env Q i) = bjj (q_base Q)"
  "rsa_crate (q_env Q i) = rsa_crate (q_base Q)" "from_pkcs1_pem (q_env Q i) = from_pkcs1_pem (q_base Q)"
  "secp_coins (q_env Q i) k = q_secp_coins Q k i" "bjj_coins (q_env Q i) k = q_bjj_coins Q k i"
  by (simp_all add: q_env_def)

lemma quorum_ok_D:
  assumes "quorum_ok Q"
  shows "distinct (q_ids Q)" and "2 < length (q_ids Q)" and "length (q_ids Q) < 2 ^ 64"
    and "0 < q_threshold Q" and "q_threshold Q < length (q_ids Q)"
proof -
  have "keygen_ok (rsa_crate (q_base Q)) (secp (q_base Q)) (q_secp_coins Q ''OPRFSecp256k1'') (q_key Q)
      (q_threshold Q) (q_ids Q)"
    using assms by (simp add: quorum_ok_def engine_keys_def is_secp_def)
  from keygen_ok_D [OF this] assms
  show "distinct (q_ids Q)" "2 < length (q_ids Q)" "length (q_ids Q) < 2 ^ 64" "0 < q_threshold Q"
    "q_threshold Q < length (q_ids Q)"
    by (simp_all add: quorum_ok_def q_ids_def)
qed

section \<open>What an engine holds\<close>

fun variant_inv ::
    "('f::field, 'p::ab_group_add, 'g::field, 'q::ab_group_add, 'pk, 'sk) quorum \<Rightarrow> nat \<Rightarrow> nat list \<Rightarrow> nat list \<Rightarrow> bool \<Rightarrow>
      bool \<Rightarrow> string \<Rightarrow> ('f, 'p, 'g, 'q, 'pk, 'sk) NodeDataVariant \<Rightarrow> bool" where
  "variant_inv Q i js ps r1 r2 k (NodeDataVariant.Secp256k1 nd) \<longleftrightarrow> is_secp k \<and>
    node_inv (rsa_crate (q_base Q)) (secp (q_base Q)) (q_secp_coins Q k) (q_key Q) (q_threshold Q) (q_ids Q)
      i js ps r1 r2 nd"
| "variant_inv Q i js ps r1 r2 k (NodeDataVariant.BabyJubJub nd) \<longleftrightarrow> \<not> is_secp k \<and>
    node_inv (rsa_crate (q_base Q)) (bjj (q_base Q)) (q_bjj_coins Q k) (q_key Q) (q_threshold Q) (q_ids Q)
      i js ps r1 r2 nd"

lemma quorum_ok_curves:
  assumes "quorum_ok Q" and "k \<in> set engine_keys"
  shows "is_secp k \<Longrightarrow> keygen_ok (rsa_crate (q_base Q)) (secp (q_base Q)) (q_secp_coins Q k) (q_key Q)
      (q_threshold Q) (q_ids Q)"
    and "\<not> is_secp k \<Longrightarrow> keygen_ok (rsa_crate (q_base Q)) (bjj (q_base Q)) (q_bjj_coins Q k) (q_key Q)
      (q_threshold Q) (q_ids Q)"
  using assms by (auto simp: quorum_ok_def)

lemma on_variant_inv:
  assumes "variant_inv Q i js ps r1 r2 k v"
    and "\<And>nd. \<lbrakk>is_secp k; variant_inv Q i js ps r1 r2 k (NodeDataVariant.Secp256k1 nd)\<rbrakk> \<Longrightarrow>
      \<exists>nd'. f nd = (x, nd') \<and> variant_inv Q i js' ps' r1' r2' k (NodeDataVariant.Secp256k1 nd')"
    and "\<And>nd. \<lbrakk>\<not> is_secp k; variant_inv Q i js ps r1 r2 k (NodeDataVariant.BabyJubJub nd)\<rbrakk> \<Longrightarrow>
      \<exists>nd'. g nd = (x, nd') \<and> variant_inv Q i js' ps' r1' r2' k (NodeDataVariant.BabyJubJub nd')"
  shows "\<exists>v'. on_variant f g v = (x, v') \<and> variant_inv Q i js' ps' r1' r2' k v'"
proof (cases v)
  case (Secp256k1 nd)
  with assms(1) have "is_secp k" by simp
  with assms(1,2) Secp256k1 obtain nd' where
    "f nd = (x, nd')" "variant_inv Q i js' ps' r1' r2' k (NodeDataVariant.Secp256k1 nd')" by blast
  with Secp256k1 show ?thesis by (intro exI [of _ "NodeDataVariant.Secp256k1 nd'"]) simp
next
  case (BabyJubJub nd)
  with assms(1) have "\<not> is_secp k" by simp
  with assms(1,3) BabyJubJub obtain nd' where
    "g nd = (x, nd')" "variant_inv Q i js' ps' r1' r2' k (NodeDataVariant.BabyJubJub nd')" by blast
  with BabyJubJub show ?thesis by (intro exI [of _ "NodeDataVariant.BabyJubJub nd'"]) simp
qed

lemma variant_round_1_inv:
  assumes "quorum_ok Q" and "i \<in> set (q_ids Q)" and "k \<in> set engine_keys" and "variant_inv Q i js ps r1 r2 k v"
  shows "\<exists>v'. variant_dkg_round_1 (q_env Q i) (q_net Q) k v = (Ok (q_output Q k i), v') \<and>
    variant_inv Q i js ps True r2 k v'"
  unfolding variant_dkg_round_1_def
  using node_round_1_inv [OF quorum_ok_curves(1) [OF assms(1,3)] assms(2)]
    node_round_1_inv [OF quorum_ok_curves(2) [OF assms(1,3)] assms(2)]
  by (intro on_variant_inv [OF assms(4)]) (simp_all add: q_net_def q_output_def)

lemma variant_receive_inv:
  assumes "quorum_ok Q" and "i \<in> set (q_ids Q)" "j \<in> set (q_ids Q)" "j \<noteq> i" and "distinct js"
    and "k \<in> set engine_keys" and "variant_inv Q i js ps r1 r2 k v"
  shows "\<exists>v'. register_round_1_result_from_other_node (q_env Q i) i j (q_output Q k j) v = (Ok (), v') \<and>
    variant_inv Q i (add_new j js) ps r1 r2 k v'"
proof -
  obtain ys vs own where out: "q_output Q k j = (ys, vs, own)" by (cases "q_output Q k j")
  show ?thesis
    unfolding register_round_1_result_from_other_node_def out Let_def prod.case
    using node_receive_inv [OF quorum_ok_curves(1) [OF assms(1,6)] assms(2-5)]
      node_receive_inv [OF quorum_ok_curves(2) [OF assms(1,6)] assms(2-5)] out
    by (intro on_variant_inv [OF assms(7)]) (simp_all add: q_output_def)
qed

lemma variant_round_2_inv:
  assumes "quorum_ok Q" and "i \<in> set (q_ids Q)" and "distinct js" "set js = set (q_ids Q) - {i}" and "distinct ps"
    and "k \<in> set engine_keys" and "variant_inv Q i js ps True r2 k v"
  shows "\<exists>v'. variant_dkg_round_2 (q_env Q i) (q_net Q) v = (Ok (q_public Q i k), v') \<and>
    variant_inv Q i js (add_new i ps) True True k v'"
  unfolding variant_dkg_round_2_def
  using node_round_2_inv [OF quorum_ok_curves(1) [OF assms(1,6)] assms(2-5)]
    node_round_2_inv [OF quorum_ok_curves(2) [OF assms(1,6)] assms(2-5)]
  by (intro on_variant_inv [OF assms(7)]) (simp_all add: q_net_def q_public_def)

lemma variant_store_inv:
  assumes "quorum_ok Q" and "j \<in> set (q_ids Q)" and "distinct ps"
    and "k \<in> set engine_keys" and "variant_inv Q i js ps r1 r2 k v"
  shows "\<exists>v'. store_pubshare_for_node (q_env Q i) j (q_public Q j k) v = (Ok (), v') \<and>
    variant_inv Q i js (add_new j ps) r1 r2 k v'"
  unfolding store_pubshare_for_node_def
  using node_store_inv [OF quorum_ok_curves(1) [OF assms(1,4)] assms(2-3)]
    node_store_inv [OF quorum_ok_curves(2) [OF assms(1,4)] assms(2-3)]
  by (intro on_variant_inv [OF assms(5)]) (simp_all add: q_public_def)

lemma variant_round_3:
  assumes "quorum_ok Q" and "distinct ps" "set ps = set (q_ids Q)" and "k \<in> set engine_keys"
    and "variant_inv Q i js ps r1 True k v"
  shows "get_variant (process_round_3 (secp (q_base Q)) (q_net Q) False e)
    (process_round_3 (bjj (q_base Q)) (q_net Q) False e) v = Ok ()"
  using assms(5) node_round_3 [OF quorum_ok_curves(1) [OF assms(1,4)] assms(2-3)]
    node_round_3 [OF quorum_ok_curves(2) [OF assms(1,4)] assms(2-3)]
  by (cases v) (auto simp: q_net_def)

lemma variant_values:
  assumes ok: "quorum_ok Q" and i: "i \<in> set (q_ids Q)" and k: "k \<in> set engine_keys"
    and inv: "variant_inv Q i js ps r1 True k v"
  shows "get_priv_share (q_env Q i) v = q_share Q i k" and "get_pub_share (q_env Q i) v = Ok (q_public Q i k)"
    and "get_network_pubkey (q_env Q i) v = Ok (q_public Q 0 k)"
proof -
  have codec: "unwrap (encode C (public_value C rnd t ids j)) = Ok (the_ok (encode C (public_value C rnd t ids j)))"
    if "keygen_ok R C rnd sk t ids" "j = 0 \<or> j \<in> set ids" for R C rnd sk t ids j
  proof -
    from that have "point_codec C (public_value C rnd t ids j)" by (auto simp: keygen_ok_def)
    then show ?thesis by (auto simp: point_codec_def)
  qed
  show "get_priv_share (q_env Q i) v = q_share Q i k" "get_pub_share (q_env Q i) v = Ok (q_public Q i k)"
    "get_network_pubkey (q_env Q i) v = Ok (q_public Q 0 k)"
    using inv codec [OF quorum_ok_curves(1) [OF ok k]] codec [OF quorum_ok_curves(2) [OF ok k]] i
    by (cases v; simp add: get_priv_share_def get_pub_share_def get_network_pubkey_def q_share_def q_public_def
        node_inv_def flip: public_value_def)+
qed

definition nodes_inv ::
    "(string \<Rightarrow> 'v \<Rightarrow> bool) \<Rightarrow> (string, 'v) hashmap \<Rightarrow> bool" where
  "nodes_inv P nodes \<longleftrightarrow> map fst nodes = engine_keys \<and> (\<forall>(k, v)\<in>set nodes. P k v)"

lemma nodes_inv_keys: "\<lbrakk>nodes_inv P nodes; (k, v) \<in> set nodes\<rbrakk> \<Longrightarrow> k \<in> set engine_keys \<and> P k v"
  unfolding nodes_inv_def by (metis (mono_tags, lifting) case_prodD image_eqI fst_conv list.set_map)

lemma map_per_key: "map fst nodes = engine_keys \<Longrightarrow> map (\<lambda>(k, v). (k, g k)) nodes = per_key g"
  unfolding per_key_def by (metis (mono_tags, lifting) map_eq_conv map_map o_apply split_def)

lemma for_nodes_inv:
  assumes inv: "nodes_inv P nodes"
    and step: "\<And>k v. \<lbrakk>k \<in> set engine_keys; P k v\<rbrakk> \<Longrightarrow> \<exists>v'. f k v = (Ok (g k), v') \<and> P' k v'"
  shows "\<exists>nodes'. for_nodes f nodes = (Ok (per_key g), nodes') \<and> nodes_inv P' nodes'"
proof -
  have f: "f k v = (Ok (g k), snd (f k v)) \<and> P' k (snd (f k v))" if "(k, v) \<in> set nodes" for k v
    using step nodes_inv_keys [OF inv that] by force
  then have "for_nodes f nodes =
      (Ok (map (\<lambda>(k, v). (k, g k)) nodes), map (\<lambda>(k, v). (k, snd (f k v))) nodes)"
    by (intro for_nodes_Ok) simp
  moreover have "nodes_inv P' (map (\<lambda>(k, v). (k, snd (f k v))) nodes)"
    using inv f by (auto simp: nodes_inv_def o_def split_def)
  ultimately show ?thesis using inv map_per_key by (auto simp: nodes_inv_def)
qed

lemma for_entries_inv:
  assumes inv: "nodes_inv P nodes"
    and step: "\<And>k v. \<lbrakk>k \<in> set engine_keys; P k v\<rbrakk> \<Longrightarrow> \<exists>v'. f k (a k) v = (Ok (), v') \<and> P' k v'"
  shows "\<exists>nodes'. for_entries f (per_key a) nodes = (Ok (), nodes') \<and> nodes_inv P' nodes'"
proof -
  have f: "f k (a k) v = (Ok (), snd (f k (a k) v)) \<and> P' k (snd (f k (a k) v))" if "(k, v) \<in> set nodes" for k v
    using step nodes_inv_keys [OF inv that] by force
  have "for_entries f (map (\<lambda>k. (k, a k)) engine_keys) nodes =
      (Ok (), map (\<lambda>(k, v). (k, if k \<in> set engine_keys then snd (f k (a k) v) else v)) nodes)"
    using inv f engine_keys_distinct by (intro for_entries_Ok) (auto simp: nodes_inv_def)
  also have "map (\<lambda>(k, v). (k, if k \<in> set engine_keys then snd (f k (a k) v) else v)) nodes =
      map (\<lambda>(k, v). (k, snd (f k (a k) v))) nodes"
    using nodes_inv_keys [OF inv] by auto
  moreover have "nodes_inv P' (map (\<lambda>(k, v). (k, snd (f k (a k) v))) nodes)"
    using inv f by (auto simp: nodes_inv_def o_def split_def)
  ultimately show ?thesis by (auto simp: per_key_def)
qed

definition q_pid :: "('f, 'p, 'g, 'q, 'pk, 'sk) quorum \<Rightarrow> nat \<Rightarrow> PeerId" where
  "q_pid Q i = (case find (\<lambda>(_, _, j). j = i) (q_provers Q) of Some (pid, _) \<Rightarrow> pid | None \<Rightarrow> [])"

lemma q_pid_member: "i \<in> set (q_ids Q) \<Longrightarrow> hm_contains (q_pid Q i) (q_provers Q)"
  by (auto simp: q_pid_def q_ids_def hm_contains_def find_Some_iff find_None_iff in_set_conv_nth
      split: option.split) (metis fst_conv imageI nth_mem)+

definition engine_inv ::
    "('f::field, 'p::ab_group_add, 'g::field, 'q::ab_group_add, 'pk, 'sk) quorum \<Rightarrow> nat \<Rightarrow> nat list \<Rightarrow> nat list \<Rightarrow> bool \<Rightarrow>
      bool \<Rightarrow> ('f, 'p, 'g, 'q, 'pk, 'sk) DKGEngineState \<Rightarrow> bool" where
  "engine_inv Q i js ps r1 r2 s \<longleftrightarrow>
    engine_idx s = i \<and> engine_peer_id s = q_pid Q i \<and> engine_network s = q_net Q \<and> new_provers s = q_provers Q \<and>
    engine_tstar_provers s = [] \<and> nodes_inv (variant_inv Q i js ps r1 r2) (dkg_nodes s)"

lemma variant_counts:
  assumes "variant_inv Q i js ps r1 r2 k v"
  shows "get_no_of_inputs v = (length js, length js)" and "get_no_of_other_pub_shares v = length ps"
  using assms
  by (cases v; simp add: get_no_of_inputs_def get_no_of_other_pub_shares_def node_inv_def)+

lemma list_all_nodes:
  assumes "nodes_inv P nodes" and "\<And>k v. P k v \<Longrightarrow> t k v = b"
  shows "list_all (\<lambda>(k, v). t k v) nodes = b"
proof -
  from assms(1) have "nodes \<noteq> []" by (auto simp: nodes_inv_def engine_keys_def)
  with assms show ?thesis by (cases nodes) (auto simp: nodes_inv_def list_all_iff)
qed

lemma round1_ready_iff:
  assumes ok: "quorum_ok Q" and i: "i \<in> set (q_ids Q)" and inv: "engine_inv Q i js ps r1 r2 s"
    and js: "distinct js" "set js \<subseteq> set (q_ids Q) - {i}"
  shows "dkg_round1_ready s \<longleftrightarrow> set js = set (q_ids Q) - {i}"
proof -
  note D = quorum_ok_D [OF ok]
  have card: "card (set (q_ids Q) - {i}) = sub_u64 (length (q_ids Q)) 1"
    using D i by (simp add: sub_u64_le distinct_card)
  have "dkg_round1_ready s \<longleftrightarrow> length js = sub_u64 (length (q_ids Q)) 1"
    unfolding dkg_round1_ready_def
  proof (rule list_all_nodes)
    show "nodes_inv (variant_inv Q i js ps r1 r2) (dkg_nodes s)" using inv by (simp add: engine_inv_def)
    show "(case get_no_of_inputs v of (m, n) \<Rightarrow> m = sub_u64 (total_nodes (engine_network s)) 1 \<and>
        n = sub_u64 (total_nodes (engine_network s)) 1) = (length js = sub_u64 (length (q_ids Q)) 1)"
      if "variant_inv Q i js ps r1 r2 k v" for k v
      using variant_counts(1) [OF that] inv by (simp add: engine_inv_def q_net_def quorum_net_def)
  qed
  with js card show ?thesis
    by (metis List.finite_set card_subset_eq distinct_card finite_Diff)
qed

lemma pubshares_ready_iff:
  assumes ok: "quorum_ok Q" and inv: "engine_inv Q i js ps r1 r2 s"
    and ps: "distinct ps" "set ps \<subseteq> set (q_ids Q)"
  shows "pubshares_ready (length (q_ids Q)) s \<longleftrightarrow> set ps = set (q_ids Q)"
proof -
  have "pubshares_ready (length (q_ids Q)) s \<longleftrightarrow> length ps = length (q_ids Q)"
    unfolding pubshares_ready_def
  proof (rule list_all_nodes)
    show "nodes_inv (variant_inv Q i js ps r1 r2) (dkg_nodes s)" using inv by (simp add: engine_inv_def)
    show "(get_no_of_other_pub_shares v = length (q_ids Q)) = (length ps = length (q_ids Q))"
      if "variant_inv Q i js ps r1 r2 k v" for k v
      using variant_counts(2) [OF that] by simp
  qed
  with ps quorum_ok_D(1) [OF ok] show ?thesis
    by (metis List.finite_set card_subset_eq distinct_card)
qed

section \<open>What the handlers do\<close>

definition gossiped :: "Message \<Rightarrow> ('f, 'p, 'g, 'q, 'pk, 'sk, 'r) dkg_actor \<Rightarrow> bool" where
  "gossiped m a \<longleftrightarrow> ToGossip (Gossip m NETWORK_TOPIC) \<in> set (engine_casts a)"

lemma engine_sel [simp]:
  "engine_state (engine_cast c a) = engine_state a" "engine_state (engine_gossip m a) = engine_state a"
  "engine_state (set_engine s a) = Some s" "engine_casts (set_engine s a) = engine_casts a"
  "engine_casts (engine_cast c a) = engine_casts a @ [c]"
  "engine_casts (engine_gossip m a) = engine_casts a @ [ToGossip (Gossip m NETWORK_TOPIC)]"
  by (simp_all add: engine_cast_def engine_gossip_def set_engine_def)

lemma handle_round1_inv:
  assumes ok: "quorum_ok Q" and i: "i \<in> set (q_ids Q)" and st: "engine_state a = Some s"
    and inv: "engine_inv Q i js ps r1 r2 s" and js: "distinct js" "set js \<subseteq> set (q_ids Q) - {i}"
  shows "\<exists>s'. engine_inv Q i js ps True r2 s' \<and>
    dkg_handle (q_env Q i) DkgEngineMessage.Round1 a =
      (Ok (), let a' = engine_gossip (Message.Round1Out i (per_key (\<lambda>k. q_output Q k i))) (set_engine s' a) in
        if set js = set (q_ids Q) - {i} then engine_gossip (DKGRound1Completed (q_pid Q i)) a' else a')"
proof -
  from inv have "nodes_inv (variant_inv Q i js ps r1 r2) (dkg_nodes s)" by (simp add: engine_inv_def)
  then have "\<exists>nodes'. for_nodes (variant_dkg_round_1 (q_env Q i) (q_net Q)) (dkg_nodes s) =
      (Ok (per_key (\<lambda>k. q_output Q k i)), nodes') \<and> nodes_inv (variant_inv Q i js ps True r2) nodes'"
    by (rule for_nodes_inv) (rule variant_round_1_inv [OF ok i])
  then obtain nodes' where n: "for_nodes (variant_dkg_round_1 (q_env Q i) (q_net Q)) (dkg_nodes s) =
      (Ok (per_key (\<lambda>k. q_output Q k i)), nodes')" "nodes_inv (variant_inv Q i js ps True r2) nodes'"
    by blast
  let ?s = "s\<lparr> dkg_nodes := nodes' \<rparr>"
  have inv': "engine_inv Q i js ps True r2 ?s" using inv n(2) by (simp add: engine_inv_def)
  have "dkg_round1_ready ?s \<longleftrightarrow> set js = set (q_ids Q) - {i}" by (rule round1_ready_iff [OF ok i inv' js])
  with inv n(1) st have "dkg_handle (q_env Q i) DkgEngineMessage.Round1 a =
      (Ok (), let a' = engine_gossip (Message.Round1Out i (per_key (\<lambda>k. q_output Q k i))) (set_engine ?s a) in
        if set js = set (q_ids Q) - {i} then engine_gossip (DKGRound1Completed (q_pid Q i)) a' else a')"
    by (simp add: handle_round1_def round1_def run_round_def engine_inv_def Let_def)
  with inv' show ?thesis by blast
qed

lemma handle_round1_output_inv:
  assumes ok: "quorum_ok Q" and ij: "i \<in> set (q_ids Q)" "j \<in> set (q_ids Q)" "j \<noteq> i"
    and st: "engine_state a = Some s" and inv: "engine_inv Q i js ps r1 r2 s"
    and js: "distinct js" "set js \<subseteq> set (q_ids Q) - {i}"
  shows "\<exists>s'. engine_inv Q i (add_new j js) ps r1 r2 s' \<and>
    dkg_handle (q_env Q i) (DkgEngineMessage.Round1Out j (per_key (\<lambda>k. q_output Q k j))) a =
      (Ok (), if insert j (set js) = set (q_ids Q) - {i}
        then engine_gossip (DKGRound1Completed (q_pid Q i)) (set_engine s' a) else set_engine s' a)"
proof -
  let ?reg = "\<lambda>_ out v. logged (register_round_1_result_from_other_node (q_env Q i) i j out v)"
  from inv have "nodes_inv (variant_inv Q i js ps r1 r2) (dkg_nodes s)" by (simp add: engine_inv_def)
  then have "\<exists>nodes'. for_entries ?reg (per_key (\<lambda>k. q_output Q k j)) (dkg_nodes s) =
      (Ok () :: (unit, string) outcome, nodes') \<and> nodes_inv (variant_inv Q i (add_new j js) ps r1 r2) nodes'"
  proof (rule for_entries_inv)
    fix k v assume "k \<in> set engine_keys" "variant_inv Q i js ps r1 r2 k v"
    from variant_receive_inv [OF ok ij js(1) this]
    show "\<exists>v'. logged (register_round_1_result_from_other_node (q_env Q i) i j (q_output Q k j) v) = (Ok (), v') \<and>
        variant_inv Q i (add_new j js) ps r1 r2 k v'" by auto
  qed
  then obtain nodes' where n: "for_entries ?reg (per_key (\<lambda>k. q_output Q k j)) (dkg_nodes s) =
      (Ok () :: (unit, string) outcome, nodes')" "nodes_inv (variant_inv Q i (add_new j js) ps r1 r2) nodes'"
    by blast
  let ?s = "s\<lparr> dkg_nodes := nodes' \<rparr>"
  have inv': "engine_inv Q i (add_new j js) ps r1 r2 ?s" using inv n(2) by (simp add: engine_inv_def)
  have "dkg_round1_ready ?s \<longleftrightarrow> insert j (set js) = set (q_ids Q) - {i}"
    using round1_ready_iff [OF ok ij(1) inv'] js ij by simp
  with inv n(1) st have "dkg_handle (q_env Q i) (DkgEngineMessage.Round1Out j (per_key (\<lambda>k. q_output Q k j))) a =
      (Ok (), if insert j (set js) = set (q_ids Q) - {i}
        then engine_gossip (DKGRound1Completed (q_pid Q i)) (set_engine ?s a) else set_engine ?s a)"
    by (simp add: handle_round1_output_def engine_inv_def Let_def)
  with inv' show ?thesis by blast
qed

lemma handle_round2_inv:
  assumes ok: "quorum_ok Q" and i: "i \<in> set (q_ids Q)" and st: "engine_state a = Some s"
    and inv: "engine_inv Q i js ps True r2 s" and js: "distinct js" "set js = set (q_ids Q) - {i}"
    and ps: "distinct ps" "set ps \<subseteq> set (q_ids Q)"
  shows "\<exists>s'. engine_inv Q i js (add_new i ps) True True s' \<and>
    dkg_handle (q_env Q i) DkgEngineMessage.Round2 a =
      (Ok (), let a' = engine_gossip (Message.Round2Out i (per_key (q_public Q i))) (set_engine s' a) in
        if insert i (set ps) = set (q_ids Q) then engine_gossip (DKGRound2Completed (q_pid Q i)) a' else a')"
proof -
  let ?f = "\<lambda>_. variant_dkg_round_2 (q_env Q i) (q_net Q)"
  from inv have "nodes_inv (variant_inv Q i js ps True r2) (dkg_nodes s)" by (simp add: engine_inv_def)
  then have "\<exists>nodes'. for_nodes ?f (dkg_nodes s) = (Ok (per_key (q_public Q i)), nodes') \<and>
      nodes_inv (variant_inv Q i js (add_new i ps) True True) nodes'"
    by (rule for_nodes_inv) (rule variant_round_2_inv [OF ok i js ps(1)])
  then obtain nodes' where n: "for_nodes ?f (dkg_nodes s) = (Ok (per_key (q_public Q i)), nodes')"
    "nodes_inv (variant_inv Q i js (add_new i ps) True True) nodes'" by blast
  let ?s = "s\<lparr> dkg_nodes := nodes' \<rparr>"
  have inv': "engine_inv Q i js (add_new i ps) True True ?s" using inv n(2) by (simp add: engine_inv_def)
  have ready: "pubshares_ready (length (q_ids Q)) ?s \<longleftrightarrow> insert i (set ps) = set (q_ids Q)"
    using pubshares_ready_iff [OF ok inv'] ps i by simp
  have len: "length (q_provers Q) = length (q_ids Q)" by (simp add: q_ids_def)
  from ready inv n(1) st q_pid_member [OF i] have "dkg_handle (q_env Q i) DkgEngineMessage.Round2 a =
      (Ok (), let a' = engine_gossip (Message.Round2Out i (per_key (q_public Q i))) (set_engine ?s a) in
        if insert i (set ps) = set (q_ids Q) then engine_gossip (DKGRound2Completed (q_pid Q i)) a' else a')"
    by (simp add: handle_round2_def engine_inv_def Let_def len)
  with inv' show ?thesis by blast
qed

lemma handle_store_inv:
  assumes ok: "quorum_ok Q" and ij: "i \<in> set (q_ids Q)" "j \<in> set (q_ids Q)" "j \<noteq> i" and st: "engine_state a = Some s"
    and inv: "engine_inv Q i js ps r1 r2 s" and ps: "distinct ps" "set ps \<subseteq> set (q_ids Q)"
  shows "\<exists>s'. engine_inv Q i js (add_new j ps) r1 r2 s' \<and>
    dkg_handle (q_env Q i) (DkgEngineMessage.StoreReceivedPublicKey j (per_key (q_public Q j))) a =
      (Ok (), if insert j (set ps) = set (q_ids Q)
        then engine_gossip (DKGRound2Completed (q_pid Q i)) (set_engine s' a) else set_engine s' a)"
proof -
  let ?f = "\<lambda>_. store_pubshare_for_node (q_env Q i) j"
  from inv have "nodes_inv (variant_inv Q i js ps r1 r2) (dkg_nodes s)" by (simp add: engine_inv_def)
  then have "\<exists>nodes'. for_entries ?f (per_key (q_public Q j)) (dkg_nodes s) = (Ok (), nodes') \<and>
      nodes_inv (variant_inv Q i js (add_new j ps) r1 r2) nodes'"
    by (rule for_entries_inv) (rule variant_store_inv [OF ok ij(2) ps(1)])
  then obtain nodes' where n: "for_entries ?f (per_key (q_public Q j)) (dkg_nodes s) = (Ok (), nodes')"
    "nodes_inv (variant_inv Q i js (add_new j ps) r1 r2) nodes'" by blast
  let ?s = "s\<lparr> dkg_nodes := nodes' \<rparr>"
  have inv': "engine_inv Q i js (add_new j ps) r1 r2 ?s" using inv n(2) by (simp add: engine_inv_def)
  have ready: "pubshares_ready (length (q_ids Q)) ?s \<longleftrightarrow> insert j (set ps) = set (q_ids Q)"
    using pubshares_ready_iff [OF ok inv'] ps ij by simp
  have "valid_node j s"
    using inv ij by (auto simp: valid_node_def engine_inv_def q_ids_def list_ex_iff)
  with ready inv n(1) st ij have "dkg_handle (q_env Q i)
        (DkgEngineMessage.StoreReceivedPublicKey j (per_key (q_public Q j))) a =
      (Ok (), if insert j (set ps) = set (q_ids Q)
        then engine_gossip (DKGRound2Completed (q_pid Q i)) (set_engine ?s a) else set_engine ?s a)"
    by (simp add: handle_store_received_pubshare_def engine_inv_def Let_def q_net_def quorum_net_def)
  with inv' show ?thesis by blast
qed

lemma collect_nodes_inv:
  assumes "nodes_inv P nodes" and "\<And>k v. \<lbrakk>k \<in> set engine_keys; P k v\<rbrakk> \<Longrightarrow> f v = Ok (g k)"
  shows "collect_nodes f nodes = Ok (per_key g)"
proof -
  have f: "f v = Ok (g k)" if "(k, v) \<in> set nodes" for k v
    using assms(2) nodes_inv_keys [OF assms(1) that] by blast
  have "collect_nodes f nodes = Ok (map (\<lambda>(k, v). (k, g k)) nodes)"
    unfolding collect_nodes_def by (rule omap_total) (auto simp: f)
  with assms(1) map_per_key show ?thesis by (metis nodes_inv_def)
qed

lemma handle_round3_inv:
  assumes ok: "quorum_ok Q" and i: "i \<in> set (q_ids Q)" and st: "engine_state a = Some s"
    and inv: "engine_inv Q i js ps r1 True s" and ps: "distinct ps" "set ps = set (q_ids Q)"
  shows "dkg_handle (q_env Q i) DkgEngineMessage.Round3 a =
    (Ok (), engine_gossip (Ready i (q_pid Q i) (per_key (q_public Q i)) (per_key (q_public Q 0)))
       (engine_cast (ToAppState (StoreKeyShares (per_key (q_share Q i)))) a))"
proof -
  from inv have n: "nodes_inv (variant_inv Q i js ps r1 True) (dkg_nodes s)" by (simp add: engine_inv_def)
  have "verify_nodes (q_env Q i) (q_net Q) False s = Ok ()"
  proof -
    have v: "get_variant (process_round_3 (secp (q_base Q)) (q_net Q) False e)
        (process_round_3 (bjj (q_base Q)) (q_net Q) False e) v = Ok ()" if "(k, v) \<in> set (dkg_nodes s)" for e k v
      using nodes_inv_keys [OF n that] variant_round_3 [OF ok ps] by blast
    have "ofold (\<lambda>_ (k, v). get_variant (process_round_3 (secp (q_base Q)) (q_net Q) False e)
        (process_round_3 (bjj (q_base Q)) (q_net Q) False e) v) u (dkg_nodes s) = Ok ()" for e u
      by (subst ofold_total [where g = "\<lambda>_ _. ()"]) (auto simp: v)
    then show ?thesis by (simp add: verify_nodes_def)
  qed
  moreover have "map (\<lambda>(k, v). (k, get_priv_share (q_env Q i) v)) (dkg_nodes s) = per_key (q_share Q i)"
  proof -
    have v: "get_priv_share (q_env Q i) v = q_share Q i k" if "(k, v) \<in> set (dkg_nodes s)" for k v
      using nodes_inv_keys [OF n that] variant_values(1) [OF ok i] by blast
    have "map (\<lambda>(k, v). (k, get_priv_share (q_env Q i) v)) (dkg_nodes s) = map (\<lambda>(k, v). (k, q_share Q i k)) (dkg_nodes s)"
      by (intro map_cong) (auto simp: v)
    also have "\<dots> = per_key (q_share Q i)" using n by (intro map_per_key) (simp add: nodes_inv_def)
    finally show ?thesis .
  qed
  moreover have "collect_nodes (get_network_pubkey (q_env Q i)) (dkg_nodes s) =
      (Ok (per_key (q_public Q 0)) :: (_, ActorProcessingErr) outcome)"
    by (rule collect_nodes_inv [OF n]) (rule variant_values(3) [OF ok i])
  moreover have "collect_nodes (get_pub_share (q_env Q i)) (dkg_nodes s) =
      (Ok (per_key (q_public Q i)) :: (_, ActorProcessingErr) outcome)"
    by (rule collect_nodes_inv [OF n]) (rule variant_values(2) [OF ok i])
  ultimately show ?thesis
    using inv st by (simp add: handle_round3_def engine_inv_def announce_ready_def Let_def)
qed

end
