(* ===== verification/Quorum_Run.thy ===== *)
theory Quorum_Run
  imports Engine_Run
begin

text \<open>
  The engines of a quorum together: every engine is initialised, messages are delivered in any
  order and any number of times, and a round starts at an engine once all engines have announced
  the end of the round before, as the relay does it (see \<open>Barriers\<close>).
\<close>

section \<open>The system\<close>

type_synonym ('f, 'p, 'g, 'q, 'pk, 'sk, 'r) engines = "nat \<Rightarrow> ('f, 'p, 'g, 'q, 'pk, 'sk, 'r) dkg_actor"

definition handle_then ::
    "('f::field, 'p::ab_group_add, 'g::field, 'q::ab_group_add, 'pk, 'sk) dkg_env \<Rightarrow> DkgEngineMessage \<Rightarrow> DkgEngineMessage \<Rightarrow>
      ('f, 'p, 'g, 'q, 'pk, 'sk, 'r) dkg_actor \<Rightarrow> ('f, 'p, 'g, 'q, 'pk, 'sk, 'r) dkg_actor" where
  "handle_then E m m' a = snd (dkg_handle E m' (snd (dkg_handle E m a)))"

definition initial ::
    "('f::field, 'p::ab_group_add, 'g::field, 'q::ab_group_add, 'pk, 'sk) quorum \<Rightarrow> ('f, 'p, 'g, 'q, 'pk, 'sk, 'r) engines" where
  "initial Q i = snd (dkg_handle (q_env Q i) (DkgEngineMessage.Init i (q_pid Q i) (q_provers Q) (q_threshold Q))
    (dkg_pre_start (q_key Q i) False))"

text \<open>A start message makes the engine cast the message of the round to itself.\<close>

inductive quorum_step ::
    "('f::field, 'p::ab_group_add, 'g::field, 'q::ab_group_add, 'pk, 'sk) quorum \<Rightarrow>
      ('f, 'p, 'g, 'q, 'pk, 'sk, 'r) engines \<Rightarrow> ('f, 'p, 'g, 'q, 'pk, 'sk, 'r) engines \<Rightarrow> bool"
  for Q where
  start1: "\<lbrakk>i \<in> set (q_ids Q); ToDkg DkgEngineMessage.Round1 \<notin> set (engine_casts (A i))\<rbrakk> \<Longrightarrow>
    quorum_step Q A (A(i := handle_then (q_env Q i) DkgEngineMessage.StartDKGRound1 DkgEngineMessage.Round1 (A i)))"
| deliver1: "\<lbrakk>i \<in> set (q_ids Q); j \<in> set (q_ids Q); j \<noteq> i; gossiped (Message.Round1Out n out) (A j)\<rbrakk> \<Longrightarrow>
    quorum_step Q A (A(i := snd (dkg_handle (q_env Q i) (DkgEngineMessage.Round1Out n out) (A i))))"
| start2: "\<lbrakk>i \<in> set (q_ids Q); \<forall>j\<in>set (q_ids Q). gossiped (DKGRound1Completed (q_pid Q j)) (A j)\<rbrakk> \<Longrightarrow>
    quorum_step Q A (A(i := handle_then (q_env Q i) DkgEngineMessage.StartDKGRound2 DkgEngineMessage.Round2 (A i)))"
| deliver2: "\<lbrakk>i \<in> set (q_ids Q); j \<in> set (q_ids Q); j \<noteq> i; gossiped (Message.Round2Out n pubs) (A j)\<rbrakk> \<Longrightarrow>
    quorum_step Q A (A(i := snd (dkg_handle (q_env Q i) (DkgEngineMessage.StoreReceivedPublicKey n pubs) (A i))))"
| start3: "\<lbrakk>i \<in> set (q_ids Q); \<forall>j\<in>set (q_ids Q). gossiped (DKGRound2Completed (q_pid Q j)) (A j)\<rbrakk> \<Longrightarrow>
    quorum_step Q A (A(i := handle_then (q_env Q i) DkgEngineMessage.StartDKGRound3 DkgEngineMessage.Round3 (A i)))"

section \<open>Initialisation\<close>

lemma parse_rsa_keys_quorum:
  assumes "quorum_ok Q"
  shows "parse_rsa_keys (q_env Q i) (q_provers Q) =
    Ok (map (\<lambda>i. (i, public_of (rsa_crate (q_base Q)) (q_key Q i))) (q_ids Q))"
proof -
  have "parse_rsa_keys (q_env Q i) (q_provers Q) =
      Ok (map (\<lambda>x. ((\<lambda>(_, _, i). i) x, public_of (rsa_crate (q_base Q)) (q_key Q ((\<lambda>(_, _, i). i) x)))) (q_provers Q))"
    unfolding parse_rsa_keys_def
  proof (rule ofold_build)
    show "distinct (map (\<lambda>(_, _, i). i) (q_provers Q))" using quorum_ok_D(1) [OF assms] by (simp add: q_ids_def)
    show "(case x of (pid, prover, i') \<Rightarrow>
        obind (map_err (\<lambda>e. Custom (''Failed to parse RSA public key for peer '' @ pid @ '': '' @ e))
          (from_pkcs1_pem (q_env Q i) (replace_escaped_cr (rsa_pub_key prover)))) (\<lambda>key. Ok (hm_insert i' key acc))) =
      Ok (acc @ [((\<lambda>(_, _, i). i) x, public_of (rsa_crate (q_base Q)) (q_key Q ((\<lambda>(_, _, i). i) x)))])"
      if "x \<in> set (q_provers Q)" "(\<lambda>(_, _, i). i) x \<notin> set (hm_keys acc)" for acc x
      using that assms by (auto simp: quorum_ok_def)
  qed
  then show ?thesis by (simp add: q_ids_def split_def o_def)
qed

lemma initial_inv:
  fixes Q :: "('f::field, 'p::ab_group_add, 'g::field, 'q::ab_group_add, 'pk, 'sk) quorum"
  assumes ok: "quorum_ok Q" and i: "i \<in> set (q_ids Q)"
  shows "\<exists>s. engine_inv Q i [] [] False False s \<and>
    initial Q i = engine_gossip (DKGInitCompleted (q_pid Q i)) (set_engine s (dkg_pre_start (q_key Q i) False))"
proof -
  have net: "Network_new (q_threshold Q) (length (q_provers Q)) False =
      Ok \<lparr> net_threshold = q_threshold Q, total_nodes = length (q_provers Q), public_keys = [] :: (nat, 'pk) hashmap \<rparr>"
    using quorum_ok_D [OF ok] by (simp add: Network_new_def q_ids_def)
  obtain s where "dkg_init (q_env Q i) (q_pid Q i) i (q_key Q i) (q_provers Q) (q_threshold Q) = Ok s"
    "engine_inv Q i [] [] False False s"
    by (simp add: net dkg_init_def new_node_def with_rsa_key_def Let_def parse_rsa_keys_quorum [OF ok] engine_inv_def
        nodes_inv_def engine_keys_def is_secp_def node_inv_def q_net_def quorum_net_def)
      (simp add: q_ids_def)
  then show ?thesis by (auto simp: initial_def handle_dkg_init_def dkg_pre_start_def)
qed

section \<open>The invariant\<close>

definition cast_ok ::
    "('f::field, 'p::ab_group_add, 'g::field, 'q::ab_group_add, 'pk, 'sk) quorum \<Rightarrow> nat \<Rightarrow> nat list \<Rightarrow> nat list \<Rightarrow> bool \<Rightarrow>
      bool \<Rightarrow> ('f, 'p, 'g, 'q, 'r) cast \<Rightarrow> bool" where
  "cast_ok Q i js ps r1 r2 c \<longleftrightarrow>
    c = ToGossip (Gossip (DKGInitCompleted (q_pid Q i)) NETWORK_TOPIC) \<or>
    r1 \<and> c = ToDkg DkgEngineMessage.Round1 \<or> c = ToDkg DkgEngineMessage.Round2 \<or> c = ToDkg DkgEngineMessage.Round3 \<or>
    r1 \<and> c = ToGossip (Gossip (Message.Round1Out i (per_key (\<lambda>k. q_output Q k i))) NETWORK_TOPIC) \<or>
    set js = set (q_ids Q) - {i} \<and> c = ToGossip (Gossip (DKGRound1Completed (q_pid Q i)) NETWORK_TOPIC) \<or>
    r2 \<and> c = ToGossip (Gossip (Message.Round2Out i (per_key (q_public Q i))) NETWORK_TOPIC) \<or>
    set ps = set (q_ids Q) \<and> c = ToGossip (Gossip (DKGRound2Completed (q_pid Q i)) NETWORK_TOPIC) \<or>
    c = ToAppState (StoreKeyShares (per_key (q_share Q i))) \<or>
    c = ToGossip (Gossip (Ready i (q_pid Q i) (per_key (q_public Q i)) (per_key (q_public Q 0))) NETWORK_TOPIC)"

definition actor_inv ::
    "('f::field, 'p::ab_group_add, 'g::field, 'q::ab_group_add, 'pk, 'sk) quorum \<Rightarrow> nat \<Rightarrow> nat list \<Rightarrow> nat list \<Rightarrow> bool \<Rightarrow>
      bool \<Rightarrow> ('f, 'p, 'g, 'q, 'pk, 'sk, 'r) dkg_actor \<Rightarrow> bool" where
  "actor_inv Q i js ps r1 r2 a \<longleftrightarrow>
    (\<exists>s. engine_state a = Some s \<and> engine_inv Q i js ps r1 r2 s) \<and>
    distinct js \<and> set js \<subseteq> set (q_ids Q) - {i} \<and> distinct ps \<and> set ps \<subseteq> set (q_ids Q) \<and>
    (\<forall>c\<in>set (engine_casts a). cast_ok Q i js ps r1 r2 c) \<and>
    (r1 \<longrightarrow> gossiped (Message.Round1Out i (per_key (\<lambda>k. q_output Q k i))) a) \<and>
    (set js = set (q_ids Q) - {i} \<longrightarrow> gossiped (DKGRound1Completed (q_pid Q i)) a) \<and>
    (r2 \<longrightarrow> gossiped (Message.Round2Out i (per_key (q_public Q i))) a) \<and>
    (set ps = set (q_ids Q) \<longrightarrow> gossiped (DKGRound2Completed (q_pid Q i)) a)"

definition net_inv ::
    "('f::field, 'p::ab_group_add, 'g::field, 'q::ab_group_add, 'pk, 'sk) quorum \<Rightarrow> (nat \<Rightarrow> nat list) \<Rightarrow> (nat \<Rightarrow> nat list) \<Rightarrow>
      (nat \<Rightarrow> bool) \<Rightarrow> (nat \<Rightarrow> bool) \<Rightarrow> ('f, 'p, 'g, 'q, 'pk, 'sk, 'r) engines \<Rightarrow> bool" where
  "net_inv Q js ps r1 r2 A \<longleftrightarrow>
    (\<forall>i\<in>set (q_ids Q). actor_inv Q i (js i) (ps i) (r1 i) (r2 i) (A i) \<and>
      (\<forall>j\<in>set (js i). r1 j) \<and> (\<forall>j\<in>set (ps i). r2 j))"

lemma cast_ok_simps [simp]:
  "cast_ok Q i js ps r1 r2 (ToDkg DkgEngineMessage.Round1) = r1"
  "cast_ok Q i js ps r1 r2 (ToDkg DkgEngineMessage.Round2)"
  "cast_ok Q i js ps r1 r2 (ToDkg DkgEngineMessage.Round3)"
  "cast_ok Q i js ps r1 r2 (ToGossip (Gossip (DKGInitCompleted (q_pid Q i)) NETWORK_TOPIC))"
  "cast_ok Q i js ps r1 r2 (ToGossip (Gossip (Message.Round1Out n out) NETWORK_TOPIC)) =
    (r1 \<and> n = i \<and> out = per_key (\<lambda>k. q_output Q k i))"
  "cast_ok Q i js ps r1 r2 (ToGossip (Gossip (DKGRound1Completed (q_pid Q i)) NETWORK_TOPIC)) =
    (set js = set (q_ids Q) - {i})"
  "cast_ok Q i js ps r1 r2 (ToGossip (Gossip (Message.Round2Out n pubs) NETWORK_TOPIC)) =
    (r2 \<and> n = i \<and> pubs = per_key (q_public Q i))"
  "cast_ok Q i js ps r1 r2 (ToGossip (Gossip (DKGRound2Completed (q_pid Q i)) NETWORK_TOPIC)) =
    (set ps = set (q_ids Q))"
  "cast_ok Q i js ps r1 r2 (ToAppState (StoreKeyShares shares)) = (shares = per_key (q_share Q i))"
  "cast_ok Q i js ps r1 r2 (ToGossip (Gossip (Ready n pid pubs keys) NETWORK_TOPIC)) =
    (n = i \<and> pid = q_pid Q i \<and> pubs = per_key (q_public Q i) \<and> keys = per_key (q_public Q 0))"
  by (auto simp: cast_ok_def)

text \<open>What an engine may have cast stays allowed as it learns more.\<close>

lemma cast_ok_mono:
  assumes "cast_ok Q i js ps r1 r2 c" and "set js \<subseteq> set js'" "set js' \<subseteq> set (q_ids Q) - {i}"
    and "set ps \<subseteq> set ps'" "set ps' \<subseteq> set (q_ids Q)" and "r1 \<longrightarrow> r1'" "r2 \<longrightarrow> r2'"
  shows "cast_ok Q i js' ps' r1' r2' c"
  using assms unfolding cast_ok_def by blast

lemma actor_inv_gossiped:
  assumes "actor_inv Q i js ps r1 r2 a"
  shows "gossiped (Message.Round1Out n out) a \<Longrightarrow> r1 \<and> n = i \<and> out = per_key (\<lambda>k. q_output Q k i)"
    and "gossiped (DKGRound1Completed pid) a \<Longrightarrow> set js = set (q_ids Q) - {i}"
    and "gossiped (Message.Round2Out n pubs) a \<Longrightarrow> r2 \<and> n = i \<and> pubs = per_key (q_public Q i)"
    and "gossiped (DKGRound2Completed pid) a \<Longrightarrow> set ps = set (q_ids Q)"
    and "gossiped (Ready n pid pubs keys) a \<Longrightarrow>
      n = i \<and> pid = q_pid Q i \<and> pubs = per_key (q_public Q i) \<and> keys = per_key (q_public Q 0)"
    and "ToAppState (StoreKeyShares shares) \<in> set (engine_casts a) \<Longrightarrow> shares = per_key (q_share Q i)"
    and "\<not> r1 \<Longrightarrow> ToDkg DkgEngineMessage.Round1 \<notin> set (engine_casts a)"
  using assms by (auto simp: actor_inv_def gossiped_def cast_ok_def)

lemma quorum_other: "quorum_ok Q \<Longrightarrow> \<exists>j\<in>set (q_ids Q). j \<noteq> i"
proof (rule ccontr)
  assume ok: "quorum_ok Q" and "\<not> (\<exists>j\<in>set (q_ids Q). j \<noteq> i)"
  then have "set (q_ids Q) \<subseteq> {i}" by blast
  from card_mono [OF _ this] quorum_ok_D(1,2) [OF ok] show False by (simp add: distinct_card)
qed

lemma net_initial:
  fixes Q :: "('f::field, 'p::ab_group_add, 'g::field, 'q::ab_group_add, 'pk, 'sk) quorum"
  assumes ok: "quorum_ok Q"
  shows "net_inv Q (\<lambda>_. []) (\<lambda>_. []) (\<lambda>_. False) (\<lambda>_. False)
    (initial Q :: ('f, 'p, 'g, 'q, 'pk, 'sk, 'r) engines)"
proof -
  let ?A = "initial Q :: ('f, 'p, 'g, 'q, 'pk, 'sk, 'r) engines"
  have "actor_inv Q i [] [] False False (?A i)" if i: "i \<in> set (q_ids Q)" for i
  proof -
    have ne: "set (q_ids Q) - {i} \<noteq> {}" "set (q_ids Q) \<noteq> {}" using quorum_other [OF ok, of i] by auto
    have "\<exists>s. engine_inv Q i [] [] False False s \<and>
        ?A i = engine_gossip (DKGInitCompleted (q_pid Q i)) (set_engine s (dkg_pre_start (q_key Q i) False))"
      by (rule initial_inv [OF ok i])
    with ne show ?thesis unfolding actor_inv_def by (auto simp: dkg_pre_start_def)
  qed
  then show ?thesis by (simp add: net_inv_def)
qed

section \<open>The actions\<close>

lemma actor_inv_extend:
  assumes inv: "actor_inv Q i js ps r1 r2 a"
    and st: "engine_state a' = Some s'" "engine_inv Q i js' ps' r1' r2' s'"
    and casts: "engine_casts a' = engine_casts a @ cs" "\<forall>c\<in>set cs. cast_ok Q i js' ps' r1' r2' c"
    and js: "distinct js'" "set js \<subseteq> set js'" "set js' \<subseteq> set (q_ids Q) - {i}"
    and ps: "distinct ps'" "set ps \<subseteq> set ps'" "set ps' \<subseteq> set (q_ids Q)"
    and r: "r1 \<longrightarrow> r1'" "r2 \<longrightarrow> r2'"
    and new: "r1' \<longrightarrow> r1 \<or> ToGossip (Gossip (Message.Round1Out i (per_key (\<lambda>k. q_output Q k i))) NETWORK_TOPIC) \<in> set cs"
      "set js' = set (q_ids Q) - {i} \<longrightarrow> set js = set (q_ids Q) - {i} \<or>
        ToGossip (Gossip (DKGRound1Completed (q_pid Q i)) NETWORK_TOPIC) \<in> set cs"
      "r2' \<longrightarrow> r2 \<or> ToGossip (Gossip (Message.Round2Out i (per_key (q_public Q i))) NETWORK_TOPIC) \<in> set cs"
      "set ps' = set (q_ids Q) \<longrightarrow> set ps = set (q_ids Q) \<or>
        ToGossip (Gossip (DKGRound2Completed (q_pid Q i)) NETWORK_TOPIC) \<in> set cs"
  shows "actor_inv Q i js' ps' r1' r2' a'"
proof -
  have "\<forall>c\<in>set (engine_casts a'). cast_ok Q i js' ps' r1' r2' c"
  proof
    fix c assume "c \<in> set (engine_casts a')"
    then consider "c \<in> set cs" | "c \<in> set (engine_casts a)" using casts(1) by auto
    then show "cast_ok Q i js' ps' r1' r2' c"
    proof cases
      case 2
      with inv have "cast_ok Q i js ps r1 r2 c" by (simp add: actor_inv_def)
      then show ?thesis using js(2,3) ps(2,3) r by (rule cast_ok_mono)
    qed (use casts(2) in blast)
  qed
  with inv st casts(1) js(1,3) ps(1,3) new show ?thesis
    unfolding actor_inv_def gossiped_def by (simp only: set_append Un_iff simp_thms) blast
qed

lemma start_cast:
  assumes i: "i \<in> set (q_ids Q)" and inv: "actor_inv Q i js ps r1 r2 a"
  shows "dkg_handle E DkgEngineMessage.StartDKGRound1 a = (Ok (), engine_cast (ToDkg DkgEngineMessage.Round1) a)"
    and "dkg_handle E DkgEngineMessage.StartDKGRound2 a = (Ok (), engine_cast (ToDkg DkgEngineMessage.Round2) a)"
    and "dkg_handle E DkgEngineMessage.StartDKGRound3 a = (Ok (), engine_cast (ToDkg DkgEngineMessage.Round3) a)"
  using inv q_pid_member [OF i]
  by (auto simp: actor_inv_def engine_inv_def start_round_def handle_start_dkg_round_1_def
      handle_start_dkg_round_2_def handle_start_dkg_round_3_def)

lemma actor_round1:
  assumes ok: "quorum_ok Q" and i: "i \<in> set (q_ids Q)" and inv: "actor_inv Q i js ps r1 r2 a"
  shows "actor_inv Q i js ps True r2
    (handle_then (q_env Q i) DkgEngineMessage.StartDKGRound1 DkgEngineMessage.Round1 a)"
proof -
  let ?a = "engine_cast (ToDkg DkgEngineMessage.Round1) a"
  from inv obtain s where s: "engine_state ?a = Some s" "engine_inv Q i js ps r1 r2 s"
    and js: "distinct js" "set js \<subseteq> set (q_ids Q) - {i}" by (auto simp: actor_inv_def)
  from handle_round1_inv [OF ok i s js] obtain s' where s': "engine_inv Q i js ps True r2 s'"
    "dkg_handle (q_env Q i) DkgEngineMessage.Round1 ?a =
      (Ok (), let a' = engine_gossip (Message.Round1Out i (per_key (\<lambda>k. q_output Q k i))) (set_engine s' ?a) in
        if set js = set (q_ids Q) - {i} then engine_gossip (DKGRound1Completed (q_pid Q i)) a' else a')" by blast
  show ?thesis
    by (rule actor_inv_extend [OF inv, where cs = "[ToDkg DkgEngineMessage.Round1,
          ToGossip (Gossip (Message.Round1Out i (per_key (\<lambda>k. q_output Q k i))) NETWORK_TOPIC)] @
          (if set js = set (q_ids Q) - {i} then [ToGossip (Gossip (DKGRound1Completed (q_pid Q i)) NETWORK_TOPIC)] else [])"
          and s' = s'])
      (use inv s' start_cast(1) [OF i inv] in \<open>simp_all add: handle_then_def Let_def actor_inv_def\<close>)
qed

lemma actor_deliver1:
  assumes ok: "quorum_ok Q" and ij: "i \<in> set (q_ids Q)" "j \<in> set (q_ids Q)" "j \<noteq> i"
    and inv: "actor_inv Q i js ps r1 r2 a"
  shows "actor_inv Q i (add_new j js) ps r1 r2
    (snd (dkg_handle (q_env Q i) (DkgEngineMessage.Round1Out j (per_key (\<lambda>k. q_output Q k j))) a))"
proof -
  from inv obtain s where s: "engine_state a = Some s" "engine_inv Q i js ps r1 r2 s"
    and js: "distinct js" "set js \<subseteq> set (q_ids Q) - {i}" by (auto simp: actor_inv_def)
  from handle_round1_output_inv [OF ok ij s js] obtain s' where s': "engine_inv Q i (add_new j js) ps r1 r2 s'"
    "dkg_handle (q_env Q i) (DkgEngineMessage.Round1Out j (per_key (\<lambda>k. q_output Q k j))) a =
      (Ok (), if insert j (set js) = set (q_ids Q) - {i}
        then engine_gossip (DKGRound1Completed (q_pid Q i)) (set_engine s' a) else set_engine s' a)" by blast
  show ?thesis
    by (rule actor_inv_extend [OF inv, where cs = "if insert j (set js) = set (q_ids Q) - {i}
          then [ToGossip (Gossip (DKGRound1Completed (q_pid Q i)) NETWORK_TOPIC)] else []" and s' = s'])
      (use inv s' js ij in \<open>simp_all add: actor_inv_def subset_insertI\<close>)
qed

lemma actor_round2:
  assumes ok: "quorum_ok Q" and i: "i \<in> set (q_ids Q)" and inv: "actor_inv Q i js ps True r2 a"
    and js: "set js = set (q_ids Q) - {i}"
  shows "actor_inv Q i js (add_new i ps) True True
    (handle_then (q_env Q i) DkgEngineMessage.StartDKGRound2 DkgEngineMessage.Round2 a)"
proof -
  let ?a = "engine_cast (ToDkg DkgEngineMessage.Round2) a"
  from inv obtain s where s: "engine_state ?a = Some s" "engine_inv Q i js ps True r2 s"
    and d: "distinct js" and ps: "distinct ps" "set ps \<subseteq> set (q_ids Q)" by (auto simp: actor_inv_def)
  from handle_round2_inv [OF ok i s d js ps] obtain s' where s': "engine_inv Q i js (add_new i ps) True True s'"
    "dkg_handle (q_env Q i) DkgEngineMessage.Round2 ?a =
      (Ok (), let a' = engine_gossip (Message.Round2Out i (per_key (q_public Q i))) (set_engine s' ?a) in
        if insert i (set ps) = set (q_ids Q) then engine_gossip (DKGRound2Completed (q_pid Q i)) a' else a')" by blast
  show ?thesis
    by (rule actor_inv_extend [OF inv, where cs = "[ToDkg DkgEngineMessage.Round2,
          ToGossip (Gossip (Message.Round2Out i (per_key (q_public Q i))) NETWORK_TOPIC)] @
          (if insert i (set ps) = set (q_ids Q) then [ToGossip (Gossip (DKGRound2Completed (q_pid Q i)) NETWORK_TOPIC)]
           else [])" and s' = s'])
      (use inv s' ps i start_cast(2) [OF i inv] in \<open>simp_all add: handle_then_def Let_def actor_inv_def subset_insertI\<close>)
qed

lemma actor_deliver2:
  assumes ok: "quorum_ok Q" and ij: "i \<in> set (q_ids Q)" "j \<in> set (q_ids Q)" "j \<noteq> i"
    and inv: "actor_inv Q i js ps r1 r2 a"
  shows "actor_inv Q i js (add_new j ps) r1 r2
    (snd (dkg_handle (q_env Q i) (DkgEngineMessage.StoreReceivedPublicKey j (per_key (q_public Q j))) a))"
proof -
  from inv obtain s where s: "engine_state a = Some s" "engine_inv Q i js ps r1 r2 s"
    and ps: "distinct ps" "set ps \<subseteq> set (q_ids Q)" by (auto simp: actor_inv_def)
  from handle_store_inv [OF ok ij s ps] obtain s' where s': "engine_inv Q i js (add_new j ps) r1 r2 s'"
    "dkg_handle (q_env Q i) (DkgEngineMessage.StoreReceivedPublicKey j (per_key (q_public Q j))) a =
      (Ok (), if insert j (set ps) = set (q_ids Q)
        then engine_gossip (DKGRound2Completed (q_pid Q i)) (set_engine s' a) else set_engine s' a)" by blast
  show ?thesis
    by (rule actor_inv_extend [OF inv, where cs = "if insert j (set ps) = set (q_ids Q)
          then [ToGossip (Gossip (DKGRound2Completed (q_pid Q i)) NETWORK_TOPIC)] else []" and s' = s'])
      (use inv s' ps ij in \<open>simp_all add: actor_inv_def subset_insertI\<close>)
qed

lemma actor_round3:
  assumes ok: "quorum_ok Q" and i: "i \<in> set (q_ids Q)" and inv: "actor_inv Q i js ps r1 True a"
    and ps: "set ps = set (q_ids Q)"
  defines "a' \<equiv> handle_then (q_env Q i) DkgEngineMessage.StartDKGRound3 DkgEngineMessage.Round3 a"
  shows "actor_inv Q i js ps r1 True a'"
    and "gossiped (Ready i (q_pid Q i) (per_key (q_public Q i)) (per_key (q_public Q 0))) a'"
    and "ToAppState (StoreKeyShares (per_key (q_share Q i))) \<in> set (engine_casts a')"
proof -
  let ?a = "engine_cast (ToDkg DkgEngineMessage.Round3) a"
  from inv obtain s where s: "engine_state ?a = Some s" "engine_inv Q i js ps r1 True s" and d: "distinct ps"
    by (auto simp: actor_inv_def)
  note r = handle_round3_inv [OF ok i s d ps] start_cast(3) [OF i inv]
  show "actor_inv Q i js ps r1 True a'"
    using inv r by (auto simp: a'_def handle_then_def actor_inv_def gossiped_def)
  show "gossiped (Ready i (q_pid Q i) (per_key (q_public Q i)) (per_key (q_public Q 0))) a'"
    "ToAppState (StoreKeyShares (per_key (q_share Q i))) \<in> set (engine_casts a')"
    using r by (simp_all add: a'_def handle_then_def gossiped_def)
qed

section \<open>Runs\<close>

lemma net_act:
  assumes "net_inv Q js ps r1 r2 A" and "i \<in> set (q_ids Q)"
    and "actor_inv Q i js' ps' r1' r2' a'" and "r1 i \<longrightarrow> r1'" "r2 i \<longrightarrow> r2'"
    and "\<forall>j\<in>set js'. (r1(i := r1')) j" and "\<forall>j\<in>set ps'. (r2(i := r2')) j"
  shows "net_inv Q (js(i := js')) (ps(i := ps')) (r1(i := r1')) (r2(i := r2')) (A(i := a'))"
  using assms unfolding net_inv_def by auto

lemma net_start1:
  assumes ok: "quorum_ok Q" and inv: "net_inv Q js ps r1 r2 A" and i: "i \<in> set (q_ids Q)"
  shows "net_inv Q js ps (r1(i := True)) r2
    (A(i := handle_then (q_env Q i) DkgEngineMessage.StartDKGRound1 DkgEngineMessage.Round1 (A i)))"
proof -
  from inv i have a: "actor_inv Q i (js i) (ps i) (r1 i) (r2 i) (A i)" "\<forall>j\<in>set (js i). r1 j" "\<forall>j\<in>set (ps i). r2 j"
    by (simp_all add: net_inv_def)
  from net_act [OF inv i actor_round1 [OF ok i a(1)]] a(2,3) show ?thesis by simp
qed

lemma net_deliver1:
  assumes ok: "quorum_ok Q" and inv: "net_inv Q js ps r1 r2 A"
    and ij: "i \<in> set (q_ids Q)" "j \<in> set (q_ids Q)" "j \<noteq> i" "r1 j"
  shows "net_inv Q (js(i := add_new j (js i))) ps r1 r2
    (A(i := snd (dkg_handle (q_env Q i) (DkgEngineMessage.Round1Out j (per_key (\<lambda>k. q_output Q k j))) (A i))))"
proof -
  from inv ij have a: "actor_inv Q i (js i) (ps i) (r1 i) (r2 i) (A i)" "\<forall>j\<in>set (js i). r1 j" "\<forall>j\<in>set (ps i). r2 j"
    by (simp_all add: net_inv_def)
  from net_act [OF inv ij(1) actor_deliver1 [OF ok ij(1-3) a(1)]] a(2,3) ij(4) show ?thesis by simp
qed

lemma net_start2:
  assumes ok: "quorum_ok Q" and inv: "net_inv Q js ps r1 r2 A" and i: "i \<in> set (q_ids Q)"
    and done1: "\<forall>j\<in>set (q_ids Q). set (js j) = set (q_ids Q) - {j}"
  shows "net_inv Q js (ps(i := add_new i (ps i))) r1 (r2(i := True))
    (A(i := handle_then (q_env Q i) DkgEngineMessage.StartDKGRound2 DkgEngineMessage.Round2 (A i)))"
proof -
  obtain j where j: "j \<in> set (q_ids Q)" "j \<noteq> i" using quorum_other [OF ok] by blast
  with done1 i have "i \<in> set (js j)" by auto
  with inv j have r1: "r1 i" by (simp add: net_inv_def)
  from inv i r1 have a: "actor_inv Q i (js i) (ps i) True (r2 i) (A i)" "\<forall>j\<in>set (js i). r1 j" "\<forall>j\<in>set (ps i). r2 j"
    by (auto simp: net_inv_def)
  have "set (js i) = set (q_ids Q) - {i}" using done1 i by simp
  from net_act [OF inv i actor_round2 [OF ok i a(1) this]] a(2,3) r1 show ?thesis
    by (simp add: fun_upd_idem [of r1 i True])
qed

lemma net_deliver2:
  assumes ok: "quorum_ok Q" and inv: "net_inv Q js ps r1 r2 A"
    and ij: "i \<in> set (q_ids Q)" "j \<in> set (q_ids Q)" "j \<noteq> i" "r2 j"
  shows "net_inv Q js (ps(i := add_new j (ps i))) r1 r2
    (A(i := snd (dkg_handle (q_env Q i) (DkgEngineMessage.StoreReceivedPublicKey j (per_key (q_public Q j))) (A i))))"
proof -
  from inv ij have a: "actor_inv Q i (js i) (ps i) (r1 i) (r2 i) (A i)" "\<forall>j\<in>set (js i). r1 j" "\<forall>j\<in>set (ps i). r2 j"
    by (simp_all add: net_inv_def)
  from net_act [OF inv ij(1) actor_deliver2 [OF ok ij(1-3) a(1)]] a(2,3) ij(4) show ?thesis by simp
qed

lemma net_start3:
  assumes ok: "quorum_ok Q" and inv: "net_inv Q js ps r1 r2 A" and i: "i \<in> set (q_ids Q)"
    and done2: "set (ps i) = set (q_ids Q)"
  shows "net_inv Q js ps r1 r2
    (A(i := handle_then (q_env Q i) DkgEngineMessage.StartDKGRound3 DkgEngineMessage.Round3 (A i)))"
proof -
  from inv i done2 have r2: "r2 i" by (simp add: net_inv_def)
  with inv i have a: "actor_inv Q i (js i) (ps i) (r1 i) True (A i)" "\<forall>j\<in>set (js i). r1 j" "\<forall>j\<in>set (ps i). r2 j"
    by (auto simp: net_inv_def)
  from net_act [OF inv i actor_round3(1) [OF ok i a(1) done2]] a(2,3) r2 show ?thesis
    by (simp add: fun_upd_idem [of r2 i True])
qed

lemma net_inv_step:
  assumes ok: "quorum_ok Q" and step: "quorum_step Q A A'" and inv: "net_inv Q js ps r1 r2 A"
  shows "\<exists>js ps r1 r2. net_inv Q js ps r1 r2 A'"
  using step
proof cases
  case (start1 i)
  with net_start1 [OF ok inv] show ?thesis by blast
next
  case (deliver1 i j n out)
  have "r1 j \<and> n = j \<and> out = per_key (\<lambda>k. q_output Q k j)"
    using inv deliver1 by (intro actor_inv_gossiped(1)) (auto simp: net_inv_def)
  with net_deliver1 [OF ok inv] deliver1 show ?thesis by blast
next
  case (start2 i)
  have "\<forall>j\<in>set (q_ids Q). set (js j) = set (q_ids Q) - {j}"
    using inv start2(3) actor_inv_gossiped(2) unfolding net_inv_def by blast
  with net_start2 [OF ok inv] start2 show ?thesis by blast
next
  case (deliver2 i j n pubs)
  have "r2 j \<and> n = j \<and> pubs = per_key (q_public Q j)"
    using inv deliver2 by (intro actor_inv_gossiped(3)) (auto simp: net_inv_def)
  with net_deliver2 [OF ok inv] deliver2 show ?thesis by blast
next
  case (start3 i)
  have "set (ps i) = set (q_ids Q)"
    using inv start3(2,3) actor_inv_gossiped(4) unfolding net_inv_def by blast
  with net_start3 [OF ok inv] start3 show ?thesis by blast
qed

lemma net_inv_reachable:
  assumes ok: "quorum_ok Q" and "(quorum_step Q)\<^sup>*\<^sup>* (initial Q) A"
  shows "\<exists>js ps r1 r2. net_inv Q js ps r1 r2 A"
  using assms(2)
proof (induction rule: rtranclp_induct)
  case base
  then show ?case using net_initial [OF ok] by blast
next
  case (step A A')
  then show ?case using net_inv_step [OF ok] by blast
qed

section \<open>Every run can be completed\<close>

lemma finish_start1:
  assumes ok: "quorum_ok Q"
  shows "\<lbrakk>set xs \<subseteq> set (q_ids Q); net_inv Q js ps r1 r2 A\<rbrakk> \<Longrightarrow>
    \<exists>A' r1'. (quorum_step Q)\<^sup>*\<^sup>* A A' \<and> net_inv Q js ps r1' r2 A' \<and> (\<forall>i\<in>set xs. r1' i)"
proof (induction xs)
  case Nil
  show ?case by (rule exI [of _ A]) (use Nil in auto)
next
  case (Cons x xs)
  then obtain A' r1' where A': "(quorum_step Q)\<^sup>*\<^sup>* A A'" "net_inv Q js ps r1' r2 A'" "\<forall>i\<in>set xs. r1' i"
    by auto
  show ?case
  proof (cases "r1' x")
    case True
    with A' show ?thesis by auto
  next
    case False
    have x: "x \<in> set (q_ids Q)" using Cons.prems by simp
    with A'(2) False have "ToDkg DkgEngineMessage.Round1 \<notin> set (engine_casts (A' x))"
      by (intro actor_inv_gossiped(7) [where ?r1.0 = "r1' x"]) (auto simp: net_inv_def)
    note reach = rtranclp.rtrancl_into_rtrancl [OF A'(1), OF quorum_step.start1 [where A = A', OF x this]]
    from A'(3) have "\<forall>i\<in>set (x # xs). (r1'(x := True)) i" by simp
    from reach net_start1 [OF ok A'(2) x] this show ?thesis by (intro exI conjI)
  qed
qed

lemma finish_deliver1:
  assumes ok: "quorum_ok Q" and r1: "\<forall>i\<in>set (q_ids Q). r1 i"
  shows "\<lbrakk>\<forall>(i, j)\<in>set xs. i \<in> set (q_ids Q) \<and> j \<in> set (q_ids Q) \<and> j \<noteq> i; net_inv Q js ps r1 r2 A\<rbrakk> \<Longrightarrow>
    \<exists>A' js'. (quorum_step Q)\<^sup>*\<^sup>* A A' \<and> net_inv Q js' ps r1 r2 A' \<and> (\<forall>(i, j)\<in>set xs. j \<in> set (js' i))"
proof (induction xs)
  case Nil
  show ?case by (rule exI [of _ A]) (use Nil in auto)
next
  case (Cons x xs)
  obtain i j where x: "x = (i, j)" by fastforce
  with Cons.prems have ij: "i \<in> set (q_ids Q)" "j \<in> set (q_ids Q)" "j \<noteq> i" by auto
  from Cons obtain A' js' where A': "(quorum_step Q)\<^sup>*\<^sup>* A A'" "net_inv Q js' ps r1 r2 A'"
    "\<forall>(i, j)\<in>set xs. j \<in> set (js' i)" by auto
  have "gossiped (Message.Round1Out j (per_key (\<lambda>k. q_output Q k j))) (A' j)"
    using A'(2) ij r1 by (simp add: net_inv_def actor_inv_def)
  note reach = rtranclp.rtrancl_into_rtrancl [OF A'(1), OF quorum_step.deliver1 [where A = A', OF ij this]]
  from A'(3) x have "\<forall>(i', j')\<in>set (x # xs). j' \<in> set ((js'(i := add_new j (js' i))) i')" by auto
  from reach net_deliver1 [OF ok A'(2) ij bspec [OF r1 ij(2)]] this show ?case by (intro exI conjI)
qed

lemma finish_start2:
  assumes ok: "quorum_ok Q" and done1: "\<forall>j\<in>set (q_ids Q). set (js j) = set (q_ids Q) - {j}"
  shows "\<lbrakk>set xs \<subseteq> set (q_ids Q); net_inv Q js ps r1 r2 A\<rbrakk> \<Longrightarrow>
    \<exists>A' ps' r2'. (quorum_step Q)\<^sup>*\<^sup>* A A' \<and> net_inv Q js ps' r1 r2' A' \<and> (\<forall>i\<in>set xs. r2' i \<and> i \<in> set (ps' i))"
proof (induction xs)
  case Nil
  show ?case by (rule exI [of _ A]) (use Nil in auto)
next
  case (Cons x xs)
  then obtain A' ps' r2' where A': "(quorum_step Q)\<^sup>*\<^sup>* A A'" "net_inv Q js ps' r1 r2' A'"
    "\<forall>i\<in>set xs. r2' i \<and> i \<in> set (ps' i)" by auto
  have x: "x \<in> set (q_ids Q)" using Cons.prems by simp
  have "\<forall>j\<in>set (q_ids Q). gossiped (DKGRound1Completed (q_pid Q j)) (A' j)"
    using A'(2) done1 by (simp add: net_inv_def actor_inv_def)
  note reach = rtranclp.rtrancl_into_rtrancl [OF A'(1), OF quorum_step.start2 [where A = A', OF x this]]
  from A'(3) have "\<forall>i\<in>set (x # xs). (r2'(x := True)) i \<and> i \<in> set ((ps'(x := add_new x (ps' x))) i)" by auto
  from reach net_start2 [OF ok A'(2) x done1] this show ?case by (intro exI conjI)
qed

lemma finish_deliver2:
  assumes ok: "quorum_ok Q" and r2: "\<forall>i\<in>set (q_ids Q). r2 i"
  shows "\<lbrakk>\<forall>(i, j)\<in>set xs. i \<in> set (q_ids Q) \<and> j \<in> set (q_ids Q) \<and> j \<noteq> i; net_inv Q js ps r1 r2 A\<rbrakk> \<Longrightarrow>
    \<exists>A' ps'. (quorum_step Q)\<^sup>*\<^sup>* A A' \<and> net_inv Q js ps' r1 r2 A' \<and> (\<forall>(i, j)\<in>set xs. j \<in> set (ps' i)) \<and>
      (\<forall>i. set (ps i) \<subseteq> set (ps' i))"
proof (induction xs)
  case Nil
  show ?case by (rule exI [of _ A]) (use Nil in auto)
next
  case (Cons x xs)
  obtain i j where x: "x = (i, j)" by fastforce
  with Cons.prems have ij: "i \<in> set (q_ids Q)" "j \<in> set (q_ids Q)" "j \<noteq> i" by auto
  from Cons obtain A' ps' where A': "(quorum_step Q)\<^sup>*\<^sup>* A A'" "net_inv Q js ps' r1 r2 A'"
    "\<forall>(i, j)\<in>set xs. j \<in> set (ps' i)" "\<forall>i. set (ps i) \<subseteq> set (ps' i)" by auto
  have "gossiped (Message.Round2Out j (per_key (q_public Q j))) (A' j)"
    using A'(2) ij r2 by (simp add: net_inv_def actor_inv_def)
  note reach = rtranclp.rtrancl_into_rtrancl [OF A'(1), OF quorum_step.deliver2 [where A = A', OF ij this]]
  let ?ps = "ps'(i := add_new j (ps' i))"
  from A'(3,4) x have "\<forall>(i', j')\<in>set (x # xs). j' \<in> set (?ps i')" "\<forall>i. set (ps i) \<subseteq> set (?ps i)" by auto
  from reach net_deliver2 [OF ok A'(2) ij bspec [OF r2 ij(2)]] this show ?case by (intro exI conjI)
qed

lemma finish_start3:
  assumes ok: "quorum_ok Q" and done2: "\<forall>j\<in>set (q_ids Q). set (ps j) = set (q_ids Q)"
  shows "\<lbrakk>set xs \<subseteq> set (q_ids Q); distinct xs; net_inv Q js ps r1 r2 A\<rbrakk> \<Longrightarrow>
    \<exists>A'. (quorum_step Q)\<^sup>*\<^sup>* A A' \<and> net_inv Q js ps r1 r2 A' \<and>
      (\<forall>i\<in>set xs. gossiped (Ready i (q_pid Q i) (per_key (q_public Q i)) (per_key (q_public Q 0))) (A' i) \<and>
         ToAppState (StoreKeyShares (per_key (q_share Q i))) \<in> set (engine_casts (A' i)))"
proof (induction xs)
  case Nil
  show ?case by (rule exI [of _ A]) (use Nil in auto)
next
  case (Cons x xs)
  then obtain A' where A': "(quorum_step Q)\<^sup>*\<^sup>* A A'" "net_inv Q js ps r1 r2 A'"
    "\<forall>i\<in>set xs. gossiped (Ready i (q_pid Q i) (per_key (q_public Q i)) (per_key (q_public Q 0))) (A' i) \<and>
       ToAppState (StoreKeyShares (per_key (q_share Q i))) \<in> set (engine_casts (A' i))" by auto
  have x: "x \<in> set (q_ids Q)" "x \<notin> set xs" using Cons.prems by simp_all
  have "\<forall>j\<in>set (q_ids Q). gossiped (DKGRound2Completed (q_pid Q j)) (A' j)"
    using A'(2) done2 by (simp add: net_inv_def actor_inv_def)
  note reach = rtranclp.rtrancl_into_rtrancl [OF A'(1), OF quorum_step.start3 [where A = A', OF x(1) this]]
  have ps: "set (ps x) = set (q_ids Q)" using done2 x by simp
  moreover from A'(2) x ps have "r2 x" by (simp add: net_inv_def)
  ultimately have a: "actor_inv Q x (js x) (ps x) (r1 x) True (A' x)" using A'(2) x by (auto simp: net_inv_def)
  let ?B = "A'(x := handle_then (q_env Q x) DkgEngineMessage.StartDKGRound3 DkgEngineMessage.Round3 (A' x))"
  from A'(3) actor_round3(2,3) [OF ok x(1) a ps] x(2)
  have "\<forall>i\<in>set (x # xs). gossiped (Ready i (q_pid Q i) (per_key (q_public Q i)) (per_key (q_public Q 0))) (?B i) \<and>
      ToAppState (StoreKeyShares (per_key (q_share Q i))) \<in> set (engine_casts (?B i))" by auto
  from reach net_start3 [OF ok A'(2) x(1) ps] this show ?case by (intro exI conjI)
qed

lemma finish_run:
  assumes ok: "quorum_ok Q" and reach: "(quorum_step Q)\<^sup>*\<^sup>* (initial Q) A"
  shows "\<exists>A'. (quorum_step Q)\<^sup>*\<^sup>* A A' \<and>
    (\<forall>i\<in>set (q_ids Q). gossiped (Ready i (q_pid Q i) (per_key (q_public Q i)) (per_key (q_public Q 0))) (A' i) \<and>
       ToAppState (StoreKeyShares (per_key (q_share Q i))) \<in> set (engine_casts (A' i)))"
proof -
  let ?ids = "q_ids Q"
  let ?pairs = "filter (\<lambda>(i, j). j \<noteq> i) (List.product ?ids ?ids)"
  have pairs: "\<forall>(i, j)\<in>set ?pairs. i \<in> set ?ids \<and> j \<in> set ?ids \<and> j \<noteq> i" by auto
  obtain js ps r1 r2 where "net_inv Q js ps r1 r2 A" using net_inv_reachable [OF ok reach] by blast
  from finish_start1 [OF ok subset_refl this] obtain A1 r1 where
    A1: "(quorum_step Q)\<^sup>*\<^sup>* A A1" "net_inv Q js ps r1 r2 A1" "\<forall>i\<in>set ?ids. r1 i" by blast
  from finish_deliver1 [OF ok A1(3) pairs A1(2)] obtain A2 js where
    A2: "(quorum_step Q)\<^sup>*\<^sup>* A1 A2" "net_inv Q js ps r1 r2 A2" "\<forall>(i, j)\<in>set ?pairs. j \<in> set (js i)" by blast
  have "set (js j) = set ?ids - {j}" if "j \<in> set ?ids" for j
  proof
    show "set (js j) \<subseteq> set ?ids - {j}" using A2(2) that by (simp add: net_inv_def actor_inv_def)
    show "set ?ids - {j} \<subseteq> set (js j)" using A2(3) that by auto
  qed
  then have done1: "\<forall>j\<in>set ?ids. set (js j) = set ?ids - {j}" by blast
  from finish_start2 [OF ok done1 subset_refl A2(2)] obtain A3 ps r2 where
    A3: "(quorum_step Q)\<^sup>*\<^sup>* A2 A3" "net_inv Q js ps r1 r2 A3" "\<forall>i\<in>set ?ids. r2 i \<and> i \<in> set (ps i)" by blast
  then have "\<forall>i\<in>set ?ids. r2 i" by blast
  from finish_deliver2 [OF ok this pairs A3(2)] obtain A4 ps' where
    A4: "(quorum_step Q)\<^sup>*\<^sup>* A3 A4" "net_inv Q js ps' r1 r2 A4" "\<forall>(i, j)\<in>set ?pairs. j \<in> set (ps' i)"
      "\<forall>i. set (ps i) \<subseteq> set (ps' i)" by blast
  have "set (ps' j) = set ?ids" if j: "j \<in> set ?ids" for j
  proof
    show "set (ps' j) \<subseteq> set ?ids" using A4(2) j by (simp add: net_inv_def actor_inv_def)
    have "j \<in> set (ps' j)" using A3(3) A4(4) j by auto
    moreover have "x \<in> set (ps' j)" if "x \<in> set ?ids" "x \<noteq> j" for x using A4(3) j that by auto
    ultimately show "set ?ids \<subseteq> set (ps' j)" by blast
  qed
  then have done2: "\<forall>j\<in>set ?ids. set (ps' j) = set ?ids" by blast
  from A1(1) A2(1) A3(1) A4(1) have "(quorum_step Q)\<^sup>*\<^sup>* A A4" by (meson rtranclp_trans)
  with finish_start3 [OF ok done2 subset_refl quorum_ok_D(1) [OF ok] A4(2)] show ?thesis
    by (auto intro: rtranclp_trans)
qed

end
