(* ===== verification/Engine_Invariant.thy ===== *)
theory Engine_Invariant
  imports Engine_Run
begin

text \<open>
  The well-formedness of the key generation engine: its four nodes keep their keys, curves,
  index and RSA key, and their maps stay maps, whatever messages arrive.
\<close>

definition node_ok :: "nat \<Rightarrow> 'sk \<Rightarrow> ('f, 'p, 'pk, 'sk) NodeData \<Rightarrow> bool" where
  "node_ok i sk nd \<longleftrightarrow>
    node_id (inner_node nd) = i \<and> rsa_seckey (inner_node nd) = sk \<and>
    hm_wf (node_input_y nd) \<and> hm_wf (node_input_v nd) \<and> hm_wf (other_pubshares nd) \<and>
    hm_keys (node_input_y nd) = hm_keys (node_input_v nd)"

definition variant_ok :: "nat \<Rightarrow> 'sk \<Rightarrow> ('f, 'p, 'g, 'q, 'pk, 'sk) NodeDataVariant \<Rightarrow> bool" where
  "variant_ok i sk = get_variant (node_ok i sk) (node_ok i sk)"

definition key_type :: "string \<Rightarrow> string" where
  "key_type k = (if is_secp k then ''Secp256k1'' else ''BabyJubJub'')"

definition nodes_ok :: "nat \<Rightarrow> 'sk \<Rightarrow> (string, ('f, 'p, 'g, 'q, 'pk, 'sk) NodeDataVariant) hashmap \<Rightarrow> bool" where
  "nodes_ok i sk = nodes_inv (\<lambda>k v. get_node_type v = key_type k \<and> variant_ok i sk v)"

definition engine_ok :: "'sk \<Rightarrow> ('f, 'p, 'g, 'q, 'pk, 'sk, 'r) dkg_actor \<Rightarrow> bool" where
  "engine_ok sk a \<longleftrightarrow> actor_key a = sk \<and>
    (case engine_state a of None \<Rightarrow> True | Some s \<Rightarrow> nodes_ok (engine_idx s) sk (dkg_nodes s))"

text \<open>An operation on a node that keeps it well-formed, and on its curve.\<close>

definition keeps ::
    "nat \<Rightarrow> 'sk \<Rightarrow> (('f, 'p, 'g, 'q, 'pk, 'sk) NodeDataVariant \<Rightarrow> 'x \<times> ('f, 'p, 'g, 'q, 'pk, 'sk) NodeDataVariant) \<Rightarrow>
      bool" where
  "keeps i sk f \<longleftrightarrow>
    (\<forall>v. variant_ok i sk v \<longrightarrow> variant_ok i sk (snd (f v)) \<and> get_node_type (snd (f v)) = get_node_type v)"

named_theorems keeps_intros \<open>operations that keep a node well-formed\<close>

section \<open>Nodes\<close>

lemma hm_keys_insert_list: "hm_keys (hm_insert k v m) = (if k \<in> set (hm_keys m) then hm_keys m else hm_keys m @ [k])"
  unfolding hm_defs by (induction m) auto

lemma keeps_on_variant:
  assumes "\<And>nd. node_ok i sk nd \<Longrightarrow> node_ok i sk (snd (f nd))" and "\<And>nd. node_ok i sk nd \<Longrightarrow> node_ok i sk (snd (g nd))"
  shows "keeps i sk (on_variant f g)"
proof (unfold keeps_def, intro allI impI, goal_cases)
  case (1 v)
  with assms show ?case by (cases v) (auto simp: variant_ok_def get_node_type_def split_def)
qed

lemma node_ok_round_1: "node_ok i sk nd \<Longrightarrow> node_ok i sk (snd (process_dkg_round_1 R C coins net nd))"
  by (auto simp: process_dkg_round_1_def node_ok_def Let_def split: prod.split outcome.split list.split)

lemma node_ok_register:
  "node_ok i sk nd \<Longrightarrow> node_ok i sk (snd (process_round_1 missing C my other ys vs nd))"
  by (auto simp: process_round_1_def node_ok_def hashmap.wf_ins hm_keys_insert_list
      split: outcome.split option.split)

lemma node_ok_own:
  "node_ok i sk nd \<Longrightarrow> node_ok i sk (snd (process_own_output kind C my outputs nd))"
  unfolding process_own_output_def
  by (cases "hm_get my (fst outputs)";
      cases "omap (\<lambda>x. map_err (\<lambda>_. ''Error decoding '' @ kind @ '' points'') (from_encoded C x)) (snd outputs)")
    (auto simp: node_ok_def hashmap.wf_ins hm_keys_insert_list)

lemma node_ok_round_2: "node_ok i sk nd \<Longrightarrow> node_ok i sk (snd (process_dkg_round_2 R C net nd))"
  by (auto simp: process_dkg_round_2_def node_ok_def hashmap.wf_ins split: outcome.split)

lemma node_ok_resharing_round_2:
  "node_ok i sk nd \<Longrightarrow> node_ok i sk (snd (process_resharing_round_2 R C kind t_net n_net K nd))"
  by (auto simp: process_resharing_round_2_def node_ok_def hashmap.wf_ins split: outcome.split)

lemma node_ok_store: "node_ok i sk nd \<Longrightarrow> node_ok i sk (snd (process_store_pubshare C j b nd))"
  by (auto simp: process_store_pubshare_def node_ok_def hashmap.wf_ins split: outcome.split)

lemma keeps_round_1 [keeps_intros]: "keeps i sk (variant_dkg_round_1 E net key)"
  unfolding variant_dkg_round_1_def by (intro keeps_on_variant node_ok_round_1)

lemma keeps_resharing_round_1 [keeps_intros]: "keeps i sk (variant_resharing_round_1 E t net newp key)"
proof -
  have "keeps i sk (on_variant (process_resharing_round_1 (rsa_crate E) (secp E) (secp_coins E key) net n_net)
      (process_resharing_round_1 (rsa_crate E) (bjj E) (bjj_coins E key) net n_net))" for n_net
    by (rule keeps_on_variant) (simp_all add: process_resharing_round_1_def)
  then show ?thesis
    by (simp add: variant_resharing_round_1_def keeps_def split: outcome.split)
qed

lemma keeps_register [keeps_intros]: "keeps i sk (register_round_1_result_from_other_node E my other out)"
  unfolding register_round_1_result_from_other_node_def Let_def split_def
  by (intro keeps_on_variant node_ok_register)

lemma keeps_resharing_register [keeps_intros]:
  "keeps i sk (register_resharing_round_1_result_from_other_node E my other out)"
  unfolding register_resharing_round_1_result_from_other_node_def Let_def split_def
  by (intro keeps_on_variant node_ok_register)

lemma keeps_own [keeps_intros]: "keeps i sk (register_own_output E my out)"
  unfolding register_own_output_def by (intro keeps_on_variant node_ok_own)

lemma keeps_round_2 [keeps_intros]: "keeps i sk (variant_dkg_round_2 E net)"
  unfolding variant_dkg_round_2_def by (intro keeps_on_variant node_ok_round_2)

lemma keeps_resharing_round_2 [keeps_intros]: "keeps i sk (resharing_round_2_step E t_net n_net keys key)"
proof -
  have "keeps i sk (variant_resharing_round_2 E t_net n_net K)" for K
    unfolding variant_resharing_round_2_def by (intro keeps_on_variant node_ok_resharing_round_2)
  then show ?thesis
    by (auto simp: resharing_round_2_step_def keeps_def split: option.split)
qed

lemma keeps_store [keeps_intros]: "keeps i sk (store_pubshare_for_node E j b)"
  unfolding store_pubshare_for_node_def by (intro keeps_on_variant node_ok_store)

lemma snd_logged [simp]: "snd (logged x) = snd x"
  by (cases x rule: logged.cases) simp_all

lemma keeps_logged [keeps_intros]: "keeps i sk f \<Longrightarrow> keeps i sk (\<lambda>v. logged (f v))"
  by (simp add: keeps_def)

lemma clear_inputs_ok: "variant_ok i sk v \<Longrightarrow> variant_ok i sk (clear_inputs v) \<and> get_node_type (clear_inputs v) = get_node_type v"
  by (cases v) (auto simp: clear_inputs_def variant_ok_def get_node_type_def node_ok_def hm_wf_def hm_keys_def)

section \<open>Loops\<close>

lemma for_nodes_keeps:
  assumes "\<And>k. keeps i sk (f k)" and "nodes_ok i sk nodes"
  shows "nodes_ok i sk (snd (for_nodes f nodes))"
proof -
  have "map fst (snd (for_nodes f ns)) = map fst ns \<and>
      (\<forall>(k, v)\<in>set (snd (for_nodes f ns)). get_node_type v = key_type k \<and> variant_ok i sk v)"
    if "\<forall>(k, v)\<in>set ns. get_node_type v = key_type k \<and> variant_ok i sk v" for ns
    using that
  proof (induction ns)
    case (Cons x ns)
    obtain k v where x: "x = (k, v)" by fastforce
    obtain r v' where r: "f k v = (r, v')" by fastforce
    with assms(1) [of k] Cons.prems x have "get_node_type v' = key_type k \<and> variant_ok i sk v'"
      by (force simp: keeps_def)
    moreover obtain q ns' where "for_nodes f ns = (q, ns')" by fastforce
    ultimately show ?case using Cons x r by (cases r) simp_all
  qed simp
  from this [of nodes] assms(2) show ?thesis by (simp add: nodes_ok_def nodes_inv_def)
qed

lemma for_entries_keeps:
  assumes "\<And>k x. keeps i sk (f k x)" and "nodes_ok i sk nodes"
  shows "nodes_ok i sk (snd (for_entries f es nodes))"
  using assms(2)
proof (induction es arbitrary: nodes)
  case (Cons e es)
  obtain k x where e: "e = (k, x)" by fastforce
  show ?case
  proof (cases "hm_get k nodes")
    case None
    with Cons e show ?thesis by simp
  next
    case (Some v)
    obtain r v' where r: "f k x v = (r, v')" by fastforce
    have wf: "hm_wf nodes" using Cons.prems engine_keys_distinct by (simp add: nodes_ok_def nodes_inv_def hm_wf_def)
    with Some have kv: "(k, v) \<in> set nodes" by (simp add: hm_get_mem)
    then have k: "k \<in> set (hm_keys nodes)" by (force simp: hm_keys_def)
    from nodes_inv_keys [OF Cons.prems [unfolded nodes_ok_def] kv] assms(1) [of k x] r
    have "get_node_type v' = key_type k \<and> variant_ok i sk v'" by (force simp: keeps_def)
    with Cons.prems have "nodes_ok i sk (hm_insert k v' nodes)"
      unfolding hm_insert_present [OF wf k] by (auto simp: nodes_ok_def nodes_inv_def split_def o_def)
    with Cons.IH e Some r show ?thesis by (cases r) auto
  qed
qed simp

lemma clear_nodes_ok: "nodes_ok i sk nodes \<Longrightarrow> nodes_ok i sk (map (\<lambda>(k, v). (k, clear_inputs v)) nodes)"
  using clear_inputs_ok by (force simp: nodes_ok_def nodes_inv_def o_def split_def)

section \<open>Handlers\<close>

lemma engine_ok_simps [simp]:
  "engine_ok sk (engine_cast c a) = engine_ok sk a" "engine_ok sk (engine_gossip m a) = engine_ok sk a"
  "engine_ok sk (a\<lparr> api_token_used := b \<rparr>) = engine_ok sk a"
  by (simp_all add: engine_cast_def engine_gossip_def engine_ok_def)

lemma engine_ok_set [simp]:
  "engine_ok sk (set_engine s a) \<longleftrightarrow> actor_key a = sk \<and> nodes_ok (engine_idx s) sk (dkg_nodes s)"
  by (simp add: set_engine_def engine_ok_def)

lemma engine_ok_key: "engine_ok sk a \<Longrightarrow> actor_key a = sk"
  by (simp add: engine_ok_def)

lemma engine_ok_nodes: "engine_ok sk a \<Longrightarrow> engine_state a = Some s \<Longrightarrow> nodes_ok (engine_idx s) sk (dkg_nodes s)"
  by (simp add: engine_ok_def)

lemma engine_ok_carry:
  assumes "engine_ok sk a" and "\<And>x. r = Ok x \<Longrightarrow> engine_ok sk (snd (k x))"
  shows "engine_ok sk (snd (carry r conv a k))"
  using assms by (cases r) simp_all

lemma engine_key_sel [simp]:
  "actor_key (engine_cast c a) = actor_key a" "actor_key (engine_gossip m a) = actor_key a"
  "actor_key (set_engine s a) = actor_key a"
  by (simp_all add: engine_cast_def engine_gossip_def set_engine_def)

lemma new_node_ok: "new_node R rnd sk i = Ok nd \<Longrightarrow> node_ok i sk nd"
  by (auto simp: new_node_def with_rsa_key_def node_ok_def hm_wf_def hm_keys_def)

lemma restore_node_ok: "restore_node_with_share R C rnd sk i b K = Ok nd \<Longrightarrow> node_ok i sk nd"
  by (auto simp: restore_node_with_share_def with_rsa_key_and_keyshare_def obind_eq_Ok node_ok_def hm_wf_def hm_keys_def)

lemma four_nodes_ok:
  assumes "node_ok i sk n1" "node_ok i sk n2" "node_ok i sk n3" "node_ok i sk n4"
  shows "nodes_ok i sk [(''OPRFSecp256k1'', NodeDataVariant.Secp256k1 n1), (''OPRFBabyJubJub'', NodeDataVariant.BabyJubJub n2),
    (''JWTPRFSecp256k1'', NodeDataVariant.Secp256k1 n3), (''DecryptBabyJubjub'', NodeDataVariant.BabyJubJub n4)]"
  using assms
  by (simp add: nodes_ok_def nodes_inv_def engine_keys_def get_node_type_def key_type_def is_secp_def variant_ok_def)

lemma dkg_init_ok: "dkg_init E pid i sk newp t = Ok s \<Longrightarrow> engine_idx s = i \<and> nodes_ok i sk (dkg_nodes s)"
  unfolding dkg_init_def Let_def obind_assoc obind_eq_Ok map_err_eq_Ok outcome.inject
  by (elim exE conjE, hypsubst) (simp add: four_nodes_ok new_node_ok)

lemma restore_ok:
  "restore_old_resharing_state E pid i sk newp t shares tstar keys = Ok s \<Longrightarrow>
    engine_idx s = i \<and> nodes_ok i sk (dkg_nodes s)"
  unfolding restore_old_resharing_state_def Let_def obind_assoc obind_eq_Ok map_err_eq_Ok ok_or_eq_Ok outcome.inject
  by (elim exE conjE, hypsubst) (simp add: four_nodes_ok restore_node_ok)

lemma run_round_ok:
  assumes "\<And>k. keeps (engine_idx s) sk (f k)" and "nodes_ok (engine_idx s) sk (dkg_nodes s)"
  shows "engine_idx (snd (run_round f s)) = engine_idx s \<and>
    nodes_ok (engine_idx s) sk (dkg_nodes (snd (run_round f s)))"
  using for_nodes_keeps [of "engine_idx s" sk f, OF assms] by (simp add: run_round_def split_def)

lemma round1_ok:
  assumes "nodes_ok (engine_idx s) sk (dkg_nodes s)"
  shows "engine_idx (snd (round1 E s)) = engine_idx s \<and> nodes_ok (engine_idx s) sk (dkg_nodes (snd (round1 E s)))"
  unfolding round1_def by (rule run_round_ok [OF keeps_round_1 assms])

lemma resharing_round1_ok:
  assumes "nodes_ok (engine_idx s) sk (dkg_nodes s)"
  shows "engine_idx (snd (resharing_round1 E info s)) = engine_idx s \<and>
    nodes_ok (engine_idx s) sk (dkg_nodes (snd (resharing_round1 E info s)))"
  unfolding resharing_round1_def using run_round_ok [OF keeps_resharing_round_1 assms] assms
  by (simp split: outcome.split)

lemma handle_dkg_init_ok: "engine_ok sk a \<Longrightarrow> engine_ok sk (snd (handle_dkg_init E i pid elected t a))"
  unfolding handle_dkg_init_def
  by (rule engine_ok_carry) (auto simp: engine_ok_key dest: dkg_init_ok)

lemma resharing_init_known_ok:
  assumes "actor_key a = sk" and "nodes_ok (engine_idx s) sk (dkg_nodes s)"
  shows "engine_ok sk (snd (resharing_init_known E ctx tstar newp net s a))"
  using assms clear_nodes_ok [OF assms(2)]
  by (auto simp: resharing_init_known_def Let_def intro!: engine_ok_carry)

lemma resharing_init_new_ok:
  assumes "engine_ok sk a" and "init_rsa_private_key ctx = sk"
  shows "engine_ok sk (snd (resharing_init_new E ctx i tstar newp a))"
  using assms unfolding resharing_init_new_def Let_def
  by (intro engine_ok_carry) (auto simp: engine_ok_key intro!: clear_nodes_ok dest!: dkg_init_ok)

lemma handle_resharing_init_ok:
  assumes "engine_ok sk a" and "init_rsa_private_key ctx = sk"
  shows "engine_ok sk (snd (handle_resharing_init E ctx i tstar newp a))"
proof -
  have "engine_ok sk (snd (carry (restore_old_resharing_state E pid i sk newp t shares tstar keys) from_engine a
      (\<lambda>s. resharing_init_known E ctx tstar newp net s (set_engine s a))))" for pid t shares keys net
    by (rule engine_ok_carry [OF assms(1)])
      (use assms in \<open>auto simp: engine_ok_key intro!: resharing_init_known_ok dest!: restore_ok\<close>)
  with assms show ?thesis
    unfolding handle_resharing_init_def Let_def
    by (auto intro!: engine_ok_carry resharing_init_known_ok resharing_init_new_ok engine_ok_nodes
        simp: engine_ok_key split: option.split)
qed

lemma start_round_ok: "engine_ok sk a \<Longrightarrow> engine_ok sk (snd (start_round m a))"
  by (simp add: start_round_def split: option.split)

lemma handle_start_resharing_round_1_ok: "engine_ok sk a \<Longrightarrow> engine_ok sk (snd (handle_start_resharing_round_1 a))"
  by (auto simp: handle_start_resharing_round_1_def split: option.split)

lemma handle_round1_ok: "engine_ok sk a \<Longrightarrow> engine_ok sk (snd (handle_round1 E a))"
proof (cases "engine_state a")
  case (Some s)
  assume ok: "engine_ok sk a"
  obtain r s' where r: "round1 E s = (r, s')" by fastforce
  with round1_ok [OF engine_ok_nodes [OF ok Some], of E] Some engine_ok_key [OF ok] show ?thesis
    by (cases r) (simp_all add: handle_round1_def Let_def)
qed (simp add: handle_round1_def)

lemma handle_resharing_round1_ok: "engine_ok sk a \<Longrightarrow> engine_ok sk (snd (handle_resharing_round1 E info b a))"
proof (cases "engine_state a")
  case (Some s)
  assume ok: "engine_ok sk a"
  obtain r s' where r: "resharing_round1 E info s = (r, s')" by fastforce
  with resharing_round1_ok [OF engine_ok_nodes [OF ok Some], of E info]
  have s': "nodes_ok (engine_idx s') sk (dkg_nodes s')" by simp
  have own: "nodes_ok (engine_idx s') sk
      (snd (for_entries (\<lambda>_ out. register_own_output E (engine_idx s') out) outs (dkg_nodes s')))" for outs
    by (rule for_entries_keeps [OF _ s']) (intro keeps_intros)
  from r s' own Some engine_ok_key [OF ok] ok show ?thesis
    by (cases r) (auto simp: handle_resharing_round1_def Let_def finish_resharing_round1_def split_def
        intro!: engine_ok_carry)
qed (simp add: handle_resharing_round1_def)

lemma entries_ok:
  assumes "engine_ok sk a" and "engine_state a = Some s" and "\<And>k x. keeps (engine_idx s) sk (f k x)"
  shows "engine_ok sk (set_engine (s\<lparr> dkg_nodes := snd (for_entries f es (dkg_nodes s)) \<rparr>) a)"
  using for_entries_keeps [OF assms(3) engine_ok_nodes [OF assms(1,2)]] engine_ok_key [OF assms(1)] by simp

lemma nodes_loop_ok:
  assumes "engine_ok sk a" and "engine_state a = Some s" and "\<And>k. keeps (engine_idx s) sk (f k)"
  shows "engine_ok sk (set_engine (s\<lparr> dkg_nodes := snd (for_nodes f (dkg_nodes s)) \<rparr>) a)"
  using for_nodes_keeps [OF assms(3) engine_ok_nodes [OF assms(1,2)]] engine_ok_key [OF assms(1)] by simp

lemma handle_round1_output_ok:
  assumes "engine_ok sk a" shows "engine_ok sk (snd (handle_round1_output E i out a))"
  using assms
  by (auto simp: handle_round1_output_def Let_def split_def simp del: engine_ok_set split: option.split
      intro!: engine_ok_carry entries_ok keeps_intros)

lemma handle_resharing_round1_output_ok:
  assumes "engine_ok sk a" shows "engine_ok sk (snd (handle_resharing_round1_output E i out a))"
  using assms
  by (auto simp: handle_resharing_round1_output_def Let_def split_def simp del: engine_ok_set split: option.split
      intro!: engine_ok_carry entries_ok keeps_intros)

lemma handle_round2_ok:
  assumes "engine_ok sk a" shows "engine_ok sk (snd (handle_round2 E a))"
  using assms
  by (auto simp: handle_round2_def Let_def split_def simp del: engine_ok_set split: option.split
      intro!: engine_ok_carry nodes_loop_ok keeps_intros)

lemma handle_resharing_round2_ok:
  assumes "engine_ok sk a" shows "engine_ok sk (snd (handle_resharing_round2 E a))"
  using assms
  by (auto simp: handle_resharing_round2_def Let_def split_def simp del: engine_ok_set split: option.split
      intro!: engine_ok_carry nodes_loop_ok keeps_intros)

lemma handle_store_received_pubshare_ok:
  assumes "engine_ok sk a" shows "engine_ok sk (snd (handle_store_received_pubshare E i pubs a))"
  using assms
  by (auto simp: handle_store_received_pubshare_def Let_def split_def simp del: engine_ok_set split: option.split
      intro!: engine_ok_carry entries_ok keeps_intros)

lemma handle_store_reshared_received_pubshare_ok:
  assumes "engine_ok sk a" shows "engine_ok sk (snd (handle_store_reshared_received_pubshare E i pubs a))"
  using assms
  by (auto simp: handle_store_reshared_received_pubshare_def Let_def split_def simp del: engine_ok_set split: option.split
      intro!: engine_ok_carry entries_ok keeps_intros)

lemma announce_ok:
  assumes "engine_ok sk a"
  shows "engine_ok sk (snd (announce_resharing E s a))" "engine_ok sk (snd (announce_ready E s a))"
  using assms by (auto simp: announce_resharing_def announce_ready_def Let_def intro!: engine_ok_carry)

lemma handle_round3_ok:
  assumes "engine_ok sk a" shows "engine_ok sk (snd (handle_round3 E b a))"
  using assms
  by (auto simp: handle_round3_def Let_def engine_ok_key engine_ok_nodes split: option.split
      intro!: engine_ok_carry announce_ok)

lemma handle_clear_shares_ok:
  assumes "engine_ok sk a" shows "engine_ok sk (snd (handle_clear_shares a))"
  using assms by (auto simp: handle_clear_shares_def engine_ok_key engine_ok_nodes clear_nodes_ok split: option.split)

lemmas start_handlers =
  handle_start_dkg_round_1_def handle_start_dkg_round_2_def handle_start_dkg_round_3_def
  handle_start_resharing_round_2_def handle_start_resharing_round_3_def

lemmas handlers_ok =
  handle_dkg_init_ok handle_resharing_init_ok start_round_ok handle_start_resharing_round_1_ok handle_round1_ok
  handle_resharing_round1_ok handle_round1_output_ok handle_resharing_round1_output_ok handle_round2_ok
  handle_resharing_round2_ok handle_store_received_pubshare_ok handle_store_reshared_received_pubshare_ok
  handle_round3_ok handle_clear_shares_ok

lemma dkg_handle_ok:
  assumes "engine_ok sk a" shows "engine_ok sk (snd (dkg_handle E m a))"
  using assms by (cases m) (simp_all add: handlers_ok start_handlers engine_ok_key)

lemma engine_ok_pre_start: "engine_ok sk (dkg_pre_start sk used)"
  by (simp add: engine_ok_def dkg_pre_start_def)

lemma dkg_handles_ok: "engine_ok sk a \<Longrightarrow> engine_ok sk (fold (\<lambda>(E, m) a. snd (dkg_handle E m a)) ms a)"
  by (induction ms arbitrary: a) (auto intro: dkg_handle_ok)

end
