(* ===== verification/Engine_Properties.thy ===== *)
theory Engine_Properties
  imports Quorum_Run Engine_Invariant Threshold_Properties
begin

text \<open>
  The properties of the key generation engines, alone and as a quorum, with concrete instances.
\<close>

section \<open>A quorum of three\<close>

type_synonym small_engines = "(gf7, gf7, gf7, gf7, nat, nat, real) engines"

definition small_pem :: "nat \<Rightarrow> string" where
  "small_pem i = replicate i (CHR ''k'')"

definition member_prover :: "nat \<Rightarrow> ProverInfo" where
  "member_prover i =
    \<lparr> evm_address = [], peer_id = dec i, prover_address = '''', rpcaddr = '''', human_pub_key = HumanPublicKey [],
      rsa_pub_key = small_pem i, prover_idx = i, voting_power = [0, 0, 0, 0] \<rparr>"

definition small_env :: "(gf7, gf7, gf7, gf7, nat, nat) dkg_env" where
  "small_env =
    \<lparr> secp = small_curve, bjj = small_curve, rsa_crate = small_rsa, from_pkcs1_pem = (\<lambda>s. Ok (length s)),
      secp_fresh = (\<lambda>_ _. gf 1), bjj_fresh = (\<lambda>_ _. gf 1), secp_coins = (\<lambda>_. small_randomness 1),
      bjj_coins = (\<lambda>_. small_randomness 1), saved_keyshares = (\<lambda>_. None) \<rparr>"

definition small_quorum :: "(gf7, gf7, gf7, gf7, nat, nat) quorum" where
  "small_quorum =
    \<lparr> q_base = small_env, q_secp_coins = (\<lambda>_. small_randomness), q_bjj_coins = (\<lambda>_. small_randomness),
      q_key = (\<lambda>i. i), q_threshold = 2,
      q_provers = [(''1'', member_prover 1, 1), (''2'', member_prover 2, 2), (''3'', member_prover 3, 3)] \<rparr>"

lemma small_point_codec: "point_codec small_curve P"
  using val7_lt [of P] by (simp add: point_codec_def from_bytes_be_def unat_of_nat)

lemma small_keygen_ok: "keygen_ok small_rsa small_curve small_randomness (\<lambda>i. i) 2 [1, 2, 3]"
  unfolding keygen_ok_def setup_ok_def
  by (intro conjI ballI small_point_codec small_curve_laws small_generator small_repr_laws small_rsa_laws)
    (auto simp: quorum_net_def member_node_def intro!: small_indices_ok)

lemma small_q_ids: "q_ids small_quorum = [1, 2, 3]"
  by (simp add: q_ids_def small_quorum_def)

lemma small_quorum_ok: "quorum_ok small_quorum"
  unfolding quorum_ok_def small_q_ids
  using small_keygen_ok
  by (simp add: small_quorum_def small_env_def member_prover_def small_pem_def hm_wf_def
      hm_keys_def small_rsa_def eval_nat_numeral)

section \<open>The quorum\<close>

definition q_group_key :: "('f::field, 'p, 'g::field, 'q, 'pk, 'sk) quorum \<Rightarrow> string \<Rightarrow> bytes" where
  "q_group_key Q k =
    (if is_secp k
     then the_ok (encode (secp (q_base Q)) (scalar_mul (secp (q_base Q)) (base_point_or_generator (secp (q_base Q)))
       (\<Sum>i\<leftarrow>q_ids Q. fst (q_secp_coins Q k i))))
     else the_ok (encode (bjj (q_base Q)) (scalar_mul (bjj (q_base Q)) (base_point_or_generator (bjj (q_base Q)))
       (\<Sum>i\<leftarrow>q_ids Q. fst (q_bjj_coins Q k i)))))"

lemma q_public_0: "quorum_ok Q \<Longrightarrow> q_public Q 0 = q_group_key Q"
  using quorum_ok_D(4) [of Q]
  by (simp add: fun_eq_iff q_public_def q_group_key_def public_value_def quorum_poly_eval node_poly_props)

definition round_3_verified :: "('f::field, 'p::ab_group_add) curve \<Rightarrow> 'pk Network \<Rightarrow> ('f, 'p, 'pk, 'sk) NodeData \<Rightarrow> bool" where
  "round_3_verified C net nd \<longleftrightarrow> length (other_pubshares nd) = total_nodes net \<and>
    interpolate_keys DKG_Other C (public_keys net) (other_pubshares nd) = Ok (network_pubkey (inner_node nd))"

lemma process_round_3_Ok: "process_round_3 C net False b nd = Ok () \<Longrightarrow> round_3_verified C net nd"
  by (auto simp: process_round_3_def dkg_round_3_def assert_then_def round_3_verified_def obind_eq_Ok split: if_splits)

lemma verify_nodes_Ok:
  assumes "verify_nodes E net False s = Ok ()"
  shows "\<forall>(k, v)\<in>set (dkg_nodes s). get_variant (round_3_verified (secp E) net) (round_3_verified (bjj E) net) v"
proof -
  have "\<forall>(k, v)\<in>set ns. get_variant (round_3_verified (secp E) net) (round_3_verified (bjj E) net) v"
    if "ofold (\<lambda>_ (key, v). get_variant (process_round_3 (secp E) net False b) (process_round_3 (bjj E) net False b) v)
      () ns = Ok ()" for ns b
    using that
  proof (induction ns)
    case (Cons x ns)
    then show ?case by (cases "snd x") (auto simp: obind_eq_Ok split_def dest: process_round_3_Ok)
  qed simp
  from this [OF assms [unfolded verify_nodes_def Let_def]] show ?thesis .
qed

text \<open>C3. However the messages of a key generation are interleaved, delayed or repeated, an engine
  that announces the end announces its own index and peer id, the public shares of the joint
  polynomial at its index and the group keys: for every key the generator times the sum of all
  members' secrets, the same bytes at every engine. The key shares it hands to the application
  state are the values of that polynomial at its index.\<close>

theorem engines_agree:
  assumes "quorum_ok Q" and "(quorum_step Q)\<^sup>*\<^sup>* (initial Q) A" and "i \<in> set (q_ids Q)"
  shows "(\<forall>n pid pubs keys. gossiped (Ready n pid pubs keys) (A i) \<longrightarrow>
      n = i \<and> pid = q_pid Q i \<and> pubs = per_key (q_public Q i) \<and> keys = per_key (q_group_key Q)) \<and>
    (\<forall>shares. ToAppState (StoreKeyShares shares) \<in> set (engine_casts (A i)) \<longrightarrow> shares = per_key (q_share Q i))"
proof -
  obtain js ps r1 r2 where "actor_inv Q i js ps r1 r2 (A i)"
    using net_inv_reachable [OF assms(1,2)] assms(3) unfolding net_inv_def by blast
  from actor_inv_gossiped(5,6) [OF this] show ?thesis unfolding q_public_0 [OF assms(1)] by blast
qed

theorem engines_agree_witness:
  "\<exists>A :: small_engines.
    (quorum_step small_quorum)\<^sup>*\<^sup>* (initial small_quorum) A \<and>
    (\<exists>pid pubs keys. gossiped (Ready 2 pid pubs keys) (A 2) \<and> keys = per_key (\<lambda>_. [6]))"
proof -
  obtain A :: small_engines where A: "(quorum_step small_quorum)\<^sup>*\<^sup>* (initial small_quorum) A"
    and ready: "gossiped (Ready 2 (q_pid small_quorum 2) (per_key (q_public small_quorum 2)) (per_key (q_public small_quorum 0))) (A 2)"
    using finish_run [OF small_quorum_ok, of "initial small_quorum :: small_engines"] unfolding small_q_ids by auto
  have "q_group_key small_quorum = (\<lambda>_. [6])"
    unfolding q_group_key_def small_q_ids
    by (simp add: fun_eq_iff small_quorum_def small_env_def small_randomness_def gf7_simps)
  with engines_agree [OF small_quorum_ok A, of 2] ready have "per_key (q_public small_quorum 0) = per_key (\<lambda>_. [6])"
    unfolding small_q_ids by simp
  with A ready show ?thesis by metis
qed

text \<open>C6. The engines of a quorum never get stuck: from every state a run can reach, some
  continuation of it ends with every engine announcing the end with its public shares and the
  group keys, and its key shares handed to the application state.\<close>

theorem engines_finish:
  assumes "quorum_ok Q" and "(quorum_step Q)\<^sup>*\<^sup>* (initial Q) A"
  shows "\<exists>A'. (quorum_step Q)\<^sup>*\<^sup>* A A' \<and>
    (\<forall>i\<in>set (q_ids Q).
       gossiped (Ready i (q_pid Q i) (per_key (q_public Q i)) (per_key (q_group_key Q))) (A' i) \<and>
       ToAppState (StoreKeyShares (per_key (q_share Q i))) \<in> set (engine_casts (A' i)))"
  using finish_run [OF assms] unfolding q_public_0 [OF assms(1)] .

theorem engines_finish_witness:
  "\<exists>A :: small_engines.
    (quorum_step small_quorum)\<^sup>*\<^sup>* (initial small_quorum) A \<and>
    (\<forall>i\<in>{1, 2, 3}. ToAppState (StoreKeyShares (per_key (q_share small_quorum i))) \<in> set (engine_casts (A i)))"
  using engines_finish [OF small_quorum_ok, of "initial small_quorum :: small_engines"] unfolding small_q_ids by auto

section \<open>One engine\<close>

text \<open>C20. Whatever messages an engine handles, in whatever order and with whatever libraries and
  random values, and whether or not a message fails, it keeps the RSA key it was started with,
  and once it takes part in an election it has exactly the four keys, each on its curve and with
  its index, and the maps of its inputs never hold a sender twice or for one map only.\<close>

theorem engine_well_formed:
  "engine_ok sk (fold (\<lambda>(E, m) a. snd (dkg_handle E m a)) ms (dkg_pre_start sk used))"
  by (rule dkg_handles_ok [OF engine_ok_pre_start])

text \<open>C21. The third round changes an engine's state or casts anything only when every key it holds
  verifies: the number of public shares is that of the quorum and their interpolation at 0 is the
  group key the node derived in the second round.\<close>

theorem ready_is_verified:
  assumes "snd (dkg_handle E DkgEngineMessage.Round3 a) \<noteq> a"
  shows "\<exists>s. engine_state a = Some s \<and> engine_tstar_provers s = [] \<and>
    (\<forall>(k, v)\<in>set (dkg_nodes s).
       get_variant (round_3_verified (secp E) (engine_network s)) (round_3_verified (bjj E) (engine_network s)) v)"
proof (cases "engine_state a")
  case (Some s)
  from assms Some have v: "verify_nodes E (engine_network s) False s = Ok ()" and t: "engine_tstar_provers s = []"
    by (cases "verify_nodes E (engine_network s) False s"; auto simp: handle_round3_def split: if_splits)+
  from verify_nodes_Ok [OF v] Some t show ?thesis by blast
qed (use assms in \<open>simp add: handle_round3_def\<close>)

definition verified_node :: "(gf7, gf7, nat, nat) NodeData" where
  "verified_node =
    \<lparr> node_input_y = [], node_input_v = [], other_pubshares = [(1, gf 1), (2, gf 3), (3, gf 5)],
      inner_node = (small_node 2)\<lparr> network_pubkey := gf 6 \<rparr> \<rparr>"

definition verified_engine :: "(gf7, gf7, gf7, gf7, nat, nat, real) dkg_actor" where
  "verified_engine = set_engine
    \<lparr> engine_idx = 2, engine_peer_id = ''2'', engine_network = small_network,
      dkg_nodes = [(''OPRFSecp256k1'', NodeDataVariant.Secp256k1 verified_node)], engine_tstar_provers = [],
      new_provers = q_provers small_quorum, engine_election_info = ElectionInfo_new 0 0 0,
      finalized_group_public_keys = [], resharing_round2_triggered = False, resharing_round1_context = None \<rparr>
    (dkg_pre_start 2 False)"

lemma verified_node_ok: "process_round_3 small_curve small_network False b verified_node = Ok ()"
proof -
  let ?F = "\<lparr> coefficients = [gf 6, gf 9] \<rparr>"
  have "interpolate_keys DKG_Other small_curve (public_keys small_network) (other_pubshares verified_node) =
      Ok (scalar_mul small_curve (gf 1) (eval ?F 0))"
    by (rule interpolate_keys_Ok [OF small_curve_laws])
      (auto simp: verified_node_def hm_keys_def hm_get_def eval_Cons gf7_simps intro!: small_indices_ok)
  then show ?thesis
    by (simp add: process_round_3_def dkg_round_3_def assert_then_def verified_node_def eval_Cons gf7_simps)
qed

theorem ready_is_verified_witness:
  "snd (dkg_handle small_env DkgEngineMessage.Round3 verified_engine) \<noteq> verified_engine \<and>
   round_3_verified small_curve small_network verified_node"
proof
  show ne: "snd (dkg_handle small_env DkgEngineMessage.Round3 verified_engine) \<noteq> verified_engine"
    by (simp add: verified_engine_def handle_round3_def verify_nodes_def small_env_def announce_ready_def
        verified_node_ok collect_nodes_def get_network_pubkey_def get_pub_share_def)
      (simp add: engine_gossip_def engine_cast_def set_engine_def dkg_pre_start_def)
  from ready_is_verified [OF ne] show "round_3_verified small_curve small_network verified_node"
    by (simp add: verified_engine_def small_env_def)
qed

text \<open>C38. One malformed commitment on BabyJubJub in a gossiped output of the first round stops the
  engine with a panic, whoever sent it: the bytes are decoded with \<open>unwrap\<close>.\<close>

theorem malformed_commitment_panics:
  assumes "engine_state a = Some s"
    and "hm_get ''OPRFBabyJubJub'' (dkg_nodes s) = Some (NodeDataVariant.BabyJubJub nd)"
    and "bjj E = Curves.BabyJubJub H A" and "bincode_deserialize A b = None"
  shows "fst (dkg_handle E (DkgEngineMessage.Round1Out i [(''OPRFBabyJubJub'', ys, b # vs, y)]) a) = Panic"
  using assms
  by (simp add: handle_round1_output_def register_round_1_result_from_other_node_def process_round_1_def
      Curves.BabyJubJub_def bjj_from_encoded_def Let_def)

definition panicking_engine :: "(gf7, gf7, gf7, gf7, nat, nat, real) dkg_actor" where
  "panicking_engine = set_engine
    \<lparr> engine_idx = 2, engine_peer_id = ''2'', engine_network = small_network,
      dkg_nodes = [(''OPRFBabyJubJub'', NodeDataVariant.BabyJubJub verified_node)], engine_tstar_provers = [],
      new_provers = q_provers small_quorum, engine_election_info = ElectionInfo_new 0 0 0,
      finalized_group_public_keys = [], resharing_round2_triggered = False, resharing_round1_context = None \<rparr>
    (dkg_pre_start 2 False)"

theorem malformed_commitment_panics_witness:
  "fst (dkg_handle (small_env\<lparr> bjj := Curves.BabyJubJub small_digests small_ark \<rparr>)
     (DkgEngineMessage.Round1Out 3 [(''OPRFBabyJubJub'', [], [[]], [])]) panicking_engine) = Panic"
  by (rule malformed_commitment_panics [where A = small_ark and H = small_digests and nd = verified_node
      and s = "the (engine_state panicking_engine)"])
    (simp_all add: panicking_engine_def set_engine_def hm_get_def small_ark_def)

end
