(* ===== verification/App_State.thy ===== *)
theory App_State
  imports Dkg_Engine Reconstruct
begin

text \<open>
  The application state engine (\<open>actors/src/app_state_actor.rs\<close>): the state of a relay, a prover or a
  verifier and every handler of the actor. A node carries, besides that state, the casts made so
  far, the answers given, the values published, the state directory and the services. Libraries
  and the outside world are the record \<open>app_env\<close>, in which a message is handled. Tasks the actor
  spawns are the timer and the monitor at the end; logging is left out.
\<close>

section \<open>State\<close>

definition DKG_RESHARING_WAIT_TIME :: nat where
  "DKG_RESHARING_WAIT_TIME = 120"

definition MAX_RESHARING_ATTEMPTS_AT_A_TIME :: nat where
  "MAX_RESHARING_ATTEMPTS_AT_A_TIME = 3"

definition RESHARING_REATTEMPT_WAIT_TIME :: nat where
  "RESHARING_REATTEMPT_WAIT_TIME = 60 * 60"

definition MUL_REPONSE_WAIT_TIME :: nat where
  "MUL_REPONSE_WAIT_TIME = 10"

datatype AppStateEngineError = Custom string

fun display_AppStateEngineError :: "AppStateEngineError \<Rightarrow> string" where
  "display_AppStateEngineError (Custom m) = ''Error occurred in app engine: '' @ m"

record CommonState =
  cs_peer_id :: PeerId
  cs_relay_peer_id :: PeerId
  current_epoch :: nat

datatype TxState = Submitted | ConstructedProof | Verified

fun show_TxState :: "TxState \<Rightarrow> string" where
  "show_TxState TxState.Submitted = ''Submitted''"
| "show_TxState ConstructedProof = ''ConstructedProof''"
| "show_TxState Verified = ''Verified''"

record RequestRecord =
  rec_request :: RequestToNetwork
  rec_status :: TxState

record StoredMultResult =
  num_nodes :: nat
  mul_results :: "(nat \<times> bytes) list"
  reconstructed_point :: "bytes option"
  mult_curve :: string

text \<open>The variant \<open>Relay\<close>. The caches forget entries with time, see \<open>purge\<close>; \<open>pubsub_cache\<close> holds the
  number of the channel a client listens on. The wallet, the address of the task service and the
  pinning service are not read by any handler that changes the state.\<close>

record RelayState =
  relay_common :: CommonState
  active_provers :: "ProverInfo list"
  relay_n :: nat
  relay_t :: nat
  relay_epsilon :: nat
  batch_size :: nat
  req_cache :: "(string, RequestRecord) hashmap"
  res_cache :: "(string, StoredMultResult) hashmap"
  pubkey_shares :: "(PeerId, PubkeyShares) hashmap"
  relay_ready :: bool
  ready_nodes :: "nat set"
  new_cached_elected_provers :: "ProverInfo list"
  relay_tstar_provers :: Provers
  relay_new_provers :: Provers
  relay_group_keys :: GroupPublicKeys
  received_group_public_keys :: "GroupPublicKeys list"
  no_of_shares_received :: nat
  monitor_request_queue :: "(string \<times> nat) list"
  batch_cache :: "(string, unit) hashmap"
  pubsub_cache :: "(string, Sender) hashmap"
  all_provers_cache :: "(PeerId, ProverInfo) hashmap"
  is_resharing_enabled :: bool
  resharing_failure_count :: nat

record ProverState =
  prover_common :: CommonState
  my_node_idx :: nat
  prover_n :: nat
  prover_t :: nat
  prover_epsilon :: nat
  private_keyshares :: PrivkeyShares
  prover_new_provers :: Provers
  relay_multi_addr :: Multiaddr

record VerifierState =
  verifier_common :: CommonState
  ipfs_host :: string

datatype AppNodeState = RelayNode RelayState | ProverNode ProverState | VerifierNode VerifierState

datatype ('f, 'p, 'g, 'q, 'r) reply =
    NodeReply "('f, 'p, 'g, 'q, 'r) NodeResponse"
  | ClientReply Response
  | ElectionReply ElectionResponse
  | StateReply StateResponse

text \<open>\<open>app_delayed\<close> lists casts made after a number of seconds; \<open>request_batch\<close> is the list of that
  name in Redis, \<open>monitors\<close> are the running tasks that wait for a quorum.\<close>

record monitor =
  mon_target :: nat
  mon_event :: MonitorEvent
  mon_elapsed :: nat

record ('f, 'p, 'g, 'q, 'r) app_node =
  app_node_type :: NodeType
  node_state :: "AppNodeState option"
  app_casts :: "('f, 'p, 'g, 'q, 'r) cast list"
  app_delayed :: "(nat \<times> ('f, 'p, 'g, 'q, 'r) cast) list"
  app_replies :: "(Sender \<times> ('f, 'p, 'g, 'q, 'r) reply) list"
  published :: "(Sender \<times> string \<times> ('f, 'p, 'g, 'q, 'r) NodeResponse) list"
  app_db :: "(string, 'r db_value) hashmap option"
  app_services :: services
  request_batch :: "string list"
  monitors :: "monitor list"

section \<open>The world\<close>

text \<open>The parts of a multiaddress.\<close>

datatype Protocol =
    Ip4 string | Ip6 string | Dns string | Dns4 string | Dns6 string | Dnsaddr string
  | Tcp nat | Udp nat | OtherProtocol

text \<open>
  The libraries: hashing, hex, tokens, the two curves, the chain, the generator of node choices;
  \<open>serde_json\<close> of proofs and requests, the text of a proof and its readers, \<open>bincode\<close> of a request with
  its proofs and of a BabyJubJub point. The world: fresh nonces, the registry, which peers answer a
  ping, what the relay answers, which receivers of a channel are gone, which \<open>expect\<close>s are met, by
  their messages, whether \<open>block_on\<close> refuses to run inside a task, as \<open>tokio\<close> documents it, and which
  cache entries have expired.
\<close>

record ('f, 'p, 'g, 'q, 'r, 'rg, 'v, 'k) app_env =
  ae_digests :: digests
  ae_hex :: hexcrate
  ae_jwt :: "('v, 'k) jwtcrate"
  ae_secp :: "('f, 'p) curve"
  ae_bjj :: "('g, 'q) curve"
  ae_chain :: "('f, 'p, 'g, 'q) chain"
  ae_rng :: "('rg, 'r) rng"
  json_secp :: "('f, 'p) DLEQProof \<Rightarrow> bytes option"
  json_bjj :: "('g, 'q) DLEQProof \<Rightarrow> bytes option"
  json_request :: "RequestToNetwork \<Rightarrow> bytes option"
  secp_to_string :: "('f, 'p) DLEQProof \<Rightarrow> (string, string) outcome"
  bjj_to_string :: "('g, 'q) DLEQProof \<Rightarrow> (string, string) outcome"
  secp_from_str :: "string \<Rightarrow> (('f, 'p) DLEQProof, string) outcome"
  bjj_from_str :: "string \<Rightarrow> (('g, 'q) DLEQProof, string) outcome"
  bincode_proofs :: "RequestToNetworkWithProofs \<Rightarrow> string"
  bincode_proofs_read :: "string \<Rightarrow> RequestToNetworkWithProofs option"
  bjj_readable :: "bytes \<Rightarrow> bool"
  secp_nonce :: 'f
  bjj_nonce :: 'g
  ae_contracts :: contracts
  reachable :: "ProverInfo \<Rightarrow> bool"
  relay_answer :: "string \<Rightarrow> PeerId \<Rightarrow> (('f, 'p, 'g, 'q, 'r) NodeResponse, string) outcome"
  protocols :: "Multiaddr \<Rightarrow> Protocol list"
  receiver_gone :: "Sender \<Rightarrow> bool"
  expects :: "string \<Rightarrow> bool"
  block_on_refuses :: bool
  forgotten :: "string \<Rightarrow> string \<Rightarrow> bool"

type_synonym ('f, 'p, 'g, 'q, 'r) app_handled =
  "(unit, AppStateEngineError) outcome \<times> ('f, 'p, 'g, 'q, 'r) app_node"

definition app_cast ::
    "('f, 'p, 'g, 'q, 'r) cast \<Rightarrow> ('f, 'p, 'g, 'q, 'r) app_node \<Rightarrow> ('f, 'p, 'g, 'q, 'r) app_node" where
  "app_cast c s = s\<lparr> app_casts := app_casts s @ [c] \<rparr>"

definition app_reply ::
    "Sender \<Rightarrow> ('f, 'p, 'g, 'q, 'r) reply \<Rightarrow> ('f, 'p, 'g, 'q, 'r) app_node \<Rightarrow> ('f, 'p, 'g, 'q, 'r) app_node" where
  "app_reply tx r s = s\<lparr> app_replies := app_replies s @ [(tx, r)] \<rparr>"

definition publish ::
    "Sender \<Rightarrow> string \<Rightarrow> ('f, 'p, 'g, 'q, 'r) NodeResponse \<Rightarrow> ('f, 'p, 'g, 'q, 'r) app_node \<Rightarrow>
      ('f, 'p, 'g, 'q, 'r) app_node" where
  "publish ps topic r s = s\<lparr> published := published s @ [(ps, topic, r)] \<rparr>"

definition app_save ::
    "string \<Rightarrow> 'r db_value \<Rightarrow> ('f, 'p, 'g, 'q, 'r) app_node \<Rightarrow> ('f, 'p, 'g, 'q, 'r) app_node" where
  "app_save k v s = s\<lparr> app_db := map_option (hm_insert k v) (app_db s) \<rparr>"

text \<open>\<open>get_state(..).unwrap_or_default()\<close> at the types it is used at: a missing value and a value of
  another type give the default.\<close>

definition saved_nat :: "string \<Rightarrow> ('f, 'p, 'g, 'q, 'r) app_node \<Rightarrow> nat" where
  "saved_nat k s = (case get_state k (app_db s) of Some (db_nat v) \<Rightarrow> v | _ \<Rightarrow> 0)"

definition saved_provers :: "string \<Rightarrow> ('f, 'p, 'g, 'q, 'r) app_node \<Rightarrow> Provers" where
  "saved_provers k s = (case get_state k (app_db s) of Some (db_provers v) \<Rightarrow> v | _ \<Rightarrow> [])"

definition saved_shares :: "string \<Rightarrow> ('f, 'p, 'g, 'q, 'r) app_node \<Rightarrow> (string, bytes) hashmap" where
  "saved_shares k s = (case get_state k (app_db s) of Some (db_shares v) \<Rightarrow> v | _ \<Rightarrow> [])"

definition saved_pubkey_shares :: "string \<Rightarrow> ('f, 'p, 'g, 'q, 'r) app_node \<Rightarrow> (PeerId, PubkeyShares) hashmap" where
  "saved_pubkey_shares k s = (case get_state k (app_db s) of Some (db_pubkey_shares v) \<Rightarrow> v | _ \<Rightarrow> [])"

definition set_relay :: "RelayState \<Rightarrow> ('f, 'p, 'g, 'q, 'r) app_node \<Rightarrow> ('f, 'p, 'g, 'q, 'r) app_node" where
  "set_relay r s = s\<lparr> node_state := Some (RelayNode r) \<rparr>"

definition set_prover :: "ProverState \<Rightarrow> ('f, 'p, 'g, 'q, 'r) app_node \<Rightarrow> ('f, 'p, 'g, 'q, 'r) app_node" where
  "set_prover q s = s\<lparr> node_state := Some (ProverNode q) \<rparr>"

definition as_relay :: "('f, 'p, 'g, 'q, 'r) app_node \<Rightarrow> RelayState option" where
  "as_relay s = (case node_state s of Some (RelayNode r) \<Rightarrow> Some r | _ \<Rightarrow> None)"

definition as_prover :: "('f, 'p, 'g, 'q, 'r) app_node \<Rightarrow> ProverState option" where
  "as_prover s = (case node_state s of Some (ProverNode q) \<Rightarrow> Some q | _ \<Rightarrow> None)"

text \<open>The indices of the provers that answer a ping; an error when none does.\<close>

definition ping_nodes :: "(ProverInfo \<Rightarrow> bool) \<Rightarrow> Provers \<Rightarrow> (nat set, string) outcome" where
  "ping_nodes answers new_set =
    (let reachable_nodes = (\<lambda>(_, _, size). size) ` set (filter (\<lambda>(_, peer, _). answers peer) new_set) in
     if reachable_nodes \<noteq> {} then Ok reachable_nodes else Err ''No Reachable Nodes found'')"

text \<open>The entries of the caches that have expired are gone before the next message is handled.\<close>

definition purge ::
    "('f, 'p, 'g, 'q, 'r, 'rg, 'v, 'k) app_env \<Rightarrow> ('f, 'p, 'g, 'q, 'r) app_node \<Rightarrow> ('f, 'p, 'g, 'q, 'r) app_node" where
  "purge E s =
    (case as_relay s of
       Some r \<Rightarrow> set_relay
         (r\<lparr> req_cache := filter (\<lambda>(k, _). \<not> forgotten E ''req_cache'' k) (req_cache r),
             res_cache := filter (\<lambda>(k, _). \<not> forgotten E ''res_cache'' k) (res_cache r),
             batch_cache := filter (\<lambda>(k, _). \<not> forgotten E ''batch_cache'' k) (batch_cache r),
             pubsub_cache := filter (\<lambda>(k, _). \<not> forgotten E ''pubsub_cache'' k) (pubsub_cache r),
             all_provers_cache := filter (\<lambda>(k, _). \<not> forgotten E ''all_provers_cache'' k) (all_provers_cache r) \<rparr>) s
     | None \<Rightarrow> s)"

section \<open>Elections\<close>

text \<open>The new values are stored before they are checked; a failed check only logs.\<close>

definition update_threshold :: "ElectionInfo \<Rightarrow> ('f, 'p, 'g, 'q, 'r) app_node \<Rightarrow> ('f, 'p, 'g, 'q, 'r) app_node" where
  "update_threshold info s =
    (case node_state s of
       Some (RelayNode r) \<Rightarrow>
         set_relay (r\<lparr> relay_n := total_provers info, relay_t := ElectionInfo.threshold info, relay_epsilon := epsilon info \<rparr>) s
     | Some (ProverNode q) \<Rightarrow>
         set_prover (q\<lparr> prover_n := total_provers info, prover_t := ElectionInfo.threshold info, prover_epsilon := epsilon info \<rparr>) s
     | _ \<Rightarrow> s)"

text \<open>The checks of \<open>update_threshold\<close>, in their order.\<close>

definition threshold_accepted :: "nat \<Rightarrow> nat \<Rightarrow> nat \<Rightarrow> bool" where
  "threshold_accepted n t eps \<longleftrightarrow> \<not> t \<ge> n \<and> \<not> t < 2 \<and> \<not> n < 3 \<and> \<not> eps > n - t"

definition update_elected_provers ::
    "ProverInfo list \<Rightarrow> bool \<Rightarrow> ('f, 'p, 'g, 'q, 'r) app_node \<Rightarrow> ('f, 'p, 'g, 'q, 'r) app_node" where
  "update_elected_provers request is_cache_prover s =
    (case as_relay s of
       Some r \<Rightarrow>
         if is_cache_prover then set_relay (r\<lparr> new_cached_elected_provers := request \<rparr>) s
         else set_relay (r\<lparr> active_provers := request \<rparr>) s
     | None \<Rightarrow> s)"

definition update_node_idx :: "nat \<Rightarrow> ('f, 'p, 'g, 'q, 'r) app_node \<Rightarrow> ('f, 'p, 'g, 'q, 'r) app_node" where
  "update_node_idx i s = (case as_prover s of Some q \<Rightarrow> set_prover (q\<lparr> my_node_idx := i \<rparr>) s | None \<Rightarrow> s)"

definition store_key_shares :: "PrivkeyShares \<Rightarrow> ('f, 'p, 'g, 'q, 'r) app_node \<Rightarrow> ('f, 'p, 'g, 'q, 'r) app_node" where
  "store_key_shares shares s =
    (case as_prover s of Some q \<Rightarrow> set_prover (q\<lparr> private_keyshares := shares \<rparr>) s | None \<Rightarrow> s)"

definition check_memory_usage :: "(string, bytes) hashmap \<Rightarrow> nat \<Rightarrow> string \<Rightarrow> (unit, string) outcome" where
  "check_memory_usage m max_memory_usage data_type =
    ofold (\<lambda>_ (key, value).
        if length value > max_memory_usage
        then Err (''A '' @ data_type @ '' entry exceeds the maximum allowed size ('' @ dec (length value) @ '' > '' @
          dec max_memory_usage @ '' bytes).'')
        else Ok ()) () m"

text \<open>The number of key sets that give a key a value; the value most of them give wins, the last one
  of the iteration when there are several.\<close>

definition count_values :: "GroupPublicKeys list \<Rightarrow> (string, (bytes, nat) hashmap) hashmap" where
  "count_values sets =
    foldl (\<lambda>acc (key, value).
        let counts = (case hm_get key acc of Some c \<Rightarrow> c | None \<Rightarrow> []);
            old = (case hm_get value counts of Some n \<Rightarrow> n | None \<Rightarrow> 0) in
        hm_insert key (hm_insert value (old + 1) counts) acc)
      [] (concat sets)"

fun max_by_count :: "(bytes, nat) hashmap \<Rightarrow> (bytes \<times> nat) option" where
  "max_by_count [] = None"
| "max_by_count ((v, c) # rest) =
    (case max_by_count rest of
       None \<Rightarrow> Some (v, c)
     | Some (v', c') \<Rightarrow> if c \<le> c' then Some (v', c') else Some (v, c))"

definition resolve_conflicts_between_group_keys :: "GroupPublicKeys list \<Rightarrow> GroupPublicKeys" where
  "resolve_conflicts_between_group_keys sets =
    foldl (\<lambda>acc (key, counts). case max_by_count counts of Some (v, _) \<Rightarrow> hm_insert key v acc | None \<Rightarrow> acc)
      [] (count_values sets)"

definition store_kset ::
    "PeerId \<Rightarrow> PubkeyShares \<Rightarrow> nat \<Rightarrow> GroupPublicKeys \<Rightarrow> ('f, 'p, 'g, 'q, 'r) app_node \<Rightarrow> ('f, 'p, 'g, 'q, 'r) app_node" where
  "store_kset pid shares i group_keys s =
    (case as_relay s of
       None \<Rightarrow> s
     | Some r \<Rightarrow>
         if \<not> list_ex (\<lambda>prover. peer_id prover = pid) (active_provers r) then s
         else if \<not> is_ok (check_memory_usage shares 100 ''pubkey_shares'') then s
         else if \<not> is_ok (check_memory_usage group_keys 200 ''group_public_keys'') then s
         else
           let r1 = r\<lparr> pubkey_shares := hm_insert pid shares (pubkey_shares r),
                       ready_nodes := insert i (ready_nodes r),
                       received_group_public_keys := received_group_public_keys r @ [group_keys] \<rparr>;
               r2 = (if as_u32 (card (ready_nodes r1)) = relay_n r1
                     then r1\<lparr> relay_group_keys := resolve_conflicts_between_group_keys (received_group_public_keys r1) \<rparr>
                     else r1) in
           set_relay (r2\<lparr> no_of_shares_received := length (pubkey_shares r2) \<rparr>) s)"

definition store_quorum_map ::
    "Provers \<Rightarrow> Provers \<Rightarrow> ('f, 'p, 'g, 'q, 'r) app_node \<Rightarrow> ('f, 'p, 'g, 'q, 'r) app_node" where
  "store_quorum_map tstar newp s =
    (case as_relay s of
       Some r \<Rightarrow> set_relay (r\<lparr> relay_tstar_provers := tstar, relay_new_provers := newp \<rparr>) s
     | None \<Rightarrow> s)"

definition store_resharing_kset ::
    "PeerId \<Rightarrow> PubkeyShares \<Rightarrow> nat \<Rightarrow> ('f, 'p, 'g, 'q, 'r) app_node \<Rightarrow> ('f, 'p, 'g, 'q, 'r) app_node" where
  "store_resharing_kset pid shares i s =
    (case as_relay s of
       None \<Rightarrow> s
     | Some r \<Rightarrow>
         if \<not> is_ok (check_memory_usage shares 100 ''pubkey_shares'') then s
         else
           let r1 = (if list_ex (\<lambda>prover. peer_id prover = pid) (new_cached_elected_provers r) then
                       let r1 = r\<lparr> pubkey_shares := hm_insert pid shares (pubkey_shares r),
                                   ready_nodes := insert i (ready_nodes r) \<rparr> in
                       if as_u32 (card (ready_nodes r1)) = relay_n r1
                       then r1\<lparr> active_provers := new_cached_elected_provers r1 \<rparr> else r1
                     else r) in
           set_relay (r1\<lparr> no_of_shares_received := length (pubkey_shares r1) \<rparr>) s)"

definition pre_resharing :: "('f, 'p, 'g, 'q, 'r) app_node \<Rightarrow> ('f, 'p, 'g, 'q, 'r) app_node" where
  "pre_resharing s =
    (case as_relay s of
       Some r \<Rightarrow> app_cast (ToElection (TriggerReElection (active_provers r)))
         (set_relay (r\<lparr> no_of_shares_received := 0 \<rparr>) s)
     | None \<Rightarrow> s)"

definition clear_shares :: "('f, 'p, 'g, 'q, 'r) app_node \<Rightarrow> ('f, 'p, 'g, 'q, 'r) app_node" where
  "clear_shares s =
    (case as_relay s of
       Some r \<Rightarrow> set_relay (r\<lparr> pubkey_shares := [], relay_ready := False, ready_nodes := {} \<rparr>) s
     | None \<Rightarrow> s)"

definition forward_re_elected_provers ::
    "ElectionInfo \<Rightarrow> Provers \<Rightarrow> Provers \<Rightarrow> DrandResponse \<Rightarrow> ('f, 'p, 'g, 'q, 'r) app_node \<Rightarrow>
      ('f, 'p, 'g, 'q, 'r) app_node" where
  "forward_re_elected_provers info tstar newp drand s =
    (case as_relay s of
       Some r \<Rightarrow> app_cast (ToGossip (Gossip (ReElectedProvers info tstar newp (relay_group_keys r) drand) NETWORK_TOPIC)) s
     | None \<Rightarrow> s)"

definition update_cached_provers_map :: "Provers \<Rightarrow> ('f, 'p, 'g, 'q, 'r) app_node \<Rightarrow> ('f, 'p, 'g, 'q, 'r) app_node" where
  "update_cached_provers_map newp s =
    (case node_state s of
       Some (ProverNode q) \<Rightarrow> set_prover (q\<lparr> prover_new_provers := newp \<rparr>) s
     | Some (RelayNode r) \<Rightarrow> set_relay (r\<lparr> relay_new_provers := newp \<rparr>) s
     | _ \<Rightarrow> s)"

section \<open>Requests at the relay\<close>

definition handle_state_request ::
    "('f, 'p, 'g, 'q, 'r, 'rg, 'v, 'k) app_env \<Rightarrow> StateRequest \<Rightarrow> Sender \<Rightarrow> ('f, 'p, 'g, 'q, 'r) app_node \<Rightarrow>
      ('f, 'p, 'g, 'q, 'r) app_node" where
  "handle_state_request E req tx s =
    (case as_relay s of
       Some r \<Rightarrow>
         let count = (case redis_get_u32 (count_key (ae_hex E) (state_method req) (state_user req)) (app_services s) of
                        Ok (Some n) \<Rightarrow> n | _ \<Rightarrow> 0) in
         app_reply tx (StateReply (Success (current_epoch (relay_common r)) (state_method req) count)) s
     | None \<Rightarrow> app_reply tx (StateReply (StateError ''Queried to invalid node '')) s)"

text \<open>The ready nodes are refreshed by a ping when there are too few of them.\<close>

definition refresh_ready :: "(ProverInfo \<Rightarrow> bool) \<Rightarrow> RelayState \<Rightarrow> RelayState" where
  "refresh_ready answers r =
    (if card (ready_nodes r) < relay_t r \<and> relay_new_provers r \<noteq> [] then
       (case ping_nodes answers (relay_new_provers r) of
          Ok nodes \<Rightarrow> r\<lparr> ready_nodes := nodes \<rparr>
        | _ \<Rightarrow> r\<lparr> ready_nodes := {} \<rparr>)
     else r)"

text \<open>Who gets a request: the active provers whose index was chosen, and all of them when that is
  the threshold or less. A prover that is not in the new quorum has index 0.\<close>

definition quorum_index :: "RelayState \<Rightarrow> ProverInfo \<Rightarrow> nat" where
  "quorum_index r prover = (case hm_get (peer_id prover) (relay_new_provers r) of Some (_, i) \<Rightarrow> i | None \<Rightarrow> 0)"

definition selected_nodes :: "nat list \<Rightarrow> RelayState \<Rightarrow> (PeerId \<times> Multiaddr) list" where
  "selected_nodes indices r =
    (let contact = (\<lambda>prover. (peer_id prover, prover_address prover));
         chosen = map contact (filter (\<lambda>prover. as_u32 (quorum_index r prover) \<in> set indices) (active_provers r)) in
     if as_u32 (length chosen) \<le> relay_t r then map contact (active_provers r) else chosen)"

definition forward_request ::
    "nat list \<Rightarrow> RequestToNetwork \<Rightarrow> string \<Rightarrow> RelayState \<Rightarrow> ('f, 'p, 'g, 'q, 'r) app_node \<Rightarrow>
      ('f, 'p, 'g, 'q, 'r) app_node" where
  "forward_request indices request request_id r s =
    app_cast (ToGossip (Forward (ForwardMulRequest request_id request) (selected_nodes indices r)))
      (set_relay (r\<lparr> req_cache := hm_or_insert request_id
                         \<lparr> rec_request = request, rec_status = TxState.Submitted \<rparr> (req_cache r),
                     monitor_request_queue := monitor_request_queue r @ [(request_id, MUL_REPONSE_WAIT_TIME)] \<rparr>) s)"

text \<open>A signed request is accounted; the batch grows by the number of requests it counts for.\<close>

definition account_mul_request ::
    "('f::field, 'p::ab_group_add, 'g::field, 'q::ab_group_add, 'r, 'rg, 'v, 'k) app_env \<Rightarrow> RequestToNetwork \<Rightarrow>
      RelayState \<Rightarrow> services \<Rightarrow> (RelayState \<times> services, string) outcome" where
  "account_mul_request E request r S =
    (case recover (ae_chain E) request of
       Ok usr \<Rightarrow>
         obind (map_err (\<lambda>err. ''Usr: '' @ show_addr (ae_chain E) usr @ '' Error: '' @ err)
           (account_request_from_signer (ae_digests E) (ae_hex E) (ae_jwt E) (ae_secp E) (ae_bjj E) (ae_chain E)
              request True S)) (\<lambda>(incr_by, S').
         Ok (r\<lparr> batch_size := as_u32 (batch_size r + incr_by) \<rparr>, S'))
     | Err _ \<Rightarrow> Ok (r, S)
     | Panic \<Rightarrow> Panic)"

definition handle_multiplication_request ::
    "('f::field, 'p::ab_group_add, 'g::field, 'q::ab_group_add, 'r, 'rg, 'v, 'k) app_env \<Rightarrow> RequestToNetwork \<Rightarrow> Sender \<Rightarrow>
      nat list \<Rightarrow> string \<Rightarrow> ('f, 'p, 'g, 'q, 'r) app_node \<Rightarrow> ('f, 'p, 'g, 'q, 'r) app_handled" where
  "handle_multiplication_request E request ps forward_to_indexes request_id s0 =
    (case as_relay s0 of
       None \<Rightarrow> (Ok (), s0)
     | Some r0 \<Rightarrow>
         let r1 = refresh_ready (reachable E) r0;
             r = r1\<lparr> pubsub_cache := hm_insert request_id ps (pubsub_cache r1) \<rparr>;
             s = set_relay r s0;
             refuse = (\<lambda>m. (Ok (), publish ps request_id (NodeResponse.Error request_id m) s)) in
         if card (ready_nodes r) < relay_t r then
           refuse (''Network is not ready. Total ready nodes '' @ dec (card (ready_nodes r)))
         else if req_epoch request \<noteq> current_epoch (relay_common r) then refuse ''Invalid Epoch''
         else
           (case account_mul_request E request r (app_services s) of
              Err m \<Rightarrow> refuse m
            | Panic \<Rightarrow> (Panic, s)
            | Ok (r', S) \<Rightarrow>
                let s' = (set_relay r' s)\<lparr> app_services := S \<rparr> in
                carry (if forward_to_indexes \<noteq> [] then Ok forward_to_indexes
                       else get_nodes (ae_rng E) request (as_u32 (relay_t r' + relay_epsilon r'))
                              (sort (map (\<lambda>(_, _, i). i) (relay_new_provers r'))))
                  Custom s' (\<lambda>indices. (Ok (), forward_request indices request request_id r' s'))))"

section \<open>Requests at a prover\<close>

text \<open>The name of the key share of a method.\<close>

fun share_name :: "Method \<Rightarrow> string" where
  "share_name OPRFSecp256k1 = ''OPRFSecp256k1''"
| "share_name OPRFBabyJubJub = ''OPRFBabyJubJub''"
| "share_name JWTPRFSecp256k1 = ''JWTPRFSecp256k1''"
| "share_name DecryptBabyJubJub = ''DecryptBabyJubjub''"

text \<open>The macro \<open>handle_request!\<close>: a key share that is not a scalar leaves the request unanswered.
  \<open>mk_response\<close> is \<open>new_constructed_proof\<close>.\<close>

definition handle_request ::
    "digests \<Rightarrow> ('f::field, 'p) curve \<Rightarrow> 'f \<Rightarrow> (('f, 'p) DLEQProof \<Rightarrow> ('resp, string) outcome) \<Rightarrow>
      (string \<Rightarrow> 'resp) \<Rightarrow> bytes \<Rightarrow> RequestToNetwork \<Rightarrow> ('resp option, string) outcome" where
  "handle_request H C nonce mk_response error_response keyshare request =
    (case scalar_from_bytes C keyshare of
       Err _ \<Rightarrow> Ok None
     | Panic \<Rightarrow> Panic
     | Ok partial_share \<Rightarrow>
         (case from_encoded C (req_point request) of
            Err e \<Rightarrow> Ok (Some (error_response (''Error decoding masked point for Secp256k1. Error: '' @ debug_Error e)))
          | Panic \<Rightarrow> Panic
          | Ok masked_point \<Rightarrow>
              (case DLEQProof_new H C nonce masked_point partial_share of
                 Err e \<Rightarrow> Ok (Some (error_response (''Error constructing DLEQ proof for Secp256k1. Error: '' @ debug_Error e)))
               | Panic \<Rightarrow> Panic
               | Ok q \<Rightarrow> obind (unwrap (mk_response q)) (\<lambda>resp. Ok (Some resp)))))"

definition answer_request ::
    "('f::field, 'p, 'g::field, 'q, 'r, 'rg, 'v, 'k) app_env \<Rightarrow> ProverState \<Rightarrow> string \<Rightarrow> RequestToNetwork \<Rightarrow> bytes \<Rightarrow>
      (('f, 'p, 'g, 'q, 'r) NodeResponse option, string) outcome" where
  "answer_request E q request_id request keyshare =
    (let err = NodeResponse.Error request_id;
         make_secp = (\<lambda>prf. new_constructed_proof (secp_to_string E) (secp_from_str E) (bjj_from_str E) (ae_secp E)
           (my_node_idx q) (cs_peer_id (prover_common q)) request_id prf (req_method request));
         make_bjj = (\<lambda>prf. new_constructed_proof (bjj_to_string E) (secp_from_str E) (bjj_from_str E) (ae_bjj E)
           (my_node_idx q) (cs_peer_id (prover_common q)) request_id prf (req_method request)) in
     case req_method request of
       OPRFSecp256k1 \<Rightarrow> handle_request (ae_digests E) (ae_secp E) (secp_nonce E) make_secp err keyshare request
     | OPRFBabyJubJub \<Rightarrow> handle_request (ae_digests E) (ae_bjj E) (bjj_nonce E) make_bjj err keyshare request
     | JWTPRFSecp256k1 \<Rightarrow> handle_request (ae_digests E) (ae_secp E) (secp_nonce E) make_secp err keyshare request
     | DecryptBabyJubJub \<Rightarrow> handle_request (ae_digests E) (ae_bjj E) (bjj_nonce E) make_bjj err keyshare request)"

definition process_request ::
    "('f::field, 'p, 'g::field, 'q, 'r, 'rg, 'v, 'k) app_env \<Rightarrow> string \<Rightarrow> RequestToNetwork \<Rightarrow> Sender \<Rightarrow>
      ('f, 'p, 'g, 'q, 'r) app_node \<Rightarrow> ('f, 'p, 'g, 'q, 'r) app_handled" where
  "process_request E request_id request tx s =
    (case as_prover s of
       None \<Rightarrow> (Ok (), s)
     | Some q \<Rightarrow>
         carry (is_for_my_node (ae_rng E) request (as_u32 (prover_t q + prover_epsilon q)) (my_node_idx q)
                  (map (\<lambda>(_, i). i) (hm_values (prover_new_provers q)))) Custom s (\<lambda>for_me.
         if \<not> for_me then (Ok (), app_reply tx (NodeReply (NodeResponse.Error request_id ''Request not for this node'')) s)
         else if req_epoch request \<noteq> current_epoch (prover_common q) then
           (Ok (), app_reply tx (NodeReply (NodeResponse.Error request_id ''Invalid epoch'')) s)
         else
           carry (obind (unwrap_option (hm_get (share_name (req_method request)) (private_keyshares q)))
                    (answer_request E q request_id request)) Custom s (\<lambda>resp.
           (Ok (), case resp of Some resp \<Rightarrow> app_reply tx (NodeReply resp) s | None \<Rightarrow> s))))"

section \<open>Proofs at the relay\<close>

text \<open>The response with a reconstructed point. A stored point that cannot be read again panics.\<close>

definition verified_response ::
    "('f, 'p, 'g, 'q, 'r, 'rg, 'v, 'k) app_env \<Rightarrow> string \<Rightarrow> string \<Rightarrow> string \<Rightarrow> bytes \<Rightarrow>
      (('f, 'p, 'g, 'q, 'r) NodeResponse, 'e) outcome" where
  "verified_response E request_id unknown curve_name point =
    (if curve_name = ''Secp256k1'' then
       obind (unwrap (from_encoded (ae_secp E) point)) (\<lambda>pt. Ok (VerifiedProofSecp256k1 request_id pt))
     else if curve_name = ''BabyJubJub'' then
       assert_then (bjj_readable E point) (Ok (VerifiedProofBabyJubJub request_id point))
     else Ok (NodeResponse.Error request_id unknown))"

definition fetch_reconstructed_point_v2 ::
    "('f, 'p, 'g, 'q, 'r, 'rg, 'v, 'k) app_env \<Rightarrow> RequestRecord \<Rightarrow> StoredMultResult \<Rightarrow> string \<Rightarrow>
      (('f, 'p, 'g, 'q, 'r) NodeResponse, 'e) outcome" where
  "fetch_reconstructed_point_v2 E dat m request_id =
    (if rec_status dat = Verified then
       (case reconstructed_point m of
          Some point \<Rightarrow> verified_response E request_id (''Unsupported curve type: '' @ mult_curve m) (mult_curve m) point
        | None \<Rightarrow> Ok (NodeResponse.Error request_id ''Point reconstruction not available''))
     else Ok (NodeResponse.Error request_id (''Request not yet verified (status: '' @ show_TxState (rec_status dat) @ '')'')))"

definition fetch_reconstructed_point ::
    "('f, 'p, 'g, 'q, 'r, 'rg, 'v, 'k) app_env \<Rightarrow> string \<Rightarrow> Sender \<Rightarrow> ('f, 'p, 'g, 'q, 'r) app_node \<Rightarrow>
      ('f, 'p, 'g, 'q, 'r) app_handled" where
  "fetch_reconstructed_point E request_id tx s =
    (let err = (\<lambda>m. Ok (NodeResponse.Error request_id m)) in
     carry (case as_relay s of
              None \<Rightarrow> err ''Only Relay nodes can process this request''
            | Some r \<Rightarrow>
                (case hm_get request_id (req_cache r) of
                   None \<Rightarrow> err ''Request ID not found''
                 | Some status \<Rightarrow>
                     if rec_status status \<noteq> Verified then err ''Not yet verified''
                     else
                       (case hm_get request_id (res_cache r) of
                          None \<Rightarrow> err ''Internal server error''
                        | Some m \<Rightarrow>
                            (case reconstructed_point m of
                               None \<Rightarrow> err ''Error: Point is not reconstructed''
                             | Some point \<Rightarrow>
                                 verified_response E request_id (''Error: Curve '' @ [CHR 0x27] @ mult_curve m @ [CHR 0x27] @ '' not recognized'')
                                   (mult_curve m) point))))
       (\<lambda>e. e) s (\<lambda>resp. (Ok (), app_reply tx (NodeReply resp) s)))"

text \<open>A value in Redis is read as a request with proofs. A missing key reads as no bytes.\<close>

definition redis_value :: "string \<Rightarrow> services \<Rightarrow> string" where
  "redis_value k S = (case hm_get k (redis S) of Some v \<Rightarrow> v | None \<Rightarrow> [])"

definition redis_del :: "string \<Rightarrow> services \<Rightarrow> services" where
  "redis_del k S = (if redis_up S then S\<lparr> redis := hm_remove k (redis S) \<rparr> else S)"

text \<open>Pinning the batch and posting it to the task service only log their results. The batch and
  the counter are cleared whatever they return; the state the panics leave is that of the moment.\<close>

definition process_batch ::
    "('f, 'p, 'g, 'q, 'r, 'rg, 'v, 'k) app_env \<Rightarrow> string \<Rightarrow> RelayState \<Rightarrow> ('f, 'p, 'g, 'q, 'r) app_node \<Rightarrow>
      ('f, 'p, 'g, 'q, 'r) app_handled" where
  "process_batch E request_hash r s0 =
    (let s = set_relay r s0; S = app_services s in
     carry (if redis_up S then
              obind (unwrap_option (bincode_proofs_read E (redis_value request_hash S))) (\<lambda>value.
              Ok (request_batch s @ [bincode_proofs E value]))
            else Ok (request_batch s)) (\<lambda>e. e) s (\<lambda>batch.
     let s1 = s\<lparr> request_batch := batch, app_services := redis_del request_hash S \<rparr> in
     if batch_size r \<ge> TASK_SIZE then
       carry (assert_then (expects E ''PRIVATE_KEY environment variable not set'')
               (if redis_up S
                then obind (omap (\<lambda>x. unwrap_option (bincode_proofs_read E x)) batch) (\<lambda>_.
                     assert_then (expects E ''Failed to create Tokio runtime'' \<and> \<not> block_on_refuses E) (Ok True))
                else Ok False)) (\<lambda>e. e) s1 (\<lambda>posted.
       (Ok (), if posted then (set_relay (r\<lparr> batch_size := 0 \<rparr>) s1)\<lparr> request_batch := [] \<rparr> else s1))
     else (Ok (), s1)))"

text \<open>The listener of a verified request is told the point and the request is reported.\<close>

definition served_by :: "nat list \<Rightarrow> ProverInfo list \<Rightarrow> PeerId list" where
  "served_by indices provers =
    concat (map (\<lambda>i. case find (\<lambda>p. prover_idx p = i) provers of Some p \<Rightarrow> [peer_id p] | None \<Rightarrow> []) indices)"

definition notify_listener ::
    "('f, 'p, 'g, 'q, 'r, 'rg, 'v, 'k) app_env \<Rightarrow> string \<Rightarrow> RequestRecord \<Rightarrow> StoredMultResult \<Rightarrow> RelayState \<Rightarrow>
      ('f, 'p, 'g, 'q, 'r) app_node \<Rightarrow> (RelayState \<times> ('f, 'p, 'g, 'q, 'r) app_node, AppStateEngineError) outcome" where
  "notify_listener E request_id dat m r s =
    (case hm_get request_id (pubsub_cache r) of
       None \<Rightarrow> Ok (r, s)
     | Some ps \<Rightarrow>
         obind (fetch_reconstructed_point_v2 E dat m request_id) (\<lambda>resp.
         let s1 = publish ps request_id resp s in
         obind (case recover (ae_chain E) (rec_request dat) of
                  Ok a \<Rightarrow> Ok a | Err _ \<Rightarrow> Ok (replicate 20 0) | Panic \<Rightarrow> Panic) (\<lambda>user.
         Ok (r\<lparr> pubsub_cache := hm_remove request_id (pubsub_cache r) \<rparr>,
             s1\<lparr> app_services := kafka_send Requests request_id
                   (RequestInfo user (req_method (rec_request dat)) (served_by (map fst (mul_results m)) (active_provers r)))
                   (app_services s1) \<rparr>))))"

definition process_verification ::
    "('f, 'p, 'g, 'q, 'r, 'rg, 'v, 'k) app_env \<Rightarrow> ('a::field, 'b::ab_group_add) curve \<Rightarrow> string \<Rightarrow> string \<Rightarrow>
      StoredMultResult \<Rightarrow> RequestRecord \<Rightarrow> RelayState \<Rightarrow> ('f, 'p, 'g, 'q, 'r) app_node \<Rightarrow>
      ('f, 'p, 'g, 'q, 'r) app_handled" where
  "process_verification E C request_id request_hash m dat r s =
    (if num_nodes m < relay_t r then (Ok (), s)
     else
       or_return (omap (\<lambda>(_, p). from_encoded C p) (mul_results m)) s (\<lambda>points.
       carry (obind (threshold_unchecked C points (map fst (mul_results m))) (\<lambda>point. unwrap (encode C point)))
         (\<lambda>e. e) s (\<lambda>enc.
       let m' = m\<lparr> reconstructed_point := Some enc \<rparr>;
           dat' = dat\<lparr> rec_status := Verified \<rparr>;
           r1 = r\<lparr> res_cache := hm_insert request_id m' (res_cache r), req_cache := hm_insert request_id dat' (req_cache r) \<rparr>;
           s1 = set_relay r1 s in
       carry (notify_listener E request_id dat' m' r1 s1) (\<lambda>e. e) s1 (\<lambda>(r2, s2).
       if hm_contains request_hash (batch_cache r2) then (Ok (), set_relay r2 s2)
       else process_batch E request_hash (r2\<lparr> batch_cache := hm_insert request_hash () (batch_cache r2) \<rparr>) s2))))"

text \<open>A verified result joins the others of its request; the proof joins those kept in Redis under
  the hash of the request, unless that hash was already put in the batch. \<open>to_json\<close> is \<open>serde_json\<close>.\<close>

definition stored_result :: "string \<Rightarrow> string \<Rightarrow> RelayState \<Rightarrow> StoredMultResult" where
  "stored_result curve_name request_id r =
    (case hm_get request_id (res_cache r) of
       Some m \<Rightarrow> m
     | None \<Rightarrow> \<lparr> num_nodes = 0, mul_results = [], reconstructed_point = None, mult_curve = curve_name \<rparr>)"

definition add_result :: "nat \<Rightarrow> bytes \<Rightarrow> StoredMultResult \<Rightarrow> StoredMultResult" where
  "add_result node_idx result m =
    m\<lparr> num_nodes := as_u32 (num_nodes m + 1), mul_results := mul_results m @ [(node_idx, result)] \<rparr>"

definition store_proof ::
    "('f, 'p, 'g, 'q, 'r, 'rg, 'v, 'k) app_env \<Rightarrow> string \<Rightarrow> RequestToNetwork \<Rightarrow> proof_strings \<Rightarrow> services \<Rightarrow>
      (services, string) outcome" where
  "store_proof E request_hash request entry S =
    (case hm_get request_hash (redis S) of
       Some v \<Rightarrow>
         obind (unwrap_option (bincode_proofs_read E v)) (\<lambda>existing.
         redis_set request_hash (bincode_proofs E (existing\<lparr> proofs := proofs existing @ [entry] \<rparr>)) S)
     | None \<Rightarrow> redis_set request_hash (bincode_proofs E \<lparr> base = request, proofs = [entry] \<rparr>) S)"

definition record_result ::
    "('f, 'p, 'g, 'q, 'r, 'rg, 'v, 'k) app_env \<Rightarrow> ('a::field, 'b::ab_group_add) curve \<Rightarrow> bytes option \<Rightarrow> nat \<Rightarrow> PeerId \<Rightarrow>
      string \<Rightarrow> 'b \<Rightarrow> 'b \<Rightarrow> bytes \<Rightarrow> RequestRecord \<Rightarrow> RelayState \<Rightarrow> ('f, 'p, 'g, 'q, 'r) app_node \<Rightarrow>
      ('f, 'p, 'g, 'q, 'r) app_handled" where
  "record_result E C to_json node_idx pid request_id key_point masked_point result dat r s0 =
    (let m = add_result node_idx result (stored_result (NAME C) request_id r);
         r1 = r\<lparr> res_cache := hm_insert request_id m (res_cache r) \<rparr>;
         s = set_relay r1 s0 in
     or_return (ok_or () to_json) s (\<lambda>serialized_proof.
     or_return (ok_or () (json_request E (rec_request dat))) s (\<lambda>request_slice.
     carry (hash256 (ae_digests E) request_slice) (\<lambda>e. e) s (\<lambda>digest.
     let request_hash = hex_encode (ae_hex E) digest;
         status = (if hm_contains request_hash (batch_cache r1) then Verified else ConstructedProof);
         dat' = dat\<lparr> rec_status := status \<rparr>;
         r2 = r1\<lparr> req_cache := hm_insert request_id dat' (req_cache r1) \<rparr>;
         s2 = set_relay r2 s in
     if hm_contains request_hash (batch_cache r1) \<or> \<not> redis_up (app_services s2) then (Ok (), s2)
     else
       carry (obind (unwrap (encode C key_point)) (\<lambda>kb. obind (unwrap (encode C masked_point)) (\<lambda>mb. Ok (kb, mb))))
         (\<lambda>e. e) s2 (\<lambda>(kb, mb).
       or_return (store_proof E request_hash (rec_request dat)
           (hex_encode (ae_hex E) serialized_proof, hex_encode (ae_hex E) kb, hex_encode (ae_hex E) mb, pid)
           (app_services s2)) s2 (\<lambda>S.
       process_verification E C request_id request_hash m dat' r2 (s2\<lparr> app_services := S \<rparr>)))))))"

definition process_received_proof ::
    "('f, 'p, 'g, 'q, 'r, 'rg, 'v, 'k) app_env \<Rightarrow> ('a::field, 'b::ab_group_add) curve \<Rightarrow>
      (('a, 'b) DLEQProof \<Rightarrow> bytes option) \<Rightarrow> nat \<Rightarrow> PeerId \<Rightarrow> string \<Rightarrow> ('a, 'b) DLEQProof \<Rightarrow> Method \<Rightarrow>
      ('f, 'p, 'g, 'q, 'r) app_node \<Rightarrow> ('f, 'p, 'g, 'q, 'r) app_handled" where
  "process_received_proof E C to_json node_idx pid request_id prf method s =
    (case as_relay s of
       None \<Rightarrow> (Ok (), s)
     | Some r \<Rightarrow>
         or_return (ok_or () (hm_get request_id (req_cache r))) s (\<lambda>dat.
         or_return (ok_or () (hm_get pid (pubkey_shares r))) s (\<lambda>shares_for_peer.
         or_return (ok_or () (hm_get (share_name method) shares_for_peer)) s (\<lambda>pub_key_share.
         or_return (from_encoded C (req_point (rec_request dat))) s (\<lambda>masked_point.
         or_return (from_encoded C pub_key_share) s (\<lambda>key_point.
         or_return (verify_and_get_output (ae_digests E) C prf key_point masked_point) s (\<lambda>result.
         carry (unwrap (encode C result)) (\<lambda>e. e) s (\<lambda>enc.
         record_result E C (to_json prf) node_idx pid request_id key_point masked_point enc dat r s))))))))"

section \<open>Saving and restoring\<close>

text \<open>A list of entries saved one after the other.\<close>

definition save_all ::
    "(string \<times> 'r db_value) list \<Rightarrow> ('f, 'p, 'g, 'q, 'r) app_node \<Rightarrow> ('f, 'p, 'g, 'q, 'r) app_node" where
  "save_all kvs s = foldl (\<lambda>s (k, v). app_save k v s) s kvs"

definition save_common :: "CommonState \<Rightarrow> Provers \<Rightarrow> nat \<Rightarrow> nat \<Rightarrow> nat \<Rightarrow> (string \<times> 'r db_value) list" where
  "save_common c newp n t eps =
    [(''new_provers'', db_provers newp), (''peer_id'', db_peer (cs_peer_id c)),
     (''relay_peer_id'', db_peer (cs_relay_peer_id c)), (''current_epoch'', db_nat (current_epoch c)),
     (''n'', db_nat n), (''t'', db_nat t), (''epsilon'', db_nat eps)]"

definition backup_state :: "('f, 'p, 'g, 'q, 'r) app_node \<Rightarrow> ('f, 'p, 'g, 'q, 'r) app_node" where
  "backup_state s =
    (case node_state s of
       Some (ProverNode q) \<Rightarrow>
         save_all (save_common (prover_common q) (prover_new_provers q) (prover_n q) (prover_t q) (prover_epsilon q) @
           [(''private_keyshares'', db_shares (private_keyshares q)), (''idx'', db_nat (my_node_idx q))]) s
     | Some (RelayNode r) \<Rightarrow>
         save_all (save_common (relay_common r) (relay_new_provers r) (relay_n r) (relay_t r) (relay_epsilon r) @
           [(''finalized_group_public_keys'', db_shares (relay_group_keys r)),
            (''pubkey_shares'', db_pubkey_shares (pubkey_shares r))]) s
     | _ \<Rightarrow> s)"

definition save_current_state :: "('f, 'p, 'g, 'q, 'r) app_node \<Rightarrow> ('f, 'p, 'g, 'q, 'r) app_node" where
  "save_current_state s =
    (case node_state s of
       Some (RelayNode r) \<Rightarrow>
         save_all [(''n'', db_nat (relay_n r)), (''t'', db_nat (relay_t r)), (''epsilon'', db_nat (relay_epsilon r)),
           (''finalized_group_public_keys'', db_shares (relay_group_keys r)),
           (''pubkey_shares'', db_pubkey_shares (pubkey_shares r)), (''new_provers'', db_provers (relay_new_provers r)),
           (''tstar_provers'', db_provers (relay_tstar_provers r))] s
     | Some (ProverNode q) \<Rightarrow>
         save_all [(''n'', db_nat (prover_n q)), (''t'', db_nat (prover_t q)), (''epsilon'', db_nat (prover_epsilon q)),
           (''idx'', db_nat (my_node_idx q)), (''new_provers'', db_provers (prover_new_provers q)),
           (''private_keyshares'', db_shares (private_keyshares q))] s
     | _ \<Rightarrow> s)"

text \<open>The readiness after a rollback compares the ready nodes from before it with the threshold.\<close>

definition rollback_relay ::
    "(ProverInfo \<Rightarrow> bool) \<Rightarrow> RelayState \<Rightarrow> ('f, 'p, 'g, 'q, 'r) app_node \<Rightarrow> RelayState" where
  "rollback_relay answers r s =
    (let newp = saved_provers ''new_provers'' s; t = saved_nat ''t'' s;
         (nodes, st) = (if newp \<noteq> [] then
             (case ping_nodes answers newp of
                Ok nodes \<Rightarrow> (nodes, card (ready_nodes r) \<ge> t)
              | _ \<Rightarrow> ({}, False))
           else ({}, False)) in
     r\<lparr> relay_n := saved_nat ''n'' s, relay_t := t, relay_epsilon := saved_nat ''epsilon'' s,
        relay_new_provers := newp, relay_tstar_provers := saved_provers ''tstar_provers'' s,
        pubkey_shares := saved_pubkey_shares ''pubkey_shares'' s,
        relay_group_keys := saved_shares ''finalized_group_public_keys'' s,
        active_provers := map fst (hm_values newp), ready_nodes := nodes, relay_ready := st \<rparr>)"

definition rollback_prover :: "ProverState \<Rightarrow> ('f, 'p, 'g, 'q, 'r) app_node \<Rightarrow> ProverState" where
  "rollback_prover q s =
    q\<lparr> prover_n := saved_nat ''n'' s, prover_t := saved_nat ''t'' s, prover_epsilon := saved_nat ''epsilon'' s,
       my_node_idx := saved_nat ''idx'' s, private_keyshares := saved_shares ''private_keyshares'' s,
       prover_new_provers := saved_provers ''new_provers'' s \<rparr>"

definition rollback_to_previous_state ::
    "('f, 'p, 'g, 'q, 'r, 'rg, 'v, 'k) app_env \<Rightarrow> ('f, 'p, 'g, 'q, 'r) app_node \<Rightarrow> ('f, 'p, 'g, 'q, 'r) app_node" where
  "rollback_to_previous_state E s =
    (case node_state s of
       Some (RelayNode r) \<Rightarrow> set_relay (rollback_relay (reachable E) r s) s
     | Some (ProverNode q) \<Rightarrow> set_prover (rollback_prover q s) s
     | _ \<Rightarrow> s)"

section \<open>Queries\<close>

definition hex_map :: "hexcrate \<Rightarrow> (string, bytes) hashmap \<Rightarrow> (string, string) hashmap" where
  "hex_map X m = map (\<lambda>(k, v). (k, hex_encode X v)) m"

definition fetch_key_share ::
    "('f, 'p, 'g, 'q, 'r, 'rg, 'v, 'k) app_env \<Rightarrow> Sender \<Rightarrow> ('f, 'p, 'g, 'q, 'r) app_node \<Rightarrow> ('f, 'p, 'g, 'q, 'r) app_node" where
  "fetch_key_share E tx s =
    (case as_prover s of
       Some _ \<Rightarrow> app_reply tx (NodeReply (Keyshare (hex_map (ae_hex E) (saved_shares ''private_keyshares'' s)))) s
     | None \<Rightarrow> s)"

definition fetch_finalized_group_pubkeys ::
    "('f, 'p, 'g, 'q, 'r, 'rg, 'v, 'k) app_env \<Rightarrow> Sender \<Rightarrow> ('f, 'p, 'g, 'q, 'r) app_node \<Rightarrow> ('f, 'p, 'g, 'q, 'r) app_node" where
  "fetch_finalized_group_pubkeys E tx s =
    (case as_relay s of
       Some r \<Rightarrow> app_reply tx (NodeReply (Keyshare (hex_map (ae_hex E) (relay_group_keys r)))) s
     | None \<Rightarrow> app_reply tx (NodeReply (NodeResponse.Error [] ''Not a relay node or pubkeys not yet finalized'')) s)"

text \<open>Entries that are not hexadecimal are left out.\<close>

definition restore_key_share ::
    "('f, 'p, 'g, 'q, 'r, 'rg, 'v, 'k) app_env \<Rightarrow> (string, string) hashmap \<Rightarrow> Sender \<Rightarrow> ('f, 'p, 'g, 'q, 'r) app_node \<Rightarrow>
      ('f, 'p, 'g, 'q, 'r) app_node" where
  "restore_key_share E keyshares tx s =
    (case as_prover s of
       Some q \<Rightarrow>
         let restored = List.map_filter (\<lambda>(k, v). map_option (Pair k) (hex_decode (ae_hex E) v)) keyshares in
         app_reply tx (NodeReply Restored)
           (app_save ''private_keyshares'' (db_shares restored) (set_prover (q\<lparr> private_keyshares := restored \<rparr>) s))
     | None \<Rightarrow> s)"

definition fetch_election_state ::
    "PeerId \<Rightarrow> Sender \<Rightarrow> ('f, 'p, 'g, 'q, 'r) app_node \<Rightarrow> ('f, 'p, 'g, 'q, 'r) app_node" where
  "fetch_election_state pid tx s =
    (case as_relay s of
       Some r \<Rightarrow>
         (case hm_get pid (relay_new_provers r) of
            Some (_, i) \<Rightarrow>
              app_reply tx (NodeReply (NodeResponse.ElectionState i (relay_n r) (relay_t r) (relay_epsilon r) (relay_new_provers r))) s
          | None \<Rightarrow> s)
     | None \<Rightarrow> s)"

text \<open>The address of the relay's RPC server from its multiaddress; other protocols are
  \<open>unimplemented!()\<close>.\<close>

fun relay_rpc_url :: "Protocol list \<Rightarrow> (string, 'e) outcome" where
  "relay_rpc_url (h # p # _) =
    obind (case h of Ip6 ip \<Rightarrow> Ok ip | Ip4 ip \<Rightarrow> Ok ip | Dns d \<Rightarrow> Ok d | Dns4 d \<Rightarrow> Ok d | Dns6 d \<Rightarrow> Ok d
           | Dnsaddr d \<Rightarrow> Ok d | _ \<Rightarrow> Panic) (\<lambda>host.
    obind (case p of Tcp n \<Rightarrow> Ok n | Udp n \<Rightarrow> Ok n | _ \<Rightarrow> Panic) (\<lambda>port.
    Ok (''http://'' @ host @ '':'' @ dec port)))"
| "relay_rpc_url _ = Panic"

definition restore_election_state ::
    "('f, 'p, 'g, 'q, 'r, 'rg, 'v, 'k) app_env \<Rightarrow> Sender \<Rightarrow> ('f, 'p, 'g, 'q, 'r) app_node \<Rightarrow> ('f, 'p, 'g, 'q, 'r) app_handled" where
  "restore_election_state E tx s =
    (case as_prover s of
       None \<Rightarrow> (Ok (), s)
     | Some q \<Rightarrow>
         carry (relay_rpc_url (protocols E (relay_multi_addr q))) (\<lambda>e. e) s (\<lambda>url.
         (Ok (), case relay_answer E url (cs_peer_id (prover_common q)) of
                   Ok (NodeResponse.ElectionState i n t eps received) \<Rightarrow>
                     app_reply tx (NodeReply Restored)
                       (save_all [(''n'', db_nat n), (''t'', db_nat t), (''epsilon'', db_nat eps), (''idx'', db_nat (as_u32 i))]
                         (set_prover (q\<lparr> prover_n := n, prover_t := t, prover_epsilon := eps, my_node_idx := as_u32 i,
                            prover_new_provers := received \<rparr>) s))
                 | _ \<Rightarrow> s)))"

text \<open>A response that must be delivered: the handler fails when the receiver is gone.\<close>

definition send_or_fail ::
    "('f, 'p, 'g, 'q, 'r, 'rg, 'v, 'k) app_env \<Rightarrow> Sender \<Rightarrow> ('f, 'p, 'g, 'q, 'r) reply \<Rightarrow> ('f, 'p, 'g, 'q, 'r) app_node \<Rightarrow>
      ('f, 'p, 'g, 'q, 'r) app_handled" where
  "send_or_fail E tx resp s =
    (if receiver_gone E tx then (Err (Custom ''Failed to send response''), s) else (Ok (), app_reply tx resp s))"

definition update_prover :: "ProverInfo list \<Rightarrow> ProverInfo \<Rightarrow> ProverInfo" where
  "update_prover fetched prover =
    (case find (\<lambda>p. peer_id p = peer_id prover) fetched of
       Some p \<Rightarrow> prover\<lparr> rsa_pub_key := rsa_pub_key p, prover_address := prover_address p \<rparr>
     | None \<Rightarrow> prover)"

definition fill_cache :: "ProverInfo list \<Rightarrow> (PeerId, ProverInfo) hashmap \<Rightarrow> (PeerId, ProverInfo) hashmap" where
  "fill_cache fetched m = foldl (\<lambda>m p. hm_insert (peer_id p) p m) m fetched"

definition sync_relay :: "ProverInfo list \<Rightarrow> RelayState \<Rightarrow> RelayState" where
  "sync_relay fetched r =
    (let entries = map (\<lambda>(k, p, i). (k, update_prover fetched p, i)) in
     r\<lparr> active_provers := map (update_prover fetched) (active_provers r),
        new_cached_elected_provers := map (update_prover fetched) (new_cached_elected_provers r),
        relay_tstar_provers := entries (relay_tstar_provers r), relay_new_provers := entries (relay_new_provers r),
        all_provers_cache := fill_cache fetched [] \<rparr>)"

definition sync_peer_data ::
    "('f, 'p, 'g, 'q, 'r, 'rg, 'v, 'k) app_env \<Rightarrow> Sender \<Rightarrow> ('f, 'p, 'g, 'q, 'r) app_node \<Rightarrow> ('f, 'p, 'g, 'q, 'r) app_handled" where
  "sync_peer_data E tx s =
    (case node_state s of
       None \<Rightarrow> send_or_fail E tx (ClientReply (Response_new None False ''Node state not initialized'')) s
     | Some (RelayNode r) \<Rightarrow>
         carry (fetch_provers_v2 (ae_contracts E)) Custom s (\<lambda>fetched.
         send_or_fail E tx (ClientReply (Response_new (Some ''Peer data synced successfully'') True
           ''Peer data synced successfully'')) (set_relay (sync_relay fetched r) s))
     | Some _ \<Rightarrow> send_or_fail E tx (ClientReply (Response_new None False ''Not a relay node'')) s)"

definition fetch_election_info ::
    "('f, 'p, 'g, 'q, 'r, 'rg, 'v, 'k) app_env \<Rightarrow> PeerId \<Rightarrow> Sender \<Rightarrow> ('f, 'p, 'g, 'q, 'r) app_node \<Rightarrow>
      ('f, 'p, 'g, 'q, 'r) app_handled" where
  "fetch_election_info E pid tx s =
    (case node_state s of
       None \<Rightarrow> send_or_fail E tx (ElectionReply (ElectionResponse_err_response ''Node state not initialized'')) s
     | Some (RelayNode r) \<Rightarrow>
         send_or_fail E tx (ElectionReply (ElectionResponse_new (hm_keys (relay_new_provers r)) (relay_n r) (relay_t r)
           (hm_contains pid (relay_new_provers r)) True [])) s
     | Some _ \<Rightarrow> send_or_fail E tx (ElectionReply (ElectionResponse_err_response ''Not a relay node'')) s)"

text \<open>A query about any registered prover: the cache is filled when it is empty.\<close>

definition with_prover ::
    "('f, 'p, 'g, 'q, 'r, 'rg, 'v, 'k) app_env \<Rightarrow> PeerId \<Rightarrow> (string \<Rightarrow> ('f, 'p, 'g, 'q, 'r) reply) \<Rightarrow> Sender \<Rightarrow>
      (ProverInfo \<Rightarrow> ('f, 'p, 'g, 'q, 'r) app_node \<Rightarrow> ('f, 'p, 'g, 'q, 'r) app_node) \<Rightarrow> ('f, 'p, 'g, 'q, 'r) app_node \<Rightarrow>
      ('f, 'p, 'g, 'q, 'r) app_handled" where
  "with_prover E pid failure tx act s =
    (case node_state s of
       None \<Rightarrow> (Ok (), app_reply tx (failure ''Node state not initialized'') s)
     | Some (RelayNode r) \<Rightarrow>
         carry (if all_provers_cache r = [] then
                  obind (fetch_provers_v2 (ae_contracts E)) (\<lambda>fetched. Ok (fill_cache fetched []))
                else Ok (all_provers_cache r)) Custom s (\<lambda>cache.
         let s' = set_relay (r\<lparr> all_provers_cache := cache \<rparr>) s in
         (Ok (), case hm_get pid cache of
                   Some info \<Rightarrow> act info s'
                 | None \<Rightarrow> app_reply tx (failure ''peer id not found'') s'))
     | Some _ \<Rightarrow> (Ok (), app_reply tx (failure ''Not a relay node'') s))"

definition quic_ping ::
    "('f, 'p, 'g, 'q, 'r, 'rg, 'v, 'k) app_env \<Rightarrow> PeerId \<Rightarrow> Sender \<Rightarrow> ('f, 'p, 'g, 'q, 'r) app_node \<Rightarrow>
      ('f, 'p, 'g, 'q, 'r) app_handled" where
  "quic_ping E pid tx = with_prover E pid (\<lambda>m. ClientReply (Response_new None False m)) tx
    (\<lambda>info. app_cast (ToGossip (GossipEngineMessage.Ping pid (prover_address info) tx)))"

definition fetch_voting_power ::
    "('f, 'p, 'g, 'q, 'r, 'rg, 'v, 'k) app_env \<Rightarrow> PeerId \<Rightarrow> Sender \<Rightarrow> ('f, 'p, 'g, 'q, 'r) app_node \<Rightarrow>
      ('f, 'p, 'g, 'q, 'r) app_handled" where
  "fetch_voting_power E pid tx = with_prover E pid (\<lambda>m. NodeReply (NodeResponse.Error [] m)) tx
    (\<lambda>info. app_reply tx (NodeReply (VotingPower (prover_idx info) (dec (U256_value (voting_power info))) pid)))"

definition forward_error_response ::
    "string \<Rightarrow> ('f, 'p, 'g, 'q, 'r) NodeResponse \<Rightarrow> ('f, 'p, 'g, 'q, 'r) app_node \<Rightarrow> ('f, 'p, 'g, 'q, 'r) app_node" where
  "forward_error_response request_id resp s =
    (case as_relay s of
       Some r \<Rightarrow> (case hm_get request_id (pubsub_cache r) of Some ps \<Rightarrow> publish ps request_id resp s | None \<Rightarrow> s)
     | None \<Rightarrow> s)"

definition set_resharing_enabled ::
    "bool \<Rightarrow> Sender \<Rightarrow> ('f, 'p, 'g, 'q, 'r) app_node \<Rightarrow> ('f, 'p, 'g, 'q, 'r) app_node" where
  "set_resharing_enabled value tx s =
    (case as_relay s of
       Some r \<Rightarrow> app_reply tx (NodeReply UpdatedIsResharingEnabled) (set_relay (r\<lparr> is_resharing_enabled := value \<rparr>) s)
     | None \<Rightarrow> s)"

section \<open>Monitors and timers\<close>

definition monitor_quorum_formation :: "MonitorEvent \<Rightarrow> ('f, 'p, 'g, 'q, 'r) app_node \<Rightarrow> ('f, 'p, 'g, 'q, 'r) app_node" where
  "monitor_quorum_formation event s =
    (case as_relay s of
       None \<Rightarrow> s
     | Some r \<Rightarrow>
         (case event of
            MultiplicationResult _ \<Rightarrow> s
          | _ \<Rightarrow> s\<lparr> monitors := monitors s @
                     [\<lparr> mon_target = length (active_provers r), mon_event = event, mon_elapsed = 0 \<rparr>] \<rparr>))"

definition quorum_report :: "bool \<Rightarrow> RelayState \<Rightarrow> ('f, 'p, 'g, 'q, 'r) app_node \<Rightarrow> ('f, 'p, 'g, 'q, 'r) app_node" where
  "quorum_report ok r s = s\<lparr> app_services := kafka_send QuorumResharingStatus ''current_quorum''
     (QuorumResharingInfo (active_provers r) ok) (app_services s) \<rparr>"

definition quorum_formed :: "RelayState \<Rightarrow> ('f, 'p, 'g, 'q, 'r) app_node \<Rightarrow> ('f, 'p, 'g, 'q, 'r) app_node" where
  "quorum_formed r s = quorum_report True r
    (app_cast (ToGossip (Gossip Message.SaveCurrentState NETWORK_TOPIC))
      (app_cast (ToAppState AppStateChangeMessage.SaveCurrentState) s))"

text \<open>Key generation starts again; resharing is rolled back and tried again an hour later, a few
  times.\<close>

definition quorum_timed_out ::
    "MonitorEvent \<Rightarrow> RelayState \<Rightarrow> ('f, 'p, 'g, 'q, 'r) app_node \<Rightarrow> ('f, 'p, 'g, 'q, 'r) app_node" where
  "quorum_timed_out event r0 s0 =
    (let r = r0\<lparr> no_of_shares_received := 0 \<rparr> in
     if event = DKG then app_cast (ToElection FirstElection) (set_relay r s0)
     else
       let s1 = app_cast (ToGossip (Gossip Message.RollbackToPreviousState NETWORK_TOPIC))
                  (app_cast (ToAppState AppStateChangeMessage.RollbackToPreviousState) (set_relay r s0));
           s2 = (if resharing_failure_count r \<le> MAX_RESHARING_ATTEMPTS_AT_A_TIME then
                   (set_relay (r\<lparr> resharing_failure_count := resharing_failure_count r + 1 \<rparr>) s1)
                     \<lparr> app_delayed := app_delayed s1 @
                         [(RESHARING_REATTEMPT_WAIT_TIME, ToAppState PreResharing)] \<rparr>
                 else s1) in
       quorum_report False r s2)"

text \<open>One second of a monitor: it goes on with a later time, or it is done. Its cancellation token is
  its own and never cancelled.\<close>

definition monitor_tick ::
    "monitor \<Rightarrow> ('f, 'p, 'g, 'q, 'r) app_node \<Rightarrow> monitor option \<times> ('f, 'p, 'g, 'q, 'r) app_node" where
  "monitor_tick m s =
    (case as_relay s of
       None \<Rightarrow> (None, s)
     | Some r \<Rightarrow>
         if no_of_shares_received r = mon_target m then (None, quorum_formed r s)
         else if mon_elapsed m + 1 \<ge> DKG_RESHARING_WAIT_TIME then (None, quorum_timed_out (mon_event m) r s)
         else (Some (m\<lparr> mon_elapsed := mon_elapsed m + 1 \<rparr>), s))"

text \<open>The tasks \<open>pre_start\<close> spawns: the relay's timer, whose first tick is skipped, and the signals.\<close>

datatype timer_event = IntervalTick | SigHup | SigUsr1

definition relay_timer ::
    "timer_event \<Rightarrow> bool \<times> ('f, 'p, 'g, 'q, 'r) app_node \<Rightarrow> bool \<times> ('f, 'p, 'g, 'q, 'r) app_node" where
  "relay_timer ev = (\<lambda>(first_resharing_triggered, s).
    case ev of
      IntervalTick \<Rightarrow>
        if first_resharing_triggered then
          (True, case as_relay s of
                   Some r \<Rightarrow>
                     if is_resharing_enabled r
                     then app_cast (ToAppState PreResharing) (set_relay (r\<lparr> resharing_failure_count := 0 \<rparr>) s)
                     else s
                 | None \<Rightarrow> s)
        else (True, s)
    | SigHup \<Rightarrow> (first_resharing_triggered, app_cast (ToAppState PreResharing) s)
    | SigUsr1 \<Rightarrow> (first_resharing_triggered, app_cast (ToAppState BackupState) s))"

definition prover_timer :: "timer_event \<Rightarrow> ('f, 'p, 'g, 'q, 'r) app_node \<Rightarrow> ('f, 'p, 'g, 'q, 'r) app_node" where
  "prover_timer ev s = (if ev = SigUsr1 then app_cast (ToAppState BackupState) s else s)"

section \<open>Start and dispatch\<close>

definition require :: "('f, 'p, 'g, 'q, 'r, 'rg, 'v, 'k) app_env \<Rightarrow> string list \<Rightarrow> ('a, 'e) outcome \<Rightarrow> ('a, 'e) outcome" where
  "require E ms x = assert_then (list_all (expects E) ms) x"

definition start_relay ::
    "('f, 'p, 'g, 'q, 'r, 'rg, 'v, 'k) app_env \<Rightarrow> CommonState \<Rightarrow> ('f, 'p, 'g, 'q, 'r) app_node \<Rightarrow> RelayState" where
  "start_relay E c s =
    (let newp = saved_provers ''new_provers'' s; t = saved_nat ''t'' s;
         nodes = (if newp \<noteq> [] then (case ping_nodes (reachable E) newp of Ok nodes \<Rightarrow> nodes | _ \<Rightarrow> {}) else {});
         ok = (newp \<noteq> [] \<and> is_ok (ping_nodes (reachable E) newp) \<and> card nodes \<ge> t) in
     \<lparr> relay_common = c, active_provers = map fst (hm_values newp), relay_n = saved_nat ''n'' s, relay_t = t,
        relay_epsilon = saved_nat ''epsilon'' s, batch_size = 0, req_cache = [], res_cache = [],
        pubkey_shares = saved_pubkey_shares ''pubkey_shares'' s, relay_ready = ok, ready_nodes = nodes,
        new_cached_elected_provers = [], relay_tstar_provers = saved_provers ''tstar_provers'' s, relay_new_provers = newp,
        relay_group_keys = saved_shares ''finalized_group_public_keys'' s, received_group_public_keys = [],
        no_of_shares_received = 0, monitor_request_queue = [], batch_cache = [], pubsub_cache = [],
        all_provers_cache = [], is_resharing_enabled = True, resharing_failure_count = 0 \<rparr>)"

definition start_prover :: "CommonState \<Rightarrow> Multiaddr \<Rightarrow> ('f, 'p, 'g, 'q, 'r) app_node \<Rightarrow> ProverState" where
  "start_prover c ma s =
    \<lparr> prover_common = c, my_node_idx = saved_nat ''idx'' s, prover_n = saved_nat ''n'' s, prover_t = saved_nat ''t'' s,
      prover_epsilon = saved_nat ''epsilon'' s, private_keyshares = saved_shares ''private_keyshares'' s,
      prover_new_provers = saved_provers ''new_provers'' s, relay_multi_addr = ma \<rparr>"

definition app_pre_start ::
    "('f, 'p, 'g, 'q, 'r, 'rg, 'v, 'k) app_env \<Rightarrow> PeerId \<Rightarrow> PeerId \<Rightarrow> NodeType \<Rightarrow> Multiaddr \<Rightarrow>
      (string, 'r db_value) hashmap option \<Rightarrow> services \<Rightarrow> string list \<Rightarrow>
      (('f, 'p, 'g, 'q, 'r) app_node, AppStateEngineError) outcome" where
  "app_pre_start E pid relay nt ma db S batch =
    (let c = \<lparr> cs_peer_id = pid, cs_relay_peer_id = relay, current_epoch = 0 \<rparr>;
         s0 = \<lparr> app_node_type = nt, node_state = None, app_casts = [], app_delayed = [], app_replies = [], published = [],
                app_db = db, app_services = S, request_batch = batch, monitors = [] \<rparr>;
         s = save_all [(''peer_id'', db_peer pid), (''relay_peer_id'', db_peer relay), (''current_epoch'', db_nat 0)] s0 in
     require E [''OTHENTIC_RPC_URL not set'', ''Failed to parse OTHENTIC_RPC_URL'', ''Failed to open Redis connection'',
                ''Failed to get Redis connection'', ''L1_RPC not set'', ''Failed to instantiate ETH provider'']
     (case nt of
        NodeType.Relay \<Rightarrow>
          require E [''PINATA_API_KEY must be set in .env file'', ''PINATA_SECRET_API_KEY must be set in .env file'',
                     ''Kafka producer not initialized'', ''PRIVATE_KEY for Relay node not set'', ''Failed to parse private key'']
            (Ok (set_relay (start_relay E c s) s))
      | NodeType.Prover \<Rightarrow> Ok (set_prover (start_prover c ma s) s)
      | NodeType.Verifier \<Rightarrow> Ok (s\<lparr> node_state := Some (VerifierNode \<lparr> verifier_common = c, ipfs_host = [] \<rparr>) \<rparr>)
      | NodeType.Bootstrap \<Rightarrow> Ok s))"

fun app_dispatch ::
    "('f::field, 'p::ab_group_add, 'g::field, 'q::ab_group_add, 'r, 'rg, 'v, 'k) app_env \<Rightarrow>
      ('f, 'p, 'g, 'q, 'r) AppStateChangeMessage \<Rightarrow> ('f, 'p, 'g, 'q, 'r) app_node \<Rightarrow> ('f, 'p, 'g, 'q, 'r) app_handled" where
  "app_dispatch E (AppStateChangeMessage.StateRequest req tx) s = (Ok (), handle_state_request E req tx s)"
| "app_dispatch E (MulRequest request ps request_id) s = handle_multiplication_request E request ps [] request_id s"
| "app_dispatch E (UpdatedThreshold info) s = (Ok (), update_threshold info s)"
| "app_dispatch E (UpdateElectedProvers request is_cache) s = (Ok (), update_elected_provers request is_cache s)"
| "app_dispatch E (AppStateChangeMessage.ProcessMulRequest request_id request tx) s = process_request E request_id request tx s"
| "app_dispatch E (UpdateNodeIdx i) s = (Ok (), update_node_idx i s)"
| "app_dispatch E (StoreKeyShares shares) s = (Ok (), store_key_shares shares s)"
| "app_dispatch E (StoreKSet pid shares i keys) s = (Ok (), store_kset pid shares i keys s)"
| "app_dispatch E (StoreQuorumMap tstar newp) s = (Ok (), store_quorum_map tstar newp s)"
| "app_dispatch E (ResharingStoreKSet pid shares i) s = (Ok (), store_resharing_kset pid shares i s)"
| "app_dispatch E (FetchReconstructedPoint request_id tx) s = fetch_reconstructed_point E request_id tx s"
| "app_dispatch E (ProcessReceivedProofSecp256k1 i pid request_id q method) s =
    process_received_proof E (ae_secp E) (json_secp E) i pid request_id q method s"
| "app_dispatch E (ProcessReceivedProofBabyJubJub i pid request_id q method) s =
    process_received_proof E (ae_bjj E) (json_bjj E) i pid request_id q method s"
| "app_dispatch E PreResharing s = (Ok (), pre_resharing s)"
| "app_dispatch E AppStateChangeMessage.ClearShares s = (Ok (), clear_shares s)"
| "app_dispatch E (ForwardReElectedProvers info tstar newp drand) s =
    (Ok (), forward_re_elected_provers info tstar newp drand s)"
| "app_dispatch E (UpdateCachedProversMap newp) s = (Ok (), update_cached_provers_map newp s)"
| "app_dispatch E BackupState s = (Ok (), backup_state s)"
| "app_dispatch E (MonitorQuorumFormation event) s = (Ok (), monitor_quorum_formation event s)"
| "app_dispatch E (FetchKeyShare tx) s = (Ok (), fetch_key_share E tx s)"
| "app_dispatch E (FetchFinalizedGroupPubkeys tx) s = (Ok (), fetch_finalized_group_pubkeys E tx s)"
| "app_dispatch E (RestoreKeyShare keyshares tx) s = (Ok (), restore_key_share E keyshares tx s)"
| "app_dispatch E (FetchElectionState pid tx) s = (Ok (), fetch_election_state pid tx s)"
| "app_dispatch E (RestoreElectionState tx) s = restore_election_state E tx s"
| "app_dispatch E (SyncPeerData tx) s = sync_peer_data E tx s"
| "app_dispatch E (FetchElectionInfo pid tx) s = fetch_election_info E pid tx s"
| "app_dispatch E AppStateChangeMessage.RollbackToPreviousState s = (Ok (), rollback_to_previous_state E s)"
| "app_dispatch E AppStateChangeMessage.SaveCurrentState s = (Ok (), save_current_state s)"
| "app_dispatch E (QuicPing pid tx) s = quic_ping E pid tx s"
| "app_dispatch E (FetchVotingPower pid tx) s = fetch_voting_power E pid tx s"
| "app_dispatch E (ForwardErrorResponse request_id resp) s = (Ok (), forward_error_response request_id resp s)"
| "app_dispatch E (SetResharingEnabled value tx) s = (Ok (), set_resharing_enabled value tx s)"

definition app_handle ::
    "('f::field, 'p::ab_group_add, 'g::field, 'q::ab_group_add, 'r, 'rg, 'v, 'k) app_env \<Rightarrow>
      ('f, 'p, 'g, 'q, 'r) AppStateChangeMessage \<Rightarrow> ('f, 'p, 'g, 'q, 'r) app_node \<Rightarrow> ('f, 'p, 'g, 'q, 'r) app_handled" where
  "app_handle E m s = app_dispatch E m (purge E s)"

text \<open>The messages that come in are handled one after the other; a handler that returns an error or
  panics ends the actor.\<close>

fun serve :: "('m \<Rightarrow> 's \<Rightarrow> (unit, 'e) outcome \<times> 's) \<Rightarrow> 'm list \<Rightarrow> 's \<Rightarrow> 's" where
  "serve f [] s = s"
| "serve f (m # ms) s = (case f m s of (Ok _, s') \<Rightarrow> serve f ms s' | (_, s') \<Rightarrow> s')"

definition app_serve ::
    "('f::field, 'p::ab_group_add, 'g::field, 'q::ab_group_add, 'r, 'rg, 'v, 'k) app_env \<Rightarrow>
      ('f, 'p, 'g, 'q, 'r) AppStateChangeMessage list \<Rightarrow> ('f, 'p, 'g, 'q, 'r) app_node \<Rightarrow> ('f, 'p, 'g, 'q, 'r) app_node" where
  "app_serve E = serve (app_handle E)"

end
