(* ===== verification/App_Lemmas.thy ===== *)
theory App_Lemmas
  imports App_State
begin

text \<open>
  What the handlers of the application state share: reading back what was set, saved and cached;
  the well-formedness of the relay's caches; the way results are collected.
\<close>

section \<open>Reading back\<close>

lemma as_node_set [simp]:
  "as_relay (set_relay r s) = Some r" "as_prover (set_prover q s) = Some q"
  "as_prover (set_relay r s) = None" "as_relay (set_prover q s) = None"
  "node_state (set_relay r s) = Some (RelayNode r)" "node_state (set_prover q s) = Some (ProverNode q)"
  by (simp_all add: as_relay_def as_prover_def set_relay_def set_prover_def)

lemma as_node_update [simp]:
  "as_relay (app_cast c s) = as_relay s" "as_relay (app_reply tx x s) = as_relay s"
  "as_relay (publish ps t y s) = as_relay s" "as_relay (app_save k v s) = as_relay s"
  "as_relay (s\<lparr> app_services := S \<rparr>) = as_relay s" "as_relay (s\<lparr> request_batch := b \<rparr>) = as_relay s"
  "as_relay (s\<lparr> monitors := ms \<rparr>) = as_relay s" "as_relay (s\<lparr> app_delayed := ds \<rparr>) = as_relay s"
  "as_prover (app_cast c s) = as_prover s" "as_prover (app_reply tx x s) = as_prover s"
  "as_prover (app_save k v s) = as_prover s"
  by (simp_all add: as_relay_def as_prover_def app_cast_def app_reply_def publish_def app_save_def)

lemma node_update_sel [simp]:
  "app_casts (set_relay r s) = app_casts s" "app_services (set_relay r s) = app_services s"
  "published (set_relay r s) = published s" "app_db (set_relay r s) = app_db s"
  "app_replies (set_relay r s) = app_replies s" "request_batch (set_relay r s) = request_batch s"
  "app_db (set_prover q s) = app_db s" "app_replies (set_prover q s) = app_replies s"
  "app_casts (app_cast c s) = app_casts s @ [c]" "published (app_cast c s) = published s"
  "published (publish ps t y s) = published s @ [(ps, t, y)]" "app_casts (publish ps t y s) = app_casts s"
  "app_services (publish ps t y s) = app_services s" "app_services (app_cast c s) = app_services s"
  "request_batch (publish ps t y s) = request_batch s"
  "app_replies (app_reply tx x s) = app_replies s @ [(tx, x)]" "published (app_reply tx x s) = published s"
  "app_casts (app_reply tx x s) = app_casts s"
  by (simp_all add: set_relay_def set_prover_def app_cast_def app_reply_def publish_def)

lemma set_relay_twice [simp]: "set_relay r (set_relay r' s) = set_relay r s"
  by (simp add: set_relay_def)

lemma as_relay_Some: "as_relay s = Some r \<longleftrightarrow> node_state s = Some (RelayNode r)"
  by (auto simp: as_relay_def split: option.splits AppNodeState.splits)

lemma as_prover_Some: "as_prover s = Some q \<longleftrightarrow> node_state s = Some (ProverNode q)"
  by (auto simp: as_prover_def split: option.splits AppNodeState.splits)

lemma set_relay_same: "as_relay s = Some r \<Longrightarrow> set_relay r s = s"
  by (simp add: as_relay_Some set_relay_def)

section \<open>The state directory\<close>

lemma app_db_save_all: "app_db (save_all kvs s) = map_option (\<lambda>db. foldl (\<lambda>m (k, v). hm_insert k v m) db kvs) (app_db s)"
  unfolding save_all_def
proof (induction kvs arbitrary: s)
  case (Cons kv kvs)
  then show ?case by (cases "app_db s") (auto simp: app_save_def split: prod.split)
qed (simp add: option.map_ident)

lemma hm_get_foldl_insert:
  assumes "distinct (map fst kvs)" and "(k, v) \<in> set kvs"
  shows "hm_get k (foldl (\<lambda>m (k, v). hm_insert k v m) db kvs) = Some v"
  using assms
proof (induction kvs arbitrary: db)
  case (Cons kv kvs)
  have keep: "hm_get k (foldl (\<lambda>m (k, v). hm_insert k v m) d ks) = hm_get k d" if "k \<notin> fst ` set ks" for ks d
    using that by (induction ks arbitrary: d) (auto simp: hashmap.get_ins split: prod.split)
  from Cons show ?case by (auto simp: keep hashmap.get_ins rev_image_eqI)
qed simp

lemma get_saved:
  assumes "app_db s = Some db" and "distinct (map fst kvs)" and "(k, v) \<in> set kvs"
  shows "get_state k (app_db (save_all kvs s)) = Some v"
  using hm_get_foldl_insert [OF assms(2,3)] assms(1) by (simp add: app_db_save_all get_state_def)

section \<open>The caches of a relay\<close>

text \<open>The caches are maps, and the counter of a result is the number of its entries at 32 bits.\<close>

definition result_ok :: "StoredMultResult \<Rightarrow> bool" where
  "result_ok m \<longleftrightarrow> num_nodes m = as_u32 (length (mul_results m))"

definition relay_ok :: "RelayState \<Rightarrow> bool" where
  "relay_ok r \<longleftrightarrow>
    hm_wf (req_cache r) \<and> hm_wf (res_cache r) \<and> hm_wf (batch_cache r) \<and> hm_wf (pubsub_cache r) \<and>
    hm_wf (all_provers_cache r) \<and> finite (ready_nodes r) \<and> (\<forall>(k, m)\<in>set (res_cache r). result_ok m)"

definition node_well :: "('f, 'p, 'g, 'q, 'r) app_node \<Rightarrow> bool" where
  "node_well s \<longleftrightarrow> (case as_relay s of Some r \<Rightarrow> relay_ok r | None \<Rightarrow> True)"

lemma node_well_set [simp]: "node_well (set_relay r s) = relay_ok r" "node_well (set_prover q s)"
  by (simp_all add: node_well_def)

lemma node_well_update [simp]:
  "node_well (app_cast c s) = node_well s" "node_well (app_reply tx x s) = node_well s"
  "node_well (publish ps t y s) = node_well s" "node_well (app_save k v s) = node_well s"
  "node_well (s\<lparr> app_services := S \<rparr>) = node_well s" "node_well (s\<lparr> request_batch := b \<rparr>) = node_well s"
  "node_well (s\<lparr> monitors := ms \<rparr>) = node_well s" "node_well (s\<lparr> app_delayed := ds \<rparr>) = node_well s"
  by (simp_all add: node_well_def)

lemma node_well_save_all [simp]: "node_well (save_all kvs s) = node_well s"
  unfolding save_all_def by (induction kvs arbitrary: s) (auto split: prod.split)

lemma node_well_relay: "node_well s \<Longrightarrow> as_relay s = Some r \<Longrightarrow> relay_ok r"
  by (simp add: node_well_def)

lemma node_well_carry:
  assumes "node_well s" and "\<And>x. y = Ok x \<Longrightarrow> node_well (snd (k x))"
  shows "node_well (snd (carry y conv s k))"
  using assms by (cases y) simp_all

lemma node_well_or_return:
  assumes "node_well s" and "\<And>x. y = Ok x \<Longrightarrow> node_well (snd (k x))"
  shows "node_well (snd (or_return y s k))"
  using assms by (cases y) simp_all

lemma hm_wf_filter: "hm_wf m \<Longrightarrow> hm_wf (filter P m)"
  by (auto simp: hm_wf_def hm_keys_def distinct_map inj_on_def)

lemma hm_wf_fill_cache: "hm_wf m \<Longrightarrow> hm_wf (fill_cache ps m)"
  unfolding fill_cache_def by (induction ps arbitrary: m) (simp_all add: hashmap.wf_ins)

lemma hm_insert_set: "set (hm_insert k v m) \<subseteq> insert (k, v) (set m)"
  unfolding hm_defs by (induction m) auto

lemma node_well_purge: "node_well s \<Longrightarrow> node_well (purge E s)"
  by (auto simp: purge_def node_well_def relay_ok_def hm_wf_filter split: option.split)

lemma node_well_state:
  "node_well s \<Longrightarrow> node_state s = Some (RelayNode r) \<Longrightarrow> relay_ok r"
  by (simp add: node_well_relay as_relay_Some)

lemma relay_ok_update [simp]:
  "relay_ok (r\<lparr> relay_n := n \<rparr>) = relay_ok r" "relay_ok (r\<lparr> relay_t := n \<rparr>) = relay_ok r"
  "relay_ok (r\<lparr> relay_epsilon := n \<rparr>) = relay_ok r" "relay_ok (r\<lparr> active_provers := ps \<rparr>) = relay_ok r"
  "relay_ok (r\<lparr> new_cached_elected_provers := ps \<rparr>) = relay_ok r" "relay_ok (r\<lparr> pubkey_shares := sh \<rparr>) = relay_ok r"
  "relay_ok (r\<lparr> received_group_public_keys := ks \<rparr>) = relay_ok r" "relay_ok (r\<lparr> relay_group_keys := k \<rparr>) = relay_ok r"
  "relay_ok (r\<lparr> no_of_shares_received := n \<rparr>) = relay_ok r" "relay_ok (r\<lparr> relay_tstar_provers := m \<rparr>) = relay_ok r"
  "relay_ok (r\<lparr> relay_new_provers := m \<rparr>) = relay_ok r" "relay_ok (r\<lparr> relay_ready := b \<rparr>) = relay_ok r"
  "relay_ok (r\<lparr> batch_size := n \<rparr>) = relay_ok r" "relay_ok (r\<lparr> monitor_request_queue := mq \<rparr>) = relay_ok r"
  "relay_ok (r\<lparr> is_resharing_enabled := b \<rparr>) = relay_ok r" "relay_ok (r\<lparr> resharing_failure_count := n \<rparr>) = relay_ok r"
  by (simp_all add: relay_ok_def)

lemma relay_ok_caches:
  assumes "relay_ok r"
  shows "finite X \<Longrightarrow> relay_ok (r\<lparr> ready_nodes := X \<rparr>)"
    and "relay_ok (r\<lparr> pubsub_cache := hm_insert k ps (pubsub_cache r) \<rparr>)"
    and "relay_ok (r\<lparr> pubsub_cache := hm_remove k (pubsub_cache r) \<rparr>)"
    and "relay_ok (r\<lparr> req_cache := hm_insert k d (req_cache r) \<rparr>)"
    and "relay_ok (r\<lparr> req_cache := hm_or_insert k d (req_cache r) \<rparr>)"
    and "relay_ok (r\<lparr> batch_cache := hm_insert k () (batch_cache r) \<rparr>)"
    and "hm_wf c \<Longrightarrow> relay_ok (r\<lparr> all_provers_cache := c \<rparr>)"
    and "result_ok m \<Longrightarrow> relay_ok (r\<lparr> res_cache := hm_insert k m (res_cache r) \<rparr>)"
  using assms hm_insert_set [of k m "res_cache r"]
  by (auto simp: relay_ok_def hashmap.wf_ins hashmap.wf_rem hm_or_insert_def)

lemma relay_ok_finite: "relay_ok r \<Longrightarrow> finite (ready_nodes r)"
  by (simp add: relay_ok_def)

lemma ping_nodes_finite: "ping_nodes answers m = Ok X \<Longrightarrow> finite X"
  by (auto simp: ping_nodes_def Let_def split: if_splits)

lemmas node_well_defs =
  update_threshold_def update_elected_provers_def update_node_idx_def store_key_shares_def store_quorum_map_def
  pre_resharing_def clear_shares_def forward_re_elected_provers_def update_cached_provers_map_def backup_state_def
  save_current_state_def fetch_key_share_def fetch_finalized_group_pubkeys_def restore_key_share_def
  fetch_election_state_def forward_error_response_def set_resharing_enabled_def monitor_quorum_formation_def
  handle_state_request_def store_kset_def store_resharing_kset_def

lemma node_well_elections:
  assumes "node_well s"
  shows "node_well (update_threshold info s)" "node_well (update_elected_provers ps b s)" "node_well (update_node_idx i s)"
    "node_well (store_key_shares sh s)" "node_well (store_kset pid shares i keys s)" "node_well (store_quorum_map m1 m2 s)"
    "node_well (store_resharing_kset pid shares i s)" "node_well (pre_resharing s)" "node_well (clear_shares s)"
    "node_well (forward_re_elected_provers info m1 m2 d s)" "node_well (update_cached_provers_map m1 s)"
  using assms
  by (auto simp: node_well_defs Let_def node_well_relay node_well_state relay_ok_caches relay_ok_finite
      split: option.split AppNodeState.split)

lemma node_well_queries:
  assumes "node_well s"
  shows "node_well (backup_state s)" "node_well (save_current_state s)" "node_well (handle_state_request E req tx s)"
    "node_well (fetch_key_share E tx s)" "node_well (fetch_finalized_group_pubkeys E tx s)"
    "node_well (restore_key_share E ks tx s)" "node_well (fetch_election_state pid tx s)"
    "node_well (forward_error_response i resp s)" "node_well (set_resharing_enabled b tx s)"
    "node_well (monitor_quorum_formation ev s)"
  using assms
  by (auto simp: node_well_defs Let_def node_well_relay node_well_state
      split: option.split AppNodeState.split MonitorEvent.split)

lemma node_well_rollback: "node_well s \<Longrightarrow> node_well (rollback_to_previous_state E s)"
  by (auto simp: rollback_to_previous_state_def rollback_relay_def Let_def node_well_state relay_ok_caches
      ping_nodes_finite split: option.split AppNodeState.split outcome.split)

lemma node_well_send_or_fail: "node_well s \<Longrightarrow> node_well (snd (send_or_fail E tx x s))"
  by (simp add: send_or_fail_def)

lemma node_well_sync: "node_well s \<Longrightarrow> node_well (snd (sync_peer_data E tx s))"
  by (auto simp: sync_peer_data_def sync_relay_def Let_def node_well_state
      intro!: node_well_send_or_fail node_well_carry relay_ok_caches hm_wf_fill_cache
      split: option.split AppNodeState.split) (simp add: hm_wf_def hm_keys_def)

lemma node_well_with_prover:
  assumes "node_well s" and "\<And>info s. node_well s \<Longrightarrow> node_well (act info s)"
  shows "node_well (snd (with_prover E pid failure tx act s))"
proof (cases "node_state s")
  case (Some st)
  have "hm_wf (fill_cache fetched [])" for fetched
    by (rule hm_wf_fill_cache) (simp add: hm_wf_def hm_keys_def)
  with Some assms show ?thesis
    by (cases st)
      (auto simp: with_prover_def Let_def node_well_state obind_eq_Ok relay_ok_caches split: option.split if_splits
        intro!: node_well_carry assms(2))
qed (use assms in \<open>simp add: with_prover_def\<close>)

lemma node_well_rest:
  assumes "node_well s"
  shows "node_well (snd (fetch_reconstructed_point E i tx s))" "node_well (snd (restore_election_state E tx s))"
    "node_well (snd (fetch_election_info E pid tx s))" "node_well (snd (quic_ping E pid tx s))"
    "node_well (snd (fetch_voting_power E pid tx s))"
  using assms
  by (auto simp: fetch_reconstructed_point_def restore_election_state_def fetch_election_info_def quic_ping_def
      fetch_voting_power_def Let_def intro!: node_well_carry node_well_send_or_fail node_well_with_prover
      split: option.split AppNodeState.split outcome.split NodeResponse.split)

lemma refresh_ready_ok: "relay_ok r \<Longrightarrow> relay_ok (refresh_ready answers r)"
  by (auto simp: refresh_ready_def relay_ok_caches ping_nodes_finite split: outcome.split)

lemma account_mul_request_relay: "account_mul_request E request r S = Ok (r', S') \<Longrightarrow> \<exists>n. r' = r\<lparr> batch_size := n \<rparr>"
  by (auto simp: account_mul_request_def obind_eq_Ok split: outcome.splits intro: exI [of _ "batch_size r"])

lemma node_well_forward: "relay_ok r \<Longrightarrow> node_well (forward_request is req i r s)"
  by (simp add: forward_request_def relay_ok_caches)

lemma node_well_mul_request:
  assumes "node_well s" shows "node_well (snd (handle_multiplication_request E req ps fs i s))"
proof (cases "as_relay s")
  case (Some r0)
  let ?r1 = "refresh_ready (reachable E) r0"
  let ?r = "?r1\<lparr> pubsub_cache := hm_insert i ps (pubsub_cache ?r1) \<rparr>"
  have r: "relay_ok ?r" using relay_ok_caches(2) refresh_ready_ok node_well_relay [OF assms Some] by blast
  show ?thesis
  proof (cases "account_mul_request E req ?r (app_services s)")
    case (Ok x)
    obtain r' S where x: "x = (r', S)" by fastforce
    from account_mul_request_relay Ok x r have r': "relay_ok r'" by fastforce
    from Some Ok x r r' show ?thesis
      by (auto simp: handle_multiplication_request_def Let_def intro!: node_well_carry node_well_forward)
  qed (use Some r in \<open>auto simp: handle_multiplication_request_def Let_def\<close>)
qed (use assms in \<open>simp add: handle_multiplication_request_def\<close>)

lemma node_well_process_request: "node_well s \<Longrightarrow> node_well (snd (process_request E i req tx s))"
  by (auto simp: process_request_def intro!: node_well_carry split: option.split)

lemma node_well_process_batch: "relay_ok r \<Longrightarrow> node_well (snd (process_batch E h r s))"
  by (auto simp: process_batch_def Let_def intro!: node_well_carry)

lemma notify_listener_ok:
  "notify_listener E i d m r s = Ok (r', s') \<Longrightarrow> relay_ok r \<Longrightarrow> relay_ok r'"
  by (auto simp: notify_listener_def obind_eq_Ok Let_def relay_ok_caches split: option.splits)

lemma node_well_process_verification:
  assumes "node_well s" and "relay_ok r" and "result_ok m"
  shows "node_well (snd (process_verification E C i h m d r s))"
proof -
  have "result_ok (m\<lparr> reconstructed_point := x \<rparr>)" for x using assms(3) by (simp add: result_ok_def)
  with assms have "relay_ok (r\<lparr> res_cache := hm_insert i (m\<lparr> reconstructed_point := x \<rparr>) (res_cache r),
      req_cache := hm_insert i d' (req_cache r) \<rparr>)" for x d'
    using relay_ok_caches(4) [of "r\<lparr> res_cache := hm_insert i (m\<lparr> reconstructed_point := x \<rparr>) (res_cache r) \<rparr>" i d']
      relay_ok_caches(8) by simp
  with assms(1) show ?thesis
    by (auto simp: process_verification_def Let_def dest!: notify_listener_ok
        intro!: node_well_carry node_well_or_return node_well_process_batch relay_ok_caches)
qed

lemma result_ok_add:
  assumes "relay_ok r" shows "result_ok (add_result i x (stored_result cn rid r))"
proof -
  have "result_ok (stored_result cn rid r)"
    using assms by (auto simp: stored_result_def relay_ok_def hm_get_mem result_ok_def as_u32_def split: option.split)
  then show ?thesis by (simp add: add_result_def result_ok_def as_u32_def mod_Suc_eq)
qed

lemma node_well_record_result:
  assumes "relay_ok r"
  shows "node_well (snd (record_result E C js i pid rid kp mp res d r s))"
proof -
  have "relay_ok (r\<lparr> res_cache := hm_insert rid m (res_cache r), req_cache := hm_insert rid d' (req_cache r) \<rparr>)"
    if "result_ok m" for m d'
    using relay_ok_caches(4) [of "r\<lparr> res_cache := hm_insert rid m (res_cache r) \<rparr>" rid d']
      relay_ok_caches(8) [OF assms that] by simp
  with assms result_ok_add [OF assms] show ?thesis
    unfolding record_result_def Let_def
    by (intro node_well_or_return node_well_carry)
      (auto simp: relay_ok_caches intro!: node_well_or_return node_well_carry node_well_process_verification)
qed

lemma node_well_received_proof:
  "node_well s \<Longrightarrow> node_well (snd (process_received_proof E C js i pid rid q method s))"
  by (auto simp: process_received_proof_def intro!: node_well_or_return node_well_carry node_well_record_result
      node_well_relay split: option.split)

lemmas node_well_handlers =
  node_well_elections node_well_queries node_well_rollback node_well_sync node_well_rest node_well_mul_request
  node_well_process_request node_well_received_proof

lemma app_handle_well: "node_well s \<Longrightarrow> node_well (snd (app_handle E m s))"
  unfolding app_handle_def by (cases m) (simp_all add: node_well_handlers node_well_purge)

end
