(* ===== verification/App_Run.thy ===== *)
theory App_Run
  imports App_Lemmas
begin

text \<open>
  A request at the relay: the proofs of the provers are collected one by one, and the one that makes
  the threshold full gives the listener the reconstructed point.
\<close>

section \<open>Assumptions\<close>

text \<open>\<open>bincode\<close> can read what it wrote, the digest has its length, and no cache entry expires.\<close>

definition relay_world_ok :: "('f, 'p, 'g, 'q, 'r, 'rg, 'v, 'k) app_env \<Rightarrow> bool" where
  "relay_world_ok E \<longleftrightarrow>
    digests_ok (ae_digests E) \<and> (\<forall>x. bincode_proofs_read E (bincode_proofs E x) \<noteq> None) \<and>
    (\<forall>c k. \<not> forgotten E c k)"

definition request_hash_of :: "('f, 'p, 'g, 'q, 'r, 'rg, 'v, 'k) app_env \<Rightarrow> RequestToNetwork \<Rightarrow> string" where
  "request_hash_of E request = hex_encode (ae_hex E) (Sha3_256 (ae_digests E) (the (json_request E request)))"

text \<open>A request in progress: its record, the results so far, the listener; its hash is not in the
  batch, and what Redis holds under it was written by the relay.\<close>

definition collecting ::
    "('f, 'p, 'g, 'q, 'r, 'rg, 'v, 'k) app_env \<Rightarrow> ('a, 'b) curve \<Rightarrow> string \<Rightarrow> RequestToNetwork \<Rightarrow> 'b \<Rightarrow> (nat \<times> 'b) list \<Rightarrow>
      RelayState \<Rightarrow> ('f, 'p, 'g, 'q, 'r) app_node \<Rightarrow> bool" where
  "collecting E C rid request P outs r s \<longleftrightarrow>
    as_relay s = Some r \<and>
    (\<exists>dat. hm_get rid (req_cache r) = Some dat \<and> rec_request dat = request) \<and>
    stored_result (NAME C) rid r =
      \<lparr> num_nodes = length outs, mul_results = map (\<lambda>(i, out). (i, the_ok (encode C out))) outs,
        reconstructed_point = None, mult_curve = NAME C \<rparr> \<and>
    from_encoded C (req_point request) = Ok P \<and> is_ok (encode C P) \<and> json_request E request \<noteq> None \<and>
    \<not> hm_contains (request_hash_of E request) (batch_cache r) \<and> redis_up (app_services s) \<and>
    (\<forall>v. hm_get (request_hash_of E request) (redis (app_services s)) = Some v \<longrightarrow> bincode_proofs_read E v \<noteq> None) \<and>
    (\<forall>(i, out)\<in>set outs. point_codec C out)"

text \<open>A proof the relay accepts from a peer for a point.\<close>

definition accepted ::
    "('f, 'p, 'g, 'q, 'r, 'rg, 'v, 'k) app_env \<Rightarrow> ('a::field, 'b::ab_group_add) curve \<Rightarrow>
      (('a, 'b) DLEQProof \<Rightarrow> bytes option) \<Rightarrow> Method \<Rightarrow> RelayState \<Rightarrow> 'b \<Rightarrow> PeerId \<Rightarrow> ('a, 'b) DLEQProof \<Rightarrow> 'b \<Rightarrow> bool" where
  "accepted E C js meth r P pid q out \<longleftrightarrow>
    (\<exists>sh kb kp. hm_get pid (pubkey_shares r) = Some sh \<and> hm_get (share_name meth) sh = Some kb \<and>
       from_encoded C kb = Ok kp \<and> is_ok (encode C kp) \<and>
       verify_and_get_output (ae_digests E) C q kp P = Ok out) \<and>
    js q \<noteq> None \<and> point_codec C out"

lemma purge_id: "relay_world_ok E \<Longrightarrow> purge E s = s"
  by (auto simp: purge_def relay_world_ok_def as_relay_Some set_relay_def split_def split: option.split)

section \<open>One proof\<close>

lemma store_proof_Ok:
  assumes "relay_world_ok E" and "redis_up S"
    and "\<forall>v. hm_get h (redis S) = Some v \<longrightarrow> bincode_proofs_read E v \<noteq> None"
  shows "\<exists>x. store_proof E h request entry S = Ok (S\<lparr> redis := hm_insert h (bincode_proofs E x) (redis S) \<rparr>)"
  using assms by (fastforce simp: store_proof_def redis_set_def split: option.split)

lemma received_proof_accepted:
  assumes E: "relay_world_ok E" and c: "collecting E C rid request P outs r s"
    and a: "accepted E C js meth r P pid q out"
  shows "\<exists>dat x. hm_get rid (req_cache r) = Some dat \<and> rec_request dat = request \<and>
    process_received_proof E C js i pid rid q meth s =
      (let m = add_result i (the_ok (encode C out)) (stored_result (NAME C) rid r);
           dat' = dat\<lparr> rec_status := ConstructedProof \<rparr>;
           r' = r\<lparr> res_cache := hm_insert rid m (res_cache r), req_cache := hm_insert rid dat' (req_cache r) \<rparr>;
           S = app_services s in
       process_verification E C rid (request_hash_of E request) m dat' r' ((set_relay r' s)
         \<lparr> app_services := S\<lparr> redis := hm_insert (request_hash_of E request) (bincode_proofs E x) (redis S) \<rparr> \<rparr>))"
proof -
  let ?h = "request_hash_of E request"
  obtain dat jb where dat: "hm_get rid (req_cache r) = Some dat" "rec_request dat = request"
    and jb: "json_request E request = Some jb"
    using c by (auto simp: collecting_def)
  obtain sh kb kp where key: "hm_get pid (pubkey_shares r) = Some sh" "hm_get (share_name meth) sh = Some kb"
    "from_encoded C kb = Ok kp" "verify_and_get_output (ae_digests E) C q kp P = Ok out" "is_ok (encode C kp)"
    using a by (auto simp: accepted_def)
  obtain pb where pb: "js q = Some pb" using a by (auto simp: accepted_def)
  obtain b kpb Pb where enc: "encode C out = Ok b" "encode C kp = Ok kpb" "encode C P = Ok Pb"
    using a key(5) c by (auto simp: accepted_def point_codec_def collecting_def is_ok_iff)
  have hash: "hash256 (ae_digests E) jb = Ok (Sha3_256 (ae_digests E) jb)" "hex_encode (ae_hex E) (Sha3_256 (ae_digests E) jb) = ?h"
    using E jb by (simp_all add: relay_world_ok_def hash256_Ok request_hash_of_def)
  have c': "as_relay s = Some r" "from_encoded C (req_point request) = Ok P" "\<not> hm_contains ?h (batch_cache r)"
    "redis_up (app_services s)"
    "\<forall>v. hm_get ?h (redis (app_services s)) = Some v \<longrightarrow> bincode_proofs_read E v \<noteq> None"
    using c by (simp_all add: collecting_def)
  obtain x where x: "store_proof E ?h request (hex_encode (ae_hex E) pb, hex_encode (ae_hex E) kpb, hex_encode (ae_hex E) Pb, pid)
      (app_services s) = Ok ((app_services s)\<lparr> redis := hm_insert ?h (bincode_proofs E x) (redis (app_services s)) \<rparr>)"
    using store_proof_Ok [OF E c'(4,5)] by blast
  have "process_received_proof E C js i pid rid q meth s =
      (let m = add_result i (the_ok (encode C out)) (stored_result (NAME C) rid r);
           dat' = dat\<lparr> rec_status := ConstructedProof \<rparr>;
           r' = r\<lparr> res_cache := hm_insert rid m (res_cache r), req_cache := hm_insert rid dat' (req_cache r) \<rparr>;
           S = app_services s in
       process_verification E C rid ?h m dat' r' ((set_relay r' s)
         \<lparr> app_services := S\<lparr> redis := hm_insert ?h (bincode_proofs E x) (redis S) \<rparr> \<rparr>))"
    by (simp add: process_received_proof_def c' dat key pb enc record_result_def Let_def jb hash x)
  with dat show ?thesis by blast
qed

text \<open>Below the threshold the result is kept and nothing is told.\<close>

lemma collect_step:
  assumes E: "relay_world_ok E" and c: "collecting E C rid request P outs r s"
    and a: "accepted E C js meth r P pid q out" and t: "Suc (length outs) < relay_t r" "relay_t r < 2 ^ 32"
  shows "\<exists>m d s'. process_received_proof E C js i pid rid q meth s = (Ok (), s') \<and>
    collecting E C rid request P (outs @ [(i, out)]) (r\<lparr> res_cache := m, req_cache := d \<rparr>) s' \<and>
    published s' = published s \<and> app_casts s' = app_casts s"
proof -
  obtain dat x where dat: "hm_get rid (req_cache r) = Some dat" "rec_request dat = request"
    and step: "process_received_proof E C js i pid rid q meth s =
      (let m = add_result i (the_ok (encode C out)) (stored_result (NAME C) rid r);
           dat' = dat\<lparr> rec_status := ConstructedProof \<rparr>;
           r' = r\<lparr> res_cache := hm_insert rid m (res_cache r), req_cache := hm_insert rid dat' (req_cache r) \<rparr>;
           S = app_services s in
       process_verification E C rid (request_hash_of E request) m dat' r' ((set_relay r' s)
         \<lparr> app_services := S\<lparr> redis := hm_insert (request_hash_of E request) (bincode_proofs E x) (redis S) \<rparr> \<rparr>))"
    using received_proof_accepted [OF E c a, of i] by blast
  define m where "m = add_result i (the_ok (encode C out)) (stored_result (NAME C) rid r)"
  define r' where "r' = r\<lparr> res_cache := hm_insert rid m (res_cache r),
    req_cache := hm_insert rid (dat\<lparr> rec_status := ConstructedProof \<rparr>) (req_cache r) \<rparr>"
  define S where "S = (app_services s)\<lparr> redis := hm_insert (request_hash_of E request) (bincode_proofs E x) (redis (app_services s)) \<rparr>"
  have m: "num_nodes m = Suc (length outs)" "stored_result (NAME C) rid r' = m"
    "m = \<lparr> num_nodes = length (outs @ [(i, out)]),
        mul_results = map (\<lambda>(i, out). (i, the_ok (encode C out))) (outs @ [(i, out)]),
        reconstructed_point = None, mult_curve = NAME C \<rparr>"
    using c t by (simp_all add: m_def r'_def add_result_def collecting_def stored_result_def hashmap.get_ins)
  have "process_received_proof E C js i pid rid q meth s = (Ok (), (set_relay r' s)\<lparr> app_services := S \<rparr>)"
    unfolding step Let_def m_def [symmetric] r'_def [symmetric] S_def [symmetric]
    using t m(1) by (simp add: process_verification_def r'_def)
  moreover have "collecting E C rid request P (outs @ [(i, out)]) r' ((set_relay r' s)\<lparr> app_services := S \<rparr>)"
    unfolding collecting_def m(2) m(3)
    using c dat a E by (auto simp: collecting_def r'_def S_def hashmap.get_ins accepted_def relay_world_ok_def)
  ultimately show ?thesis unfolding r'_def by auto
qed

lemma process_batch_small:
  assumes "relay_world_ok E" and "redis_up S" and "hm_get h (redis S) = Some (bincode_proofs E x)"
    and "app_services s = S" and "batch_size r < TASK_SIZE"
  shows "process_batch E h r s = (Ok (), (set_relay r s)
    \<lparr> request_batch := request_batch s @ [bincode_proofs E (the (bincode_proofs_read E (bincode_proofs E x)))],
      app_services := redis_del h S \<rparr>)"
proof -
  obtain y where "bincode_proofs_read E (bincode_proofs E x) = Some y" using assms(1) unfolding relay_world_ok_def by fastforce
  with assms show ?thesis by (simp add: process_batch_def Let_def redis_value_def)
qed

definition verified_as :: "string \<Rightarrow> string \<Rightarrow> bytes \<Rightarrow> ('f, 'p, 'g, 'q, 'r) app_node \<Rightarrow> bool" where
  "verified_as rid curve_name point s \<longleftrightarrow>
    (\<exists>r dat m. as_relay s = Some r \<and> hm_get rid (req_cache r) = Some dat \<and> rec_status dat = Verified \<and>
       hm_get rid (res_cache r) = Some m \<and> reconstructed_point m = Some point \<and> mult_curve m = curve_name)"

text \<open>The proof that fills the threshold: the listener gets the point and the request is verified.\<close>

lemma collect_last:
  assumes E: "relay_world_ok E" and c: "collecting E C rid request P outs r s"
    and a: "accepted E C js meth r P pid q out" and t: "Suc (length outs) = relay_t r" "relay_t r < 2 ^ 32"
    and ps: "hm_get rid (pubsub_cache r) = Some ps" and b: "batch_size r < TASK_SIZE"
    and R: "threshold_unchecked C (map snd (outs @ [(i, out)])) (map fst (outs @ [(i, out)])) =
        (Ok R :: (_, AppStateEngineError) outcome)" "encode C R = Ok Rb"
    and resp: "\<And>u. verified_response E rid u (NAME C) Rb = (Ok resp :: (_, AppStateEngineError) outcome)"
    and user: "recover (ae_chain E) request \<noteq> Panic"
  shows "\<exists>s'. process_received_proof E C js i pid rid q meth s = (Ok (), s') \<and>
    published s' = published s @ [(ps, rid, resp)] \<and> verified_as rid (NAME C) Rb s'"
proof -
  let ?h = "request_hash_of E request"
  obtain dat x where dat: "hm_get rid (req_cache r) = Some dat" "rec_request dat = request"
    and step: "process_received_proof E C js i pid rid q meth s =
      (let m = add_result i (the_ok (encode C out)) (stored_result (NAME C) rid r);
           dat' = dat\<lparr> rec_status := ConstructedProof \<rparr>;
           r' = r\<lparr> res_cache := hm_insert rid m (res_cache r), req_cache := hm_insert rid dat' (req_cache r) \<rparr>;
           S = app_services s in
       process_verification E C rid ?h m dat' r' ((set_relay r' s)
         \<lparr> app_services := S\<lparr> redis := hm_insert ?h (bincode_proofs E x) (redis S) \<rparr> \<rparr>))"
    using received_proof_accepted [OF E c a, of i] by blast
  define m where "m = add_result i (the_ok (encode C out)) (stored_result (NAME C) rid r)"
  have m: "m = \<lparr> num_nodes = relay_t r, mul_results = map (\<lambda>(i, out). (i, the_ok (encode C out))) (outs @ [(i, out)]),
        reconstructed_point = None, mult_curve = NAME C \<rparr>"
    using c t by (auto simp: m_def add_result_def collecting_def)
  have dec: "omap (\<lambda>(_, p). from_encoded C p) (map (\<lambda>(i, out). (i, the_ok (encode C out))) xs) = Ok (map snd xs)"
    if "\<forall>(i, out)\<in>set xs. point_codec C out" for xs
    using that by (induction xs) (auto simp: point_codec_def)
  have codec: "\<forall>(i, out)\<in>set (outs @ [(i, out)]). point_codec C out"
    using c a by (auto simp: collecting_def accepted_def)
  have points: "omap (\<lambda>(_, p). from_encoded C p) (mul_results m) = Ok (map snd (outs @ [(i, out)]))"
    unfolding m StoredMultResult.simps by (rule dec [OF codec])
  have idx: "map fst (mul_results m) = map fst (outs @ [(i, out)])" unfolding m by auto
  obtain user' where user': "(case recover (ae_chain E) request of Ok a \<Rightarrow> Ok a | Err _ \<Rightarrow> Ok (replicate 20 0) | Panic \<Rightarrow> Panic)
      = (Ok user' :: (address, AppStateEngineError) outcome)"
    using user by (cases "recover (ae_chain E) request") auto
  have up: "redis_up (app_services s)" "\<not> hm_contains ?h (batch_cache r)" using c by (simp_all add: collecting_def)
  have [simp]: "num_nodes m = relay_t r" "reconstructed_point m = None" "mult_curve m = NAME C" by (simp_all add: m)
  show ?thesis
    unfolding step Let_def m_def [symmetric]
    using up
    by (simp add: process_verification_def points idx R [simplified] resp [simplified] Let_def notify_listener_def ps
        fetch_reconstructed_point_v2_def dat user' b kafka_send_def hashmap.get_ins
        process_batch_small [OF E _ _ refl, where x = x] verified_as_def)
qed

section \<open>A run\<close>

definition receive ::
    "('f, 'p, 'g, 'q, 'r, 'rg, 'v, 'k) app_env \<Rightarrow> ('a::field, 'b::ab_group_add) curve \<Rightarrow>
      (('a, 'b) DLEQProof \<Rightarrow> bytes option) \<Rightarrow> string \<Rightarrow> Method \<Rightarrow> nat \<times> PeerId \<times> ('a, 'b) DLEQProof \<Rightarrow>
      ('f, 'p, 'g, 'q, 'r) app_node \<Rightarrow> ('f, 'p, 'g, 'q, 'r) app_handled" where
  "receive E C js rid meth x s =
    (case x of (i, pid, q) \<Rightarrow> process_received_proof E C js i pid rid q meth (purge E s))"

lemma collect_run:
  assumes E: "relay_world_ok E" and c: "collecting E C rid request P outs r s"
    and a: "\<forall>(i, pid, q)\<in>set xs. accepted E C js meth r P pid q (out q)"
    and t: "length outs + length xs = relay_t r" "xs \<noteq> []" "relay_t r < 2 ^ 32"
    and ps: "hm_get rid (pubsub_cache r) = Some ps" and b: "batch_size r < TASK_SIZE"
    and R: "threshold_unchecked C (map snd outs @ map (\<lambda>(_, _, q). out q) xs) (map fst outs @ map fst xs) =
        (Ok R :: (_, AppStateEngineError) outcome)" "encode C R = Ok Rb"
    and resp: "\<And>u. verified_response E rid u (NAME C) Rb = (Ok resp :: (_, AppStateEngineError) outcome)"
    and user: "recover (ae_chain E) request \<noteq> Panic"
  shows "published (serve (receive E C js rid meth) xs s) = published s @ [(ps, rid, resp)] \<and>
    verified_as rid (NAME C) Rb (serve (receive E C js rid meth) xs s)"
  using c a t ps b R(1)
proof (induction xs arbitrary: outs r s)
  case Nil
  then show ?case by simp
next
  case (Cons x xs)
  obtain i pid q where x: "x = (i, pid, q)" by (cases x)
  with Cons.prems have acc: "accepted E C js meth r P pid q (out q)" by auto
  show ?case
  proof (cases "xs = []")
    case True
    have "\<exists>s'. process_received_proof E C js i pid rid q meth s = (Ok (), s') \<and>
        published s' = published s @ [(ps, rid, resp)] \<and> verified_as rid (NAME C) Rb s'"
      using collect_last [OF E Cons.prems(1) acc _ Cons.prems(5,6,7) _ R(2) resp user] Cons.prems(3,8) True x by fastforce
    with True show ?thesis by (auto simp: x receive_def purge_id [OF E])
  next
    case False
    then have "Suc (length outs) < relay_t r" using Cons.prems(3) by (cases xs) auto
    then obtain m d s1 where 1: "process_received_proof E C js i pid rid q meth s = (Ok (), s1)"
      "collecting E C rid request P (outs @ [(i, out q)]) (r\<lparr> res_cache := m, req_cache := d \<rparr>) s1" "published s1 = published s"
      using collect_step [OF E Cons.prems(1) acc _ Cons.prems(5)] by blast
    have "\<forall>(i, pid, q)\<in>set xs. accepted E C js meth (r\<lparr> res_cache := m, req_cache := d \<rparr>) P pid q (out q)"
      using Cons.prems(2) by (auto simp: accepted_def)
    from Cons.IH [OF 1(2) this] False Cons.prems(3,5-8) x 1(1,3)
    show ?thesis by (simp add: receive_def purge_id [OF E])
  qed
qed

end
