(* ===== verification/App_Properties.thy ===== *)
theory App_Properties
  imports App_Run Request_Properties Selection_Properties Election_Properties Threshold_Properties Oprf_Properties
begin

text \<open>
  The properties of the application state engine, with concrete instances.
\<close>

section \<open>Instances\<close>

definition small_app_env :: "(gf7, gf7, gf7, gf7, nat, nat, string, string) app_env" where
  "small_app_env =
    \<lparr> ae_digests = small_digests, ae_hex = small_hex, ae_jwt = small_jwt, ae_secp = small_curve\<lparr> NAME := ''Secp256k1'' \<rparr>,
      ae_bjj = small_curve, ae_chain = small_chain, ae_rng = small_rng, json_secp = (\<lambda>_. Some []), json_bjj = (\<lambda>_. Some []),
      json_request = (\<lambda>_. Some []), secp_to_string = (\<lambda>_. Ok []), bjj_to_string = (\<lambda>_. Ok []),
      secp_from_str = (\<lambda>_. Ok (small_proof (gf 2) (gf 1) (gf 3))), bjj_from_str = (\<lambda>_. Ok (small_proof (gf 2) (gf 1) (gf 3))),
      bincode_proofs = (\<lambda>_. []), bincode_proofs_read = (\<lambda>_. Some \<lparr> base = small_request, proofs = [] \<rparr>),
      bjj_readable = (\<lambda>_. True), secp_nonce = gf 2, bjj_nonce = gf 2, ae_contracts = small_contracts,
      reachable = (\<lambda>_. True), relay_answer = (\<lambda>_ _. Err ''unreachable''), protocols = (\<lambda>_. []),
      receiver_gone = (\<lambda>_. False), expects = (\<lambda>_. True), block_on_refuses = True, forgotten = (\<lambda>_ _. False) \<rparr>"

definition small_common :: CommonState where
  "small_common = \<lparr> cs_peer_id = ''relay'', cs_relay_peer_id = ''relay'', current_epoch = 0 \<rparr>"

definition small_relay :: RelayState where
  "small_relay =
    \<lparr> relay_common = small_common, active_provers = [], relay_n = 3, relay_t = 2, relay_epsilon = 1, batch_size = 0,
      req_cache = [(''id'', \<lparr> rec_request = small_request, rec_status = TxState.Submitted \<rparr>)], res_cache = [],
      pubkey_shares = map (\<lambda>i. (dec i, [(''OPRFSecp256k1'', the_ok (encode small_curve (gf (6 + 9 * i))))])) [1, 2, 3],
      relay_ready = True, ready_nodes = {1, 2, 3}, new_cached_elected_provers = [], relay_tstar_provers = [],
      relay_new_provers = [], relay_group_keys = [], received_group_public_keys = [], no_of_shares_received = 0,
      monitor_request_queue = [], batch_cache = [], pubsub_cache = [(''id'', 7)], all_provers_cache = [],
      is_resharing_enabled = True, resharing_failure_count = 0 \<rparr>"

definition small_relay_node :: "(gf7, gf7, gf7, gf7, nat) app_node" where
  "small_relay_node =
    \<lparr> app_node_type = NodeType.Relay, node_state = Some (RelayNode small_relay), app_casts = [], app_delayed = [],
      app_replies = [], published = [], app_db = Some [], app_services = no_services, request_batch = [], monitors = [] \<rparr>"

section \<open>Requests\<close>

text \<open>The provers of a request hold the values of a polynomial at their indices as key shares, and
  the relay holds the public shares that go with them.\<close>

definition quorum_proofs ::
    "('f::field, 'p::ab_group_add, 'g, 'q, 'r, 'rg, 'v, 'k) app_env \<Rightarrow> Method \<Rightarrow> RelayState \<Rightarrow> 'p \<Rightarrow> 'f Polynomial \<Rightarrow>
      (nat \<Rightarrow> 'f) \<Rightarrow> (nat \<Rightarrow> PeerId) \<Rightarrow> (nat \<Rightarrow> ('f, 'p) DLEQProof) \<Rightarrow> nat list \<Rightarrow> bool" where
  "quorum_proofs E m r P F nonce pid prf idx \<longleftrightarrow>
    (let C = ae_secp E; G = base_point_or_generator C in
     \<forall>i\<in>set idx.
       DLEQProof_new (ae_digests E) C (nonce i) P (eval F (of_nat i)) = Ok (prf i) \<and>
       (\<exists>sh kb. hm_get (pid i) (pubkey_shares r) = Some sh \<and> hm_get (share_name m) sh = Some kb \<and>
          from_encoded C kb = Ok (scalar_mul C G (eval F (of_nat i))) \<and>
          is_ok (encode C (scalar_mul C G (eval F (of_nat i))))) \<and>
       json_secp E (prf i) \<noteq> None \<and> point_codec C (scalar_mul C P (eval F (of_nat i))))"

lemma quorum_run:
  fixes E :: "('f::field, 'p::ab_group_add, 'g::field, 'q::ab_group_add, 'r, 'rg, 'v, 'k) app_env"
  assumes E: "relay_world_ok E" and laws: "curve_laws (ae_secp E)" and name: "NAME (ae_secp E) = ''Secp256k1''"
    and c: "collecting E (ae_secp E) rid request P [] r s" and user: "recover (ae_chain E) request \<noteq> Panic"
    and ps: "hm_get rid (pubsub_cache r) = Some ps" and b: "batch_size r < TASK_SIZE"
    and idx: "indices_ok TYPE('f) idx" "length idx = relay_t r" "0 < relay_t r" "relay_t r < 2 ^ 32"
    and F: "length (coefficients F) \<le> relay_t r" and q: "quorum_proofs E m r P F nonce pid prf idx"
    and R: "point_codec (ae_secp E) (scalar_mul (ae_secp E) P (eval F 0))"
  shows "published (app_serve E (map (\<lambda>i. ProcessReceivedProofSecp256k1 i (pid i) rid (prf i) m) idx) s) =
    published s @ [(ps, rid, VerifiedProofSecp256k1 rid (scalar_mul (ae_secp E) P (eval F 0)))] \<and>
    (\<exists>Rb. from_encoded (ae_secp E) Rb = Ok (scalar_mul (ae_secp E) P (eval F 0)) \<and> verified_as rid ''Secp256k1'' Rb
      (app_serve E (map (\<lambda>i. ProcessReceivedProofSecp256k1 i (pid i) rid (prf i) m) idx) s))"
proof -
  let ?C = "ae_secp E"
  let ?xs = "map (\<lambda>i. (i, pid i, prf i)) idx"
  have out: "output_point (prf i) = scalar_mul ?C P (eval F (of_nat i))" if "i \<in> set idx" for i
    using q that DLEQProof_new_fields [of "ae_digests E" ?C "nonce i" P "eval F (of_nat i)" "prf i"]
    by (simp add: quorum_proofs_def Let_def)
  have acc: "\<forall>(i, pid, q)\<in>set ?xs. accepted E ?C (json_secp E) m r P pid q (output_point q)"
    using q dleq_completeness [OF laws] out by (fastforce simp: quorum_proofs_def Let_def accepted_def)
  have run: "app_serve E (map (\<lambda>i. ProcessReceivedProofSecp256k1 i (pid i) rid (prf i) m) is) s =
      serve (receive E ?C (json_secp E) rid m) (map (\<lambda>i. (i, pid i, prf i)) is) s" for "is" s
    by (induction "is" arbitrary: s) (simp_all add: app_serve_def receive_def app_handle_def split: prod.split outcome.split)
  obtain Rb where Rb: "encode ?C (scalar_mul ?C P (eval F 0)) = Ok Rb"
    "from_encoded ?C Rb = Ok (scalar_mul ?C P (eval F 0))" using R by (auto simp: point_codec_def)
  have xs: "map (\<lambda>(_, _, q). output_point q) ?xs = map (\<lambda>i. scalar_mul ?C P (eval F (of_nat i))) idx"
    "map fst ?xs = idx" using out by (simp_all add: o_def)
  have "threshold_unchecked ?C (map (\<lambda>(_, _, q). output_point q) ?xs) (map fst ?xs) =
      (Ok (scalar_mul ?C P (eval F 0)) :: (_, AppStateEngineError) outcome)"
    unfolding xs using F idx by (intro threshold_unchecked_honest [OF laws idx(1)]) simp
  then have "published (app_serve E (map (\<lambda>i. ProcessReceivedProofSecp256k1 i (pid i) rid (prf i) m) idx) s) =
      published s @ [(ps, rid, VerifiedProofSecp256k1 rid (scalar_mul ?C P (eval F 0)))] \<and>
    verified_as rid (NAME ?C) Rb (app_serve E (map (\<lambda>i. ProcessReceivedProofSecp256k1 i (pid i) rid (prf i) m) idx) s)"
    unfolding run using idx name Rb(2)
    by (intro collect_run [OF E c acc _ _ _ ps b _ Rb(1) _ user]) (auto simp: verified_response_def)
  with Rb(2) show ?thesis by (auto simp: name)
qed

text \<open>C4. A threshold of provers answers a request: once the relay has received one proof from each
  of as many provers as the threshold, made with the values of a polynomial of that many
  coefficients at distinct indices, it publishes to the listener of the request, and once only,
  the masked point times the value of the polynomial at 0, that is times the group secret.\<close>

theorem relay_reconstructs:
  fixes E :: "('f::field, 'p::ab_group_add, 'g::field, 'q::ab_group_add, 'r, 'rg, 'v, 'k) app_env"
  assumes "relay_world_ok E" and "curve_laws (ae_secp E)" and "NAME (ae_secp E) = ''Secp256k1''"
    and "collecting E (ae_secp E) rid request P [] r s" and "recover (ae_chain E) request \<noteq> Panic"
    and "hm_get rid (pubsub_cache r) = Some ps" and "batch_size r < TASK_SIZE"
    and "indices_ok TYPE('f) idx" "length idx = relay_t r" "0 < relay_t r" "relay_t r < 2 ^ 32"
    and "length (coefficients F) \<le> relay_t r" and "quorum_proofs E m r P F nonce pid prf idx"
    and "point_codec (ae_secp E) (scalar_mul (ae_secp E) P (eval F 0))"
  shows "published (app_serve E (map (\<lambda>i. ProcessReceivedProofSecp256k1 i (pid i) rid (prf i) m) idx) s) =
    published s @ [(ps, rid, VerifiedProofSecp256k1 rid (scalar_mul (ae_secp E) P (eval F 0)))]"
  using quorum_run [OF assms] by blast

lemma small_app_sel [simp]:
  "ae_digests small_app_env = small_digests" "ae_secp small_app_env = small_curve\<lparr> NAME := ''Secp256k1'' \<rparr>"
  "ae_chain small_app_env = small_chain" "ae_rng small_app_env = small_rng" "json_secp small_app_env q = Some []"
  "secp_nonce small_app_env = gf 2" "secp_from_str small_app_env t = Ok (small_proof (gf 2) (gf 1) (gf 3))"
  "secp_to_string small_app_env q = Ok []" "ae_hex small_app_env = small_hex" "ae_jwt small_app_env = small_jwt" "ae_bjj small_app_env = small_curve" "reachable small_app_env p"
  by (simp_all add: small_app_env_def)

lemma small_world_ok: "relay_world_ok small_app_env"
  by (simp add: relay_world_ok_def small_digests_ok) (simp add: small_app_env_def)

lemma small_secp_new: "DLEQProof_new small_digests (small_curve\<lparr> NAME := n \<rparr>) r P k = Ok (small_proof r P k)"
  using small_new [of r P k] by (simp add: DLEQProof_new_def challenge_hash_def)

lemma named_curve_laws: "curve_laws (small_curve\<lparr> NAME := n \<rparr>)"
  using small_curve_laws by (simp add: curve_laws_def)

lemma small_secp_codec: "point_codec (small_curve\<lparr> NAME := n \<rparr>) P"
  using val7_lt [of P] by (simp add: point_codec_def from_bytes_be_def unat_of_nat)

lemma small_collecting: "collecting small_app_env (ae_secp small_app_env) ''id'' small_request (gf 1) [] small_relay small_relay_node"
  by (simp add: collecting_def small_relay_node_def as_relay_def small_relay_def hm_get_def stored_result_def
      small_request_def from_bytes_be_def hm_contains_def hm_keys_def no_services_def) (simp add: small_app_env_def)

definition small_group :: "gf7 Polynomial" where
  "small_group = \<lparr> coefficients = [gf 6, gf 9] \<rparr>"

lemma small_dec: "dec (Suc 0) = ''1''" "dec 2 = ''2''" "dec 3 = ''3''"
  by (simp_all add: dec.simps)

lemma small_quorum_proofs:
  "quorum_proofs small_app_env OPRFSecp256k1 small_relay (gf 1) small_group (\<lambda>_. gf 2) dec
    (\<lambda>i. small_proof (gf 2) (gf 1) (eval small_group (of_nat i))) [1, 3]"
  by (simp add: quorum_proofs_def Let_def small_secp_new small_secp_codec small_relay_def hm_get_def
      small_group_def eval_Cons gf7_simps from_bytes_be_def small_dec)

theorem relay_reconstructs_witness:
  "published (app_serve small_app_env (map (\<lambda>i. ProcessReceivedProofSecp256k1 i (dec i) ''id''
      (small_proof (gf 2) (gf 1) (eval small_group (of_nat i))) OPRFSecp256k1) [1, 3]) small_relay_node) =
    [(7, ''id'', VerifiedProofSecp256k1 ''id'' (gf 6))]"
proof -
  have "published small_relay_node @ [(7, ''id'', VerifiedProofSecp256k1 ''id''
      (scalar_mul (ae_secp small_app_env) (gf 1) (eval small_group 0)))] = [(7, ''id'', VerifiedProofSecp256k1 ''id'' (gf 6))]"
    by (simp add: small_relay_node_def small_group_def eval_Cons gf7_simps)
  with relay_reconstructs [OF small_world_ok _ _ small_collecting _ _ _ _ _ _ _ _ small_quorum_proofs, of 7]
  show ?thesis
    by (simp add: named_curve_laws small_secp_codec small_relay_def hm_get_def TASK_SIZE_def small_indices_ok
        small_group_def recover_def small_chain_def small_request_def)
qed

text \<open>C39. The index of a proof is what its sender says it is: one prover that sends one valid proof as
  many times as the threshold, under different indices, completes the request alone. The relay
  publishes the masked point times that prover's own key share as the verified result.\<close>

theorem one_prover_completes:
  fixes E :: "('f::field, 'p::ab_group_add, 'g::field, 'q::ab_group_add, 'r, 'rg, 'v, 'k) app_env"
  assumes "relay_world_ok E" and "curve_laws (ae_secp E)" and "NAME (ae_secp E) = ''Secp256k1''"
    and "collecting E (ae_secp E) rid request P [] r s" and "recover (ae_chain E) request \<noteq> Panic"
    and "hm_get rid (pubsub_cache r) = Some ps" and "batch_size r < TASK_SIZE"
    and idx: "indices_ok TYPE('f) idx" "length idx = relay_t r" "0 < relay_t r" "relay_t r < 2 ^ 32"
    and "quorum_proofs E m r P \<lparr> coefficients = [k] \<rparr> (\<lambda>_. nonce) (\<lambda>_. pid) (\<lambda>_. prf) idx"
  shows "published (app_serve E (map (\<lambda>i. ProcessReceivedProofSecp256k1 i pid rid prf m) idx) s) =
    published s @ [(ps, rid, VerifiedProofSecp256k1 rid (scalar_mul (ae_secp E) P k))]"
proof -
  have k: "eval \<lparr> coefficients = [k] \<rparr> x = k" for x :: 'f by (simp add: eval_Cons)
  obtain i where "i \<in> set idx" using idx by (cases idx) auto
  then have "point_codec (ae_secp E) (scalar_mul (ae_secp E) P k)"
    using assms(12) by (auto simp: quorum_proofs_def Let_def k)
  with quorum_run [OF assms(1-11) _ assms(12)] idx show ?thesis by (simp add: k)
qed

lemma small_one_proof:
  "quorum_proofs small_app_env OPRFSecp256k1 small_relay (gf 1) \<lparr> coefficients = [gf 1] \<rparr> (\<lambda>_. gf 2) (\<lambda>_. ''1'')
    (\<lambda>_. small_proof (gf 2) (gf 1) (gf 1)) [1, 3]"
  by (simp add: quorum_proofs_def Let_def small_secp_new small_secp_codec small_relay_def hm_get_def
      eval_Cons gf7_simps from_bytes_be_def small_dec)

theorem one_prover_completes_witness:
  "published (app_serve small_app_env (map (\<lambda>i. ProcessReceivedProofSecp256k1 i ''1'' ''id''
      (small_proof (gf 2) (gf 1) (gf 1)) OPRFSecp256k1) [1, 3]) small_relay_node) =
    [(7, ''id'', VerifiedProofSecp256k1 ''id'' (gf 1))]"
proof -
  have "published small_relay_node @ [(7, ''id'', VerifiedProofSecp256k1 ''id''
      (scalar_mul (ae_secp small_app_env) (gf 1) (gf 1)))] = [(7, ''id'', VerifiedProofSecp256k1 ''id'' (gf 1))]"
    by (simp add: small_relay_node_def gf7_simps)
  with one_prover_completes [OF small_world_ok _ _ small_collecting _ _ _ _ _ _ _ small_one_proof, of 7]
  show ?thesis
    by (simp add: named_curve_laws small_relay_def hm_get_def TASK_SIZE_def small_indices_ok
        recover_def small_chain_def small_request_def)
qed


definition small_prover_node :: "(gf7, gf7, gf7, gf7, nat) app_node" where
  "small_prover_node = set_prover
    \<lparr> prover_common = small_common, my_node_idx = 2, prover_n = 3, prover_t = 2, prover_epsilon = 1,
      private_keyshares = [(''OPRFSecp256k1'', [3])],
      prover_new_provers = [(''a'', small_prover ''a'' 1, 1), (''b'', small_prover ''b'' 2, 2), (''c'', small_prover ''c'' 3, 3)],
      relay_multi_addr = [] \<rparr> small_relay_node"

lemma small_for_me: "is_for_my_node small_rng small_request 3 2 [1, 2, 3] = (Ok True :: (bool, string) outcome)"
  by code_simp


lemma account_mul_request_Ok:
  assumes "account_mul_request E request r S = Ok (r', S')"
  shows "\<exists>b. r' = r\<lparr> batch_size := b \<rparr> \<and>
    (case recover (ae_chain E) request of
       Ok _ \<Rightarrow> \<exists>n. account_request_from_signer (ae_digests E) (ae_hex E) (ae_jwt E) (ae_secp E) (ae_bjj E) (ae_chain E)
         request True S = Ok (n, S')
     | _ \<Rightarrow> S' = S)"
  using assms by (auto simp: account_mul_request_def obind_eq_Ok split: outcome.splits intro: exI [of _ "batch_size r"])

lemma selected_nodes_or_all:
  "let contacts = map (\<lambda>p. (peer_id p, prover_address p)) (active_provers r) in
   selected_nodes indices r = contacts \<or>
   set (selected_nodes indices r) \<subseteq> set contacts \<and> relay_t r < as_u32 (length (selected_nodes indices r))"
  by (auto simp: selected_nodes_def Let_def)

lemma forward_request_sel:
  "app_casts (forward_request indices request rid r s) =
    app_casts s @ [ToGossip (Forward (ForwardMulRequest rid request) (selected_nodes indices r))]"
  "published (forward_request indices request rid r s) = published s"
  "app_services (forward_request indices request rid r s) = app_services s"
  "\<exists>c q. as_relay (forward_request indices request rid r s) = Some (r\<lparr> req_cache := c, monitor_request_queue := q \<rparr>) \<and>
    hm_contains rid c"
  by (auto simp: forward_request_def hm_contains_get hm_or_insert_def hashmap.get_ins
      intro!: exI [of _ "hm_or_insert rid \<lparr> rec_request = request, rec_status = TxState.Submitted \<rparr> (req_cache r)"])

lemma purge_sel [simp]:
  "app_casts (purge E s) = app_casts s" "published (purge E s) = published s" "app_services (purge E s) = app_services s"
  by (simp_all add: purge_def split: option.split)

lemma refresh_ready_nodes: "\<exists>nodes. refresh_ready answers r = r\<lparr> ready_nodes := nodes \<rparr>"
  by (auto simp: refresh_ready_def intro: exI [of _ "ready_nodes r"] split: outcome.split)

text \<open>A request that is forwarded passed the checks, and the state is that of the forwarding.\<close>

lemma mul_request_forwarded:
  assumes "app_handle E (MulRequest request ps rid) s = (res, s')" and "app_casts s' \<noteq> app_casts s"
  obtains r0 nodes b S indices where "as_relay (purge E s) = Some r0" and "res = Ok ()"
    and "relay_t r0 \<le> card nodes" and "req_epoch request = current_epoch (relay_common r0)"
    and "case recover (ae_chain E) request of
       Ok _ \<Rightarrow> \<exists>n. account_request_from_signer (ae_digests E) (ae_hex E) (ae_jwt E) (ae_secp E) (ae_bjj E) (ae_chain E)
         request True (app_services s) = Ok (n, S)
     | _ \<Rightarrow> S = app_services s"
    and "s' = forward_request indices request rid
        (r0\<lparr> ready_nodes := nodes, pubsub_cache := hm_insert rid ps (pubsub_cache r0), batch_size := b \<rparr>)
        ((purge E s)\<lparr> app_services := S \<rparr>)"
proof -
  let ?s = "purge E s"
  have h: "handle_multiplication_request E request ps [] rid ?s = (res, s')"
    using assms(1) by (simp add: app_handle_def)
  obtain r0 where r0: "as_relay ?s = Some r0"
    using h assms(2) by (cases "as_relay ?s") (auto simp: handle_multiplication_request_def)
  obtain nodes where nodes: "refresh_ready (reachable E) r0 = r0\<lparr> ready_nodes := nodes \<rparr>"
    using refresh_ready_nodes by blast
  define r where "r = r0\<lparr> ready_nodes := nodes, pubsub_cache := hm_insert rid ps (pubsub_cache r0) \<rparr>"
  have ready: "\<not> card nodes < relay_t r0" "req_epoch request = current_epoch (relay_common r0)"
    using h assms(2) r0
    by (auto simp: handle_multiplication_request_def Let_def publish_def nodes split: if_splits)
  obtain r' S where acc: "account_mul_request E request r (app_services s) = Ok (r', S)"
    using h assms(2) r0 ready
    by (cases "account_mul_request E request r (app_services s)")
      (auto simp: handle_multiplication_request_def Let_def publish_def r_def nodes)
  obtain b where b: "r' = r\<lparr> batch_size := b \<rparr>" and services:
    "case recover (ae_chain E) request of
       Ok _ \<Rightarrow> \<exists>n. account_request_from_signer (ae_digests E) (ae_hex E) (ae_jwt E) (ae_secp E) (ae_bjj E) (ae_chain E)
         request True (app_services s) = Ok (n, S)
     | _ \<Rightarrow> S = app_services s" using account_mul_request_Ok [OF acc] by blast
  obtain indices where "res = Ok ()" and
    "s' = forward_request indices request rid r' ((set_relay r' (set_relay r ?s))\<lparr> app_services := S \<rparr>)"
    using h assms(2) r0 ready acc
    by (auto simp: handle_multiplication_request_def Let_def r_def nodes elim: carry.elims)
  with that [of r0 nodes S indices b] r0 ready services show ?thesis
    by (simp add: b r_def forward_request_def set_relay_def)
qed


definition small_asking :: RelayState where
  "small_asking = small_relay\<lparr> active_provers := map (\<lambda>i. small_prover (dec i) i) [1, 2, 3],
    relay_new_provers := map (\<lambda>i. (dec i, small_prover (dec i) i, i)) [1, 2, 3] \<rparr>"

lemma small_asking_sel:
  "relay_t small_asking = 2" "ready_nodes small_asking = {1, 2, 3}" "relay_common small_asking = small_common"
  "relay_epsilon small_asking = 1" "map (\<lambda>(_, _, i). i) (relay_new_provers small_asking) = [1, 2, 3]"
  by (simp_all add: small_asking_def small_relay_def)

lemma small_nodes: "\<exists>res. get_nodes small_rng small_request 3 [1, 2, 3] = (Ok res :: (nat list, string) outcome)"
  unfolding get_nodes_def calc_nodes_to_send_to_def using choose_nodes_Ok [of 3 "[1, 2, 3]"] by fastforce

lemma small_accounted:
  "\<exists>n S. account_request_from_signer small_digests small_hex small_jwt (small_curve\<lparr> NAME := nm \<rparr>) small_curve small_chain
    small_request True no_services = Ok (n, S)"
proof -
  have "is_ok (account_request_from_signer small_digests small_hex small_jwt (small_curve\<lparr> NAME := nm \<rparr>) small_curve small_chain
    small_request True no_services)"
    by (simp add: small_chain_def no_services_def small_request_def account_is_ok [of _ _ "[9]"] recover_def
        get_user_credits_def standard_credits_def redis_get_u32_def stored_count_def hashmap.get_emp)
  then show ?thesis by (auto elim!: is_ok.elims)
qed

lemma small_signed: "recover small_chain small_request = Ok [9]" "req_epoch small_request = 0"
  by (simp_all add: recover_def small_chain_def small_request_def)

lemma small_forwards:
  "app_casts (snd (app_handle small_app_env (MulRequest small_request 8 ''new'') (set_relay small_asking small_relay_node))) \<noteq> []"
proof -
  obtain n S where "account_request_from_signer small_digests small_hex small_jwt (small_curve\<lparr> NAME := ''Secp256k1'' \<rparr>)
    small_curve small_chain small_request True no_services = Ok (n, S)" using small_accounted by blast
  moreover have "app_services small_relay_node = no_services" by (simp add: small_relay_node_def)
  ultimately show ?thesis
    using small_nodes
    by (clarsimp simp: app_handle_def purge_id small_world_ok handle_multiplication_request_def small_common_def
        refresh_ready_def Let_def account_mul_request_def small_signed small_asking_sel as_u32_def forward_request_sel)
qed


end
