(* ===== verification/App_State_Properties.thy ===== *)
theory App_State_Properties
  imports App_Properties
begin

text \<open>
  The properties of what a node keeps: its caches, the group keys the provers report, the state it
  saves and restores, and the monitors that wait for a quorum.
\<close>

section \<open>The caches of a relay\<close>


lemma small_relay_ok: "relay_ok small_relay"
  by (simp add: relay_ok_def small_relay_def hm_wf_def hm_keys_def)


section \<open>Group keys\<close>

lemma hm_get_count_values:
  "(case hm_get key (count_values sets) of Some c \<Rightarrow> (case hm_get v c of Some n \<Rightarrow> n | None \<Rightarrow> 0) | None \<Rightarrow> 0) =
    count_list (concat sets) (key, v)"
proof -
  have "(case hm_get key (foldl (\<lambda>acc (key, value).
        let counts = (case hm_get key acc of Some c \<Rightarrow> c | None \<Rightarrow> []);
            old = (case hm_get value counts of Some n \<Rightarrow> n | None \<Rightarrow> 0) in
        hm_insert key (hm_insert value (old + 1) counts) acc) a kvs)
      of Some c \<Rightarrow> (case hm_get v c of Some n \<Rightarrow> n | None \<Rightarrow> 0) | None \<Rightarrow> 0) =
    (case hm_get key a of Some c \<Rightarrow> (case hm_get v c of Some n \<Rightarrow> n | None \<Rightarrow> 0) | None \<Rightarrow> 0) +
      count_list kvs (key, v)" for kvs and a :: "(string, (bytes, nat) hashmap) hashmap"
    by (induction kvs arbitrary: a)
      (auto simp: Let_def hashmap.get_ins hashmap.get_emp split: option.split prod.split)
  from this [of "[]" "concat sets"] show ?thesis by (simp add: count_values_def hashmap.get_emp)
qed

definition counts_ok :: "(string, (bytes, nat) hashmap) hashmap \<Rightarrow> bool" where
  "counts_ok m \<longleftrightarrow> hm_wf m \<and> (\<forall>(k, c)\<in>set m. hm_wf c \<and> c \<noteq> [])"

lemma counts_ok_insert:
  assumes "counts_ok m" and "hm_wf c" shows "counts_ok (hm_insert key (hm_insert v n c) m)"
proof -
  have "hm_insert v n c \<noteq> []" using hm_keys_insert [of v n c] by (auto simp: hm_keys_def)
  with assms hm_insert_set [of key "hm_insert v n c" m] show ?thesis
    by (auto simp: counts_ok_def hashmap.wf_ins)
qed

lemma counts_ok_get: "counts_ok m \<Longrightarrow> hm_get key m = Some c \<Longrightarrow> hm_wf c \<and> c \<noteq> []"
  using hm_get_mem [of m key c] by (auto simp: counts_ok_def)

lemma count_values_wf: "counts_ok (count_values sets)"
proof -
  have "counts_ok (foldl (\<lambda>acc (key, value).
        let counts = (case hm_get key acc of Some c \<Rightarrow> c | None \<Rightarrow> []);
            old = (case hm_get value counts of Some n \<Rightarrow> n | None \<Rightarrow> 0) in
        hm_insert key (hm_insert value (old + 1 :: nat) counts) acc) a kvs)" if "counts_ok a" for a kvs
    using that
  proof (induction kvs arbitrary: a)
    case (Cons kv kvs)
    obtain key v where kv: "kv = (key, v)" by (cases kv)
    have "hm_wf (case hm_get key a of Some c \<Rightarrow> c | None \<Rightarrow> [])"
      using counts_ok_get [OF Cons.prems, of key] by (auto simp: hashmap.wf_emp split: option.split)
    from Cons.IH [OF counts_ok_insert [OF Cons.prems this]] show ?case by (simp add: kv Let_def)
  qed simp
  from this [of "[]"] show ?thesis by (simp add: count_values_def counts_ok_def hashmap.wf_emp)
qed

lemma max_by_count_mem:
  "m \<noteq> [] \<Longrightarrow> \<exists>v c. max_by_count m = Some (v, c) \<and> (v, c) \<in> set m \<and> (\<forall>(v', c')\<in>set m. c' \<le> c)"
proof (induction m rule: max_by_count.induct)
  case (2 v c rest)
  then show ?case by (cases "rest = []") (force+)
qed simp

lemma get_resolved:
  "hm_get key (resolve_conflicts_between_group_keys sets) =
    map_option (\<lambda>c. fst (the (max_by_count c))) (hm_get key (count_values sets))"
proof -
  have "hm_get key (foldl (\<lambda>acc (key, counts). case max_by_count counts of Some (v, _) \<Rightarrow> hm_insert key v acc | None \<Rightarrow> acc) a cs) =
      (case hm_get key cs of Some c \<Rightarrow> Some (fst (the (max_by_count c))) | None \<Rightarrow> hm_get key a)"
    if "hm_wf cs" "\<forall>(k, c)\<in>set cs. c \<noteq> []" for cs a
    using that
  proof (induction cs arbitrary: a)
    case (Cons kc cs)
    obtain k c where kc: "kc = (k, c)" by (cases kc)
    obtain v n where "max_by_count c = Some (v, n)" using max_by_count_mem [of c] Cons.prems kc by auto
    moreover have "hm_get k cs = None" using Cons.prems kc by (auto simp: hm_defs map_of_eq_None_iff)
    moreover have "hm_get key (kc # cs) = (if key = k then Some c else hm_get key cs)" by (simp add: hm_get_def kc)
    moreover have "hm_wf cs" using Cons.prems by (simp add: hm_wf_def)
    ultimately show ?case using Cons kc by (auto simp: hashmap.get_ins split: option.split)
  qed (simp add: hashmap.get_emp)
  with count_values_wf [of sets] show ?thesis
    by (fastforce simp: resolve_conflicts_between_group_keys_def hashmap.get_emp counts_ok_def split: option.split)
qed

text \<open>How many key sets give a key a value.\<close>

definition votes :: "string \<Rightarrow> bytes \<Rightarrow> GroupPublicKeys list \<Rightarrow> nat" where
  "votes key v sets = length (filter (\<lambda>K. hm_get key K = Some v) sets)"

lemma count_distinct: "distinct xs \<Longrightarrow> count_list xs x = (if x \<in> set xs then 1 else 0)"
  by (induction xs) auto

lemma votes_count: "\<forall>K\<in>set sets. hm_wf K \<Longrightarrow> count_list (concat sets) (key, v) = votes key v sets"
proof (induction sets)
  case (Cons K sets)
  have "count_list K (key, v) = (if (key, v) \<in> set K then 1 else 0)"
    using Cons.prems by (intro count_distinct) (simp add: hm_wf_def distinct_map)
  with Cons hm_get_mem [of K key v] show ?case by (auto simp: votes_def)
qed (simp add: votes_def)

lemma plurality_resolved:
  assumes "\<forall>K\<in>set sets. hm_wf K" and "\<forall>v'. v' \<noteq> v \<longrightarrow> votes key v' sets < votes key v sets"
  shows "hm_get key (resolve_conflicts_between_group_keys sets) = Some v"
proof -
  have n: "(case hm_get key (count_values sets) of Some c \<Rightarrow> (case hm_get u c of Some n \<Rightarrow> n | None \<Rightarrow> 0) | None \<Rightarrow> 0) =
    votes key u sets" for u using hm_get_count_values votes_count [OF assms(1)] by metis
  have "v @ [0] \<noteq> v" by simp
  then have "0 < votes key v sets" using assms(2) by (metis not_less_zero gr_zeroI)
  with n [of v] obtain c where c: "hm_get key (count_values sets) = Some c" by (fastforce split: option.splits)
  with counts_ok_get [OF count_values_wf] have wf: "hm_wf c" "c \<noteq> []" by blast+
  obtain u k where u: "max_by_count c = Some (u, k)" "(u, k) \<in> set c" "\<forall>(v', c')\<in>set c. c' \<le> k"
    using max_by_count_mem [OF wf(2)] by blast
  have "k = votes key u sets" using n [of u] c u(2) hm_get_mem [OF wf(1), of u k] by simp
  moreover have "votes key v sets \<le> k"
    using n [of v] c u(3) hm_get_mem [OF wf(1), of v] by (fastforce split: option.splits)
  ultimately have "u = v" using assms(2) by (metis not_le)
  with c u(1) show ?thesis by (simp add: get_resolved)
qed

text \<open>C23. Conflicts between the group keys the provers report are settled by the vote: a value more key
  sets give than give any other value is the one that is kept, whatever the order of the reports.\<close>

theorem plurality_wins:
  assumes "\<forall>K\<in>set sets. hm_wf K" and "\<forall>v'. v' \<noteq> v \<longrightarrow> votes key v' sets < votes key v sets"
    and "mset sets' = mset sets"
  shows "hm_get key (resolve_conflicts_between_group_keys sets') = Some v"
proof (rule plurality_resolved)
  show "\<forall>K\<in>set sets'. hm_wf K" using assms(1,3) by (metis mset_eq_setD)
  have "votes key u sets' = votes key u sets" for u
    using assms(3) unfolding votes_def by (metis mset_filter size_mset)
  with assms(2) show "\<forall>v'. v' \<noteq> v \<longrightarrow> votes key v' sets' < votes key v sets'" by simp
qed

theorem plurality_wins_witness:
  "hm_get ''k'' (resolve_conflicts_between_group_keys [[(''k'', [1])], [(''k'', [2])], [(''k'', [1])]]) = Some [1]"
  using plurality_wins [of "[[(''k'', [1])], [(''k'', [1])], [(''k'', [2])]]" "[1]" "''k''"
      "[[(''k'', [1])], [(''k'', [2])], [(''k'', [1])]]"]
  by (simp add: votes_def hm_wf_def hm_get_def)

lemma purge_nothing: "\<forall>c k. \<not> forgotten E c k \<Longrightarrow> purge E s = s"
  by (simp add: purge_def set_relay_same split: option.split)

lemma store_kset_step:
  assumes "as_relay s = Some r" and "list_ex (\<lambda>prover. peer_id prover = pid) (active_provers r)"
    and "is_ok (check_memory_usage shares 100 ''pubkey_shares'')" and "is_ok (check_memory_usage K 200 ''group_public_keys'')"
  shows "\<exists>r'. as_relay (store_kset pid shares i K s) = Some r' \<and> ready_nodes r' = insert i (ready_nodes r) \<and>
    received_group_public_keys r' = received_group_public_keys r @ [K] \<and> active_provers r' = active_provers r \<and>
    relay_n r' = relay_n r \<and> (as_u32 (card (ready_nodes r')) = relay_n r \<longrightarrow>
      relay_group_keys r' = resolve_conflicts_between_group_keys (received_group_public_keys r'))"
  using assms by (simp add: store_kset_def Let_def)

lemma store_kset_run:
  assumes r: "as_relay s = Some r" and p: "list_ex (\<lambda>prover. peer_id prover = pid) (active_provers r)"
    and e: "ready_nodes r = {}" "received_group_public_keys r = []"
    and m: "is_ok (check_memory_usage shares 100 ''pubkey_shares'')" "is_ok (check_memory_usage K 200 ''group_public_keys'')"
    and E: "\<forall>c k. \<not> forgotten E c k" and k: "k < 2 ^ 32"
  shows "\<exists>r'. as_relay (fold (\<lambda>i s. snd (app_handle E (StoreKSet pid shares i K) s)) [1..<Suc k] s) = Some r' \<and>
    ready_nodes r' = {1..k} \<and> received_group_public_keys r' = replicate k K \<and> active_provers r' = active_provers r \<and>
    relay_n r' = relay_n r \<and> (0 < k \<and> k = relay_n r \<longrightarrow>
      relay_group_keys r' = resolve_conflicts_between_group_keys (replicate k K))"
  using k
proof (induction k)
  case 0
  then show ?case using r e by simp
next
  case (Suc k)
  let ?run = "fold (\<lambda>i s. snd (app_handle E (StoreKSet pid shares i K) s))"
  obtain r1 where r1: "as_relay (?run [1..<Suc k] s) = Some r1" "ready_nodes r1 = {1..k}"
    "received_group_public_keys r1 = replicate k K" "active_provers r1 = active_provers r" "relay_n r1 = relay_n r"
    using Suc by auto
  have "?run [1..<Suc (Suc k)] s = store_kset pid shares (Suc k) K (?run [1..<Suc k] s)"
    by (simp add: app_handle_def purge_nothing [OF E])
  moreover obtain r2 where "as_relay (store_kset pid shares (Suc k) K (?run [1..<Suc k] s)) = Some r2"
    "ready_nodes r2 = insert (Suc k) {1..k}" "received_group_public_keys r2 = replicate k K @ [K]"
    "active_provers r2 = active_provers r" "relay_n r2 = relay_n r"
    "as_u32 (card (ready_nodes r2)) = relay_n r \<longrightarrow>
      relay_group_keys r2 = resolve_conflicts_between_group_keys (replicate k K @ [K])"
    using store_kset_step [OF r1(1) _ m, of pid "Suc k"] p r1 by auto
  moreover have "insert (Suc k) {1..k} = {1..Suc k}" "as_u32 (card {1..Suc k}) = Suc k"
    using Suc.prems by (auto simp: as_u32_def)
  ultimately show ?case by (simp only: replicate_append_same flip: replicate_Suc) blast
qed

text \<open>C40. The index under which a prover reports its key shares is what it says it is, and its reports
  are all kept: one active prover that reports as many times as the quorum has members, under
  different indices, makes the whole quorum ready and decides the group keys alone.\<close>

theorem one_peer_finalises_keys:
  assumes "as_relay s = Some r" and "list_ex (\<lambda>prover. peer_id prover = pid) (active_provers r)"
    and "ready_nodes r = {}" and "received_group_public_keys r = []" and "0 < relay_n r" and "relay_n r < 2 ^ 32"
    and "is_ok (check_memory_usage shares 100 ''pubkey_shares'')" and "is_ok (check_memory_usage K 200 ''group_public_keys'')"
    and "hm_wf K" and "\<forall>c k. \<not> forgotten E c k"
  shows "\<exists>r'. as_relay (fold (\<lambda>i s. snd (app_handle E (StoreKSet pid shares i K) s)) [1..<Suc (relay_n r)] s) = Some r' \<and>
    ready_nodes r' = {1..relay_n r} \<and> (\<forall>(key, v)\<in>set K. hm_get key (relay_group_keys r') = Some v)"
proof -
  have "hm_get key (resolve_conflicts_between_group_keys (replicate (relay_n r) K)) = Some v" if "(key, v) \<in> set K" for key v
  proof -
    have "hm_get key K = Some v" using that hm_get_mem [OF assms(9)] by simp
    then show ?thesis using assms(5,9) by (intro plurality_resolved) (auto simp: votes_def)
  qed
  with store_kset_run [OF assms(1-4,7,8,10,6)] assms(5) show ?thesis by fastforce
qed

theorem one_peer_finalises_keys_witness:
  "\<exists>r. as_relay (fold (\<lambda>i s. snd (app_handle small_app_env (StoreKSet ''1'' [] i [(''k'', [5])]) s)) [1..<4]
      (set_relay (small_asking\<lparr> ready_nodes := {} \<rparr>) small_relay_node)) = Some r \<and>
    ready_nodes r = {1..3} \<and> hm_get ''k'' (relay_group_keys r) = Some [5]"
proof -
  let ?r = "small_asking\<lparr> ready_nodes := {} \<rparr>"
  have "relay_n ?r = 3" "received_group_public_keys ?r = []" "list_ex (\<lambda>p. peer_id p = ''1'') (active_provers ?r)"
    by (simp_all add: small_asking_def small_relay_def small_prover_def small_dec)
  with one_peer_finalises_keys [of "set_relay ?r small_relay_node" ?r "''1''" "[]" "[(''k'', [5])]" small_app_env]
  show ?thesis using small_world_ok by (auto simp: check_memory_usage_def hm_wf_def relay_world_ok_def)
qed

section \<open>Saving and restoring\<close>

text \<open>The messages that write to the state directory.\<close>

fun saves :: "('f, 'p, 'g, 'q, 'r) AppStateChangeMessage \<Rightarrow> bool" where
  "saves BackupState = True"
| "saves AppStateChangeMessage.SaveCurrentState = True"
| "saves (RestoreKeyShare _ _) = True"
| "saves (RestoreElectionState _) = True"
| "saves _ = False"

definition prover_kept :: "ProverState \<Rightarrow> ('f, 'p, 'g, 'q, 'r) app_node \<Rightarrow> ('f, 'p, 'g, 'q, 'r) app_node \<Rightarrow> bool" where
  "prover_kept q s s' \<longleftrightarrow> app_db s' = app_db s \<and>
    (\<exists>q'. as_prover s' = Some q' \<and> prover_common q' = prover_common q \<and> relay_multi_addr q' = relay_multi_addr q)"

lemma prover_kept_carry:
  assumes "prover_kept q s s'" and "\<And>x. prover_kept q s (snd (k x))"
  shows "prover_kept q s (snd (carry a conv s' k))" and "prover_kept q s (snd (or_return b s' k))"
  subgoal using assms by (cases a) simp_all
  subgoal using assms by (cases b) simp_all
  done

lemma app_db_update [simp]:
  "app_db (app_reply tx x s) = app_db s" "app_db (app_cast c s) = app_db s" "app_db (publish ps t y s) = app_db s"
  by (simp_all add: app_reply_def app_cast_def publish_def)

lemma prover_kept_request: "as_prover s = Some q \<Longrightarrow> prover_kept q s (snd (process_request E i req tx s))"
  by (auto simp: process_request_def intro!: prover_kept_carry) (simp_all add: prover_kept_def split: option.split)

lemma prover_kept_queries:
  assumes "as_prover s = Some q" "node_state s = Some (ProverNode q)" "as_relay s = None"
  shows "prover_kept q s (snd (fetch_reconstructed_point E i tx s))" "prover_kept q s (snd (sync_peer_data E tx s))"
    "prover_kept q s (snd (fetch_election_info E pid tx s))" "prover_kept q s (snd (quic_ping E pid tx s))"
    "prover_kept q s (snd (fetch_voting_power E pid tx s))"
  using assms by (simp_all add: fetch_reconstructed_point_def sync_peer_data_def fetch_election_info_def quic_ping_def
      fetch_voting_power_def with_prover_def send_or_fail_def prover_kept_def)

lemma prover_step:
  assumes q: "as_prover s = Some q" and m: "\<not> saves m"
  shows "prover_kept q s (snd (app_handle E m s))"
proof -
  have s: "as_relay s = None" "node_state s = Some (ProverNode q)" and p: "purge E s = s"
    using q by (simp_all add: as_prover_Some as_relay_def purge_def)
  show ?thesis
    unfolding app_handle_def p using m
    by (cases m)
      (simp_all add: prover_kept_request [OF q] prover_kept_queries [OF q s(2,1)],
       simp_all add: prover_kept_def handle_state_request_def handle_multiplication_request_def update_threshold_def
         update_elected_provers_def update_node_idx_def store_key_shares_def store_kset_def store_quorum_map_def
         store_resharing_kset_def process_received_proof_def pre_resharing_def clear_shares_def
         forward_re_elected_provers_def update_cached_provers_map_def monitor_quorum_formation_def fetch_key_share_def
         fetch_finalized_group_pubkeys_def fetch_election_state_def rollback_to_previous_state_def rollback_prover_def
         forward_error_response_def set_resharing_enabled_def s q)
qed

lemma save_all_state [simp]: "node_state (save_all kvs s) = node_state s"
  unfolding save_all_def by (induction kvs arbitrary: s) (auto simp: app_save_def split: prod.split)

lemma prover_run:
  "as_prover s = Some q \<Longrightarrow> list_all (\<lambda>m. \<not> saves m) ms \<Longrightarrow> prover_kept q s (fold (\<lambda>m s. snd (app_handle E m s)) ms s)"
proof (induction ms arbitrary: s q)
  case (Cons m ms)
  obtain q' where q': "as_prover (snd (app_handle E m s)) = Some q'" "prover_common q' = prover_common q"
    "relay_multi_addr q' = relay_multi_addr q" "app_db (snd (app_handle E m s)) = app_db s"
    using prover_step [OF Cons.prems(1), of m E] Cons.prems(2) by (auto simp: prover_kept_def)
  with Cons.IH [OF q'(1)] Cons.prems(2) show ?case by (auto simp: prover_kept_def)
qed (simp add: prover_kept_def)

text \<open>C18. A rollback undoes a failed resharing: once a prover has saved its state, whatever it handles
  that does not save it again, the rollback gives it back as it was, its key shares, its index and
  the quorum included.\<close>

theorem rollback_restores_saved:
  assumes "as_prover s = Some q" and "app_db s \<noteq> None" and "list_all (\<lambda>m. \<not> saves m) ms"
  shows "as_prover (fold (\<lambda>m s. snd (app_handle E m s))
      (AppStateChangeMessage.SaveCurrentState # ms @ [AppStateChangeMessage.RollbackToPreviousState]) s) = Some q"
proof -
  obtain db where db: "app_db s = Some db" using assms(2) by auto
  have no_purge: "purge E s = s" if "as_prover s = Some q" for s q
    using that by (simp add: as_prover_Some as_relay_def purge_def)
  let ?s1 = "snd (app_handle E AppStateChangeMessage.SaveCurrentState s)"
  let ?s2 = "fold (\<lambda>m s. snd (app_handle E m s)) ms ?s1"
  have s1: "as_prover ?s1 = Some q"
    using assms(1) by (simp add: app_handle_def no_purge save_current_state_def as_prover_Some save_all_state)
  have saved: "get_state ''n'' (app_db ?s1) = Some (db_nat (prover_n q))" "get_state ''t'' (app_db ?s1) = Some (db_nat (prover_t q))"
    "get_state ''epsilon'' (app_db ?s1) = Some (db_nat (prover_epsilon q))"
    "get_state ''idx'' (app_db ?s1) = Some (db_nat (my_node_idx q))"
    "get_state ''new_provers'' (app_db ?s1) = Some (db_provers (prover_new_provers q))"
    "get_state ''private_keyshares'' (app_db ?s1) = Some (db_shares (private_keyshares q))"
    using assms(1)
    by (simp_all add: app_handle_def no_purge save_current_state_def as_prover_Some get_saved [OF db])
  obtain q2 where q2: "as_prover ?s2 = Some q2" "prover_common q2 = prover_common q"
      "relay_multi_addr q2 = relay_multi_addr q" "app_db ?s2 = app_db ?s1"
    using prover_run [OF s1 assms(3), of E] by (auto simp: prover_kept_def)
  have "rollback_prover q2 ?s2 = q"
    by (rule ProverState.equality)
      (simp_all add: rollback_prover_def saved_nat_def saved_shares_def saved_provers_def q2 saved)
  moreover have "as_prover (snd (app_handle E AppStateChangeMessage.RollbackToPreviousState s)) = Some (rollback_prover q s)"
    if "as_prover s = Some q" for s q
    using that by (simp add: app_handle_def no_purge rollback_to_previous_state_def) (simp add: as_prover_Some)
  ultimately show ?thesis using q2(1) by simp
qed

theorem rollback_restores_saved_witness:
  "as_prover (fold (\<lambda>m s. snd (app_handle small_app_env m s))
      [AppStateChangeMessage.SaveCurrentState, StoreKeyShares [], UpdateNodeIdx 9, AppStateChangeMessage.RollbackToPreviousState]
      small_prover_node) = as_prover small_prover_node"
proof -
  have "as_prover small_prover_node = Some (the (as_prover small_prover_node))" "app_db small_prover_node \<noteq> None"
    by (simp_all add: small_prover_node_def small_relay_node_def)
  from rollback_restores_saved [OF this, of "[StoreKeyShares [], UpdateNodeIdx 9]" small_app_env] this(1) show ?thesis by simp
qed

section \<open>Monitors\<close>

text \<open>A monitor looks at the node once a second, whatever happened to it in between, and is done at some
  tick.\<close>

fun watch :: "monitor \<Rightarrow> ('f, 'p, 'g, 'q, 'r) app_node list \<Rightarrow> ('f, 'p, 'g, 'q, 'r) app_node option" where
  "watch m [] = None"
| "watch m (s # ss) = (case monitor_tick m s of (None, s') \<Rightarrow> Some s' | (Some m', _) \<Rightarrow> watch m' ss)"

lemma watch_ends:
  assumes "mon_elapsed m < DKG_RESHARING_WAIT_TIME" "DKG_RESHARING_WAIT_TIME \<le> mon_elapsed m + length ss"
    and "\<forall>s\<in>set ss. as_relay s \<noteq> None"
  shows "\<exists>s\<in>set ss. \<exists>r. as_relay s = Some r \<and> watch m ss = Some
    (if no_of_shares_received r = mon_target m then quorum_formed r s else quorum_timed_out (mon_event m) r s)"
  using assms
proof (induction ss arbitrary: m)
  case (Cons s ss)
  then obtain r where r: "as_relay s = Some r" by auto
  show ?case
  proof (cases "no_of_shares_received r = mon_target m \<or> DKG_RESHARING_WAIT_TIME \<le> mon_elapsed m + 1")
    case True
    then show ?thesis using r by (intro bexI [of _ s] exI [of _ r]) (auto simp: monitor_tick_def)
  next
    case False
    then have "watch m (s # ss) = watch (m\<lparr> mon_elapsed := mon_elapsed m + 1 \<rparr>) ss" using r by (simp add: monitor_tick_def)
    moreover obtain s' r' where "s' \<in> set ss" "as_relay s' = Some r'" "watch (m\<lparr> mon_elapsed := mon_elapsed m + 1 \<rparr>) ss = Some
        (if no_of_shares_received r' = mon_target m then quorum_formed r' s' else quorum_timed_out (mon_event m) r' s')"
      using Cons.IH [of "m\<lparr> mon_elapsed := mon_elapsed m + 1 \<rparr>"] Cons.prems False by auto
    ultimately show ?thesis by (intro bexI [of _ s'] exI [of _ r']) simp_all
  qed
qed simp

text \<open>C19. A monitor of a quorum does not outlive the time a quorum is given: at the last of its ticks at
  the latest it has either seen as many key shares as it waits for, and has the state saved on
  every node, or it starts the key generation again, or rolls the resharing back.\<close>

theorem monitor_ends:
  assumes "as_relay s0 = Some r0" and "\<forall>rid. event \<noteq> MultiplicationResult rid"
    and "\<forall>s\<in>set ss. as_relay s \<noteq> None" and "DKG_RESHARING_WAIT_TIME \<le> length ss"
  shows "\<exists>m s r. monitors (monitor_quorum_formation event s0) = monitors s0 @ [m] \<and> s \<in> set ss \<and> as_relay s = Some r \<and>
    watch m ss = Some (if no_of_shares_received r = length (active_provers r0) then quorum_formed r s
      else quorum_timed_out event r s)"
proof -
  let ?m = "\<lparr> mon_target = length (active_provers r0), mon_event = event, mon_elapsed = 0 \<rparr>"
  have "monitors (monitor_quorum_formation event s0) = monitors s0 @ [?m]"
    using assms(1,2) by (auto simp: monitor_quorum_formation_def split: MonitorEvent.split)
  moreover have "0 < DKG_RESHARING_WAIT_TIME" by (simp add: DKG_RESHARING_WAIT_TIME_def)
  ultimately show ?thesis using watch_ends [of ?m ss] assms(3,4) by fastforce
qed

theorem monitor_ends_witness:
  "\<exists>m r. monitors (monitor_quorum_formation DKG small_relay_node) = [m] \<and>
    watch m (replicate DKG_RESHARING_WAIT_TIME small_relay_node) = Some (quorum_formed r small_relay_node)"
proof -
  have "as_relay small_relay_node = Some small_relay" "monitors small_relay_node = []"
    by (simp_all add: small_relay_node_def as_relay_def)
  moreover have "no_of_shares_received small_relay = length (active_provers small_relay)" by (simp add: small_relay_def)
  ultimately show ?thesis
    using monitor_ends [of small_relay_node small_relay DKG "replicate DKG_RESHARING_WAIT_TIME small_relay_node"] by fastforce
qed

end
