(* ===== verification/Gossip.thy ===== *)
theory Gossip
  imports App_State
begin

text \<open>
  The gossip engine (\<open>actors/src/gossip_engine_actor.rs\<close>, \<open>network/src/network.rs\<close>): the listener on the
  swarm, which hands messages of other nodes to the engines of this one and sends messages out, and
  the actor through which the engines reach it. The swarm of \<open>libp2p\<close> is the list of the actions asked
  of it; what it reports is an event.
\<close>

section \<open>Data\<close>

datatype ('f, 'p, 'g, 'q, 'r) swarm_action =
    Publish Topic bytes
  | SubscribeTo Topic
  | SendRequest PeerId Message
  | SendResponse nat "('f, 'p, 'g, 'q, 'r) NodeResponse"
  | DialAddress Multiaddr
  | BootstrapDht
  | AddAddress PeerId Multiaddr
  | BlacklistPeer PeerId
  | UnblacklistPeer PeerId
  | FindClosestPeers
  | ListenOn string
  | AddExternalAddress Multiaddr

text \<open>What is sent on the channels inside a message for the listener.\<close>

datatype 'r listener_reply = PingReply Response | PeersReply "PeerId list" | ScoresReply "'r PeerScore list"

type_synonym MessageWithMultiaddr = "Message \<times> string \<times> (PeerId \<times> Multiaddr) list option"

record ('f, 'p, 'g, 'q, 'r) GossipEngineListener =
  gl_peer_id :: PeerId
  gl_node_type :: NodeType
  gl_relay_peer_id :: PeerId
  polled :: bool
  cached_data :: "(PeerId, Message list) hashmap"
  bootstrap_addresses :: "(PeerId \<times> Multiaddr) list"
  ping_sender :: "(PeerId, Sender) hashmap"
  gl_kafka :: "services option"
  successful_kafka_ping_cache :: "(PeerId, unit) hashmap"
  swarm_actions :: "('f, 'p, 'g, 'q, 'r) swarm_action list"
  gl_casts :: "('f, 'p, 'g, 'q, 'r) cast list"
  gl_replies :: "(Sender \<times> 'r listener_reply) list"

text \<open>
  \<open>serde_json\<close> of messages; what the application state sends on a channel, if it sends anything; what the
  swarm knows of its peers; the parts of a multiaddress; the text of a duration; which cache entries
  have expired; how building the swarm and the calls that can fail while it is set up end.
\<close>

record ('f, 'p, 'g, 'q, 'r) gossip_env =
  to_bytes :: "Message \<Rightarrow> (bytes, string) outcome"
  of_bytes :: "bytes \<Rightarrow> (Message, string) outcome"
  app_answer :: "Sender \<Rightarrow> ('f, 'p, 'g, 'q, 'r) NodeResponse option"
  swarm_connected :: "PeerId list"
  swarm_mesh :: "PeerId list"
  swarm_scores :: "(PeerId \<times> 'r option) list"
  addr_parts :: "Multiaddr \<Rightarrow> Protocol list"
  show_duration :: "nat \<Rightarrow> string"
  gl_forgotten :: "string \<Rightarrow> PeerId \<Rightarrow> bool"
  swarm_built :: "(unit, string) outcome"
  swarm_call :: "('f, 'p, 'g, 'q, 'r) swarm_action \<Rightarrow> (unit, string) outcome"

text \<open>What the swarm reports. A request comes with the channel of its response and the fresh sender
  the listener makes for it; a ping ends with a duration or a failure.\<close>

datatype ('f, 'p, 'g, 'q, 'r) swarm_event =
    GossipMessage PeerId bytes
  | Subscribed PeerId Topic
  | IncomingRequest PeerId Message nat Sender
  | IncomingResponse PeerId "('f, 'p, 'g, 'q, 'r) NodeResponse"
  | ConnectionEstablished PeerId
  | ConnectionClosed PeerId
  | OutgoingConnectionError "PeerId option"
  | PingResult PeerId "nat + string"
  | IdentifyReceived PeerId "Multiaddr list"
  | NewExternalAddrOfPeer PeerId Multiaddr
  | OtherEvent

definition gl_cast ::
    "('f, 'p, 'g, 'q, 'r) cast \<Rightarrow> ('f, 'p, 'g, 'q, 'r) GossipEngineListener \<Rightarrow> ('f, 'p, 'g, 'q, 'r) GossipEngineListener" where
  "gl_cast c l = l\<lparr> gl_casts := gl_casts l @ [c] \<rparr>"

definition gl_act ::
    "('f, 'p, 'g, 'q, 'r) swarm_action \<Rightarrow> ('f, 'p, 'g, 'q, 'r) GossipEngineListener \<Rightarrow>
      ('f, 'p, 'g, 'q, 'r) GossipEngineListener" where
  "gl_act a l = l\<lparr> swarm_actions := swarm_actions l @ [a] \<rparr>"

definition gl_reply ::
    "Sender \<Rightarrow> 'r listener_reply \<Rightarrow> ('f, 'p, 'g, 'q, 'r) GossipEngineListener \<Rightarrow> ('f, 'p, 'g, 'q, 'r) GossipEngineListener" where
  "gl_reply tx x l = l\<lparr> gl_replies := gl_replies l @ [(tx, x)] \<rparr>"

section \<open>Setting up\<close>

text \<open>The first UDP port of an address.\<close>

fun udp_port :: "Protocol list \<Rightarrow> nat option" where
  "udp_port [] = None"
| "udp_port (Udp p # ps) = Some p"
| "udp_port (_ # ps) = udp_port ps"

definition call_swarm ::
    "('f, 'p, 'g, 'q, 'r) gossip_env \<Rightarrow> ('f, 'p, 'g, 'q, 'r) swarm_action list \<Rightarrow> ('f, 'p, 'g, 'q, 'r) swarm_action \<Rightarrow>
      (('f, 'p, 'g, 'q, 'r) swarm_action list, string) outcome" where
  "call_swarm E acts a = obind (swarm_call E a) (\<lambda>_. Ok (acts @ [a]))"

text \<open>The address is added to the table whatever that returns; dialling and the later calls must
  succeed.\<close>

definition init_swarm ::
    "('f, 'p, 'g, 'q, 'r) gossip_env \<Rightarrow> (PeerId \<times> Multiaddr) list option \<Rightarrow> Multiaddr \<Rightarrow>
      (('f, 'p, 'g, 'q, 'r) swarm_action list, string) outcome" where
  "init_swarm E addresses multi_addr =
    obind (swarm_built E) (\<lambda>_.
    obind (unwrap_option (udp_port (addr_parts E multi_addr))) (\<lambda>port.
    obind (case addresses of
             Some as \<Rightarrow>
               obind (ofold (\<lambda>acts (pid, ma). call_swarm E (acts @ [AddAddress pid ma]) (DialAddress ma)) [] as)
                 (\<lambda>acts. call_swarm E acts BootstrapDht)
           | None \<Rightarrow> Ok []) (\<lambda>acts.
    obind (call_swarm E acts (SubscribeTo NETWORK_TOPIC)) (\<lambda>acts.
    obind (call_swarm E acts (ListenOn (''/ip4/0.0.0.0/udp/'' @ dec port @ ''/quic-v1''))) (\<lambda>acts.
    Ok (acts @ [AddExternalAddress multi_addr]))))))"

datatype GossipEngineError = Custom string

definition GossipEngineListener_new ::
    "('f, 'p, 'g, 'q, 'r) gossip_env \<Rightarrow> PeerId \<Rightarrow> (PeerId \<times> Multiaddr) list option \<Rightarrow> Multiaddr \<Rightarrow> NodeType \<Rightarrow> PeerId \<Rightarrow>
      services option \<Rightarrow> (string, 'r db_value) hashmap option \<Rightarrow>
      (('f, 'p, 'g, 'q, 'r) GossipEngineListener, GossipEngineError) outcome" where
  "GossipEngineListener_new E pid addresses multi_addr nt relay K db =
    obind (map_err Custom (init_swarm E addresses multi_addr)) (\<lambda>acts.
    let shares = (case get_state ''pubkey_shares'' db of Some (db_pubkey_shares v) \<Rightarrow> v | _ \<Rightarrow> []) in
    Ok \<lparr> gl_peer_id = pid, gl_node_type = nt, gl_relay_peer_id = relay, polled = (shares \<noteq> []), cached_data = [],
         bootstrap_addresses = (case addresses of Some as \<Rightarrow> as | None \<Rightarrow> []), ping_sender = [], gl_kafka = K,
         successful_kafka_ping_cache = [], swarm_actions = acts, gl_casts = [], gl_replies = [] \<rparr>)"

section \<open>Messages of other nodes\<close>

text \<open>Reports are for the relay, orders for the other nodes. The sender of a message is not looked at.\<close>

definition at_relay ::
    "('f, 'p, 'g, 'q, 'r) cast \<Rightarrow> ('f, 'p, 'g, 'q, 'r) GossipEngineListener \<Rightarrow> ('f, 'p, 'g, 'q, 'r) GossipEngineListener" where
  "at_relay c l = (if gl_peer_id l = gl_relay_peer_id l then gl_cast c l else l)"

definition off_relay ::
    "('f, 'p, 'g, 'q, 'r) cast \<Rightarrow> ('f, 'p, 'g, 'q, 'r) GossipEngineListener \<Rightarrow> ('f, 'p, 'g, 'q, 'r) GossipEngineListener" where
  "off_relay c l = (if gl_peer_id l \<noteq> gl_relay_peer_id l then gl_cast c l else l)"

definition process_message ::
    "Message \<Rightarrow> ('f, 'p, 'g, 'q, 'r) GossipEngineListener \<Rightarrow> (('f, 'p, 'g, 'q, 'r) GossipEngineListener, 'e) outcome" where
  "process_message m l =
    (case m of
       Message.ElectedProvers info provers \<Rightarrow>
         Ok (gl_cast (ToAppState (UpdatedThreshold info)) (gl_cast (ToElection (CheckElectedStatus provers)) l))
     | Message.ReElectedProvers info tstar newp keys drand \<Rightarrow>
         Ok (off_relay (ToElection (CheckReElectedStatus info tstar newp keys drand))
               (off_relay (ToAppState (UpdatedThreshold info)) l))
     | Message.Round1Out i outputs \<Rightarrow> Ok (gl_cast (ToDkg (DkgEngineMessage.Round1Out i outputs)) l)
     | Message.ResharingRound1Out i outputs \<Rightarrow> Ok (gl_cast (ToDkg (DkgEngineMessage.ResharingRound1Out i outputs)) l)
     | Message.Round2Out i keys \<Rightarrow> Ok (gl_cast (ToDkg (StoreReceivedPublicKey i keys)) l)
     | Message.ResharingRound2Out i keys \<Rightarrow> Ok (gl_cast (ToDkg (StoreResharedReceivedPublicKey i keys)) l)
     | Message.Ready i pid shares keys \<Rightarrow> Ok (gl_cast (ToAppState (StoreKSet pid shares i keys)) l)
     | Message.ResharingPrepared i pid shares \<Rightarrow> Ok (gl_cast (ToAppState (ResharingStoreKSet pid shares i)) l)
     | Message.Subscribe _ \<Rightarrow> Panic
     | Message.Unsubscribe _ \<Rightarrow> Panic
     | Message.ProcessMulRequest request_id request tx \<Rightarrow>
         Ok (gl_cast (ToAppState (AppStateChangeMessage.ProcessMulRequest request_id request tx)) l)
     | Message.ReElection \<Rightarrow> Ok l
     | Message.ReportElectionNodeStatus pid \<Rightarrow> Ok (at_relay (ToElection (RecordElectionNodeStatus pid)) l)
     | Message.ReportReElectionNodeStatus pid \<Rightarrow> Ok (at_relay (ToElection (RecordRelectionNodeStatus pid)) l)
     | Message.StartDKGInit \<Rightarrow> Ok (off_relay (ToElection ElectionEngineMessage.StartDKGInit) l)
     | Message.StartResharingInit \<Rightarrow> Ok (off_relay (ToElection ElectionEngineMessage.StartResharingInit) l)
     | Message.DKGInitCompleted pid \<Rightarrow> Ok (at_relay (ToElection (RecordDKGInitNodeStatus pid)) l)
     | Message.ResharingInitCompleted pid \<Rightarrow> Ok (at_relay (ToElection (RecordResharingInitNodeStatus pid)) l)
     | Message.StartDKGRound1 \<Rightarrow> Ok (off_relay (ToDkg DkgEngineMessage.StartDKGRound1) l)
     | Message.StartResharingRound1 \<Rightarrow> Ok (off_relay (ToDkg DkgEngineMessage.StartResharingRound1) l)
     | Message.DKGRound1Completed pid \<Rightarrow> Ok (at_relay (ToElection (RecordDKGRound1NodeStatus pid)) l)
     | Message.ResharingRound1Completed pid \<Rightarrow> Ok (at_relay (ToElection (RecordResharingRound1NodeStatus pid)) l)
     | Message.StartDKGRound2 \<Rightarrow> Ok (off_relay (ToDkg DkgEngineMessage.StartDKGRound2) l)
     | Message.StartResharingRound2 \<Rightarrow> Ok (off_relay (ToDkg DkgEngineMessage.StartResharingRound2) l)
     | Message.DKGRound2Completed pid \<Rightarrow> Ok (at_relay (ToElection (RecordDKGRound2NodeStatus pid)) l)
     | Message.ResharingRound2Completed pid \<Rightarrow> Ok (at_relay (ToElection (RecordResharingRound2NodeStatus pid)) l)
     | Message.StartDKGRound3 \<Rightarrow> Ok (off_relay (ToDkg DkgEngineMessage.StartDKGRound3) l)
     | Message.StartResharingRound3 \<Rightarrow> Ok (off_relay (ToDkg DkgEngineMessage.StartResharingRound3) l)
     | Message.RollbackToPreviousState \<Rightarrow> Ok (gl_cast (ToAppState AppStateChangeMessage.RollbackToPreviousState) l)
     | Message.SaveCurrentState \<Rightarrow> Ok (gl_cast (ToAppState AppStateChangeMessage.SaveCurrentState) l)
     | _ \<Rightarrow> Panic)"

section \<open>The listener\<close>

definition kafka_of ::
    "(services \<Rightarrow> services) \<Rightarrow> ('f, 'p, 'g, 'q, 'r) GossipEngineListener \<Rightarrow> ('f, 'p, 'g, 'q, 'r) GossipEngineListener" where
  "kafka_of send l = l\<lparr> gl_kafka := map_option send (gl_kafka l) \<rparr>"

text \<open>A response is waited for before the next event; a request of another kind is dropped.\<close>

definition on_request ::
    "('f, 'p, 'g, 'q, 'r) gossip_env \<Rightarrow> Message \<Rightarrow> nat \<Rightarrow> Sender \<Rightarrow> ('f, 'p, 'g, 'q, 'r) GossipEngineListener \<Rightarrow>
      (('f, 'p, 'g, 'q, 'r) GossipEngineListener, 'e) outcome" where
  "on_request E m channel tx l =
    (case m of
       Message.ForwardMulRequest request_id request \<Rightarrow>
         obind (process_message (Message.ProcessMulRequest request_id request tx) l) (\<lambda>l'.
         Ok (case app_answer E tx of Some resp \<Rightarrow> gl_act (SendResponse channel resp) l' | None \<Rightarrow> l'))
     | _ \<Rightarrow> Ok l)"

definition on_response ::
    "('f, 'p, 'g, 'q, 'r) NodeResponse \<Rightarrow> ('f, 'p, 'g, 'q, 'r) GossipEngineListener \<Rightarrow>
      ('f, 'p, 'g, 'q, 'r) GossipEngineListener" where
  "on_response resp l =
    (case resp of
       ConstructedProofSecp256k1 i pid request_id prf method \<Rightarrow>
         gl_cast (ToAppState (ProcessReceivedProofSecp256k1 i pid request_id prf method)) l
     | ConstructedProofBabyJubJub i pid request_id prf method \<Rightarrow>
         gl_cast (ToAppState (ProcessReceivedProofBabyJubJub i pid request_id prf method)) l
     | _ \<Rightarrow> l)"

definition on_connected ::
    "PeerId \<Rightarrow> ('f, 'p, 'g, 'q, 'r) GossipEngineListener \<Rightarrow> ('f, 'p, 'g, 'q, 'r) GossipEngineListener" where
  "on_connected pid l =
    (case hm_get pid (cached_data l) of
       Some ms \<Rightarrow> (foldl (\<lambda>l m. gl_act (SendRequest pid m) l) l ms)\<lparr> cached_data := hm_remove pid (cached_data l) \<rparr>
     | None \<Rightarrow> l)"

definition rejoin ::
    "PeerId \<Rightarrow> ('f, 'p, 'g, 'q, 'r) GossipEngineListener \<Rightarrow> ('f, 'p, 'g, 'q, 'r) GossipEngineListener" where
  "rejoin pid l = (if list_ex (\<lambda>(i, _). i = pid) (bootstrap_addresses l) then gl_act BootstrapDht l else l)"

definition on_outgoing_error ::
    "PeerId option \<Rightarrow> ('f, 'p, 'g, 'q, 'r) GossipEngineListener \<Rightarrow> ('f, 'p, 'g, 'q, 'r) GossipEngineListener" where
  "on_outgoing_error pid l =
    (case pid of
       Some pid \<Rightarrow> rejoin pid (l\<lparr> cached_data := hm_remove pid (cached_data l) \<rparr>)
     | None \<Rightarrow> l)"

definition answer_ping ::
    "PeerId \<Rightarrow> Response \<Rightarrow> ('f, 'p, 'g, 'q, 'r) GossipEngineListener \<Rightarrow> ('f, 'p, 'g, 'q, 'r) GossipEngineListener" where
  "answer_ping pid resp l =
    (case hm_get pid (ping_sender l) of
       Some tx \<Rightarrow> (gl_reply tx (PingReply resp) l)\<lparr> ping_sender := hm_remove pid (ping_sender l) \<rparr>
     | None \<Rightarrow> l)"

text \<open>A success is reported once while the peer is in the cache, a failure every time.\<close>

definition on_ping ::
    "('f, 'p, 'g, 'q, 'r) gossip_env \<Rightarrow> PeerId \<Rightarrow> nat + string \<Rightarrow> ('f, 'p, 'g, 'q, 'r) GossipEngineListener \<Rightarrow>
      ('f, 'p, 'g, 'q, 'r) GossipEngineListener" where
  "on_ping E pid res l =
    (case res of
       Inl duration \<Rightarrow>
         let l1 = answer_ping pid (Response_new None True
                    (''Ping successful with '' @ pid @ '', duration: '' @ show_duration E duration)) l in
         if hm_contains pid (successful_kafka_ping_cache l1) then l1
         else kafka_of (kafka_send PeerReachabilityQUIC pid (PeerReachabilityQuicStatus True (Some duration)))
                (l1\<lparr> successful_kafka_ping_cache := hm_insert pid () (successful_kafka_ping_cache l1) \<rparr>)
     | Inr e \<Rightarrow>
         kafka_of (kafka_send PeerReachabilityQUIC pid (PeerReachabilityQuicStatus False None))
           (answer_ping pid (Response_new None False (''Ping failed with '' @ pid @ '': '' @ e)) l))"

text \<open>An IPv4 address in dotted form: loopback is \<open>127.0.0.0/8\<close>.\<close>

definition is_dialable_address :: "Protocol list \<Rightarrow> bool" where
  "is_dialable_address ps =
    list_all (\<lambda>p. case p of Ip4 ip \<Rightarrow> \<not> (take 4 ip = ''127.'' \<or> ip = ''0.0.0.0'') | _ \<Rightarrow> True) ps"

definition on_identify ::
    "('f, 'p, 'g, 'q, 'r) gossip_env \<Rightarrow> PeerId \<Rightarrow> Multiaddr list \<Rightarrow> ('f, 'p, 'g, 'q, 'r) GossipEngineListener \<Rightarrow>
      ('f, 'p, 'g, 'q, 'r) GossipEngineListener" where
  "on_identify E pid addrs l =
    foldl (\<lambda>l ma.
      if \<not> is_dialable_address (addr_parts E ma) then l
      else
        let l1 = gl_act (AddAddress pid ma) l in
        if pid \<in> set (swarm_connected E) then l1 else gl_act (DialAddress ma) l1) l addrs"

definition on_event ::
    "('f, 'p, 'g, 'q, 'r) gossip_env \<Rightarrow> ('f, 'p, 'g, 'q, 'r) swarm_event \<Rightarrow> ('f, 'p, 'g, 'q, 'r) GossipEngineListener \<Rightarrow>
      (('f, 'p, 'g, 'q, 'r) GossipEngineListener, 'e) outcome" where
  "on_event E ev l =
    (case ev of
       GossipMessage _ dat \<Rightarrow> (case of_bytes E dat of Ok m \<Rightarrow> process_message m l | Err _ \<Rightarrow> Ok l | Panic \<Rightarrow> Panic)
     | Subscribed _ _ \<Rightarrow>
         Ok (if gl_node_type l = NodeType.Relay \<and> \<not> polled l
             then (gl_cast (ToElection FirstElection) l)\<lparr> polled := True \<rparr> else l)
     | IncomingRequest _ m channel tx \<Rightarrow> on_request E m channel tx l
     | IncomingResponse _ resp \<Rightarrow> Ok (on_response resp l)
     | ConnectionEstablished pid \<Rightarrow> Ok (on_connected pid l)
     | ConnectionClosed pid \<Rightarrow> Ok (rejoin pid l)
     | OutgoingConnectionError pid \<Rightarrow> Ok (on_outgoing_error pid l)
     | PingResult pid res \<Rightarrow> Ok (on_ping E pid res l)
     | IdentifyReceived pid addrs \<Rightarrow> Ok (on_identify E pid addrs l)
     | NewExternalAddrOfPeer pid ma \<Rightarrow> Ok (if pid = gl_peer_id l then l else gl_act (AddAddress pid ma) l)
     | OtherEvent \<Rightarrow> Ok l)"

section \<open>Messages of the engines\<close>

definition is_gossiped :: "Message \<Rightarrow> bool" where
  "is_gossiped m =
    (case m of
       Message.ElectedProvers _ _ \<Rightarrow> True | Message.ReElectedProvers _ _ _ _ _ \<Rightarrow> True | Message.Round1Out _ _ \<Rightarrow> True
     | Message.ResharingRound1Out _ _ \<Rightarrow> True | Message.Round2Out _ _ \<Rightarrow> True | Message.ResharingRound2Out _ _ \<Rightarrow> True
     | Message.ReElection \<Rightarrow> True | Message.Ready _ _ _ _ \<Rightarrow> True | Message.ResharingPrepared _ _ _ \<Rightarrow> True
     | Message.ReportElectionNodeStatus _ \<Rightarrow> True | Message.ReportReElectionNodeStatus _ \<Rightarrow> True
     | Message.StartDKGInit \<Rightarrow> True | Message.StartResharingInit \<Rightarrow> True | Message.DKGInitCompleted _ \<Rightarrow> True
     | Message.ResharingInitCompleted _ \<Rightarrow> True | Message.StartDKGRound1 \<Rightarrow> True | Message.StartResharingRound1 \<Rightarrow> True
     | Message.DKGRound1Completed _ \<Rightarrow> True | Message.ResharingRound1Completed _ \<Rightarrow> True | Message.StartDKGRound2 \<Rightarrow> True
     | Message.StartResharingRound2 \<Rightarrow> True | Message.DKGRound2Completed _ \<Rightarrow> True
     | Message.ResharingRound2Completed _ \<Rightarrow> True | Message.StartDKGRound3 \<Rightarrow> True | Message.StartResharingRound3 \<Rightarrow> True
     | Message.SaveCurrentState \<Rightarrow> True | Message.RollbackToPreviousState \<Rightarrow> True
     | _ \<Rightarrow> False)"

text \<open>A forwarded request waits for the connection to its peer.\<close>

definition queue_request ::
    "Message \<Rightarrow> PeerId \<times> Multiaddr \<Rightarrow> ('f, 'p, 'g, 'q, 'r) GossipEngineListener \<Rightarrow>
      ('f, 'p, 'g, 'q, 'r) GossipEngineListener" where
  "queue_request m peer l =
    (case peer of (pid, ma) \<Rightarrow>
      let l1 = gl_act (DialAddress ma) l;
          ms = (case hm_get pid (cached_data l1) of Some ms \<Rightarrow> ms @ [m] | None \<Rightarrow> [m]) in
      l1\<lparr> cached_data := hm_insert pid ms (cached_data l1) \<rparr>)"

definition on_message ::
    "('f, 'p, 'g, 'q, 'r) gossip_env \<Rightarrow> MessageWithMultiaddr \<Rightarrow> ('f, 'p, 'g, 'q, 'r) GossipEngineListener \<Rightarrow>
      ('f, 'p, 'g, 'q, 'r) GossipEngineListener" where
  "on_message E msg l =
    (case msg of (m, topic, receivers) \<Rightarrow>
      if is_gossiped m then (case to_bytes E m of Ok dat \<Rightarrow> gl_act (Publish topic dat) l | _ \<Rightarrow> l)
      else
        (case m of
           Message.Subscribe t \<Rightarrow> gl_act (SubscribeTo t) l
         | Message.ForwardMulRequest request_id request \<Rightarrow>
             (case receivers of
                Some ps \<Rightarrow> foldl (\<lambda>l peer. queue_request (Message.ForwardMulRequest request_id request) peer l) l ps
              | None \<Rightarrow> l)
         | Message.AddToBlacklist pid \<Rightarrow> gl_act (BlacklistPeer pid) l
         | Message.RemoveFromBlacklist pid \<Rightarrow> gl_act (UnblacklistPeer pid) l
         | Message.Ping pid ma tx \<Rightarrow>
             (gl_act (DialAddress ma) l)\<lparr> ping_sender := hm_insert pid tx (ping_sender l) \<rparr>
         | Message.GetConnectedPeers tx \<Rightarrow> gl_reply tx (PeersReply (swarm_connected E)) l
         | Message.GetMeshPeers tx \<Rightarrow> gl_reply tx (PeersReply (swarm_mesh E)) l
         | Message.GetPeerScores tx \<Rightarrow>
             gl_reply tx (ScoresReply (map (\<lambda>(pid, sc). \<lparr> score_peer_id = pid, score = sc \<rparr>) (swarm_scores E))) l
         | _ \<Rightarrow> l))"

text \<open>One turn of the loop: an event, a message of the engines, or the tick of the peer discovery. The
  entries of the caches that have expired are gone before it.\<close>

datatype ('f, 'p, 'g, 'q, 'r) turn = SwarmTurn "('f, 'p, 'g, 'q, 'r) swarm_event" | EngineTurn MessageWithMultiaddr | DiscoveryTick

definition gl_purge ::
    "('f, 'p, 'g, 'q, 'r) gossip_env \<Rightarrow> ('f, 'p, 'g, 'q, 'r) GossipEngineListener \<Rightarrow> ('f, 'p, 'g, 'q, 'r) GossipEngineListener" where
  "gl_purge E l =
    l\<lparr> cached_data := filter (\<lambda>(k, _). \<not> gl_forgotten E ''cached_data'' k) (cached_data l),
       ping_sender := filter (\<lambda>(k, _). \<not> gl_forgotten E ''ping_sender'' k) (ping_sender l),
       successful_kafka_ping_cache :=
         filter (\<lambda>(k, _). \<not> gl_forgotten E ''successful_kafka_ping_cache'' k) (successful_kafka_ping_cache l) \<rparr>"

definition listen ::
    "('f, 'p, 'g, 'q, 'r) gossip_env \<Rightarrow> ('f, 'p, 'g, 'q, 'r) turn \<Rightarrow> ('f, 'p, 'g, 'q, 'r) GossipEngineListener \<Rightarrow>
      (('f, 'p, 'g, 'q, 'r) GossipEngineListener, 'e) outcome" where
  "listen E t l0 =
    (let l = gl_purge E l0 in
     case t of
       SwarmTurn ev \<Rightarrow> on_event E ev l
     | EngineTurn msg \<Rightarrow> Ok (on_message E msg l)
     | DiscoveryTick \<Rightarrow> Ok (gl_act FindClosestPeers l))"

section \<open>The actor\<close>

text \<open>What is waited for five seconds on a channel.\<close>

datatype 'a awaited = Received 'a | ChannelClosed | TimedOut

text \<open>The channel to the listener, the replies sent, and the fresh sender of the next question.\<close>

record ('f, 'p, 'g, 'q, 'r) gossip_actor =
  listener_queue :: "MessageWithMultiaddr list"
  actor_replies :: "(Sender \<times> ('f, 'p, 'g, 'q, 'r) reply) list"

definition enqueue ::
    "MessageWithMultiaddr \<Rightarrow> ('f, 'p, 'g, 'q, 'r) gossip_actor \<Rightarrow> ('f, 'p, 'g, 'q, 'r) gossip_actor" where
  "enqueue m a = a\<lparr> listener_queue := listener_queue a @ [m] \<rparr>"

definition actor_reply ::
    "Sender \<Rightarrow> ('f, 'p, 'g, 'q, 'r) reply \<Rightarrow> ('f, 'p, 'g, 'q, 'r) gossip_actor \<Rightarrow> ('f, 'p, 'g, 'q, 'r) gossip_actor" where
  "actor_reply tx x a = a\<lparr> actor_replies := actor_replies a @ [(tx, x)] \<rparr>"

definition report_awaited ::
    "Sender \<Rightarrow> ('a \<Rightarrow> ('f, 'p, 'g, 'q, 'r) NodeResponse) \<Rightarrow> string \<Rightarrow> 'a awaited \<Rightarrow> ('f, 'p, 'g, 'q, 'r) gossip_actor \<Rightarrow>
      ('f, 'p, 'g, 'q, 'r) gossip_actor" where
  "report_awaited tx ok what x a =
    actor_reply tx (NodeReply (case x of
       Received v \<Rightarrow> ok v
     | ChannelClosed \<Rightarrow> NodeResponse.Error [] (''Failed to receive '' @ what @ '': RecvError(())'')
     | TimedOut \<Rightarrow> NodeResponse.Error [] (''Timeout while waiting for '' @ what @ '' response''))) a"

text \<open>\<open>fresh\<close> is the sender of the channel made for the question; \<open>pinged\<close>, \<open>peers\<close> and \<open>scores\<close> are what comes
  back on it.\<close>

definition gossip_handle ::
    "Sender \<Rightarrow> Response awaited \<Rightarrow> PeerId list awaited \<Rightarrow> 'r PeerScore list awaited \<Rightarrow> GossipEngineMessage \<Rightarrow>
      ('f, 'p, 'g, 'q, 'r) gossip_actor \<Rightarrow> (('f, 'p, 'g, 'q, 'r) gossip_actor, string) outcome" where
  "gossip_handle fresh pinged found scores msg a =
    (case msg of
       Gossip m topic \<Rightarrow> obind (Message_clone m) (\<lambda>m'. Ok (enqueue (m', topic, None) a))
     | GossipEngineMessage.Subscribe topic \<Rightarrow> Ok (enqueue (Message.Subscribe topic, [], None) a)
     | Forward m ps \<Rightarrow> obind (Message_clone m) (\<lambda>m'. Ok (enqueue (m', [], Some ps) a))
     | GossipEngineMessage.Ping pid ma tx \<Rightarrow>
         let a1 = enqueue (Message.Ping pid ma fresh, [], None) a in
         Ok (case pinged of Received resp \<Rightarrow> actor_reply tx (ClientReply resp) a1 | _ \<Rightarrow> a1)
     | GossipEngineMessage.GetConnectedPeers tx \<Rightarrow>
         Ok (report_awaited tx (\<lambda>ps. ConnectedPeers (length ps) ps) ''connected peers'' found
           (enqueue (Message.GetConnectedPeers fresh, [], None) a))
     | GossipEngineMessage.GetPeerScores tx \<Rightarrow>
         Ok (report_awaited tx PeerScores ''peer score'' scores
           (enqueue (Message.GetPeerScores fresh, [], None) a))
     | GossipEngineMessage.GetMeshPeers tx \<Rightarrow>
         Ok (report_awaited tx (\<lambda>ps. MeshPeers (length ps) ps) ''mesh peers'' found
           (enqueue (Message.GetMeshPeers fresh, [], None) a))
     | _ \<Rightarrow> Ok a)"

end
