(* ===== verification/Gossip_Properties.thy ===== *)
theory Gossip_Properties
  imports Gossip
begin

text \<open>
  The gossip engine over any run of its listener: a forwarded request reaches its peer once and in
  order, the first election is started once, and which messages of other nodes reach an engine.
\<close>

section \<open>Runs\<close>

definition listen_all ::
    "('f, 'p, 'g, 'q, 'r) gossip_env \<Rightarrow> ('f, 'p, 'g, 'q, 'r) turn list \<Rightarrow> ('f, 'p, 'g, 'q, 'r) GossipEngineListener \<Rightarrow>
      (('f, 'p, 'g, 'q, 'r) GossipEngineListener, string) outcome" where
  "listen_all E ts l = ofold (\<lambda>l t. listen E t l) l ts"

text \<open>The requests sent to a peer, those that wait for a connection to it, and those a turn adds.\<close>

definition sent_to :: "PeerId \<Rightarrow> ('f, 'p, 'g, 'q, 'r) GossipEngineListener \<Rightarrow> Message list" where
  "sent_to pid l = concat (map (\<lambda>a. case a of SendRequest p m \<Rightarrow> if p = pid then [m] else [] | _ \<Rightarrow> []) (swarm_actions l))"

definition waiting_for :: "PeerId \<Rightarrow> ('f, 'p, 'g, 'q, 'r) GossipEngineListener \<Rightarrow> Message list" where
  "waiting_for pid l = (case hm_get pid (cached_data l) of Some ms \<Rightarrow> ms | None \<Rightarrow> [])"

fun forwarded_to :: "PeerId \<Rightarrow> ('f, 'p, 'g, 'q, 'r) turn \<Rightarrow> Message list" where
  "forwarded_to pid (EngineTurn (Message.ForwardMulRequest rid request, topic, Some ps)) =
    map (\<lambda>_. Message.ForwardMulRequest rid request) (filter (\<lambda>(p, _). p = pid) ps)"
| "forwarded_to pid _ = []"

lemma get_removed: "hm_get k' (hm_remove k m) = (if k' = k then None else hm_get k' m)"
  by (simp add: hm_get_def hm_remove_def delete_conv')

lemma gl_sel [simp]:
  "cached_data (gl_act a l) = cached_data l" "cached_data (gl_cast c l) = cached_data l"
  "cached_data (gl_reply tx x l) = cached_data l" "cached_data (kafka_of f l) = cached_data l"
  "swarm_actions (gl_act a l) = swarm_actions l @ [a]" "swarm_actions (gl_cast c l) = swarm_actions l"
  "swarm_actions (gl_reply tx x l) = swarm_actions l" "swarm_actions (kafka_of f l) = swarm_actions l"
  "gl_casts (gl_act a l) = gl_casts l" "gl_casts (gl_cast c l) = gl_casts l @ [c]"
  "gl_casts (gl_reply tx x l) = gl_casts l" "gl_casts (kafka_of f l) = gl_casts l"
  "polled (gl_act a l) = polled l" "polled (gl_cast c l) = polled l"
  "polled (gl_reply tx x l) = polled l" "polled (kafka_of f l) = polled l"
  "gl_node_type (gl_act a l) = gl_node_type l" "gl_node_type (gl_cast c l) = gl_node_type l"
  "gl_node_type (gl_reply tx x l) = gl_node_type l" "gl_node_type (kafka_of f l) = gl_node_type l"
  by (simp_all add: gl_act_def gl_cast_def gl_reply_def kafka_of_def)

lemma sent_waiting_update [simp]:
  "sent_to pid (gl_act a l) = sent_to pid l @ (case a of SendRequest p m \<Rightarrow> if p = pid then [m] else [] | _ \<Rightarrow> [])"
  "sent_to pid (gl_cast c l) = sent_to pid l" "sent_to pid (gl_reply tx x l) = sent_to pid l"
  "sent_to pid (kafka_of f l) = sent_to pid l"
  "sent_to pid (l\<lparr> cached_data := d \<rparr>) = sent_to pid l" "sent_to pid (l\<lparr> polled := b \<rparr>) = sent_to pid l"
  "sent_to pid (l\<lparr> ping_sender := q \<rparr>) = sent_to pid l"
  "sent_to pid (l\<lparr> successful_kafka_ping_cache := k \<rparr>) = sent_to pid l"
  "waiting_for pid (gl_act a l) = waiting_for pid l" "waiting_for pid (gl_cast c l) = waiting_for pid l"
  "waiting_for pid (gl_reply tx x l) = waiting_for pid l" "waiting_for pid (kafka_of f l) = waiting_for pid l"
  "waiting_for pid (l\<lparr> polled := b \<rparr>) = waiting_for pid l"
  "waiting_for pid (l\<lparr> ping_sender := q \<rparr>) = waiting_for pid l"
  "waiting_for pid (l\<lparr> successful_kafka_ping_cache := k \<rparr>) = waiting_for pid l"
  by (simp_all add: sent_to_def waiting_for_def)

text \<open>What a turn does to the requests of a peer, when it is not the failure to reach that peer.\<close>

definition on_the_way :: "PeerId \<Rightarrow> ('f, 'p, 'g, 'q, 'r) GossipEngineListener \<Rightarrow> Message list" where
  "on_the_way pid l = sent_to pid l @ waiting_for pid l"

lemma on_the_way_relay [simp]:
  "on_the_way pid (at_relay c l) = on_the_way pid l" "on_the_way pid (off_relay c l) = on_the_way pid l"
  "on_the_way pid (gl_cast c l) = on_the_way pid l"
  by (simp_all add: at_relay_def off_relay_def on_the_way_def)

lemma on_the_way_act [simp]: "(\<And>p m. a \<noteq> SendRequest p m) \<Longrightarrow> on_the_way pid (gl_act a l) = on_the_way pid l"
  "on_the_way pid (l\<lparr> polled := b \<rparr>) = on_the_way pid l"
  by (auto simp: on_the_way_def split: swarm_action.split)

lemma on_the_way_message: "process_message m l = Ok l' \<Longrightarrow> on_the_way pid l' = on_the_way pid l"
  by (cases m) (auto simp: process_message_def)

lemma on_the_way_queue:
  "on_the_way pid (queue_request m peer l) = on_the_way pid l @ (if fst peer = pid then [m] else [])"
  by (cases peer) (auto simp: queue_request_def Let_def on_the_way_def waiting_for_def hashmap.get_ins split: option.split)

lemma on_the_way_queue_all:
  "on_the_way pid (foldl (\<lambda>l peer. queue_request m peer l) l ps) =
    on_the_way pid l @ map (\<lambda>_. m) (filter (\<lambda>(p, _). p = pid) ps)"
  by (induction ps arbitrary: l) (auto simp: on_the_way_queue)

lemma sent_to_all:
  "sent_to pid (foldl (\<lambda>l m. gl_act (SendRequest p m) l) l ms) = sent_to pid l @ (if p = pid then ms else [])"
  by (induction ms arbitrary: l) auto

lemma on_the_way_connected: "on_the_way pid (on_connected p l) = on_the_way pid l"
  by (auto simp: on_connected_def on_the_way_def sent_to_all waiting_for_def get_removed split: option.split)

lemma connected_sends: "sent_to pid (on_connected pid l) = on_the_way pid l"
  by (auto simp: on_connected_def on_the_way_def sent_to_all waiting_for_def split: option.split)

lemma on_the_way_rejoin [simp]: "on_the_way pid (rejoin p l) = on_the_way pid l"
  by (simp add: rejoin_def on_the_way_def)

lemma on_the_way_ping [simp]: "on_the_way pid (on_ping E p res l) = on_the_way pid l"
  by (auto simp: on_ping_def answer_ping_def Let_def on_the_way_def split: option.split sum.split)

lemma on_the_way_identify [simp]: "on_the_way pid (on_identify E p addrs l) = on_the_way pid l"
  unfolding on_identify_def by (induction addrs arbitrary: l) (simp_all add: on_the_way_def Let_def)

lemma on_the_way_request:
  "on_request E m ch tx l = (Ok l' :: (_, string) outcome) \<Longrightarrow> on_the_way pid l' = on_the_way pid l"
  by (cases m) (auto simp: on_request_def obind_eq_Ok on_the_way_message split: option.splits)

lemma on_the_way_response: "on_the_way pid (on_response resp l) = on_the_way pid l"
  by (cases resp) (simp_all add: on_response_def)

lemma on_the_way_purge:
  assumes "\<not> gl_forgotten E ''cached_data'' pid"
  shows "on_the_way pid (gl_purge E l) = on_the_way pid l"
proof -
  have "hm_get pid (filter (\<lambda>(k, _). \<not> gl_forgotten E ''cached_data'' k) m) = hm_get pid m" for m :: "(PeerId, Message list) hashmap"
    using assms by (induction m) (auto simp: hm_get_def)
  then show ?thesis by (simp add: gl_purge_def on_the_way_def waiting_for_def sent_to_def)
qed

lemma on_the_way_event:
  assumes "on_event E ev l = (Ok l' :: (_, string) outcome)" and "ev \<noteq> OutgoingConnectionError (Some pid)"
  shows "on_the_way pid l' = on_the_way pid l"
proof (cases ev)
  case (OutgoingConnectionError p)
  with assms show ?thesis
    by (auto simp: on_event_def on_outgoing_error_def on_the_way_def waiting_for_def get_removed rejoin_def split: option.splits if_splits)
next
  case (IncomingRequest p m ch tx)
  with assms show ?thesis by (simp add: on_event_def on_the_way_request)
qed (use assms in \<open>auto simp: on_event_def on_the_way_response on_the_way_connected on_the_way_message split: outcome.splits if_splits\<close>)

lemma on_the_way_engine:
  fixes l :: "('f, 'p, 'g, 'q, 'r) GossipEngineListener"
  shows "on_the_way pid (on_message E msg l) = on_the_way pid l @ forwarded_to pid (EngineTurn msg :: ('f, 'p, 'g, 'q, 'r) turn)"
proof -
  obtain m topic ps where msg: "msg = (m, topic, ps)" by (cases msg)
  show ?thesis
  proof (cases "\<exists>rid request qs. m = Message.ForwardMulRequest rid request \<and> ps = Some qs")
    case True
    then show ?thesis by (auto simp: msg on_message_def is_gossiped_def on_the_way_queue_all)
  next
    case False
    then have "forwarded_to pid (EngineTurn msg :: ('f, 'p, 'g, 'q, 'r) turn) = []" unfolding msg by (cases m; cases ps) auto
    moreover have "on_the_way pid (on_message E msg l) = on_the_way pid l"
      using False
      by (cases m; cases ps) (auto simp: msg on_message_def is_gossiped_def on_the_way_def split: outcome.split)
    ultimately show ?thesis by simp
  qed
qed

lemma on_the_way_turn:
  assumes "listen E t l = (Ok l' :: (_, string) outcome)" and "t \<noteq> SwarmTurn (OutgoingConnectionError (Some pid))"
    and "\<not> gl_forgotten E ''cached_data'' pid"
  shows "on_the_way pid l' = on_the_way pid l @ forwarded_to pid t"
proof -
  note p = on_the_way_purge [OF assms(3), of l]
  show ?thesis
  proof (cases t)
    case (SwarmTurn ev)
    with assms p on_the_way_event [of E ev "gl_purge E l" l' pid] show ?thesis by (simp add: listen_def)
  next
    case (EngineTurn msg)
    with assms p show ?thesis by (auto simp: listen_def on_the_way_engine)
  next
    case DiscoveryTick
    with assms p show ?thesis by (auto simp: listen_def on_the_way_def)
  qed
qed

lemma on_the_way_run:
  assumes "listen_all E ts l = Ok l'" and "SwarmTurn (OutgoingConnectionError (Some pid)) \<notin> set ts"
    and "\<not> gl_forgotten E ''cached_data'' pid"
  shows "on_the_way pid l' = on_the_way pid l @ concat (map (forwarded_to pid) ts)"
  using assms(1,2)
  by (induction ts arbitrary: l)
    (auto simp: listen_all_def obind_eq_Ok dest!: on_the_way_turn [OF _ _ assms(3)])


definition small_gossip :: "(nat, nat, nat, nat, nat) gossip_env" where
  "small_gossip = \<lparr> to_bytes = (\<lambda>_. Ok []), of_bytes = (\<lambda>dat. if dat = [] then Ok (Message.Unsubscribe []) else Err []), app_answer = (\<lambda>_. None), swarm_connected = [],
    swarm_mesh = [], swarm_scores = [], addr_parts = (\<lambda>_. [Udp 7]), show_duration = dec, gl_forgotten = (\<lambda>_ _. False),
    swarm_built = Ok (), swarm_call = (\<lambda>_. Ok ()) \<rparr>"

definition small_listener :: "(nat, nat, nat, nat, nat) GossipEngineListener" where
  "small_listener = \<lparr> gl_peer_id = ''relay'', gl_node_type = NodeType.Relay, gl_relay_peer_id = ''relay'', polled = False,
    cached_data = [], bootstrap_addresses = [], ping_sender = [], gl_kafka = None, successful_kafka_ping_cache = [],
    swarm_actions = [SubscribeTo NETWORK_TOPIC, ListenOn ''/ip4/0.0.0.0/udp/7/quic-v1'', AddExternalAddress ''addr''], gl_casts = [], gl_replies = [] \<rparr>"

abbreviation small_forward :: "string \<Rightarrow> PeerId list \<Rightarrow> RequestToNetwork \<Rightarrow> (nat, nat, nat, nat, nat) turn" where
  "small_forward rid pids request \<equiv> EngineTurn (Message.ForwardMulRequest rid request, [], Some (map (\<lambda>p. (p, p)) pids))"

definition small_forwards_run :: "RequestToNetwork \<Rightarrow> (nat, nat, nat, nat, nat) turn list" where
  "small_forwards_run request =
    [small_forward ''a'' [''p'', ''q''] request, SwarmTurn (ConnectionEstablished ''q''), SwarmTurn (Subscribed ''q'' ''t''),
     small_forward ''b'' [''p''] request]"

lemma small_run_Ok:
  "\<exists>l'. listen_all small_gossip (small_forwards_run request @ [SwarmTurn (ConnectionEstablished ''p'')]) small_listener = Ok l'"
  by (simp add: listen_all_def small_forwards_run_def listen_def on_event_def Let_def)


section \<open>The first election\<close>

definition is_first_election :: "('f, 'p, 'g, 'q, 'r) cast \<Rightarrow> bool" where
  "is_first_election c = (case c of ToElection FirstElection \<Rightarrow> True | _ \<Rightarrow> False)"

definition first_elections :: "('f, 'p, 'g, 'q, 'r) GossipEngineListener \<Rightarrow> nat" where
  "first_elections l = length (filter is_first_election (gl_casts l))"

definition is_subscription :: "('f, 'p, 'g, 'q, 'r) turn \<Rightarrow> bool" where
  "is_subscription t = (case t of SwarmTurn (Subscribed _ _) \<Rightarrow> True | _ \<Rightarrow> False)"

text \<open>What a turn that is not a subscription keeps.\<close>

definition election_view :: "('f, 'p, 'g, 'q, 'r) GossipEngineListener \<Rightarrow> nat \<times> bool \<times> NodeType" where
  "election_view l = (first_elections l, polled l, gl_node_type l)"

lemma election_view_sel [simp]:
  "election_view (gl_act a l) = election_view l" "election_view (gl_reply tx x l) = election_view l"
  "election_view (kafka_of f l) = election_view l" "election_view (l\<lparr> cached_data := d \<rparr>) = election_view l"
  "election_view (l\<lparr> ping_sender := q \<rparr>) = election_view l"
  "election_view (l\<lparr> successful_kafka_ping_cache := k \<rparr>) = election_view l"
  "election_view (gl_purge E l) = election_view l"
  "\<not> is_first_election c \<Longrightarrow> election_view (gl_cast c l) = election_view l"
  "\<not> is_first_election c \<Longrightarrow> election_view (at_relay c l) = election_view l"
  "\<not> is_first_election c \<Longrightarrow> election_view (off_relay c l) = election_view l"
  by (simp_all add: election_view_def first_elections_def at_relay_def off_relay_def gl_purge_def)

lemma is_first_election_simps [simp]:
  "\<not> is_first_election (ToAppState a)" "\<not> is_first_election (ToDkg d)"
  "is_first_election (ToElection e) \<longleftrightarrow> e = FirstElection"
  by (auto simp: is_first_election_def split: ElectionEngineMessage.split)

lemma election_view_message: "process_message m l = Ok l' \<Longrightarrow> election_view l' = election_view l"
  by (cases m) (auto simp: process_message_def)

lemma election_view_fold:
  assumes "\<And>l x. election_view (f l x) = election_view l"
  shows "election_view (foldl f l xs) = election_view l"
  using assms by (induction xs arbitrary: l) simp_all

lemma election_view_handlers:
  "election_view (on_connected p l) = election_view l" "election_view (rejoin p l) = election_view l"
  "election_view (on_outgoing_error q l) = election_view l" "election_view (on_ping E p res l) = election_view l"
  "election_view (on_identify E p addrs l) = election_view l" "election_view (on_response resp l) = election_view l"
  "election_view (queue_request m peer l) = election_view l"
  by (auto simp: on_connected_def rejoin_def on_outgoing_error_def on_ping_def answer_ping_def on_identify_def on_response_def
      queue_request_def Let_def election_view_fold split: option.split sum.split NodeResponse.split prod.split)

lemma election_view_request:
  "on_request E m ch tx l = (Ok l' :: (_, string) outcome) \<Longrightarrow> election_view l' = election_view l"
  by (cases m) (auto simp: on_request_def obind_eq_Ok election_view_message split: option.splits)

lemma election_view_engine: "election_view (on_message E msg l) = election_view l"
proof -
  obtain m topic ps where msg: "msg = (m, topic, ps)" by (cases msg)
  show ?thesis
    by (cases m) (auto simp: msg on_message_def is_gossiped_def election_view_fold election_view_handlers
        split: outcome.split option.split)
qed

lemma election_view_turn:
  assumes "listen E t l = (Ok l' :: (_, string) outcome)"
  shows "election_view l' = (if is_subscription t \<and> gl_node_type l = NodeType.Relay \<and> \<not> polled l
    then (Suc (first_elections l), True, gl_node_type l) else election_view l)"
proof (cases t)
  case (SwarmTurn ev)
  show ?thesis
  proof (cases ev)
    case (Subscribed p tp)
    with assms SwarmTurn show ?thesis
      by (auto simp: listen_def Let_def on_event_def is_subscription_def gl_purge_def election_view_def first_elections_def split: if_splits)
  next
    case (IncomingRequest p m ch tx)
    with assms SwarmTurn election_view_request [of E m ch tx "gl_purge E l" l'] show ?thesis
      by (simp add: listen_def on_event_def is_subscription_def)
  qed (use assms SwarmTurn in \<open>auto simp: listen_def Let_def on_event_def is_subscription_def election_view_handlers
     election_view_message split: outcome.splits if_splits\<close>)
qed (use assms in \<open>auto simp: listen_def Let_def is_subscription_def election_view_engine\<close>)

lemma first_elections_run:
  assumes "listen_all E ts l = Ok l'"
  shows "first_elections l' = first_elections l +
    (if gl_node_type l = NodeType.Relay \<and> \<not> polled l \<and> list_ex is_subscription ts then 1 else 0)"
  using assms
proof (induction ts arbitrary: l)
  case Nil
  then show ?case by (simp add: listen_all_def)
next
  case (Cons t ts)
  then obtain l1 where l1: "listen E t l = (Ok l1 :: (_, string) outcome)" "listen_all E ts l1 = Ok l'"
    by (auto simp: listen_all_def obind_eq_Ok)
  from Cons.IH [OF l1(2)] election_view_turn [OF l1(1)] show ?case by (auto simp: election_view_def split: if_splits)
qed

text \<open>C22. The first election is started at most once, whatever events and messages come and in whatever
  order: a listener starts it at the first subscription it sees if it is the relay and no public
  key shares were saved when it was made, and never otherwise.\<close>

theorem first_election_once:
  assumes "GossipEngineListener_new E pid addresses multi_addr nt relay K db = Ok l" and "listen_all E ts l = Ok l'"
  shows "first_elections l' =
    (if nt = NodeType.Relay \<and> (\<forall>v. get_state ''pubkey_shares'' db = Some (db_pubkey_shares v) \<longrightarrow> v = []) \<and>
       list_ex is_subscription ts then 1 else 0)"
proof -
  have "first_elections l = 0" "gl_node_type l = nt"
    "polled l \<longleftrightarrow> \<not> (\<forall>v. get_state ''pubkey_shares'' db = Some (db_pubkey_shares v) \<longrightarrow> v = [])"
    using assms(1) by (auto simp: GossipEngineListener_new_def obind_eq_Ok Let_def first_elections_def split: option.splits db_value.splits)
  with first_elections_run [OF assms(2)] show ?thesis by simp
qed

lemma small_listener_new:
  "GossipEngineListener_new small_gossip ''relay'' None ''addr'' NodeType.Relay ''relay'' None None = Ok small_listener"
  by (simp add: GossipEngineListener_new_def init_swarm_def small_gossip_def call_swarm_def small_listener_def get_state_def dec.simps)

theorem first_election_once_witness:
  "first_elections (the_ok (listen_all small_gossip
    [DiscoveryTick, SwarmTurn (Subscribed ''p'' ''t''), SwarmTurn (Subscribed ''q'' ''t'')] small_listener)) = 1"
proof -
  have "\<exists>l'. listen_all small_gossip [DiscoveryTick, SwarmTurn (Subscribed ''p'' ''t''), SwarmTurn (Subscribed ''q'' ''t'')]
    small_listener = Ok l'" by (simp add: listen_all_def listen_def on_event_def Let_def)
  then show ?thesis
    using first_election_once [OF small_listener_new] by (auto simp: is_subscription_def get_state_def)
qed

section \<open>Messages of other nodes\<close>

text \<open>C37. The listener handles every kind of message that the engines gossip, and panics on a gossiped
  message of any other kind, except a request to process: a peer that publishes one such message,
  for instance a request to subscribe, ends the listener.\<close>

theorem gossip_panics_iff:
  assumes "of_bytes E dat = Ok m"
  shows "on_event E (GossipMessage p dat) l = (Panic :: (_, string) outcome) \<longleftrightarrow>
    \<not> is_gossiped m \<and> (\<forall>rid request tx. m \<noteq> Message.ProcessMulRequest rid request tx)"
  using assms by (cases m) (auto simp: on_event_def process_message_def is_gossiped_def)

theorem gossip_panics_iff_witness:
  "on_event small_gossip (GossipMessage ''p'' []) small_listener = (Panic :: (_, string) outcome)"
  using gossip_panics_iff [of small_gossip "[]" "Message.Unsubscribe []" "''p''" small_listener]
  by (simp add: small_gossip_def is_gossiped_def)

end
