(* ===== verification/Rpc.thy ===== *)
theory Rpc
  imports Gossip
begin

text \<open>
  The RPC server of a node (\<open>rpc/src/lib.rs\<close>, the methods of the trait in \<open>rpc_trait/src/rpc.rs\<close>). A method
  sends a message with a fresh channel to an actor of the node and waits for what comes back on it;
  the actors are those of the other theories.
\<close>

section \<open>Data\<close>

record ('f, 'p, 'g, 'q, 'r) rpc_node =
  api_token :: string
  token_used :: bool
  app_actor :: "('f, 'p, 'g, 'q, 'r) app_node"
  election_actor :: "('f, 'p, 'g, 'q, 'r) election_node"
  gossip_actor_of :: "('f, 'p, 'g, 'q, 'r) gossip_actor"

record ErrorObjectOwned =
  err_code :: nat
  err_message :: string
  err_data :: "string option"

text \<open>
  The environments of the actors; how \<open>PeerId::from_str\<close> reads a string; which actors are registered and
  to which a message cannot be sent, with the reason; what the listener sends back on the channels of
  the gossip actor.
\<close>

record ('f, 'p, 'g, 'q, 'r, 'rg, 'v, 'k, 'd) rpc_env =
  rpc_app :: "('f, 'p, 'g, 'q, 'r, 'rg, 'v, 'k) app_env"
  rpc_world :: "('rg, 'r, 'd) world"
  parse_peer :: "string \<Rightarrow> PeerId option"
  registered_actors :: "ActorType set"
  send_error :: "ActorType \<Rightarrow> string option"
  gossip_pinged :: "Response awaited"
  gossip_peers :: "PeerId list awaited"
  gossip_scores :: "'r PeerScore list awaited"
  gossip_fresh :: Sender

type_synonym ('a, 'f, 'p, 'g, 'q, 'r) rpc_result =
  "('a, ErrorObjectOwned) outcome \<times> ('f, 'p, 'g, 'q, 'r) rpc_node"

text \<open>What was sent on a channel among the replies a handler added.\<close>

definition reply_on :: "Sender \<Rightarrow> (Sender \<times> 'a) list \<Rightarrow> (Sender \<times> 'a) list \<Rightarrow> 'a option" where
  "reply_on tx before after = map_of (drop (length before) after) tx"

text \<open>The actor must be registered, and the message must be sent; its handler then runs, and the channel
  gives its reply, or is closed when the handler ends without one.\<close>

definition ask ::
    "('f, 'p, 'g, 'q, 'r, 'rg, 'v, 'k, 'd) rpc_env \<Rightarrow> ActorType \<Rightarrow> string \<Rightarrow>
      (('f, 'p, 'g, 'q, 'r) rpc_node \<Rightarrow> 'a option \<times> ('f, 'p, 'g, 'q, 'r) rpc_node) \<Rightarrow> ('f, 'p, 'g, 'q, 'r) rpc_node \<Rightarrow>
      ('a option, 'f, 'p, 'g, 'q, 'r) rpc_result" where
  "ask R actor dat run n =
    (if actor \<notin> registered_actors R then (Panic, n)
     else
       (case send_error R actor of
          Some e \<Rightarrow> (Err \<lparr> err_code = 1, err_message = e, err_data = Some dat \<rparr>, n)
        | None \<Rightarrow> (case run n of (x, n') \<Rightarrow> (Ok x, n'))))"

definition ask_app ::
    "('f::field, 'p::ab_group_add, 'g::field, 'q::ab_group_add, 'r, 'rg, 'v, 'k, 'd) rpc_env \<Rightarrow> string \<Rightarrow>
      ('f, 'p, 'g, 'q, 'r) AppStateChangeMessage \<Rightarrow> Sender \<Rightarrow> ('f, 'p, 'g, 'q, 'r) rpc_node \<Rightarrow>
      (('f, 'p, 'g, 'q, 'r) reply option, 'f, 'p, 'g, 'q, 'r) rpc_result" where
  "ask_app R dat m tx =
    ask R AppStateEngine dat (\<lambda>n.
      let s' = snd (app_handle (rpc_app R) m (app_actor n)) in
      (reply_on tx (app_replies (app_actor n)) (app_replies s'), n\<lparr> app_actor := s' \<rparr>))"

text \<open>The handler of the election engine that does not return is no reply.\<close>

definition ask_election ::
    "('f, 'p, 'g, 'q, 'r, 'rg, 'v, 'k, 'd) rpc_env \<Rightarrow> string \<Rightarrow> 'r ElectionEngineMessage \<Rightarrow> Sender \<Rightarrow>
      ('f, 'p, 'g, 'q, 'r) rpc_node \<Rightarrow> (('f, 'p, 'g, 'q, 'r) NodeResponse option, 'f, 'p, 'g, 'q, 'r) rpc_result" where
  "ask_election R dat m tx =
    ask R ElectionEngine dat (\<lambda>n.
      case Election.handle (rpc_world R) m (election_actor n) of
        Some (_, s') \<Rightarrow> (reply_on tx (responses (election_actor n)) (responses s'), n\<lparr> election_actor := s' \<rparr>)
      | None \<Rightarrow> (None, n))"

definition gossip_step ::
    "('f, 'p, 'g, 'q, 'r, 'rg, 'v, 'k, 'd) rpc_env \<Rightarrow> GossipEngineMessage \<Rightarrow> Sender \<Rightarrow> ('f, 'p, 'g, 'q, 'r) rpc_node \<Rightarrow>
      ('f, 'p, 'g, 'q, 'r) reply option \<times> ('f, 'p, 'g, 'q, 'r) rpc_node" where
  "gossip_step R m tx n =
    (case gossip_handle (gossip_fresh R) (gossip_pinged R) (gossip_peers R) (gossip_scores R) m (gossip_actor_of n) of
       Ok a \<Rightarrow> (reply_on tx (actor_replies (gossip_actor_of n)) (actor_replies a), n\<lparr> gossip_actor_of := a \<rparr>)
     | _ \<Rightarrow> (None, n))"

definition ask_gossip ::
    "('f, 'p, 'g, 'q, 'r, 'rg, 'v, 'k, 'd) rpc_env \<Rightarrow> string \<Rightarrow> GossipEngineMessage \<Rightarrow> Sender \<Rightarrow> ('f, 'p, 'g, 'q, 'r) rpc_node \<Rightarrow>
      (('f, 'p, 'g, 'q, 'r) reply option, 'f, 'p, 'g, 'q, 'r) rpc_result" where
  "ask_gossip R dat m tx = ask R GossipEngine dat (gossip_step R m tx)"

text \<open>The result of a method from what came back: a closed channel gives the method's own answer.\<close>

definition answer_with ::
    "('a \<Rightarrow> 'b option) \<Rightarrow> 'b \<Rightarrow> ('a option, 'f, 'p, 'g, 'q, 'r) rpc_result \<Rightarrow> ('b, 'f, 'p, 'g, 'q, 'r) rpc_result" where
  "answer_with get gone res =
    (case res of (r, n) \<Rightarrow>
      (obind r (\<lambda>x. Ok (case Option.bind x get of Some y \<Rightarrow> y | None \<Rightarrow> gone)), n))"

fun node_reply :: "('f, 'p, 'g, 'q, 'r) reply \<Rightarrow> ('f, 'p, 'g, 'q, 'r) NodeResponse option" where
  "node_reply (NodeReply x) = Some x"
| "node_reply _ = None"

fun client_reply :: "('f, 'p, 'g, 'q, 'r) reply \<Rightarrow> Response option" where
  "client_reply (ClientReply x) = Some x"
| "client_reply _ = None"

fun election_reply :: "('f, 'p, 'g, 'q, 'r) reply \<Rightarrow> ElectionResponse option" where
  "election_reply (ElectionReply x) = Some x"
| "election_reply _ = None"

fun state_reply :: "('f, 'p, 'g, 'q, 'r) reply \<Rightarrow> StateResponse option" where
  "state_reply (StateReply x) = Some x"
| "state_reply _ = None"

definition went_wrong :: string where
  "went_wrong = ''Something went wrong while processing the request''"

text \<open>How \<open>tokio\<close> shows the error of a closed channel.\<close>

definition recv_error :: string where
  "recv_error = ''channel closed''"

abbreviation node_error :: "string \<Rightarrow> ('f, 'p, 'g, 'q, 'r) NodeResponse" where
  "node_error m \<equiv> NodeResponse.Error [] m"

section \<open>Requests\<close>

definition rpc_fetch_state ::
    "('f::field, 'p::ab_group_add, 'g::field, 'q::ab_group_add, 'r, 'rg, 'v, 'k, 'd) rpc_env \<Rightarrow> StateRequest \<Rightarrow> Sender \<Rightarrow>
      ('f, 'p, 'g, 'q, 'r) rpc_node \<Rightarrow> (StateResponse, 'f, 'p, 'g, 'q, 'r) rpc_result" where
  "rpc_fetch_state R request tx n =
    answer_with state_reply (StateError went_wrong) (ask_app R [] (AppStateChangeMessage.StateRequest request tx) tx n)"

text \<open>The request is cast with a fresh id, which is the topic of the answer; the answer is the first
  one published under it while the actor handles what comes in, for a minute at most. An actor that is not
  registered only logs.\<close>

definition rpc_threshold_mul ::
    "('f::field, 'p::ab_group_add, 'g::field, 'q::ab_group_add, 'r, 'rg, 'v, 'k, 'd) rpc_env \<Rightarrow> RequestToNetwork \<Rightarrow>
      string \<Rightarrow> Sender \<Rightarrow> ('f, 'p, 'g, 'q, 'r) AppStateChangeMessage list \<Rightarrow> ('f, 'p, 'g, 'q, 'r) rpc_node \<Rightarrow>
      (('f, 'p, 'g, 'q, 'r) NodeResponse, 'f, 'p, 'g, 'q, 'r) rpc_result" where
  "rpc_threshold_mul R request uuid ps meanwhile n =
    (let cast = (if AppStateEngine \<in> registered_actors R \<and> send_error R AppStateEngine = None
                 then [MulRequest request ps uuid] else []);
         s = app_actor n;
         s' = app_serve (rpc_app R) (cast @ meanwhile) s;
         received = map_of (map (\<lambda>(c, topic, x). ((c, topic), x)) (drop (length (published s)) (published s'))) (ps, uuid) in
     (Ok (case received of Some x \<Rightarrow> x | None \<Rightarrow> NodeResponse.Submitted uuid), n\<lparr> app_actor := s' \<rparr>))"

definition rpc_fetch_threshold_mul_result ::
    "('f::field, 'p::ab_group_add, 'g::field, 'q::ab_group_add, 'r, 'rg, 'v, 'k, 'd) rpc_env \<Rightarrow> string \<Rightarrow> Sender \<Rightarrow>
      ('f, 'p, 'g, 'q, 'r) rpc_node \<Rightarrow> (('f, 'p, 'g, 'q, 'r) NodeResponse, 'f, 'p, 'g, 'q, 'r) rpc_result" where
  "rpc_fetch_threshold_mul_result R request_id tx n =
    (if AppStateEngine \<in> registered_actors R \<and> send_error R AppStateEngine = None then
       answer_with node_reply (NodeResponse.Error request_id went_wrong)
         (ask_app R [] (FetchReconstructedPoint request_id tx) tx n)
     else (Ok (NodeResponse.Error request_id went_wrong), n))"

definition rpc_ping ::
    "('f, 'p, 'g, 'q, 'r) rpc_node \<Rightarrow> (Response, 'f, 'p, 'g, 'q, 'r) rpc_result" where
  "rpc_ping n = (Ok (Response_new None True ''pong''), n)"

section \<open>Key shares and backups\<close>

text \<open>The token is good for one fetch: it is used up when the share has come back.\<close>

definition rpc_fetch_key_share ::
    "('f::field, 'p::ab_group_add, 'g::field, 'q::ab_group_add, 'r, 'rg, 'v, 'k, 'd) rpc_env \<Rightarrow> string \<Rightarrow> Sender \<Rightarrow>
      ('f, 'p, 'g, 'q, 'r) rpc_node \<Rightarrow> (('f, 'p, 'g, 'q, 'r) NodeResponse, 'f, 'p, 'g, 'q, 'r) rpc_result" where
  "rpc_fetch_key_share R token tx n =
    (if token_used n then (Ok (node_error ''API token has already been used''), n)
     else if api_token n \<noteq> token then (Ok (node_error ''Invalid API token''), n)
     else
       (case ask_app R [] (FetchKeyShare tx) tx n of (r, n') \<Rightarrow>
          (obind r (\<lambda>x. Ok (case Option.bind x node_reply of Some y \<Rightarrow> y | None \<Rightarrow> node_error went_wrong)),
           case r of Ok x \<Rightarrow> (case Option.bind x node_reply of Some _ \<Rightarrow> n'\<lparr> token_used := True \<rparr> | None \<Rightarrow> n') | _ \<Rightarrow> n')))"

definition rpc_backup ::
    "('f::field, 'p::ab_group_add, 'g::field, 'q::ab_group_add, 'r, 'rg, 'v, 'k, 'd) rpc_env \<Rightarrow> ('f, 'p, 'g, 'q, 'r) rpc_node \<Rightarrow>
      (bool, 'f, 'p, 'g, 'q, 'r) rpc_result" where
  "rpc_backup R n =
    (if AppStateEngine \<notin> registered_actors R then (Panic, n)
     else
       (Ok True, if send_error R AppStateEngine = None
                 then n\<lparr> app_actor := snd (app_handle (rpc_app R) BackupState (app_actor n)) \<rparr> else n))"

definition rpc_restore_key_share ::
    "('f::field, 'p::ab_group_add, 'g::field, 'q::ab_group_add, 'r, 'rg, 'v, 'k, 'd) rpc_env \<Rightarrow> (string, string) hashmap \<Rightarrow>
      Sender \<Rightarrow> ('f, 'p, 'g, 'q, 'r) rpc_node \<Rightarrow> (('f, 'p, 'g, 'q, 'r) NodeResponse, 'f, 'p, 'g, 'q, 'r) rpc_result" where
  "rpc_restore_key_share R keyshares tx n =
    answer_with node_reply (node_error went_wrong) (ask_app R [] (RestoreKeyShare keyshares tx) tx n)"

section \<open>Peers and elections\<close>

definition with_peer ::
    "('f, 'p, 'g, 'q, 'r, 'rg, 'v, 'k, 'd) rpc_env \<Rightarrow> ActorType \<Rightarrow> string \<Rightarrow> 'b \<Rightarrow>
      (PeerId \<Rightarrow> ('f, 'p, 'g, 'q, 'r) rpc_node \<Rightarrow> ('b, 'f, 'p, 'g, 'q, 'r) rpc_result) \<Rightarrow> ('f, 'p, 'g, 'q, 'r) rpc_node \<Rightarrow>
      ('b, 'f, 'p, 'g, 'q, 'r) rpc_result" where
  "with_peer R actor str invalid act n =
    (if actor \<notin> registered_actors R then (Panic, n)
     else (case parse_peer R str of Some pid \<Rightarrow> act pid n | None \<Rightarrow> (Ok invalid, n)))"

definition invalid_peer :: string where
  "invalid_peer = ''invalid PeerId provided''"

definition rpc_fetch_election_state ::
    "('f::field, 'p::ab_group_add, 'g::field, 'q::ab_group_add, 'r, 'rg, 'v, 'k, 'd) rpc_env \<Rightarrow> string \<Rightarrow> Sender \<Rightarrow>
      ('f, 'p, 'g, 'q, 'r) rpc_node \<Rightarrow> (('f, 'p, 'g, 'q, 'r) NodeResponse, 'f, 'p, 'g, 'q, 'r) rpc_result" where
  "rpc_fetch_election_state R str tx =
    with_peer R AppStateEngine str (node_error invalid_peer) (\<lambda>pid n.
      answer_with node_reply (node_error went_wrong) (ask_app R [] (FetchElectionState pid tx) tx n))"

definition rpc_restore_election_state ::
    "('f::field, 'p::ab_group_add, 'g::field, 'q::ab_group_add, 'r, 'rg, 'v, 'k, 'd) rpc_env \<Rightarrow> Sender \<Rightarrow>
      ('f, 'p, 'g, 'q, 'r) rpc_node \<Rightarrow> (('f, 'p, 'g, 'q, 'r) NodeResponse, 'f, 'p, 'g, 'q, 'r) rpc_result" where
  "rpc_restore_election_state R tx n =
    answer_with node_reply (node_error went_wrong) (ask_app R [] (RestoreElectionState tx) tx n)"

text \<open>A ping of a known peer is handed on to the gossip engine with the channel of the call.\<close>

definition rpc_quic_ping ::
    "('f::field, 'p::ab_group_add, 'g::field, 'q::ab_group_add, 'r, 'rg, 'v, 'k, 'd) rpc_env \<Rightarrow> string \<Rightarrow> Sender \<Rightarrow>
      ('f, 'p, 'g, 'q, 'r) rpc_node \<Rightarrow> (Response, 'f, 'p, 'g, 'q, 'r) rpc_result" where
  "rpc_quic_ping R str tx =
    with_peer R AppStateEngine str (Response_new None False invalid_peer) (\<lambda>pid n.
      answer_with client_reply
        (Response_new None False (''Failed to ping the peer_id '' @ str @ '' error '' @ recv_error))
        (ask R AppStateEngine ''Failed to ping peer_id'' (\<lambda>n.
          let s' = snd (app_handle (rpc_app R) (QuicPing pid tx) (app_actor n));
              n' = n\<lparr> app_actor := s' \<rparr> in
          case drop (length (app_casts (app_actor n))) (app_casts s') of
            [ToGossip m] \<Rightarrow>
              (if GossipEngine \<in> registered_actors R \<and> send_error R GossipEngine = None
               then gossip_step R m tx n' else (None, n'))
          | _ \<Rightarrow> (reply_on tx (app_replies (app_actor n)) (app_replies s'), n')) n))"

definition rpc_sync_peer_data ::
    "('f::field, 'p::ab_group_add, 'g::field, 'q::ab_group_add, 'r, 'rg, 'v, 'k, 'd) rpc_env \<Rightarrow> Sender \<Rightarrow>
      ('f, 'p, 'g, 'q, 'r) rpc_node \<Rightarrow> (Response, 'f, 'p, 'g, 'q, 'r) rpc_result" where
  "rpc_sync_peer_data R tx n =
    answer_with client_reply (Response_new None False (''Failed to sync peer dataerror '' @ recv_error))
      (ask_app R ''Failed to sync peer data'' (SyncPeerData tx) tx n)"

definition rpc_fetch_election_info ::
    "('f::field, 'p::ab_group_add, 'g::field, 'q::ab_group_add, 'r, 'rg, 'v, 'k, 'd) rpc_env \<Rightarrow> string \<Rightarrow> Sender \<Rightarrow>
      ('f, 'p, 'g, 'q, 'r) rpc_node \<Rightarrow> (ElectionResponse, 'f, 'p, 'g, 'q, 'r) rpc_result" where
  "rpc_fetch_election_info R str tx =
    with_peer R AppStateEngine str (ElectionResponse_err_response invalid_peer) (\<lambda>pid n.
      answer_with election_reply (ElectionResponse_err_response (''Failed to fetch election info : '' @ recv_error))
        (ask_app R ''Failed to fetch election info'' (FetchElectionInfo pid tx) tx n))"

definition rpc_fetch_voting_power ::
    "('f::field, 'p::ab_group_add, 'g::field, 'q::ab_group_add, 'r, 'rg, 'v, 'k, 'd) rpc_env \<Rightarrow> string \<Rightarrow> Sender \<Rightarrow>
      ('f, 'p, 'g, 'q, 'r) rpc_node \<Rightarrow> (('f, 'p, 'g, 'q, 'r) NodeResponse, 'f, 'p, 'g, 'q, 'r) rpc_result" where
  "rpc_fetch_voting_power R str tx =
    with_peer R AppStateEngine str (node_error invalid_peer) (\<lambda>pid n.
      answer_with node_reply (node_error (''Failed to fetch voting power : '' @ recv_error))
        (ask_app R ''Failed to fetch voting power'' (FetchVotingPower pid tx) tx n))"

section \<open>Administration\<close>

definition with_token ::
    "string \<Rightarrow> (('f, 'p, 'g, 'q, 'r) rpc_node \<Rightarrow> (('f, 'p, 'g, 'q, 'r) NodeResponse, 'f, 'p, 'g, 'q, 'r) rpc_result) \<Rightarrow>
      ('f, 'p, 'g, 'q, 'r) rpc_node \<Rightarrow> (('f, 'p, 'g, 'q, 'r) NodeResponse, 'f, 'p, 'g, 'q, 'r) rpc_result" where
  "with_token token act n = (if api_token n \<noteq> token then (Ok (node_error ''Invalid API token''), n) else act n)"

definition rpc_set_resharing_enabled ::
    "('f::field, 'p::ab_group_add, 'g::field, 'q::ab_group_add, 'r, 'rg, 'v, 'k, 'd) rpc_env \<Rightarrow> string \<Rightarrow> bool \<Rightarrow> Sender \<Rightarrow>
      ('f, 'p, 'g, 'q, 'r) rpc_node \<Rightarrow> (('f, 'p, 'g, 'q, 'r) NodeResponse, 'f, 'p, 'g, 'q, 'r) rpc_result" where
  "rpc_set_resharing_enabled R token enabled tx =
    with_token token (\<lambda>n.
      answer_with node_reply (node_error (''Failed to set resharing enabled flag : '' @ recv_error))
        (ask_app R ''Failed to set resharing enabled flag'' (SetResharingEnabled enabled tx) tx n))"

definition HUMAN_NETWORK_VERSION :: string where
  "HUMAN_NETWORK_VERSION = ''mainnetalphaV3.3.0''"

definition rpc_get_current_version ::
    "('f, 'p, 'g, 'q, 'r) rpc_node \<Rightarrow> (('f, 'p, 'g, 'q, 'r) NodeResponse, 'f, 'p, 'g, 'q, 'r) rpc_result" where
  "rpc_get_current_version n = (Ok (Version (''Human Node Version: '' @ HUMAN_NETWORK_VERSION)), n)"

definition rpc_add_to_exclusion_list ::
    "('f, 'p, 'g, 'q, 'r, 'rg, 'v, 'k, 'd) rpc_env \<Rightarrow> string \<Rightarrow> string \<Rightarrow> Sender \<Rightarrow> ('f, 'p, 'g, 'q, 'r) rpc_node \<Rightarrow>
      (('f, 'p, 'g, 'q, 'r) NodeResponse, 'f, 'p, 'g, 'q, 'r) rpc_result" where
  "rpc_add_to_exclusion_list R token str tx =
    with_token token (with_peer R ElectionEngine str (node_error invalid_peer) (\<lambda>pid n.
      answer_with Some (node_error went_wrong)
        (ask_election R ''Failed to add to exclusion list'' (AddToExclusionList pid tx) tx n)))"

definition rpc_remove_from_exclusion_list ::
    "('f, 'p, 'g, 'q, 'r, 'rg, 'v, 'k, 'd) rpc_env \<Rightarrow> string \<Rightarrow> string \<Rightarrow> Sender \<Rightarrow> ('f, 'p, 'g, 'q, 'r) rpc_node \<Rightarrow>
      (('f, 'p, 'g, 'q, 'r) NodeResponse, 'f, 'p, 'g, 'q, 'r) rpc_result" where
  "rpc_remove_from_exclusion_list R token str tx =
    with_token token (with_peer R ElectionEngine str (node_error invalid_peer) (\<lambda>pid n.
      answer_with Some (node_error went_wrong)
        (ask_election R ''Failed to remove from exclusion list'' (RemoveFromExclusionList pid tx) tx n)))"

definition rpc_get_current_excluded_peers ::
    "('f, 'p, 'g, 'q, 'r, 'rg, 'v, 'k, 'd) rpc_env \<Rightarrow> Sender \<Rightarrow> ('f, 'p, 'g, 'q, 'r) rpc_node \<Rightarrow>
      (('f, 'p, 'g, 'q, 'r) NodeResponse, 'f, 'p, 'g, 'q, 'r) rpc_result" where
  "rpc_get_current_excluded_peers R tx n =
    answer_with Some (node_error went_wrong)
      (ask_election R ''Failed to get current excluded peers'' (GetExclusionList tx) tx n)"

definition rpc_get_connected_peers ::
    "('f, 'p, 'g, 'q, 'r, 'rg, 'v, 'k, 'd) rpc_env \<Rightarrow> Sender \<Rightarrow> ('f, 'p, 'g, 'q, 'r) rpc_node \<Rightarrow>
      (('f, 'p, 'g, 'q, 'r) NodeResponse, 'f, 'p, 'g, 'q, 'r) rpc_result" where
  "rpc_get_connected_peers R tx n =
    answer_with node_reply (node_error went_wrong)
      (ask_gossip R ''Failed to get connected peers'' (GossipEngineMessage.GetConnectedPeers tx) tx n)"

definition rpc_get_peer_scores ::
    "('f, 'p, 'g, 'q, 'r, 'rg, 'v, 'k, 'd) rpc_env \<Rightarrow> Sender \<Rightarrow> ('f, 'p, 'g, 'q, 'r) rpc_node \<Rightarrow>
      (('f, 'p, 'g, 'q, 'r) NodeResponse, 'f, 'p, 'g, 'q, 'r) rpc_result" where
  "rpc_get_peer_scores R tx n =
    answer_with node_reply (node_error went_wrong)
      (ask_gossip R ''Failed to get peer scores'' (GossipEngineMessage.GetPeerScores tx) tx n)"

definition rpc_get_mesh_peers ::
    "('f, 'p, 'g, 'q, 'r, 'rg, 'v, 'k, 'd) rpc_env \<Rightarrow> Sender \<Rightarrow> ('f, 'p, 'g, 'q, 'r) rpc_node \<Rightarrow>
      (('f, 'p, 'g, 'q, 'r) NodeResponse, 'f, 'p, 'g, 'q, 'r) rpc_result" where
  "rpc_get_mesh_peers R tx n =
    answer_with node_reply (node_error went_wrong)
      (ask_gossip R ''Failed to get mesh peers'' (GossipEngineMessage.GetMeshPeers tx) tx n)"

definition rpc_update_election_params ::
    "('f, 'p, 'g, 'q, 'r, 'rg, 'v, 'k, 'd) rpc_env \<Rightarrow> string \<Rightarrow> 'r ElectionParams \<Rightarrow> Sender \<Rightarrow> ('f, 'p, 'g, 'q, 'r) rpc_node \<Rightarrow>
      (('f, 'p, 'g, 'q, 'r) NodeResponse, 'f, 'p, 'g, 'q, 'r) rpc_result" where
  "rpc_update_election_params R token params tx =
    with_token token (\<lambda>n.
      answer_with Some (node_error went_wrong)
        (ask_election R ''Failed to update election params'' (UpdateElectionParams params tx) tx n))"

definition rpc_get_election_params ::
    "('f, 'p, 'g, 'q, 'r, 'rg, 'v, 'k, 'd) rpc_env \<Rightarrow> Sender \<Rightarrow> ('f, 'p, 'g, 'q, 'r) rpc_node \<Rightarrow>
      (('f, 'p, 'g, 'q, 'r) NodeResponse, 'f, 'p, 'g, 'q, 'r) rpc_result" where
  "rpc_get_election_params R tx n =
    answer_with Some (node_error went_wrong)
      (ask_election R ''Failed to get current election params'' (GetElectionParams tx) tx n)"

definition rpc_get_pubkey ::
    "('f::field, 'p::ab_group_add, 'g::field, 'q::ab_group_add, 'r, 'rg, 'v, 'k, 'd) rpc_env \<Rightarrow> Sender \<Rightarrow>
      ('f, 'p, 'g, 'q, 'r) rpc_node \<Rightarrow> (('f, 'p, 'g, 'q, 'r) NodeResponse, 'f, 'p, 'g, 'q, 'r) rpc_result" where
  "rpc_get_pubkey R tx n =
    answer_with node_reply (node_error went_wrong) (ask_app R [] (FetchFinalizedGroupPubkeys tx) tx n)"

end
