(* ===== verification/Rpc_Properties.thy ===== *)
theory Rpc_Properties
  imports Rpc App_Properties Election_Properties
begin

text \<open>
  The RPC server over the actors: the answer to a request for a multiplication, now and later, and
  how often the key share of a node can be fetched.
\<close>

section \<open>A request from end to end\<close>

text \<open>A new request that the relay forwards is one it collects proofs for.\<close>

lemma forwarded_is_collecting:
  assumes E: "relay_world_ok E" and h: "app_handle E (MulRequest request ps rid) s = (res, s')" "app_casts s' \<noteq> app_casts s"
    and r: "as_relay s = Some r" and new: "hm_get rid (req_cache r) = None" "hm_get rid (res_cache r) = None"
    and pt: "from_encoded C (req_point request) = Ok P" "is_ok (encode C P)" "json_request E request \<noteq> None"
    and batch: "\<not> hm_contains (request_hash_of E request) (batch_cache r)"
    and redis: "redis_up (app_services s')"
      "\<forall>v. hm_get (request_hash_of E request) (redis (app_services s')) = Some v \<longrightarrow> bincode_proofs_read E v \<noteq> None"
  obtains nodes b c q where "res = Ok ()" and "published s' = published s"
    and "collecting E C rid request P [] (r\<lparr> ready_nodes := nodes, batch_size := b,
      pubsub_cache := hm_insert rid ps (pubsub_cache r), req_cache := c, monitor_request_queue := q \<rparr>) s'"
proof -
  obtain nodes b S indices where res: "res = Ok ()"
    and s': "s' = forward_request indices request rid
        (r\<lparr> ready_nodes := nodes, pubsub_cache := hm_insert rid ps (pubsub_cache r), batch_size := b \<rparr>) (s\<lparr> app_services := S \<rparr>)"
    by (rule mul_request_forwarded [OF h]) (use r in \<open>auto simp: purge_id [OF E]\<close>)
  have "collecting E C rid request P [] (r\<lparr> ready_nodes := nodes, batch_size := b,
      pubsub_cache := hm_insert rid ps (pubsub_cache r),
      req_cache := hm_or_insert rid \<lparr> rec_request = request, rec_status = TxState.Submitted \<rparr> (req_cache r),
      monitor_request_queue := monitor_request_queue r @ [(rid, MUL_REPONSE_WAIT_TIME)] \<rparr>) s'"
    using new pt batch redis
    by (simp add: collecting_def s' forward_request_def stored_result_def hm_or_insert_def hm_contains_get hashmap.get_ins app_cast_def
        as_relay_def set_relay_def)
  with that res show ?thesis by (simp add: s' forward_request_sel)
qed

lemma fetch_verified:
  assumes E: "relay_world_ok E" and v: "verified_as rid ''Secp256k1'' Rb s" and pt: "from_encoded (ae_secp E) Rb = Ok X"
  shows "app_handle E (FetchReconstructedPoint rid tx) s = (Ok (), app_reply tx (NodeReply (VerifiedProofSecp256k1 rid X)) s)"
  using v pt by (auto simp: app_handle_def purge_id [OF E] fetch_reconstructed_point_def verified_as_def verified_response_def)

text \<open>C5. A client gets what it asked for: when the relay accepts a new request and forwards it, and the
  proofs of a threshold of provers, made with the values of a polynomial at distinct indices, come in
  before the minute is over, the call \<open>threshold_mul\<close> returns the masked point times the value of the
  polynomial at 0, and so does every later call \<open>fetch_threshold_mul_result\<close> with the same id.\<close>

theorem client_gets_product:
  fixes R :: "('f::field, 'p::ab_group_add, 'g::field, 'q::ab_group_add, 'r, 'rg, 'v, 'k, 'd) rpc_env"
  assumes "relay_world_ok (rpc_app R)" and "curve_laws (ae_secp (rpc_app R))" and "NAME (ae_secp (rpc_app R)) = ''Secp256k1''"
    and "AppStateEngine \<in> registered_actors R" "send_error R AppStateEngine = None"
    and "app_handle (rpc_app R) (MulRequest request ps uuid) (app_actor n) = (res, s')" "app_casts s' \<noteq> app_casts (app_actor n)"
    and "as_relay (app_actor n) = Some r" "hm_get uuid (req_cache r) = None" "hm_get uuid (res_cache r) = None"
    and "from_encoded (ae_secp (rpc_app R)) (req_point request) = Ok P" "is_ok (encode (ae_secp (rpc_app R)) P)"
      "json_request (rpc_app R) request \<noteq> None"
    and "\<not> hm_contains (request_hash_of (rpc_app R) request) (batch_cache r)" and "redis_up (app_services s')"
      "\<forall>v. hm_get (request_hash_of (rpc_app R) request) (redis (app_services s')) = Some v \<longrightarrow>
        bincode_proofs_read (rpc_app R) v \<noteq> None"
    and "recover (ae_chain (rpc_app R)) request \<noteq> Panic" and "\<forall>r'. as_relay s' = Some r' \<longrightarrow> batch_size r' < TASK_SIZE"
    and "indices_ok TYPE('f) idx" "length idx = relay_t r" "0 < relay_t r" "relay_t r < 2 ^ 32"
    and "length (coefficients F) \<le> relay_t r" and "quorum_proofs (rpc_app R) m r P F nonce pid prf idx"
    and "point_codec (ae_secp (rpc_app R)) (scalar_mul (ae_secp (rpc_app R)) P (eval F 0))"
    and "rpc_threshold_mul R request uuid ps (map (\<lambda>i. ProcessReceivedProofSecp256k1 i (pid i) uuid (prf i) m) idx) n = (x, n')"
  shows "x = Ok (VerifiedProofSecp256k1 uuid (scalar_mul (ae_secp (rpc_app R)) P (eval F 0))) \<and>
    fst (rpc_fetch_threshold_mul_result R uuid tx n') = x"
proof -
  let ?E = "rpc_app R" and ?V = "VerifiedProofSecp256k1 uuid (scalar_mul (ae_secp (rpc_app R)) P (eval F 0))"
  obtain nodes b c q where res: "res = Ok ()" "published s' = published (app_actor n)"
    and coll: "collecting ?E (ae_secp ?E) uuid request P [] (r\<lparr> ready_nodes := nodes, batch_size := b,
      pubsub_cache := hm_insert uuid ps (pubsub_cache r), req_cache := c, monitor_request_queue := q \<rparr>) s'"
    by (rule forwarded_is_collecting [OF assms(1) assms(6-16)])
  let ?s = "app_serve ?E (map (\<lambda>i. ProcessReceivedProofSecp256k1 i (pid i) uuid (prf i) m) idx) s'"
  have b: "b < TASK_SIZE" using coll assms(18) by (auto simp: collecting_def)
  have qp: "quorum_proofs ?E m (r\<lparr> ready_nodes := nodes, batch_size := b,
      pubsub_cache := hm_insert uuid ps (pubsub_cache r), req_cache := c, monitor_request_queue := q \<rparr>) P F nonce pid prf idx"
    using assms(24) by (simp add: quorum_proofs_def)
  obtain Rb where pub: "published ?s = published s' @ [(ps, uuid, ?V)]"
    and v: "from_encoded (ae_secp ?E) Rb = Ok (scalar_mul (ae_secp ?E) P (eval F 0))" "verified_as uuid ''Secp256k1'' Rb ?s"
    using quorum_run [OF assms(1-3) coll assms(17) _ _ assms(19) _ _ _ _ qp assms(25), of ps] assms(20-23) b
    by (auto simp: hashmap.get_ins)
  have run: "app_serve ?E (MulRequest request ps uuid # map (\<lambda>i. ProcessReceivedProofSecp256k1 i (pid i) uuid (prf i) m) idx)
      (app_actor n) = ?s"
    using assms(6) res(1) by (simp add: app_serve_def)
  have "x = Ok ?V" "app_actor n' = ?s"
    using assms(4,5,26) pub res(2) run by (auto simp: rpc_threshold_mul_def Let_def)
  moreover have "fst (rpc_fetch_threshold_mul_result R uuid tx n') = Ok ?V"
    using assms(4,5) fetch_verified [OF assms(1) v(2,1), of tx] \<open>app_actor n' = ?s\<close>
    by (simp add: rpc_fetch_threshold_mul_result_def answer_with_def ask_app_def ask_def reply_on_def app_reply_def)
  ultimately show ?thesis by simp
qed

definition small_unsigned :: RequestToNetwork where
  "small_unsigned = small_request\<lparr> req_signature := None \<rparr>"

definition small_rpc_env :: "(gf7, gf7, gf7, gf7, nat, nat, string, string, unit) rpc_env" where
  "small_rpc_env = \<lparr> rpc_app = small_app_env, rpc_world = small_world, parse_peer = Some,
    registered_actors = {AppStateEngine}, send_error = (\<lambda>_. None), gossip_pinged = TimedOut, gossip_peers = TimedOut,
    gossip_scores = TimedOut, gossip_fresh = 0 \<rparr>"

definition small_rpc :: "(gf7, gf7, gf7, gf7, nat) rpc_node" where
  "small_rpc = \<lparr> api_token = ''token'', token_used = False, app_actor = set_relay small_asking small_relay_node,
    election_actor = Election_Properties.small_node, gossip_actor_of = \<lparr> listener_queue = [], actor_replies = [] \<rparr> \<rparr>"

lemma small_rpc_sel [simp]:
  "rpc_app small_rpc_env = small_app_env" "registered_actors small_rpc_env = {AppStateEngine}"
  "send_error small_rpc_env a = None" "app_actor small_rpc = set_relay small_asking small_relay_node"
  by (simp_all add: small_rpc_env_def small_rpc_def)

lemma small_unsigned_sel [simp]:
  "req_point small_unsigned = [1]" "req_epoch small_unsigned = 0" "recover small_chain small_unsigned = Err ''Request not signed''"
  by (simp_all add: small_unsigned_def small_request_def recover_def)

lemma small_unsigned_nodes: "\<exists>res. get_nodes small_rng small_unsigned 3 [1, 2, 3] = (Ok res :: (nat list, string) outcome)"
  unfolding get_nodes_def calc_nodes_to_send_to_def using choose_nodes_Ok [of 3 "[1, 2, 3]"] by fastforce

lemma small_unsigned_forwarded:
  "\<exists>indices. app_handle small_app_env (MulRequest small_unsigned 8 ''new'') (set_relay small_asking small_relay_node) =
    (Ok (), forward_request indices small_unsigned ''new''
      (small_asking\<lparr> pubsub_cache := hm_insert ''new'' 8 (pubsub_cache small_asking) \<rparr>) small_relay_node)"
  using small_unsigned_nodes
  by (clarsimp simp: app_handle_def purge_id small_world_ok handle_multiplication_request_def small_common_def
      refresh_ready_def Let_def account_mul_request_def small_asking_sel as_u32_def) (auto simp: forward_request_def set_relay_def)

lemma small_asking_quorum:
  "quorum_proofs small_app_env OPRFSecp256k1 small_asking (gf 1) small_group (\<lambda>_. gf 2) dec
    (\<lambda>i. small_proof (gf 2) (gf 1) (eval small_group (of_nat i))) [1, 3]"
  using small_quorum_proofs by (simp add: quorum_proofs_def small_asking_def)

theorem client_gets_product_witness:
  "fst (rpc_threshold_mul small_rpc_env small_unsigned ''new'' 8 (map (\<lambda>i. ProcessReceivedProofSecp256k1 i (dec i) ''new''
      (small_proof (gf 2) (gf 1) (eval small_group (of_nat i))) OPRFSecp256k1) [1, 3]) small_rpc) =
    Ok (VerifiedProofSecp256k1 ''new'' (gf 6))"
proof -
  let ?ms = "map (\<lambda>i. ProcessReceivedProofSecp256k1 i (dec i) ''new''
      (small_proof (gf 2) (gf 1) (eval small_group (of_nat i))) OPRFSecp256k1) [1, 3]"
  obtain x n' where call: "rpc_threshold_mul small_rpc_env small_unsigned ''new'' 8 ?ms small_rpc = (x, n')" by fastforce
  obtain indices where fwd: "app_handle (rpc_app small_rpc_env) (MulRequest small_unsigned 8 ''new'') (app_actor small_rpc) =
    (Ok (), forward_request indices small_unsigned ''new''
      (small_asking\<lparr> pubsub_cache := hm_insert ''new'' 8 (pubsub_cache small_asking) \<rparr>) small_relay_node)"
    using small_unsigned_forwarded by auto
  have sel: "req_cache small_asking = req_cache small_relay" "res_cache small_asking = []" "batch_cache small_asking = []"
    "batch_size small_asking = 0" "hm_get ''new'' (req_cache small_relay) = None" "app_services small_relay_node = no_services"
    by (simp_all add: small_asking_def small_relay_def hm_get_def small_relay_node_def)
  have relay: "batch_size r' = 0"
    if "as_relay (forward_request indices small_unsigned ''new'' (small_asking\<lparr> pubsub_cache := d \<rparr>) small_relay_node) = Some r'" for d r'
    using that forward_request_sel(4) [of indices small_unsigned "''new''" "small_asking\<lparr> pubsub_cache := d \<rparr>" small_relay_node]
    by (auto simp: sel)
  have js: "json_request small_app_env q = Some []" and deg: "length (coefficients small_group) = 2" for q
    by (simp_all add: small_app_env_def small_group_def)
  have "x = Ok (VerifiedProofSecp256k1 ''new'' (scalar_mul (ae_secp (rpc_app small_rpc_env)) (gf 1) (eval small_group 0)))"
    by (rule conjunct1 [OF client_gets_product [where nonce = "\<lambda>_. gf 2" and r = small_asking, OF _ _ _ _ _ fwd _ _ _ _ _ _ _ _ _ _ _ _ _ _ _ _ _ _ _ call]])
      (auto simp: js dest!: relay simp: small_world_ok named_curve_laws forward_request_sel(1-3) small_asking_quorum [simplified] small_secp_codec small_indices_ok
        sel small_asking_sel hashmap.get_emp hm_contains_get no_services_def TASK_SIZE_def deg from_bytes_be_def)
  also have "scalar_mul (ae_secp (rpc_app small_rpc_env)) (gf 1) (eval small_group 0) = gf 6"
    by (simp add: small_group_def eval_Cons gf7_simps)
  finally show ?thesis unfolding call by simp
qed

section \<open>The key share of a node\<close>

text \<open>A sequence of calls, each with the environment at its time, a token and a fresh channel.\<close>

fun fetch_key_shares ::
    "(('f::field, 'p::ab_group_add, 'g::field, 'q::ab_group_add, 'r, 'rg, 'v, 'k, 'd) rpc_env \<times> string \<times> Sender) list \<Rightarrow>
      ('f, 'p, 'g, 'q, 'r) rpc_node \<Rightarrow> (('f, 'p, 'g, 'q, 'r) NodeResponse, ErrorObjectOwned) outcome list" where
  "fetch_key_shares [] n = []"
| "fetch_key_shares ((R, token, tx) # calls) n =
    (case rpc_fetch_key_share R token tx n of (x, n') \<Rightarrow> x # fetch_key_shares calls n')"

definition is_share :: "(('f, 'p, 'g, 'q, 'r) NodeResponse, ErrorObjectOwned) outcome \<Rightarrow> bool" where
  "is_share x = (case x of Ok (Keyshare _) \<Rightarrow> True | _ \<Rightarrow> False)"

lemma fetch_key_share_step:
  assumes "rpc_fetch_key_share R token tx n = (x, n')"
  shows "api_token n' = api_token n" and "token_used n \<Longrightarrow> token_used n'"
    and "is_share x \<Longrightarrow> \<not> token_used n \<and> token = api_token n \<and> token_used n'"
  using assms
  by (auto simp: rpc_fetch_key_share_def ask_app_def ask_def is_share_def Let_def split: if_splits option.splits)


end
