(* ===== verification/Spec2Isabelle.thy ===== *)
theory Spec2Isabelle
  imports Threshold_Properties Oprf_Properties Encryption_Properties Selection_Properties Request_Properties Election_Properties Engine_Properties App_State_Properties Gossip_Properties Rpc_Properties
begin

text \<open>
  The verification of the human network (\<open>src/network\<close>), a network of nodes that hold a secret in
  shares and multiply points by it for clients.

  \<^bold>\<open>The program and how its parts interact.\<close> A client masks a point and calls the RPC server of the
  relay (\<open>rpc/src/lib.rs\<close>). The application state engine of the relay (\<open>app_state_actor.rs\<close>) accounts the
  request against the credits of its signer, chooses provers and hands the request to the gossip
  engine (\<open>gossip_engine_actor.rs\<close>), which sends it to them. Each prover answers with the point times
  its key share and a proof; the relay verifies the proofs, and when a threshold of them is there
  it reconstructs the product and publishes it to the waiting call. Which provers hold shares is
  decided by the election engine of the relay (\<open>election_actor.rs\<close>); the key generation engines of the
  provers (\<open>dkg_engine_actor.rs\<close>) then make the shares in three rounds, or pass them on to a new quorum
  by resharing, the relay starting a round when all reported the one before. The engines of a node
  are actors that send each other messages (\<open>messages/src/message.rs\<close>), and the nodes gossip messages
  of one type.

  \<^bold>\<open>How the code is modelled.\<close> A Rust computation gives a value, an error or a panic (the type \<open>outcome\<close> of
  \<open>Prelude\<close>); \<open>?\<close>, \<open>unwrap\<close>, \<open>expect\<close> and early returns are the combinators beside it. A \<open>HashMap\<close> is an
  association list with the laws of the locale \<open>keyed_map\<close>. Machine integers are numbers with the casts
  \<open>as_u32\<close> and the like written where the code wraps, as a release build does. A struct is a record, an
  enum a datatype, a handler a function from a message and a state to an outcome and a state; what an
  actor sends is appended to lists in its state, and the number of a channel stands for its sender.
  Code outside the repository is a parameter: curves, hashes, RSA, \<open>serde\<close>, the generator of node
  choices, floating point, the contracts, Redis and Kafka, the swarm of \<open>libp2p\<close>. The laws the theorems
  need of it are named predicates (\<open>curve_laws\<close>, \<open>digests_ok\<close>, \<open>relay_world_ok\<close> and others), and
  \<open>Small_Field\<close> and the instances in the property theories satisfy them.

  \<^bold>\<open>The theories.\<close>
  \<^item> \<open>Prelude\<close>: outcomes, loops, maps, casts and bytes, and the lemmas on them.
  \<^item> \<open>Curves\<close>, \<open>Dleq_Oprf\<close>, \<open>Polynomials\<close>, \<open>Reconstruct\<close>, \<open>Dkg\<close>, \<open>Dkg_Run\<close>, \<open>Resharing\<close>: the threshold cryptography
    (\<open>cryptography/src/curve.rs\<close>, \<open>twisted_conversion.rs\<close>, \<open>lib.rs\<close>, \<open>polynomial.rs\<close>, \<open>reconstruct.rs\<close>, \<open>dkg.rs\<close>,
    \<open>resharing.rs\<close>). \<open>Threshold_Properties\<close> and \<open>Oprf_Properties\<close> show that honest nodes end with shares of
    one secret and the public keys that go with them, that resharing keeps the secret, also when
    senders misbehave, which shares and proofs are accepted, and that a client gets the value of the
    function from any threshold of answers.
  \<^item> \<open>Encryption\<close>, \<open>Serialization\<close>, \<open>Zkinjmask\<close>: \<open>encryption.rs\<close>, \<open>schnorrsig.rs\<close>, \<open>serialization.rs\<close>, \<open>zkinjmask.rs\<close>;
    \<open>Encryption_Properties\<close> has the round trips and what a signature or an injected mask guarantees.
  \<^item> \<open>Node_Selection\<close> (\<open>node_selection.rs\<close>) with \<open>Selection_Properties\<close>: the nodes of a request and of an epoch.
  \<^item> \<open>Types\<close>, \<open>Requests\<close>, \<open>Messages\<close>, \<open>Registry\<close>: the crate \<open>messages\<close> and \<open>network/src/utils.rs\<close>;
    \<open>Request_Properties\<close> bounds the requests by the credits and says which tokens and task proofs pass.
  \<^item> \<open>Election\<close>, \<open>Barriers\<close> with \<open>Election_Properties\<close>: elections give well-formed quorums and thresholds within
    bounds; the eight recording handlers refine an abstract barrier and every phase ends.
  \<^item> \<open>Dkg_Engine\<close>, \<open>Engine_Run\<close>, \<open>Engine_Invariant\<close>, \<open>Quorum_Run\<close> with \<open>Engine_Properties\<close>: the engines of a quorum
    under any delivery of honest messages agree on the keys and finish; an engine stays well formed
    whatever arrives.
  \<^item> \<open>App_State\<close>, \<open>App_Lemmas\<close>, \<open>App_Run\<close> with \<open>App_Properties\<close> and \<open>App_State_Properties\<close>: requests at the relay and at
    the provers, the collection of proofs up to the published product, the caches, group keys, saved
    state and monitors.
  \<^item> \<open>Gossip\<close> with \<open>Gossip_Properties\<close>: the listener on the swarm and its actor; forwarded requests arrive once
    and in order, the first election starts once, and which gossiped messages end the listener.
  \<^item> \<open>Rpc\<close> with \<open>Rpc_Properties\<close>: every RPC method on top of the models of the actors it asks; a call
    from end to end, and the key share that leaves a node at most once.

  \<^bold>\<open>Bounds and loops.\<close> Loops over data are structural recursion, or folds. The two loops of the election
  engine that wait for a quorum and for provers may run forever: \<open>await_quorum\<close> and \<open>await_provers\<close> are
  partial functions whose value \<open>None\<close> is not returning, and that they return is proved where enough
  provers register. The search of the Koblitz map and of hashing to a curve is bounded as in the
  code. Timers are ticks: a monitor is run for the number of ticks its timeout allows. The minute that
  \<open>threshold_mul\<close> waits is the list of the messages the actor handles in it, of any length; a message
  whose handler fails ends the actor (\<open>serve\<close>). Expiry of cache entries is a parameter that names the
  entries that are gone before the next message.

  \<^bold>\<open>Not modelled.\<close> The supervision of actors by \<open>ractor\<close> and the start of a node (\<open>node/src/main.rs\<close>,
  \<open>actor_manager.rs\<close>, \<open>cancellation_context.rs\<close>), since it is the scheduling of that library; the configuration
  of \<open>libp2p\<close> (\<open>behaviour.rs\<close>) and the declarations of \<open>rpc_trait\<close>, which have no logic; the clients (\<open>human-network-sdk\<close>,
  \<open>cli\<close>), whose cryptographic steps are modelled but not their HTTP calls and bindings; the services
  around the network (\<open>signer\<close>, \<open>observer\<close>, \<open>ingester\<close>, \<open>verifier\<close>, \<open>registry_iface\<close>, \<open>v0_nodes\<close>), which are web servers
  over databases, chains and third parties; logging, telemetry and the environment. Locks are left
  out: a handler or call runs to its end before the next one of the same actor or server.
\<close>

end
